(* ===== verification/Prelude.thy ===== *)
theory Prelude
  imports Complex_Main "HOL-Library.List_Lexorder" "HOL-Library.Char_ord"
    "HOL-Library.Option_ord" "HOL-Library.Product_Lexorder" "HOL-Library.Multiset"
begin

text \<open>
  Shared vocabulary of the development: the Python values the application passes around
  (\<open>pyval\<close>, with floats as \<open>pyfloat\<close> so that \<open>nan\<close> and \<open>inf\<close> are kept), the
  exceptions it raises (\<open>pyexc\<close>) and the result type \<open>'a res = pyexc + 'a\<close> with its bind,
  Python dictionaries as association lists, the string built-ins the validators call
  (\<open>str.strip\<close>, \<open>str.split\<close>, \<open>str.upper\<close>, \<open>" ".join\<close>) on ASCII, the conversions
  \<open>float()\<close> and \<open>int()\<close>, Python's \<open>round(x, 2)\<close> and MySQL's \<open>ROUND(x, 2)\<close>.
  Numbers are exact decimals (\<open>rat\<close>); binary floating point is not modelled.
\<close>

named_theorems res_iff \<open>characterisations of successful and failing results\<close>

section \<open>Exceptions and results\<close>

datatype pyexc =
    ValidationError string
  | KeyError string
  | ValueError string
  | TypeError string
  | AttributeError string
  | OverflowError string
  | DatabaseError string
  | IntegrityError string
  | RuntimeError string
  | NameError string

type_synonym 'a res = "pyexc + 'a"

definition pbind :: "'a res \<Rightarrow> ('a \<Rightarrow> 'b res) \<Rightarrow> 'b res" where
  "pbind m f = (case m of Inl e \<Rightarrow> Inl e | Inr a \<Rightarrow> f a)"

text \<open>A statement that raises \<open>ValidationError\<close> when its condition holds.\<close>

definition raise_if :: "bool \<Rightarrow> string \<Rightarrow> unit res" where
  "raise_if c msg = (if c then Inl (ValidationError msg) else Inr ())"

section \<open>Python values\<close>

datatype pyfloat = Fin rat | PosInf | NegInf | NaN

datatype pyval = PNone | PBool bool | PInt int | PFloat pyfloat | PStr string

text \<open>A dict in insertion order; the dicts of the program have distinct keys.\<close>

type_synonym pydict = "(string \<times> pyval) list"

definition dict_get :: "pydict \<Rightarrow> string \<Rightarrow> pyval" where
  "dict_get d k = (case map_of d k of None \<Rightarrow> PNone | Some v \<Rightarrow> v)"

definition dict_getitem :: "pydict \<Rightarrow> string \<Rightarrow> pyval res" where
  "dict_getitem d k = (case map_of d k of None \<Rightarrow> Inl (KeyError k) | Some v \<Rightarrow> Inr v)"

text \<open>Truth value of a Python value (\<open>if x:\<close>, \<open>not x\<close>).\<close>

fun truthy :: "pyval \<Rightarrow> bool" where
  "truthy PNone = False"
| "truthy (PBool b) = b"
| "truthy (PInt i) = (i \<noteq> 0)"
| "truthy (PFloat (Fin r)) = (r \<noteq> 0)"
| "truthy (PFloat _) = True"
| "truthy (PStr s) = (s \<noteq> [])"

text \<open>Python comparisons on floats: every comparison with \<open>nan\<close> is false.\<close>

fun flt_lt :: "pyfloat \<Rightarrow> pyfloat \<Rightarrow> bool" where
  "flt_lt NaN _ = False"
| "flt_lt _ NaN = False"
| "flt_lt (Fin a) (Fin b) = (a < b)"
| "flt_lt (Fin a) PosInf = True"
| "flt_lt (Fin a) NegInf = False"
| "flt_lt NegInf NegInf = False"
| "flt_lt NegInf _ = True"
| "flt_lt PosInf _ = False"

section \<open>Characters and strings (ASCII)\<close>

definition is_space :: "char \<Rightarrow> bool" where
  "is_space c \<longleftrightarrow> (let n = of_char c :: nat in (9 \<le> n \<and> n \<le> 13) \<or> (28 \<le> n \<and> n \<le> 32))"

definition is_digit :: "char \<Rightarrow> bool" where
  "is_digit c \<longleftrightarrow> (let n = of_char c :: nat in 48 \<le> n \<and> n \<le> 57)"

definition is_upper :: "char \<Rightarrow> bool" where
  "is_upper c \<longleftrightarrow> (let n = of_char c :: nat in 65 \<le> n \<and> n \<le> 90)"

definition is_lower :: "char \<Rightarrow> bool" where
  "is_lower c \<longleftrightarrow> (let n = of_char c :: nat in 97 \<le> n \<and> n \<le> 122)"

text \<open>The regular-expression class \<open>\w\<close> of a \<open>str\<close> pattern: ASCII letters, digits and
  \<open>_\<close>, and every byte of a non-ASCII character. Python's \<open>\w\<close> matches every Unicode letter
  and digit (a Vietnamese name, for instance); the non-ASCII punctuation and spaces it does not
  match are not told apart here.\<close>

definition is_word :: "char \<Rightarrow> bool" where
  "is_word c \<longleftrightarrow> is_digit c \<or> is_upper c \<or> is_lower c \<or> c = CHR ''_'' \<or> 128 \<le> (of_char c :: nat)"

definition upper_char :: "char \<Rightarrow> char" where
  "upper_char c = (if is_lower c then char_of (of_char c - (32::nat)) else c)"

definition lower_char :: "char \<Rightarrow> char" where
  "lower_char c = (if is_upper c then char_of (of_char c + (32::nat)) else c)"

definition py_strip :: "string \<Rightarrow> string" where
  "py_strip s = rev (dropWhile is_space (rev (dropWhile is_space s)))"

definition py_upper :: "string \<Rightarrow> string" where
  "py_upper s = map upper_char s"

definition py_lower :: "string \<Rightarrow> string" where
  "py_lower s = map lower_char s"

text \<open>\<open>str.split()\<close> without separator: maximal runs of non-whitespace.\<close>

function py_split :: "string \<Rightarrow> string list" where
  "py_split s =
     (let t = dropWhile is_space s in
      if t = [] then []
      else takeWhile (\<lambda>c. \<not> is_space c) t # py_split (dropWhile (\<lambda>c. \<not> is_space c) t))"
  by pat_completeness auto
termination
proof (relation "measure length")
  fix s t
  assume t: "t = dropWhile is_space s" and ne: "t \<noteq> []"
  have "length (dropWhile (\<lambda>c. \<not> is_space c) t) < length t"
  proof -
    from ne t obtain c r where "t = c # r" and "\<not> is_space c"
      by (metis dropWhile_eq_Cons_conv neq_Nil_conv)
    then show ?thesis by (simp add: length_dropWhile_le le_imp_less_Suc)
  qed
  also have "length t \<le> length s" using t by (simp add: length_dropWhile_le)
  finally show "(dropWhile (\<lambda>c. \<not> is_space c) t, s) \<in> measure length" by simp
qed simp

declare py_split.simps [simp del]

text \<open>\<open>sep.join(xs)\<close>.\<close>

fun py_join :: "string \<Rightarrow> string list \<Rightarrow> string" where
  "py_join sep [] = []"
| "py_join sep [x] = x"
| "py_join sep (x # y # zs) = x @ sep @ py_join sep (y # zs)"

section \<open>Numbers\<close>

definition digits_val :: "string \<Rightarrow> nat" where
  "digits_val ds = foldl (\<lambda>n c. 10 * n + (of_char c - 48)) 0 ds"

text \<open>An unsigned decimal literal as \<open>float()\<close> reads it: digits with an optional fraction
  (at least one digit in all) and an optional exponent. Underscores between digits, which
  Python also accepts, are not modelled.\<close>

definition parse_exponent :: "string \<Rightarrow> int option" where
  "parse_exponent s =
     (let (neg, r) = (case s of CHR ''-'' # r \<Rightarrow> (True, r) | CHR ''+'' # r \<Rightarrow> (False, r) | _ \<Rightarrow> (False, s))
      in if r \<noteq> [] \<and> list_all is_digit r
         then Some (if neg then - int (digits_val r) else int (digits_val r)) else None)"

text \<open>\<open>m * 10 ** k\<close> for an integer exponent.\<close>

definition scale10 :: "rat \<Rightarrow> int \<Rightarrow> rat" where
  "scale10 m k = (if 0 \<le> k then m * of_int (10 ^ nat k) else m / of_int (10 ^ nat (- k)))"

definition parse_unsigned_decimal :: "string \<Rightarrow> rat option" where
  "parse_unsigned_decimal s =
     (let a = takeWhile is_digit s; r1 = dropWhile is_digit s;
          (b, r2) = (case r1 of CHR ''.'' # r \<Rightarrow> (takeWhile is_digit r, dropWhile is_digit r) | _ \<Rightarrow> ([], r1));
          m = of_int (int (digits_val (a @ b))) / of_int (int (10 ^ length b))
      in if a @ b = [] then None
         else if r2 = [] then Some m
         else case r2 of
                c # e \<Rightarrow> if c = CHR ''e'' \<or> c = CHR ''E'' then
                           (case parse_exponent e of None \<Rightarrow> None | Some k \<Rightarrow> Some (scale10 m k))
                         else None
              | [] \<Rightarrow> None)"

definition split_sign :: "string \<Rightarrow> bool \<times> string" where
  "split_sign s = (case s of CHR ''-'' # r \<Rightarrow> (True, r) | CHR ''+'' # r \<Rightarrow> (False, r) | _ \<Rightarrow> (False, s))"

text \<open>\<open>float(s)\<close> for a string: surrounding whitespace is ignored; \<open>nan\<close>, \<open>inf\<close> and
  \<open>infinity\<close> are accepted in any case and with a sign.\<close>

definition parse_float :: "string \<Rightarrow> pyfloat option" where
  "parse_float s =
     (let (neg, u) = split_sign (py_strip s); w = py_lower u in
      if w = ''nan'' then Some NaN
      else if w = ''inf'' \<or> w = ''infinity'' then Some (if neg then NegInf else PosInf)
      else case parse_unsigned_decimal u of
             None \<Rightarrow> None
           | Some r \<Rightarrow> Some (Fin (if neg then - r else r)))"

text \<open>\<open>int(s)\<close> for a string: optional sign and decimal digits, surrounding whitespace ignored.\<close>

definition parse_int :: "string \<Rightarrow> int option" where
  "parse_int s =
     (let (neg, u) = split_sign (py_strip s) in
      if u \<noteq> [] \<and> list_all is_digit u
      then Some (if neg then - int (digits_val u) else int (digits_val u)) else None)"

text \<open>The built-ins \<open>float(x)\<close> and \<open>int(x)\<close> on the values the program passes them.\<close>

fun py_float :: "pyval \<Rightarrow> pyfloat res" where
  "py_float PNone = Inl (TypeError ''float() argument must be a string or a real number'')"
| "py_float (PBool b) = Inr (Fin (if b then 1 else 0))"
| "py_float (PInt i) = Inr (Fin (of_int i))"
| "py_float (PFloat f) = Inr f"
| "py_float (PStr s) =
     (case parse_float s of None \<Rightarrow> Inl (ValueError ''could not convert string to float'')
      | Some f \<Rightarrow> Inr f)"

fun py_int :: "pyval \<Rightarrow> int res" where
  "py_int PNone = Inl (TypeError ''int() argument must be a string or a real number'')"
| "py_int (PBool b) = Inr (if b then 1 else 0)"
| "py_int (PInt i) = Inr i"
| "py_int (PFloat NaN) = Inl (ValueError ''cannot convert float NaN to integer'')"
| "py_int (PFloat (Fin r)) = Inr (if 0 \<le> r then \<lfloor>r\<rfloor> else \<lceil>r\<rceil>)"
| "py_int (PFloat _) = Inl (OverflowError ''cannot convert float infinity to integer'')"
| "py_int (PStr s) =
     (case parse_int s of None \<Rightarrow> Inl (ValueError ''invalid literal for int()'')
      | Some i \<Rightarrow> Inr i)"

text \<open>Python's \<open>round(x, 2)\<close>: to the nearest hundredth, ties to even.\<close>

definition py_round2 :: "rat \<Rightarrow> rat" where
  "py_round2 x =
     (let y = x * 100; f = \<lfloor>y\<rfloor>; d = y - of_int f
      in of_int (if d < 1/2 then f else if 1/2 < d then f + 1 else if even f then f else f + 1) / 100)"

text \<open>MySQL's \<open>ROUND(x, 2)\<close> on an exact decimal: to the nearest hundredth, ties away from zero.\<close>

definition sql_round2 :: "rat \<Rightarrow> rat" where
  "sql_round2 x =
     (if 0 \<le> x then of_int \<lfloor>x * 100 + 1/2\<rfloor> / 100 else - (of_int \<lfloor>- x * 100 + 1/2\<rfloor> / 100))"

fun py_round_float :: "pyfloat \<Rightarrow> pyfloat" where
  "py_round_float (Fin r) = Fin (py_round2 r)"
| "py_round_float f = f"

text \<open>\<open>str(i)\<close> for an integer: its decimal digits, with a minus sign when negative.\<close>

fun nat_str :: "nat \<Rightarrow> string" where
  "nat_str n = (if n < 10 then [char_of (48 + n)] else nat_str (n div 10) @ [char_of (48 + n mod 10)])"

declare nat_str.simps [simp del]

definition py_str_int :: "int \<Rightarrow> string" where
  "py_str_int i = (if i < 0 then CHR ''-'' # nat_str (nat (- i)) else nat_str (nat i))"

text \<open>A list of fallible computations run in order; the first raise wins.\<close>

fun map_res :: "('a \<Rightarrow> 'b res) \<Rightarrow> 'a list \<Rightarrow> 'b list res" where
  "map_res f [] = Inr []"
| "map_res f (x # xs) = pbind (f x) (\<lambda>y. pbind (map_res f xs) (\<lambda>ys. Inr (y # ys)))"

section \<open>Shared lemmas\<close>

lemmas char_class_defs = is_space_def is_digit_def is_upper_def is_lower_def is_word_def

lemma pbind_simps [simp]:
  "pbind (Inl e) f = Inl e"
  "pbind (Inr a) f = f a"
  by (simp_all add: pbind_def)

lemma pbind_Inr_iff [res_iff]: "pbind m f = Inr b \<longleftrightarrow> (\<exists>a. m = Inr a \<and> f a = Inr b)"
  by (cases m) auto

lemma pbind_Inl_iff [res_iff]:
  "pbind m f = Inl e \<longleftrightarrow> m = Inl e \<or> (\<exists>a. m = Inr a \<and> f a = Inl e)"
  by (cases m) auto

lemma raise_if_simps [simp]:
  "raise_if True msg = Inl (ValidationError msg)"
  "raise_if False msg = Inr ()"
  by (simp_all add: raise_if_def)

lemma raise_if_Inr_iff [res_iff]: "raise_if c msg = Inr u \<longleftrightarrow> \<not> c"
  by (simp add: raise_if_def)

lemma dict_getitem_Inr_iff [res_iff]: "dict_getitem d k = Inr v \<longleftrightarrow> map_of d k = Some v"
  by (simp add: dict_getitem_def split: option.split)

lemma dict_getitem_Inl_iff [res_iff]: "dict_getitem d k = Inl e \<longleftrightarrow> map_of d k = None \<and> e = KeyError k"
  by (auto simp: dict_getitem_def split: option.split)

lemma floor_numeral_div_rat [simp]: "\<lfloor>(numeral a / numeral b :: rat)\<rfloor> = numeral a div numeral b"
  by (metis floor_divide_of_int_eq of_int_numeral)

lemma py_round2_close: "\<bar>py_round2 x - x\<bar> \<le> 1/200"
proof -
  define y where "y = x * 100"
  define f where "f = \<lfloor>y\<rfloor>"
  define r where "r = (if y - of_int f < 1/2 then f else if 1/2 < y - of_int f then f + 1
          else if even f then f else f + 1)"
  have f: "of_int f \<le> y" "y < of_int f + 1" unfolding f_def by linarith+
  have r: "\<bar>of_int r - y\<bar> \<le> 1/2"
    using f unfolding r_def by auto
  have eq: "py_round2 x = of_int r / 100"
    unfolding py_round2_def Let_def r_def f_def y_def by (rule refl)
  from r show ?thesis
    unfolding eq y_def by (simp add: abs_le_iff field_simps)
qed

lemma py_round2_hundredths: "\<exists>k. py_round2 x = of_int k / 100"
  by (auto simp: py_round2_def Let_def)

lemma is_space_not_digit [simp]: "is_digit c \<Longrightarrow> \<not> is_space c"
  by (auto simp: char_class_defs Let_def)

lemma py_strip_Nil_iff: "py_strip s = [] \<longleftrightarrow> list_all is_space s"
proof -
  have "dropWhile is_space (rev (dropWhile is_space s)) = [] \<longleftrightarrow> dropWhile is_space s = []"
  proof
    assume a: "dropWhile is_space (rev (dropWhile is_space s)) = []"
    show "dropWhile is_space s = []"
    proof (rule ccontr)
      assume ne: "dropWhile is_space s \<noteq> []"
      then have "\<not> is_space (hd (dropWhile is_space s))" by (rule hd_dropWhile)
      moreover have "hd (dropWhile is_space s) \<in> set (rev (dropWhile is_space s))" using ne by simp
      ultimately show False using a by (simp add: dropWhile_eq_Nil_conv)
    qed
  qed (simp del: dropWhile_eq_Nil_conv)
  then show ?thesis by (simp add: py_strip_def list_all_iff)
qed

subsection \<open>Lists\<close>

lemma filter_distinct_key_len:
  "distinct (map f xs) \<Longrightarrow> length (filter (\<lambda>y. f y = v) xs) = (if v \<in> f ` set xs then 1 else 0)"
  by (induction xs) (auto simp: filter_empty_conv)

lemma filter_distinct_key_single:
  "distinct (map f xs) \<Longrightarrow> x \<in> set xs \<Longrightarrow> filter (\<lambda>y. f y = f x) xs = [x]"
  by (induction xs) (auto simp: filter_empty_conv image_iff)

lemma concat_map_if_filter:
  "concat (map (\<lambda>x. if P x then f x else []) xs) = concat (map f (filter P xs))"
  by (induction xs) auto

lemma mset_filter_sort_key: "mset (filter P (sort_key k xs)) = mset (filter P xs)"
  by (simp add: mset_filter)

lemma filter_sort_key_length: "length (filter P (sort_key k xs)) = length (filter P xs)"
  by (metis mset_filter_sort_key size_mset)

lemma filter_sort_key_set: "set (filter P (sort_key k xs)) = set (filter P xs)"
  by (metis mset_filter_sort_key set_mset_mset)

lemma filter_distinct_key_the:
  assumes "distinct (map f xs)" "v \<in> f ` set xs"
  obtains x where "filter (\<lambda>y. f y = v) xs = [x]" "x \<in> set xs" "f x = v"
  using assms filter_distinct_key_single[OF assms(1)] by blast

lemma filter_single_mem:
  assumes "filter P xs = [x]" "y \<in> set xs" "P y"
  shows "y = x"
proof -
  have "y \<in> set (filter P xs)" using assms(2,3) by simp
  then show ?thesis unfolding assms(1) by simp
qed

lemma concat_map_single_if:
  "(\<And>x. x \<in> set xs \<Longrightarrow> g x = (if P x then [f x] else [])) \<Longrightarrow> concat (map g xs) = map f (filter P xs)"
  by (induction xs) auto

lemma filter_single_conj:
  "filter P xs = [x] \<Longrightarrow> filter (\<lambda>y. P y \<and> Q y) xs = (if Q x then [x] else [])"
proof -
  assume h: "filter P xs = [x]"
  have "filter (\<lambda>y. P y \<and> Q y) xs = filter Q (filter P xs)" by simp
  then show ?thesis using h by simp
qed

lemma concat_map_if2:
  "concat (map (\<lambda>x. if P x then if Q x then [f x] else [] else []) xs) = map f (filter (\<lambda>x. P x \<and> Q x) xs)"
  by (induction xs) auto

lemma filter_eq_distinct:
  "distinct ys \<Longrightarrow> filter (\<lambda>y. y = k) ys = (if k \<in> set ys then [k] else [])"
  by (induction ys) (auto simp: filter_empty_conv)

lemma mset_eq_le1: "mset ys = mset zs \<Longrightarrow> length zs \<le> 1 \<Longrightarrow> ys = zs"
  by (cases zs) (auto simp: Suc_le_eq)

lemma map_if_Nil: "map f (if c then xs else []) = (if c then map f xs else [])"
  by simp

lemma key_in_image_iff: "k \<in> f ` set xs \<longleftrightarrow> filter (\<lambda>x. f x = k) xs \<noteq> []"
  by (auto simp: filter_empty_conv)

lemma filter_concat_blocks:
  assumes "distinct (map f xs)" "x \<in> set xs" "\<And>y z. z \<in> set (B y) \<Longrightarrow> g z = f y"
  shows "filter (\<lambda>z. g z = f x) (concat (map B xs)) = B x"
proof -
  have "filter (\<lambda>z. g z = f x) (B y) = (if f y = f x then B y else [])" for y
    using assms(3)[of _ y] by (auto simp: filter_empty_conv intro: filter_True)
  then have "filter (\<lambda>z. g z = f x) (concat (map B xs)) = concat (map B (filter (\<lambda>y. f y = f x) xs))"
    by (simp add: filter_concat comp_def concat_map_if_filter)
  then show ?thesis using filter_distinct_key_single[OF assms(1,2)] by simp
qed

lemma sql_round2_nonneg: "0 \<le> x \<Longrightarrow> 0 \<le> sql_round2 x"
  by (simp add: sql_round2_def)

lemma sql_round2_nonpos: "x < 0 \<Longrightarrow> sql_round2 x \<le> 0"
  by (simp add: sql_round2_def)

lemma sql_round2_mono: "x \<le> y \<Longrightarrow> sql_round2 x \<le> sql_round2 y"
proof (cases "0 \<le> x")
  case True
  assume xy: "x \<le> y"
  have "\<lfloor>x * 100 + 1/2\<rfloor> \<le> \<lfloor>y * 100 + 1/2\<rfloor>" using xy by (intro floor_mono) simp
  then show ?thesis using True xy by (simp add: sql_round2_def divide_right_mono)
next
  case False
  assume xy: "x \<le> y"
  show ?thesis
  proof (cases "0 \<le> y")
    case True
    then show ?thesis using False sql_round2_nonneg sql_round2_nonpos by (meson linorder_not_le order_trans)
  next
    case False
    have "\<lfloor>- y * 100 + 1/2\<rfloor> \<le> \<lfloor>- x * 100 + 1/2\<rfloor>" using xy by (intro floor_mono) simp
    then show ?thesis using False \<open>\<not> 0 \<le> x\<close> by (simp add: sql_round2_def divide_right_mono)
  qed
qed

lemma sql_round2_nat [simp]: "sql_round2 (of_nat n) = of_nat n"
proof -
  have "\<lfloor>(of_nat n :: rat) * 100 + 1/2\<rfloor> = int n * 100" by linarith
  then show ?thesis by (simp add: sql_round2_def)
qed

lemma sql_round2_numeral [simp]: "sql_round2 (numeral k) = numeral k" "sql_round2 0 = 0"
  using sql_round2_nat[of "numeral k"] sql_round2_nat[of 0] by simp_all

lemma sql_round2_range: "a \<le> x \<Longrightarrow> x \<le> b \<Longrightarrow> sql_round2 a \<le> sql_round2 x \<and> sql_round2 x \<le> sql_round2 b"
  by (simp add: sql_round2_mono)

lemma sum_list_bounds:
  "(\<forall>x \<in> set xs. a \<le> x \<and> x \<le> b) \<Longrightarrow> of_nat (length xs) * a \<le> sum_list xs \<and> sum_list xs \<le> of_nat (length xs) * (b::rat)"
  by (induction xs) (auto simp: algebra_simps)

lemma sorted_take_drop_le:
  assumes "sorted (map f xs)" "x \<in> set (take n xs)" "y \<in> set (drop n xs)"
  shows "f x \<le> f y"
proof -
  have "sorted (map f (take n xs) @ map f (drop n xs))"
    using assms(1) by (simp flip: map_append)
  then show ?thesis using assms(2,3) by (simp add: sorted_append)
qed

lemma filter_distinct_key_single':
  "distinct (map f xs) \<Longrightarrow> x \<in> set xs \<Longrightarrow> filter (\<lambda>y. f x = f y) xs = [x]"
  by (induction xs) (auto simp: filter_empty_conv image_iff)

lemma digit_char: "(k::nat) < 10 \<Longrightarrow> is_digit (char_of (48 + k)) \<and> of_char (char_of (48 + k) :: char) - 48 = k"
  by (auto simp: is_digit_def of_char_of)

lemma nat_str_digits: "list_all is_digit (nat_str n) \<and> nat_str n \<noteq> [] \<and> digits_val (nat_str n) = n"
proof (induction n rule: nat_str.induct)
  case (1 n)
  show ?case
  proof (cases "n < 10")
    case True
    then show ?thesis using digit_char[of n] by (simp add: nat_str.simps digits_val_def)
  next
    case False
    have eq: "nat_str n = nat_str (n div 10) @ [char_of (48 + n mod 10)]"
      by (subst nat_str.simps) (simp add: False)
    have "n mod 10 < 10" by simp
    then show ?thesis using 1 False digit_char[of "n mod 10"]
      unfolding eq by (simp add: digits_val_def)
  qed
qed

lemma py_strip_id:
  assumes "s \<noteq> []" "\<not> is_space (hd s)" "\<not> is_space (last s)"
  shows "py_strip s = s"
proof -
  have a: "dropWhile is_space s = s" using assms(1,2) by (cases s) auto
  have "rev s \<noteq> []" "\<not> is_space (hd (rev s))" using assms by (simp_all add: hd_rev)
  then have "dropWhile is_space (rev s) = rev s" by (cases "rev s") auto
  then show ?thesis using a by (simp add: py_strip_def)
qed

lemma split_sign_other:
  "c \<noteq> CHR ''-'' \<Longrightarrow> c \<noteq> CHR ''+'' \<Longrightarrow> split_sign (c # cs) = (False, c # cs)"
  unfolding split_sign_def by (cases c) (simp split: bool.split; blast)

lemma py_int_str_int: "py_int (PStr (py_str_int i)) = Inr i"
proof -
  have d: "list_all is_digit (nat_str n)" "nat_str n \<noteq> []" "digits_val (nat_str n) = n" for n
    using nat_str_digits by blast+
  have hl: "is_digit (hd (nat_str n))" "is_digit (last (nat_str n))" for n
    using d(1,2)[of n] by (auto simp: list_all_iff)
  have ns: "\<not> is_space (hd (nat_str n))" "\<not> is_space (last (nat_str n))" for n
    using hl[of n] by simp_all
  have nm: "hd (nat_str n) \<noteq> CHR ''-''" "hd (nat_str n) \<noteq> CHR ''+''" for n
    using hl[of n] by (auto simp: is_digit_def)
  show ?thesis
  proof (cases "i < 0")
    case True
    have "py_strip (CHR ''-'' # nat_str (nat (- i))) = CHR ''-'' # nat_str (nat (- i))"
      by (rule py_strip_id) (use d(2) ns in \<open>auto simp: is_space_def\<close>)
    then show ?thesis using True d by (simp add: py_str_int_def parse_int_def split_sign_def)
  next
    case False
    have s: "py_strip (nat_str (nat i)) = nat_str (nat i)" using d(2) ns by (intro py_strip_id) auto
    obtain c cs where cs: "nat_str (nat i) = c # cs" using d(2) by (cases "nat_str (nat i)") auto
    have "split_sign (nat_str (nat i)) = (False, nat_str (nat i))"
      using nm[of "nat i"] cs by (simp add: split_sign_other)
    then show ?thesis using False d s by (simp add: py_str_int_def parse_int_def)
  qed
qed

lemma map_res_Inr_iff [res_iff]: "map_res f xs = Inr ys \<longleftrightarrow> list_all2 (\<lambda>x y. f x = Inr y) xs ys"
  by (induction xs arbitrary: ys) (auto simp: pbind_Inr_iff list_all2_Cons1)

lemma map_res_map: "(\<And>x. x \<in> set xs \<Longrightarrow> f (g x) = Inr x) \<Longrightarrow> map_res f (map g xs) = Inr xs"
  by (induction xs) auto

lemma zip_map_filter:
  "map fst (filter (Not \<circ> snd) (zip (map f xs) (map p xs))) = map f (filter (Not \<circ> p) xs)"
  "map fst (filter snd (zip (map f xs) (map p xs))) = map f (filter p xs)"
  by (induction xs) auto

lemma length_filter_id_map: "length (filter id (map p xs)) = length (filter p xs)"
  by (induction xs) auto

lemma map_of_None_keys: "map fst xs = ks \<Longrightarrow> k \<notin> set ks \<Longrightarrow> map_of xs k = None"
  by (force simp: map_of_eq_None_iff)

lemma map2_map_same: "map2 f (map g xs) (map h xs) = map (\<lambda>x. f (g x) (h x)) xs"
  by (induction xs) auto

lemma distinct_map_snoc: "distinct (map f (xs @ [x])) \<longleftrightarrow> distinct (map f xs) \<and> f x \<notin> f ` set xs"
  by auto

lemma py_str_int_ne: "py_str_int i \<noteq> []"
  using nat_str_digits by (simp add: py_str_int_def)

end
