(* ===== verification/Schema.thy ===== *)
theory Schema
  imports Prelude
begin

text \<open>
  The relational schema the program reads and writes (its tables and columns, as the
  \<open>INSERT\<close> statements of \<open>src/final/models.py\<close> and the \<open>SELECT\<close> lists of
  \<open>src/final/query_models.py\<close> name them), the database state as one record of tables, the
  integrity constraints the storage enforces (\<open>db_wf\<close>), and the ordering MySQL uses for
  \<open>ORDER BY\<close>: a case-insensitive collation on strings, \<open>NULL\<close> before every value, and
  \<open>DESC\<close> as the reversed order (\<open>'a desc\<close>).
\<close>

section \<open>Rows of the tables\<close>

record student =
  stu_id :: int
  stu_first :: string
  stu_last :: string
  stu_dob :: string
  stu_gender :: string
  stu_address :: "string option"
  stu_phone :: "string option"
  stu_email :: string
  stu_year :: int
  stu_major :: "string option"

record subject =
  sub_code :: string
  sub_name :: string
  sub_credits :: int

record lecturer =
  lec_id :: int
  lec_first :: string
  lec_last :: string
  lec_email :: "string option"
  lec_office :: "string option"

record cls =
  cls_id :: int
  cls_subject :: string
  cls_lecturer :: "int option"
  cls_name :: "string option"
  cls_semester :: string
  cls_year :: int
  cls_capacity :: int

record enrollment =
  enr_student :: int
  enr_class :: int
  enr_grade :: "rat option"
  enr_letter :: "string option"
  enr_note :: "string option"

text \<open>The tables, and for each table the next value of its \<open>AUTO_INCREMENT\<close> counter
  (\<open>StudentID\<close>, \<open>LecturerID\<close>, \<open>ClassID\<close>). The counter belongs to the server, not to the
  rows: deleting rows does not lower it.\<close>

record db =
  db_students :: "student list"
  db_subjects :: "subject list"
  db_lecturers :: "lecturer list"
  db_classes :: "cls list"
  db_enrollments :: "enrollment list"
  db_auto :: "string \<Rightarrow> int"

definition empty_db :: db where
  "empty_db = \<lparr>db_students = [], db_subjects = [], db_lecturers = [], db_classes = [],
               db_enrollments = [], db_auto = (\<lambda>_. 1)\<rparr>"

section \<open>Collation and ordering\<close>

text \<open>The default MySQL collation compares strings case-insensitively.\<close>

definition coll :: "string \<Rightarrow> string" where
  "coll s = py_lower s"

definition sql_str_eq :: "string \<Rightarrow> string \<Rightarrow> bool" where
  "sql_str_eq a b \<longleftrightarrow> coll a = coll b"

text \<open>\<open>DESC\<close> in an \<open>ORDER BY\<close>: the same key in the reversed order.\<close>

datatype 'a desc = Desc 'a

instantiation desc :: (linorder) linorder
begin

fun less_eq_desc :: "'a desc \<Rightarrow> 'a desc \<Rightarrow> bool" where
  "less_eq_desc (Desc a) (Desc b) \<longleftrightarrow> b \<le> a"

fun less_desc :: "'a desc \<Rightarrow> 'a desc \<Rightarrow> bool" where
  "less_desc (Desc a) (Desc b) \<longleftrightarrow> b < a"

instance
proof
  fix x y z :: "'a desc"
  show "x < y \<longleftrightarrow> x \<le> y \<and> \<not> y \<le> x" by (cases x; cases y) auto
  show "x \<le> x" by (cases x) auto
  show "x \<le> y \<Longrightarrow> y \<le> z \<Longrightarrow> x \<le> z" by (cases x; cases y; cases z) auto
  show "x \<le> y \<Longrightarrow> y \<le> x \<Longrightarrow> x = y" by (cases x; cases y) auto
  show "x \<le> y \<or> y \<le> x" by (cases x; cases y) auto
qed

end

section \<open>Integrity constraints of the schema\<close>

text \<open>
  Primary keys (\<open>StudentID\<close>, \<open>SubjectCode\<close>, \<open>LecturerID\<close>, \<open>ClassID\<close>, the pair
  \<open>(StudentID, ClassID)\<close>), the \<open>UNIQUE\<close> student email and lecturer email (when present) under the collation, the foreign keys
  of classes and enrollments, and the \<open>CHECK\<close> on grades. The schema file is not part of
  the repository; the constraints are those the spec lists and the code's comments cite.
\<close>

definition enr_key :: "enrollment \<Rightarrow> int \<times> int" where
  "enr_key e = (enr_student e, enr_class e)"

definition grade_ok :: "rat option \<Rightarrow> bool" where
  "grade_ok g \<longleftrightarrow> (case g of None \<Rightarrow> True | Some x \<Rightarrow> 0 \<le> x \<and> x \<le> 10)"

definition keys_ok :: "db \<Rightarrow> bool" where
  "keys_ok d \<longleftrightarrow>
     distinct (map stu_id (db_students d)) \<and>
     distinct (map (coll \<circ> stu_email) (db_students d)) \<and>
     distinct (map (coll \<circ> sub_code) (db_subjects d)) \<and>
     distinct (map lec_id (db_lecturers d)) \<and>
     distinct (map coll (List.map_filter lec_email (db_lecturers d))) \<and>
     distinct (map cls_id (db_classes d)) \<and>
     distinct (map enr_key (db_enrollments d))"

definition fks_ok :: "db \<Rightarrow> bool" where
  "fks_ok d \<longleftrightarrow>
     (\<forall>c \<in> set (db_classes d). \<exists>s \<in> set (db_subjects d). sql_str_eq (cls_subject c) (sub_code s)) \<and>
     (\<forall>c \<in> set (db_classes d). case cls_lecturer c of None \<Rightarrow> True | Some l \<Rightarrow> l \<in> lec_id ` set (db_lecturers d)) \<and>
     (\<forall>e \<in> set (db_enrollments d). enr_student e \<in> stu_id ` set (db_students d)) \<and>
     (\<forall>e \<in> set (db_enrollments d). enr_class e \<in> cls_id ` set (db_classes d))"

definition checks_ok :: "db \<Rightarrow> bool" where
  "checks_ok d \<longleftrightarrow> (\<forall>e \<in> set (db_enrollments d). grade_ok (enr_grade e))"

definition db_wf :: "db \<Rightarrow> bool" where
  "db_wf d \<longleftrightarrow> keys_ok d \<and> fks_ok d \<and> checks_ok d"

text \<open>InnoDB keeps each counter above every id its table holds: an insert takes the counter
  and raises it past the id, a delete leaves it.\<close>

definition auto_ok :: "db \<Rightarrow> bool" where
  "auto_ok d \<longleftrightarrow>
     (\<forall>s \<in> set (db_students d). stu_id s < db_auto d ''students'') \<and>
     (\<forall>l \<in> set (db_lecturers d). lec_id l < db_auto d ''lecturers'') \<and>
     (\<forall>c \<in> set (db_classes d). cls_id c < db_auto d ''classes'')"

lemmas db_wf_defs = db_wf_def keys_ok_def fks_ok_def checks_ok_def

lemma db_wf_empty: "db_wf empty_db"
  by (simp add: db_wf_defs empty_db_def)

lemma auto_ok_empty: "auto_ok empty_db"
  by (simp add: auto_ok_def empty_db_def)

lemma db_wf_db_auto [simp]: "db_wf (d\<lparr>db_auto := a\<rparr>) \<longleftrightarrow> db_wf d"
  by (simp add: db_wf_defs cong: option.case_cong)

end
