(* ===== verification/Storage.thy ===== *)
theory Storage
  imports Schema
begin

text \<open>
  The storage access layer, \<open>src/final/db_connection.py\<close>. The state is \<open>db option\<close>:
  \<open>None\<close> when the connection pool cannot serve the statement (MySQL \<open>Error\<close>),
  \<open>Some d\<close> for the current tables. \<open>execute_query\<close> catches every MySQL error and returns
  Python \<open>None\<close>, so a failed read and an empty \<open>fetch_one\<close> are the same value; the
  model keeps that conflation. \<open>execute_update\<close> re-raises. The statements the code builds
  from table and column names at run time (\<open>check_unique\<close>) are evaluated over rows as
  dicts with the schema's column names, so that a name the table lacks is a SQL error.
\<close>

section \<open>Rows as dicts\<close>

definition opt_str :: "string option \<Rightarrow> pyval" where
  "opt_str x = (case x of None \<Rightarrow> PNone | Some s \<Rightarrow> PStr s)"

definition opt_int :: "int option \<Rightarrow> pyval" where
  "opt_int x = (case x of None \<Rightarrow> PNone | Some i \<Rightarrow> PInt i)"

definition opt_num :: "rat option \<Rightarrow> pyval" where
  "opt_num x = (case x of None \<Rightarrow> PNone | Some r \<Rightarrow> PFloat (Fin r))"

definition student_row :: "student \<Rightarrow> pydict" where
  "student_row s =
     [(''StudentID'', PInt (stu_id s)), (''FirstName'', PStr (stu_first s)),
      (''LastName'', PStr (stu_last s)), (''DOB'', PStr (stu_dob s)),
      (''Gender'', PStr (stu_gender s)), (''Address'', opt_str (stu_address s)),
      (''Phone'', opt_str (stu_phone s)), (''Email'', PStr (stu_email s)),
      (''EnrollmentYear'', PInt (stu_year s)), (''Major'', opt_str (stu_major s))]"

definition subject_row :: "subject \<Rightarrow> pydict" where
  "subject_row s =
     [(''SubjectCode'', PStr (sub_code s)), (''SubjectName'', PStr (sub_name s)),
      (''Credits'', PInt (sub_credits s))]"

definition lecturer_row :: "lecturer \<Rightarrow> pydict" where
  "lecturer_row l =
     [(''LecturerID'', PInt (lec_id l)), (''LecturerFirstName'', PStr (lec_first l)),
      (''LecturerLastName'', PStr (lec_last l)), (''LecturerEmail'', opt_str (lec_email l)),
      (''Office'', opt_str (lec_office l))]"

definition class_row :: "cls \<Rightarrow> pydict" where
  "class_row c =
     [(''ClassID'', PInt (cls_id c)), (''SubjectCode'', PStr (cls_subject c)),
      (''LecturerID'', opt_int (cls_lecturer c)), (''ClassName'', opt_str (cls_name c)),
      (''Semester'', PStr (cls_semester c)), (''Year'', PInt (cls_year c)),
      (''MaxCapacity'', PInt (cls_capacity c))]"

definition enrollment_row :: "enrollment \<Rightarrow> pydict" where
  "enrollment_row e =
     [(''StudentID'', PInt (enr_student e)), (''ClassID'', PInt (enr_class e)),
      (''Grade'', opt_num (enr_grade e)), (''GradeLetter'', opt_str (enr_letter e)),
      (''Note'', opt_str (enr_note e))]"

text \<open>The columns of each table, also when it has no rows.\<close>

definition table_columns :: "string \<Rightarrow> string list option" where
  "table_columns t =
     (if t = ''students'' then Some [''StudentID'', ''FirstName'', ''LastName'', ''DOB'', ''Gender'',
                                    ''Address'', ''Phone'', ''Email'', ''EnrollmentYear'', ''Major'']
      else if t = ''subjects'' then Some [''SubjectCode'', ''SubjectName'', ''Credits'']
      else if t = ''lecturers'' then Some [''LecturerID'', ''LecturerFirstName'', ''LecturerLastName'',
                                          ''LecturerEmail'', ''Office'']
      else if t = ''classes'' then Some [''ClassID'', ''SubjectCode'', ''LecturerID'', ''ClassName'',
                                        ''Semester'', ''Year'', ''MaxCapacity'']
      else if t = ''enrollments'' then Some [''StudentID'', ''ClassID'', ''Grade'', ''GradeLetter'', ''Note'']
      else None)"

definition table_rows :: "db \<Rightarrow> string \<Rightarrow> pydict list" where
  "table_rows d t =
     (if t = ''students'' then map student_row (db_students d)
      else if t = ''subjects'' then map subject_row (db_subjects d)
      else if t = ''lecturers'' then map lecturer_row (db_lecturers d)
      else if t = ''classes'' then map class_row (db_classes d)
      else if t = ''enrollments'' then map enrollment_row (db_enrollments d)
      else [])"

section \<open>SQL comparison of a column with a parameter\<close>

text \<open>MySQL reads a string compared with a number by its longest numeric prefix (an empty
  prefix is 0).\<close>

definition mysql_str_num :: "string \<Rightarrow> rat" where
  "mysql_str_num s =
     (let (neg, u) = split_sign (dropWhile is_space s);
          a = takeWhile is_digit u; r = dropWhile is_digit u;
          b = (case r of CHR ''.'' # t \<Rightarrow> takeWhile is_digit t | _ \<Rightarrow> []);
          m = of_int (int (digits_val (a @ b))) / of_int (int (10 ^ length b))
      in if neg then - m else m)"

fun sql_num :: "pyval \<Rightarrow> rat option" where
  "sql_num (PBool b) = Some (if b then 1 else 0)"
| "sql_num (PInt i) = Some (of_int i)"
| "sql_num (PFloat (Fin r)) = Some r"
| "sql_num _ = None"

text \<open>Truth of \<open>a = b\<close> in a \<open>WHERE\<close> clause: \<open>NULL\<close> is never equal; \<open>None\<close> is a SQL
  error (a non-finite float cannot be sent as a parameter).\<close>

fun sql_eq :: "pyval \<Rightarrow> pyval \<Rightarrow> bool option" where
  "sql_eq PNone _ = Some False"
| "sql_eq _ PNone = Some False"
| "sql_eq (PStr a) (PStr b) = Some (sql_str_eq a b)"
| "sql_eq (PStr a) v = map_option (\<lambda>y. mysql_str_num a = y) (sql_num v)"
| "sql_eq v (PStr b) = map_option (\<lambda>x. x = mysql_str_num b) (sql_num v)"
| "sql_eq v w = (case (sql_num v, sql_num w) of (Some x, Some y) \<Rightarrow> Some (x = y) | _ \<Rightarrow> None)"

text \<open>Truth of \<open>a != b\<close>: \<open>NULL\<close> is never unequal either.\<close>

definition sql_ne :: "pyval \<Rightarrow> pyval \<Rightarrow> bool option" where
  "sql_ne a b = (if a = PNone \<or> b = PNone then Some False else map_option Not (sql_eq a b))"

section \<open>Statements\<close>

text \<open>
  \<open>SELECT 1 FROM table WHERE column = %s [AND id_column != %s]\<close>, as
  \<open>check_unique\<close> builds it: \<open>None\<close> is a SQL error (unknown table or column, or a
  parameter MySQL rejects), \<open>Some b\<close> whether a row exists.
\<close>

definition row_test :: "string \<Rightarrow> pyval \<Rightarrow> (string \<times> pyval) option \<Rightarrow> pydict \<Rightarrow> bool option" where
  "row_test column v excl r =
     (case sql_eq (dict_get r column) v of
        None \<Rightarrow> None
      | Some b \<Rightarrow> (case excl of None \<Rightarrow> Some b
                   | Some (idc, cid) \<Rightarrow> map_option (\<lambda>b'. b \<and> b') (sql_ne (dict_get r idc) cid)))"

definition all_some :: "'a option list \<Rightarrow> 'a list option" where
  "all_some xs = (if None \<in> set xs then None else Some (map the xs))"

definition select_exists ::
  "db \<Rightarrow> string \<Rightarrow> string \<Rightarrow> pyval \<Rightarrow> (string \<times> pyval) option \<Rightarrow> bool option" where
  "select_exists d table column v excl =
     (case table_columns table of
        None \<Rightarrow> None
      | Some cols \<Rightarrow>
          if column \<notin> set cols \<or> (case excl of Some (idc, _) \<Rightarrow> idc \<notin> set cols | None \<Rightarrow> False) then None
          else map_option (\<lambda>bs. True \<in> set bs) (all_some (map (row_test column v excl) (table_rows d table))))"

text \<open>
  \<open>DatabaseConnection.execute_query(query, params, fetch_one=True)\<close>: the first row, or
  \<open>None\<close> when there is none and also when the statement fails.
\<close>

definition execute_exists :: "db option \<Rightarrow> (db \<Rightarrow> bool option) \<Rightarrow> bool" where
  "execute_exists st q = (case st of None \<Rightarrow> False | Some d \<Rightarrow> (case q d of None \<Rightarrow> False | Some b \<Rightarrow> b))"

text \<open>\<open>execute_query(query, params)\<close> with \<open>fetchall\<close>: the rows, or \<open>None\<close> on any error.\<close>

definition execute_query :: "db option \<Rightarrow> (db \<Rightarrow> 'r list) \<Rightarrow> 'r list option" where
  "execute_query st q = map_option q st"

text \<open>\<open>execute_query(query, fetch_one=True)\<close> for a statement without parameters.\<close>

definition execute_query_one :: "db option \<Rightarrow> (db \<Rightarrow> 'r list) \<Rightarrow> 'r option" where
  "execute_query_one st q = (case st of None \<Rightarrow> None | Some d \<Rightarrow> (case q d of [] \<Rightarrow> None | r # _ \<Rightarrow> Some r))"

lemma all_some_Some [simp]: "all_some (map (\<lambda>x. Some (f x)) xs) = Some (map f xs)"
  by (induction xs) (auto simp: all_some_def)

lemma execute_exists_Some: "execute_exists (Some d) q \<longleftrightarrow> q d = Some True"
  by (simp add: execute_exists_def split: option.split)

lemma execute_exists_None: "\<not> execute_exists None q"
  by (simp add: execute_exists_def)

lemma execute_query_Some: "execute_query (Some d) q = Some (q d)"
  by (simp add: execute_query_def)

lemma table_columns_rows:
  "table_columns ''students'' = Some (map fst (student_row s))"
  "table_columns ''subjects'' = Some (map fst (subject_row u))"
  "table_columns ''lecturers'' = Some (map fst (lecturer_row l))"
  "table_columns ''classes'' = Some (map fst (class_row c))"
  "table_columns ''enrollments'' = Some (map fst (enrollment_row e))"
  by (simp_all add: table_columns_def student_row_def subject_row_def lecturer_row_def
      class_row_def enrollment_row_def)

lemmas storage_simps [simp] = execute_exists_Some execute_exists_None execute_query_Some

end
