(* ===== verification/Writes.thy ===== *)
theory Writes
  imports Storage
begin

text \<open>
  The write path of \<open>src/final/db_connection.py\<close> (\<open>execute_update\<close>, \<open>get_cursor\<close>) and
  what MySQL does with the statements the program sends. A statement is one of
  \<open>INSERT INTO t (cols) VALUES (%s, ...)\<close>, \<open>UPDATE t SET c = %s, ... WHERE k = %s AND ...\<close>
  and \<open>DELETE FROM t WHERE k = %s AND ...\<close>, with its parameters as Python values. MySQL
  works on the table's rows as dicts: it matches the \<open>WHERE\<close> clause with \<open>sql_eq\<close>, writes
  the parameters into the columns, converts every stored value to the column's type
  (\<open>student_of_row\<close>, ...; a \<open>NULL\<close> in a \<open>NOT NULL\<close> column and a string that is not
  a number in an integer column are errors), gives a new row the next \<open>AUTO_INCREMENT\<close>
  id, deletes the enrollments of a deleted student or class (\<open>ON DELETE CASCADE\<close>, as the
  spec and the confirmation messages of \<open>main_win.py\<close> say), sets the lecturer of the
  classes of a deleted lecturer to \<open>NULL\<close> (\<open>ON DELETE SET NULL\<close>, as \<open>LecturersPage.on_delete\<close>
  says), restricts the deletion of a referenced subject, and rejects a statement whose result
  breaks a constraint of \<open>db_wf\<close> (\<open>integrity_error\<close>). A rejected statement changes nothing;
  \<open>execute_update\<close> re-raises its error, as it does when no connection can be had.
\<close>

section \<open>Column values\<close>

text \<open>A parameter stored in a string, integer or decimal column; \<open>None\<close> is \<open>NULL\<close>.\<close>

definition param_str :: "pyval \<Rightarrow> string option res" where
  "param_str v = (case v of
       PNone \<Rightarrow> Inr None
     | PStr s \<Rightarrow> Inr (Some s)
     | PInt i \<Rightarrow> Inr (Some (py_str_int i))
     | PBool b \<Rightarrow> Inr (Some (if b then ''1'' else ''0''))
     | PFloat _ \<Rightarrow> Inl (DatabaseError ''float parameter for a string column''))"

definition param_int :: "pyval \<Rightarrow> int option res" where
  "param_int v = (case v of
       PNone \<Rightarrow> Inr None
     | PInt i \<Rightarrow> Inr (Some i)
     | PBool b \<Rightarrow> Inr (Some (if b then 1 else 0))
     | PStr s \<Rightarrow> (case parse_int s of Some i \<Rightarrow> Inr (Some i)
                 | None \<Rightarrow> Inl (DatabaseError ''Incorrect integer value''))
     | PFloat (Fin r) \<Rightarrow> Inr (Some (if 0 \<le> r then \<lfloor>r + 1/2\<rfloor> else - \<lfloor>- r + 1/2\<rfloor>))
     | PFloat _ \<Rightarrow> Inl (DatabaseError ''non-finite float parameter''))"

definition param_dec :: "pyval \<Rightarrow> rat option res" where
  "param_dec v = (case v of
       PNone \<Rightarrow> Inr None
     | PInt i \<Rightarrow> Inr (Some (of_int i))
     | PBool b \<Rightarrow> Inr (Some (if b then 1 else 0))
     | PStr s \<Rightarrow> (case parse_float s of Some (Fin r) \<Rightarrow> Inr (Some r)
                 | _ \<Rightarrow> Inl (DatabaseError ''Incorrect decimal value''))
     | PFloat (Fin r) \<Rightarrow> Inr (Some r)
     | PFloat _ \<Rightarrow> Inl (DatabaseError ''non-finite float parameter''))"

definition required :: "string \<Rightarrow> 'a option \<Rightarrow> 'a res" where
  "required c x = (case x of None \<Rightarrow> Inl (DatabaseError (''Column '' @ c @ '' cannot be null''))
                   | Some v \<Rightarrow> Inr v)"

definition col_str :: "pydict \<Rightarrow> string \<Rightarrow> string res" where
  "col_str r c = pbind (param_str (dict_get r c)) (required c)"

definition col_int :: "pydict \<Rightarrow> string \<Rightarrow> int res" where
  "col_int r c = pbind (param_int (dict_get r c)) (required c)"

section \<open>Rows back into records\<close>

definition student_of_row :: "pydict \<Rightarrow> student res" where
  "student_of_row r =
     pbind (col_int r ''StudentID'') (\<lambda>i. pbind (col_str r ''FirstName'') (\<lambda>f.
     pbind (col_str r ''LastName'') (\<lambda>l. pbind (col_str r ''DOB'') (\<lambda>b.
     pbind (col_str r ''Gender'') (\<lambda>g. pbind (param_str (dict_get r ''Address'')) (\<lambda>a.
     pbind (param_str (dict_get r ''Phone'')) (\<lambda>p. pbind (col_str r ''Email'') (\<lambda>e.
     pbind (col_int r ''EnrollmentYear'') (\<lambda>y. pbind (param_str (dict_get r ''Major'')) (\<lambda>m.
     Inr \<lparr>stu_id = i, stu_first = f, stu_last = l, stu_dob = b, stu_gender = g, stu_address = a,
          stu_phone = p, stu_email = e, stu_year = y, stu_major = m\<rparr>))))))))))"

definition subject_of_row :: "pydict \<Rightarrow> subject res" where
  "subject_of_row r =
     pbind (col_str r ''SubjectCode'') (\<lambda>c. pbind (col_str r ''SubjectName'') (\<lambda>n.
     pbind (col_int r ''Credits'') (\<lambda>k. Inr \<lparr>sub_code = c, sub_name = n, sub_credits = k\<rparr>)))"

definition lecturer_of_row :: "pydict \<Rightarrow> lecturer res" where
  "lecturer_of_row r =
     pbind (col_int r ''LecturerID'') (\<lambda>i. pbind (col_str r ''LecturerFirstName'') (\<lambda>f.
     pbind (col_str r ''LecturerLastName'') (\<lambda>l. pbind (param_str (dict_get r ''LecturerEmail'')) (\<lambda>e.
     pbind (param_str (dict_get r ''Office'')) (\<lambda>ofc.
     Inr \<lparr>lec_id = i, lec_first = f, lec_last = l, lec_email = e, lec_office = ofc\<rparr>)))))"

definition class_of_row :: "pydict \<Rightarrow> cls res" where
  "class_of_row r =
     pbind (col_int r ''ClassID'') (\<lambda>i. pbind (col_str r ''SubjectCode'') (\<lambda>u.
     pbind (param_int (dict_get r ''LecturerID'')) (\<lambda>l. pbind (param_str (dict_get r ''ClassName'')) (\<lambda>n.
     pbind (col_str r ''Semester'') (\<lambda>s. pbind (col_int r ''Year'') (\<lambda>y.
     pbind (col_int r ''MaxCapacity'') (\<lambda>m.
     Inr \<lparr>cls_id = i, cls_subject = u, cls_lecturer = l, cls_name = n, cls_semester = s,
          cls_year = y, cls_capacity = m\<rparr>)))))))"

definition enrollment_of_row :: "pydict \<Rightarrow> enrollment res" where
  "enrollment_of_row r =
     pbind (col_int r ''StudentID'') (\<lambda>s. pbind (col_int r ''ClassID'') (\<lambda>c.
     pbind (param_dec (dict_get r ''Grade'')) (\<lambda>g. pbind (param_str (dict_get r ''GradeLetter'')) (\<lambda>l.
     pbind (param_str (dict_get r ''Note'')) (\<lambda>n.
     Inr \<lparr>enr_student = s, enr_class = c, enr_grade = g, enr_letter = l, enr_note = n\<rparr>)))))"

text \<open>The table \<open>t\<close> of \<open>d\<close> replaced by the given rows, each converted to the table's types.\<close>

definition rows_to_db :: "db \<Rightarrow> string \<Rightarrow> pydict list \<Rightarrow> db res" where
  "rows_to_db d t rs =
     (if t = ''students'' then pbind (map_res student_of_row rs) (\<lambda>xs. Inr (d\<lparr>db_students := xs\<rparr>))
      else if t = ''subjects'' then pbind (map_res subject_of_row rs) (\<lambda>xs. Inr (d\<lparr>db_subjects := xs\<rparr>))
      else if t = ''lecturers'' then pbind (map_res lecturer_of_row rs) (\<lambda>xs. Inr (d\<lparr>db_lecturers := xs\<rparr>))
      else if t = ''classes'' then pbind (map_res class_of_row rs) (\<lambda>xs. Inr (d\<lparr>db_classes := xs\<rparr>))
      else if t = ''enrollments'' then pbind (map_res enrollment_of_row rs) (\<lambda>xs. Inr (d\<lparr>db_enrollments := xs\<rparr>))
      else Inl (DatabaseError ''Unknown table''))"

section \<open>Statements\<close>

datatype sql_write =
    Insert string "(string \<times> pyval) list"
  | Update string "(string \<times> pyval) list" "(string \<times> pyval) list"
  | Delete string "(string \<times> pyval) list"

text \<open>\<open>WHERE c1 = %s AND c2 = %s ...\<close> on one row; \<open>None\<close> is a SQL error.\<close>

definition where_match :: "(string \<times> pyval) list \<Rightarrow> pydict \<Rightarrow> bool option" where
  "where_match w r = map_option (list_all id) (all_some (map (\<lambda>(c, v). sql_eq (dict_get r c) v) w))"

definition auto_column :: "string \<Rightarrow> string option" where
  "auto_column t =
     (if t = ''students'' then Some ''StudentID'' else if t = ''lecturers'' then Some ''LecturerID''
      else if t = ''classes'' then Some ''ClassID'' else None)"

text \<open>The row an \<open>INSERT\<close> adds: the given columns, the counter's value \<open>n\<close> in the
  \<open>AUTO_INCREMENT\<close> column when the statement does not give it, \<open>NULL\<close> elsewhere.\<close>

definition insert_row :: "string \<Rightarrow> string list \<Rightarrow> (string \<times> pyval) list \<Rightarrow> int \<Rightarrow> pydict" where
  "insert_row t cols kvs n =
     map (\<lambda>c. (c, case map_of kvs c of Some v \<Rightarrow> v
                  | None \<Rightarrow> if auto_column t = Some c then PInt n else PNone)) cols"

text \<open>After an insert of id \<open>i\<close> the counter is raised past \<open>i\<close>; it is never lowered.\<close>

definition auto_bump :: "string \<Rightarrow> int \<Rightarrow> db \<Rightarrow> db" where
  "auto_bump t i d =
     (case auto_column t of None \<Rightarrow> d | Some _ \<Rightarrow> d\<lparr>db_auto := (db_auto d)(t := max (db_auto d t) (i + 1))\<rparr>)"

definition override :: "(string \<times> pyval) list \<Rightarrow> pydict \<Rightarrow> pydict" where
  "override sets r = map (\<lambda>(c, v). (c, case map_of sets c of Some v' \<Rightarrow> v' | None \<Rightarrow> v)) r"

definition gone_ids :: "string \<Rightarrow> pydict list \<Rightarrow> pyval set" where
  "gone_ids c gone = set (map (\<lambda>r. dict_get r c) gone)"

definition cascade :: "string \<Rightarrow> pydict list \<Rightarrow> db \<Rightarrow> db" where
  "cascade t gone d =
     (if t = ''students'' then d\<lparr>db_enrollments := filter (\<lambda>e. PInt (enr_student e) \<notin> gone_ids ''StudentID'' gone) (db_enrollments d)\<rparr>
      else if t = ''classes'' then d\<lparr>db_enrollments := filter (\<lambda>e. PInt (enr_class e) \<notin> gone_ids ''ClassID'' gone) (db_enrollments d)\<rparr>
      else if t = ''lecturers'' then d\<lparr>db_classes := map (\<lambda>c. if opt_int (cls_lecturer c) \<in> gone_ids ''LecturerID'' gone
                                                            then c\<lparr>cls_lecturer := None\<rparr> else c) (db_classes d)\<rparr>
      else d)"

text \<open>The error MySQL reports for a violated constraint: \<open>IntegrityError\<close> (1062
  \<open>Duplicate entry\<close>, or 1451/1452 for a foreign key), and a plain database error for a
  failed \<open>CHECK\<close>.\<close>

definition integrity_error :: "db \<Rightarrow> pyexc" where
  "integrity_error d' =
     (if \<not> keys_ok d' then IntegrityError ''Duplicate entry''
      else if \<not> fks_ok d' then IntegrityError ''a foreign key constraint fails''
      else DatabaseError ''Check constraint is violated'')"

definition checked :: "db \<Rightarrow> 'a \<Rightarrow> ('a \<times> db) res" where
  "checked d' x = (if db_wf d' then Inr (x, d') else Inl (integrity_error d'))"

definition known_columns :: "string \<Rightarrow> (string \<times> pyval) list \<Rightarrow> string list res" where
  "known_columns t kvs =
     (case table_columns t of None \<Rightarrow> Inl (DatabaseError ''Unknown table'')
      | Some cols \<Rightarrow> if list_all (\<lambda>kv. fst kv \<in> set cols) kvs then Inr cols
                    else Inl (DatabaseError ''Unknown column''))"

text \<open>One statement on \<open>d\<close>: the number of rows it touched and the id of an inserted row
  (\<open>cursor.rowcount\<close>, \<open>cursor.lastrowid\<close>), and the new tables.\<close>

fun apply_write :: "sql_write \<Rightarrow> db \<Rightarrow> ((nat \<times> int) \<times> db) res" where
  "apply_write (Insert t kvs) d =
     pbind (known_columns t kvs) (\<lambda>cols.
       let rs = table_rows d t; row = insert_row t cols kvs (db_auto d t);
           rid = (case auto_column t of Some c \<Rightarrow> (case dict_get row c of PInt i \<Rightarrow> i | _ \<Rightarrow> 0) | None \<Rightarrow> 0)
       in pbind (rows_to_db d t (rs @ [row])) (\<lambda>d'. checked (auto_bump t rid d') (1, rid)))"
| "apply_write (Update t sets w) d =
     pbind (known_columns t (sets @ w)) (\<lambda>_.
       let rs = table_rows d t in
       case all_some (map (where_match w) rs) of
         None \<Rightarrow> Inl (DatabaseError ''Bad WHERE parameter'')
       | Some bs \<Rightarrow> pbind (rows_to_db d t (map2 (\<lambda>r b. if b then override sets r else r) rs bs))
                     (\<lambda>d'. checked d' (length (filter id bs), 0)))"
| "apply_write (Delete t w) d =
     pbind (known_columns t w) (\<lambda>_.
       let rs = table_rows d t in
       case all_some (map (where_match w) rs) of
         None \<Rightarrow> Inl (DatabaseError ''Bad WHERE parameter'')
       | Some bs \<Rightarrow> pbind (rows_to_db d t (map fst (filter (Not \<circ> snd) (zip rs bs))))
                     (\<lambda>d'. checked (cascade t (map fst (filter snd (zip rs bs))) d') (length (filter id bs), 0)))"

text \<open>\<open>DatabaseConnection.execute_update(query, params)\<close>: the statement in its own
  transaction; the affected rows, or the MySQL error re-raised.\<close>

definition execute_update :: "db option \<Rightarrow> sql_write \<Rightarrow> (nat \<times> db) res" where
  "execute_update st w =
     (case st of None \<Rightarrow> Inl (DatabaseError ''connection pool exhausted or unavailable'')
      | Some d \<Rightarrow> pbind (apply_write w d) (\<lambda>((n, _), d'). Inr (n, d')))"

text \<open>\<open>with db.get_cursor(dictionary=False) as cursor: cursor.execute(sql, params);
  return cursor.lastrowid\<close>: the same statement, returning the new row's id.\<close>

definition cursor_insert :: "db option \<Rightarrow> sql_write \<Rightarrow> (int \<times> db) res" where
  "cursor_insert st w =
     (case st of None \<Rightarrow> Inl (DatabaseError ''connection pool exhausted or unavailable'')
      | Some d \<Rightarrow> pbind (apply_write w d) (\<lambda>((_, i), d'). Inr (i, d')))"

text \<open>The records an \<open>UPDATE\<close> of an enrollment by its key, and of a subject's name and credits by
  its code, leaves.\<close>

definition enr_set :: "int \<times> int \<Rightarrow> rat option \<Rightarrow> string option \<Rightarrow> string option \<Rightarrow> enrollment \<Rightarrow> enrollment" where
  "enr_set k g l n x = (if enr_key x = k then x\<lparr>enr_grade := g, enr_letter := l, enr_note := n\<rparr> else x)"

definition sub_set :: "string \<Rightarrow> string \<Rightarrow> int \<Rightarrow> subject \<Rightarrow> subject" where
  "sub_set k nm cr u = (if sql_str_eq (sub_code u) k then u\<lparr>sub_name := nm, sub_credits := cr\<rparr> else u)"

text \<open>The records \<open>LecturerModel.update\<close>'s statement leaves: all four columns of the lecturer
  with the id.\<close>

definition lec_set :: "int \<Rightarrow> string \<Rightarrow> string \<Rightarrow> string option \<Rightarrow> string option \<Rightarrow> lecturer \<Rightarrow> lecturer" where
  "lec_set i a b e ofc l =
     (if lec_id l = i then l\<lparr>lec_first := a, lec_last := b, lec_email := e, lec_office := ofc\<rparr> else l)"

text \<open>The records \<open>ClassModel.update\<close>'s statement leaves: all six columns of the class with
  the id.\<close>

definition cls_set :: "int \<Rightarrow> string \<Rightarrow> int option \<Rightarrow> string option \<Rightarrow> string \<Rightarrow> int \<Rightarrow> int \<Rightarrow> cls \<Rightarrow> cls" where
  "cls_set i u lec nm sem y cap x =
     (if cls_id x = i then x\<lparr>cls_subject := u, cls_lecturer := lec, cls_name := nm, cls_semester := sem, cls_year := y,
                              cls_capacity := cap\<rparr> else x)"

text \<open>\<open>shrinks d d'\<close>: the tables other than \<open>students\<close> have no more rows in \<open>d'\<close> than in
  \<open>d\<close>; \<open>no_foreign_insert w\<close>: the statement is not an \<open>INSERT\<close> into one of them.\<close>

definition shrinks :: "db \<Rightarrow> db \<Rightarrow> bool" where
  "shrinks d d' \<longleftrightarrow>
     list_all (\<lambda>t. length (table_rows d' t) \<le> length (table_rows d t)) [''subjects'', ''lecturers'', ''classes'', ''enrollments'']"

definition no_foreign_insert :: "sql_write \<Rightarrow> bool" where
  "no_foreign_insert w = (case w of Insert t _ \<Rightarrow> t = ''students'' | _ \<Rightarrow> True)"

section \<open>Lemmas\<close>

lemma param_simps [simp]:
  "param_str (PStr s) = Inr (Some s)" "param_str PNone = Inr None"
  "param_int (PInt i) = Inr (Some i)" "param_int PNone = Inr None"
  "param_dec (PFloat (Fin r)) = Inr (Some r)" "param_dec PNone = Inr None"
  "param_str (opt_str x) = Inr x" "param_int (opt_int y) = Inr y" "param_dec (opt_num z) = Inr z"
  by (simp_all add: param_str_def param_int_def param_dec_def opt_str_def opt_int_def opt_num_def
      split: option.split)

lemma col_simps [simp]:
  "col_str r c = pbind (param_str (dict_get r c)) (required c)"
  "col_int r c = pbind (param_int (dict_get r c)) (required c)"
  "required c (Some v) = Inr v"
  by (simp_all add: col_str_def col_int_def required_def)

lemma of_row_simps [simp]:
  "student_of_row (student_row s) = Inr s" "subject_of_row (subject_row u) = Inr u"
  "lecturer_of_row (lecturer_row l) = Inr l" "class_of_row (class_row c) = Inr c"
  "enrollment_of_row (enrollment_row e) = Inr e"
  by (simp_all add: student_of_row_def student_row_def subject_of_row_def subject_row_def
      lecturer_of_row_def lecturer_row_def class_of_row_def class_row_def
      enrollment_of_row_def enrollment_row_def dict_get_def)

text \<open>A stored row read back through the column conversions is the record it came from, for each of the five tables.\<close>

theorem rows_roundtrip:
  "student_of_row (student_row s) = Inr s \<and> subject_of_row (subject_row u) = Inr u \<and>
   lecturer_of_row (lecturer_row l) = Inr l \<and> class_of_row (class_row c) = Inr c \<and>
   enrollment_of_row (enrollment_row e) = Inr e"
  by (simp add: student_of_row_def student_row_def subject_of_row_def subject_row_def
      lecturer_of_row_def lecturer_row_def class_of_row_def class_row_def
      enrollment_of_row_def enrollment_row_def dict_get_def)

lemma rows_to_db_student: "rows_to_db d ''students'' (map student_row xs) = Inr (d\<lparr>db_students := xs\<rparr>)"
  by (simp add: rows_to_db_def map_res_map)

lemma where_match_student_id:
  "where_match [(''StudentID'', PInt i)] (student_row x) = Some (stu_id x = i)"
  by (simp add: where_match_def all_some_def student_row_def dict_get_def)

lemma where_match_student_id_comp:
  "where_match [(''StudentID'', PInt i)] \<circ> student_row = (\<lambda>x. Some (stu_id x = i))"
  by (simp add: fun_eq_iff where_match_student_id)

lemma db_wf_delete_student:
  assumes "db_wf d"
  shows "db_wf (d\<lparr>db_students := filter (\<lambda>x. stu_id x \<noteq> i) (db_students d),
                   db_enrollments := filter (\<lambda>e. enr_student e \<noteq> i) (db_enrollments d)\<rparr>)"
  using assms by (auto simp: db_wf_defs distinct_map_filter image_iff split: option.splits)

lemma table_rows_simps:
  "table_rows d ''students'' = map student_row (db_students d)"
  "table_rows d ''subjects'' = map subject_row (db_subjects d)"
  "table_rows d ''lecturers'' = map lecturer_row (db_lecturers d)"
  "table_rows d ''classes'' = map class_row (db_classes d)"
  "table_rows d ''enrollments'' = map enrollment_row (db_enrollments d)"
  by (simp_all add: table_rows_def)

lemma apply_write_delete_student:
  assumes "db_wf d" "s \<in> set (db_students d)"
  shows "apply_write (Delete ''students'' [(''StudentID'', PInt (stu_id s))]) d =
    Inr ((1, 0), d\<lparr>db_students := filter (\<lambda>x. stu_id x \<noteq> stu_id s) (db_students d),
              db_enrollments := filter (\<lambda>e. enr_student e \<noteq> stu_id s) (db_enrollments d)\<rparr>)"
proof -
  let ?i = "stu_id s"
  let ?S = "db_students d"
  let ?p = "\<lambda>x. stu_id x = ?i"
  define D' where "D' = d\<lparr>db_students := filter (\<lambda>x. stu_id x \<noteq> ?i) ?S,
              db_enrollments := filter (\<lambda>e. enr_student e \<noteq> ?i) (db_enrollments d)\<rparr>"
  have dist: "distinct (map stu_id ?S)" using assms(1) by (simp add: db_wf_defs)
  have kc: "known_columns ''students'' [(''StudentID'', PInt ?i)] = Inr (the (table_columns ''students''))"
    by (simp add: known_columns_def table_columns_def)
  have bs: "all_some (map (where_match [(''StudentID'', PInt ?i)]) (map student_row ?S)) = Some (map ?p ?S)"
    by (simp only: map_map where_match_student_id_comp all_some_Some)
  have kept: "rows_to_db d ''students'' (map fst (filter (Not \<circ> snd) (zip (map student_row ?S) (map ?p ?S)))) =
      Inr (d\<lparr>db_students := filter (\<lambda>x. stu_id x \<noteq> ?i) ?S\<rparr>)"
    by (simp only: zip_map_filter rows_to_db_student) (simp add: comp_def)
  have casc: "cascade ''students'' (map fst (filter snd (zip (map student_row ?S) (map ?p ?S))))
      (d\<lparr>db_students := filter (\<lambda>x. stu_id x \<noteq> ?i) ?S\<rparr>) = D'"
  proof -
    have ne: "{x \<in> set ?S. stu_id x = ?i} \<noteq> {}" using assms(2) by auto
    show ?thesis unfolding zip_map_filter cascade_def gone_ids_def D'_def
      using ne by (auto simp: student_row_def dict_get_def image_constant_conv)
  qed
  have one: "length (filter id (map ?p ?S)) = 1"
    using filter_distinct_key_len[OF dist, of ?i] assms(2) by (simp add: length_filter_id_map)
  have chk: "checked D' (1::nat, 0::int) = Inr ((1, 0), D')"
    using db_wf_delete_student[OF assms(1), of ?i] by (simp add: checked_def D'_def)
  have "apply_write (Delete ''students'' [(''StudentID'', PInt ?i)]) d = Inr ((1, 0), D')"
    unfolding apply_write.simps kc pbind_simps Let_def table_rows_simps bs option.case kept casc one chk ..
  then show ?thesis by (simp add: D'_def)
qed

lemma rows_to_db_subject: "rows_to_db d ''subjects'' (map subject_row xs) = Inr (d\<lparr>db_subjects := xs\<rparr>)"
  by (simp add: rows_to_db_def map_res_map)

lemma where_match_subject_code_comp:
  "where_match [(''SubjectCode'', PStr k)] \<circ> subject_row = (\<lambda>u. Some (sql_str_eq (sub_code u) k))"
  by (simp add: fun_eq_iff where_match_def all_some_def subject_row_def dict_get_def)

lemma apply_write_wf: "apply_write w d = Inr r \<Longrightarrow> db_wf (snd r)"
  by (cases w) (auto simp: pbind_Inr_iff checked_def Let_def split: if_splits option.splits)

lemma rows_to_db_enrollment: "rows_to_db d ''enrollments'' (map enrollment_row xs) = Inr (d\<lparr>db_enrollments := xs\<rparr>)"
  by (simp add: rows_to_db_def map_res_map)

lemma where_match_enr_key_comp:
  "where_match [(''StudentID'', PInt sid), (''ClassID'', PInt cid)] \<circ> enrollment_row = (\<lambda>x. Some (enr_key x = (sid, cid)))"
  by (simp add: fun_eq_iff where_match_def all_some_def enrollment_row_def dict_get_def enr_key_def)

lemma override_enrollment_row:
  "override [(''Grade'', opt_num g), (''GradeLetter'', opt_str l), (''Note'', opt_str n)] (enrollment_row x) =
   enrollment_row (x\<lparr>enr_grade := g, enr_letter := l, enr_note := n\<rparr>)"
  by (simp add: override_def enrollment_row_def)

lemma override_subject_row:
  "override [(''SubjectName'', PStr nm), (''Credits'', PInt cr)] (subject_row u) =
   subject_row (u\<lparr>sub_name := nm, sub_credits := cr\<rparr>)"
  by (simp add: override_def subject_row_def)

lemma auto_ok_fresh:
  assumes "auto_ok d"
  shows "db_auto d ''students'' \<notin> stu_id ` set (db_students d)"
    "db_auto d ''lecturers'' \<notin> lec_id ` set (db_lecturers d)"
    "db_auto d ''classes'' \<notin> cls_id ` set (db_classes d)"
  using assms by (auto simp: auto_ok_def)

lemma apply_write_insert_student:
  "apply_write (Insert ''students''
      [(''FirstName'', PStr a), (''LastName'', PStr b), (''DOB'', PStr c), (''Gender'', PStr g),
       (''Address'', PStr ad), (''Phone'', PStr ph), (''Email'', PStr e), (''EnrollmentYear'', PInt y),
       (''Major'', PStr mj)]) d =
   checked (d\<lparr>db_students := db_students d @
       [\<lparr>stu_id = db_auto d ''students'', stu_first = a, stu_last = b, stu_dob = c,
         stu_gender = g, stu_address = Some ad, stu_phone = Some ph, stu_email = e, stu_year = y,
         stu_major = Some mj\<rparr>],
       db_auto := (db_auto d)(''students'' := db_auto d ''students'' + 1)\<rparr>) (1, db_auto d ''students'')"
proof -
  let ?n = "db_auto d ''students''"
  let ?s = "\<lparr>stu_id = ?n, stu_first = a, stu_last = b, stu_dob = c,
         stu_gender = g, stu_address = Some ad, stu_phone = Some ph, stu_email = e, stu_year = y,
         stu_major = Some mj\<rparr>"
  have row: "insert_row ''students'' (the (table_columns ''students''))
      [(''FirstName'', PStr a), (''LastName'', PStr b), (''DOB'', PStr c), (''Gender'', PStr g),
       (''Address'', PStr ad), (''Phone'', PStr ph), (''Email'', PStr e), (''EnrollmentYear'', PInt y),
       (''Major'', PStr mj)] ?n = student_row ?s"
    by (simp add: insert_row_def table_columns_def auto_column_def student_row_def opt_str_def)
  have rtd: "rows_to_db d ''students'' (map student_row (db_students d) @ [student_row ?s]) =
      Inr (d\<lparr>db_students := db_students d @ [?s]\<rparr>)"
    using rows_to_db_student[of d "db_students d @ [?s]"] by simp
  have kc: "known_columns ''students''
      [(''FirstName'', PStr a), (''LastName'', PStr b), (''DOB'', PStr c), (''Gender'', PStr g),
       (''Address'', PStr ad), (''Phone'', PStr ph), (''Email'', PStr e), (''EnrollmentYear'', PInt y),
       (''Major'', PStr mj)] = Inr (the (table_columns ''students''))"
    by (simp add: known_columns_def table_columns_def)
  have rid: "(case auto_column ''students'' of Some c \<Rightarrow> (case dict_get (student_row ?s) c of PInt i \<Rightarrow> i | _ \<Rightarrow> 0)
             | None \<Rightarrow> 0) = ?n"
    by (simp add: auto_column_def student_row_def dict_get_def)
  have ab: "auto_bump ''students'' ?n (d\<lparr>db_students := db_students d @ [?s]\<rparr>) =
      d\<lparr>db_students := db_students d @ [?s], db_auto := (db_auto d)(''students'' := ?n + 1)\<rparr>"
    by (simp add: auto_bump_def auto_column_def)
  show ?thesis
    unfolding apply_write.simps kc pbind_simps Let_def table_rows_simps row rtd rid ab ..
qed

lemma apply_write_update_enrollment:
  "apply_write (Update ''enrollments'' [(''Grade'', opt_num g), (''GradeLetter'', opt_str l), (''Note'', opt_str n)]
                  [(''StudentID'', PInt sid), (''ClassID'', PInt cid)]) d =
   checked (d\<lparr>db_enrollments := map (enr_set (sid, cid) g l n) (db_enrollments d)\<rparr>)
           (length (filter (\<lambda>x. enr_key x = (sid, cid)) (db_enrollments d)), 0)"
proof -
  let ?E = "db_enrollments d"
  let ?p = "\<lambda>x. enr_key x = (sid, cid)"
  let ?sets = "[(''Grade'', opt_num g), (''GradeLetter'', opt_str l), (''Note'', opt_str n)]"
  have kc: "known_columns ''enrollments'' (?sets @ [(''StudentID'', PInt sid), (''ClassID'', PInt cid)]) =
      Inr (the (table_columns ''enrollments''))"
    by (simp add: known_columns_def table_columns_def)
  have bs: "all_some (map (where_match [(''StudentID'', PInt sid), (''ClassID'', PInt cid)]) (map enrollment_row ?E)) =
      Some (map ?p ?E)"
    by (simp only: map_map where_match_enr_key_comp all_some_Some)
  have rows: "map2 (\<lambda>r b. if b then override ?sets r else r) (map enrollment_row ?E) (map ?p ?E) =
      map enrollment_row (map (enr_set (sid, cid) g l n) ?E)"
    by (simp add: map2_map_same override_enrollment_row enr_set_def)
  show ?thesis
    unfolding apply_write.simps kc pbind_simps Let_def table_rows_simps bs option.case rows
      rows_to_db_enrollment length_filter_id_map ..
qed

lemma apply_write_update_subject:
  "apply_write (Update ''subjects'' [(''SubjectName'', PStr nm), (''Credits'', PInt cr)] [(''SubjectCode'', PStr k)]) d =
   checked (d\<lparr>db_subjects := map (sub_set k nm cr) (db_subjects d)\<rparr>)
           (length (filter (\<lambda>u. sql_str_eq (sub_code u) k) (db_subjects d)), 0)"
proof -
  let ?U = "db_subjects d"
  let ?p = "\<lambda>u. sql_str_eq (sub_code u) k"
  have kc: "known_columns ''subjects'' ([(''SubjectName'', PStr nm), (''Credits'', PInt cr)] @ [(''SubjectCode'', PStr k)]) =
      Inr (the (table_columns ''subjects''))"
    by (simp add: known_columns_def table_columns_def)
  have bs: "all_some (map (where_match [(''SubjectCode'', PStr k)]) (map subject_row ?U)) = Some (map ?p ?U)"
    by (simp only: map_map where_match_subject_code_comp all_some_Some)
  have rows: "map2 (\<lambda>r b. if b then override [(''SubjectName'', PStr nm), (''Credits'', PInt cr)] r else r)
      (map subject_row ?U) (map ?p ?U) = map subject_row (map (sub_set k nm cr) ?U)"
    by (simp add: map2_map_same override_subject_row sub_set_def)
  show ?thesis
    unfolding apply_write.simps kc pbind_simps Let_def table_rows_simps bs option.case rows
      rows_to_db_subject length_filter_id_map ..
qed

lemma db_wf_enr_set:
  assumes "db_wf d" "grade_ok g"
  shows "db_wf (d\<lparr>db_enrollments := map (enr_set k g l n) (db_enrollments d)\<rparr>)"
proof -
  have key: "enr_key (enr_set k g l n x) = enr_key x" "enr_student (enr_set k g l n x) = enr_student x"
       "enr_class (enr_set k g l n x) = enr_class x" for x
    by (simp_all add: enr_set_def enr_key_def)
  have kc: "enr_key \<circ> enr_set k g l n = enr_key"
    by (simp add: fun_eq_iff key)
  have gr: "grade_ok (enr_grade x) \<Longrightarrow> grade_ok (enr_grade (enr_set k g l n x))" for x
    using assms(2) by (simp add: enr_set_def)
  show ?thesis using assms(1)
    by (auto simp: db_wf_defs key kc gr split: option.splits)
qed

lemma db_wf_add_student:
  assumes "db_wf d" "stu_id s \<notin> stu_id ` set (db_students d)"
    "\<forall>s' \<in> set (db_students d). coll (stu_email s') \<noteq> coll (stu_email s)"
  shows "db_wf (d\<lparr>db_students := db_students d @ [s]\<rparr>)"
  using assms by (auto simp: db_wf_defs distinct_map_snoc image_iff split: option.splits)

lemma keys_dup_student:
  assumes "s' \<in> set (db_students d)" "coll (stu_email s') = coll (stu_email s)"
  shows "\<not> keys_ok (d\<lparr>db_students := db_students d @ [s]\<rparr>)"
  using assms by (auto simp: keys_ok_def distinct_map_snoc image_iff) (metis assms(2))

lemma table_rows_upd:
  "table_rows (d\<lparr>db_students := xs\<rparr>) t = (if t = ''students'' then map student_row xs else table_rows d t)"
  "table_rows (d\<lparr>db_subjects := us\<rparr>) t = (if t = ''subjects'' then map subject_row us else table_rows d t)"
  "table_rows (d\<lparr>db_lecturers := ls\<rparr>) t = (if t = ''lecturers'' then map lecturer_row ls else table_rows d t)"
  "table_rows (d\<lparr>db_classes := cs\<rparr>) t = (if t = ''classes'' then map class_row cs else table_rows d t)"
  "table_rows (d\<lparr>db_enrollments := es\<rparr>) t = (if t = ''enrollments'' then map enrollment_row es else table_rows d t)"
  by (simp_all add: table_rows_def)

lemma rows_to_db_rows:
  assumes "rows_to_db d t rs = Inr d'"
  shows "length (table_rows d' t) = length rs \<and> (\<forall>t'. t' \<noteq> t \<longrightarrow> table_rows d' t' = table_rows d t')"
proof -
  consider (s) xs where "t = ''students''" "map_res student_of_row rs = Inr xs" "d' = d\<lparr>db_students := xs\<rparr>"
    | (u) xs where "t = ''subjects''" "map_res subject_of_row rs = Inr xs" "d' = d\<lparr>db_subjects := xs\<rparr>"
    | (l) xs where "t = ''lecturers''" "map_res lecturer_of_row rs = Inr xs" "d' = d\<lparr>db_lecturers := xs\<rparr>"
    | (c) xs where "t = ''classes''" "map_res class_of_row rs = Inr xs" "d' = d\<lparr>db_classes := xs\<rparr>"
    | (e) xs where "t = ''enrollments''" "map_res enrollment_of_row rs = Inr xs" "d' = d\<lparr>db_enrollments := xs\<rparr>"
    using assms unfolding rows_to_db_def by (auto simp: pbind_Inr_iff split: if_splits)
  then show ?thesis
    by cases (auto simp: table_rows_upd map_res_Inr_iff dest: list_all2_lengthD)
qed

lemma cascade_rows:
  "length (table_rows (cascade t gone d) t') \<le> length (table_rows d t')"
  by (simp add: cascade_def table_rows_def)

lemma all_some_length: "all_some xs = Some ys \<Longrightarrow> length ys = length xs"
  by (auto simp: all_some_def split: if_splits)

lemma checked_Inr: "checked d'' x = Inr (r, d') \<Longrightarrow> d' = d''"
  by (simp add: checked_def split: if_splits)

lemma table_rows_auto_bump [simp]: "table_rows (auto_bump t i d) t' = table_rows d t'"
  by (simp add: auto_bump_def table_rows_def split: option.split)

lemma apply_write_update_students_rows:
  assumes "apply_write (Update ''students'' sets w) d = Inr (r, d')" "x \<in> set (db_students d')" "x \<notin> set (db_students d)"
  shows "\<exists>y \<in> set (db_students d). student_of_row (override sets (student_row y)) = Inr x"
proof -
  from assms(1) obtain bs xs where
      bs: "all_some (map (where_match w) (map student_row (db_students d))) = Some bs" and
      xs: "map_res student_of_row (map2 (\<lambda>r b. if b then override sets r else r) (map student_row (db_students d)) bs) = Inr xs" and
      d': "db_students d' = xs"
    by (auto simp: pbind_Inr_iff Let_def table_rows_def rows_to_db_def split: option.splits dest!: checked_Inr)
  have l2: "list_all2 (\<lambda>r x. student_of_row r = Inr x)
      (map2 (\<lambda>r b. if b then override sets r else r) (map student_row (db_students d)) bs) xs"
    using xs by (simp add: map_res_Inr_iff)
  have len: "length bs = length (db_students d)" using all_some_length[OF bs] by simp
  obtain i where i: "i < length xs" "x = xs ! i" using assms(2) d' by (auto simp: in_set_conv_nth)
  have il: "i < length (db_students d)" using i(1) list_all2_lengthD[OF l2] len by simp
  have "student_of_row (if bs ! i then override sets (student_row (db_students d ! i)) else student_row (db_students d ! i)) = Inr x"
    using list_all2_nthD[OF l2, of i] i il len by simp
  then show ?thesis using assms(3) il by (intro bexI[of _ "db_students d ! i"]) (auto split: if_splits)
qed

lemma shrinks_all: "(\<And>t'. length (table_rows d' t') \<le> length (table_rows d t')) \<Longrightarrow> shrinks d d'"
  by (simp add: shrinks_def)

lemma shrinks_only:
  assumes "\<And>t'. t' \<noteq> t \<Longrightarrow> table_rows d' t' = table_rows d t'" "length (table_rows d' t) \<le> length (table_rows d t)"
  shows "shrinks d d'"
proof (rule shrinks_all)
  fix t' show "length (table_rows d' t') \<le> length (table_rows d t')"
    using assms by (cases "t' = t") auto
qed

lemma apply_write_shrinks:
  assumes "apply_write w d = Inr (r, d')" "case w of Insert t _ \<Rightarrow> t = ''students'' | _ \<Rightarrow> True"
  shows "shrinks d d'"
proof (cases w)
  case (Insert t kvs)
  from assms(1) obtain rs d'' i where r: "rows_to_db d t rs = Inr d''" and "d' = auto_bump t i d''"
    using Insert by (auto simp: pbind_Inr_iff Let_def dest: checked_Inr)
  moreover have "t = ''students''" using assms(2) Insert by simp
  ultimately show ?thesis using rows_to_db_rows[OF r] unfolding shrinks_def by simp
next
  case (Update t sets w')
  from assms(1) obtain bs d'' where
      bs: "all_some (map (where_match w') (table_rows d t)) = Some bs" and
      r: "rows_to_db d t (map2 (\<lambda>r b. if b then override sets r else r) (table_rows d t) bs) = Inr d''" and
      d': "d' = d''"
    using Update by (auto simp: pbind_Inr_iff Let_def split: option.splits dest: checked_Inr)
  show ?thesis
    using rows_to_db_rows[OF r] all_some_length[OF bs] d' by (intro shrinks_only[of t]) auto
next
  case (Delete t w')
  from assms(1) obtain bs d'' where
      bs: "all_some (map (where_match w') (table_rows d t)) = Some bs" and
      r: "rows_to_db d t (map fst (filter (Not \<circ> snd) (zip (table_rows d t) bs))) = Inr d''" and
      d': "d' = cascade t (map fst (filter snd (zip (table_rows d t) bs))) d''"
    using Delete by (auto simp: pbind_Inr_iff Let_def split: option.splits dest: checked_Inr)
  have "length (table_rows d'' t'') \<le> length (table_rows d t'')" for t''
  proof (cases "t'' = t")
    case True
    have "length (map fst (filter (Not \<circ> snd) (zip (table_rows d t) bs))) \<le> length (table_rows d t)"
      using length_filter_le[of "Not \<circ> snd" "zip (table_rows d t) bs"] by (simp add: min_def split: if_splits)
    then show ?thesis using rows_to_db_rows[OF r] True by simp
  qed (use rows_to_db_rows[OF r] in simp)
  then show ?thesis unfolding d' by (intro shrinks_all) (rule order_trans[OF cascade_rows])
qed

lemma shrinks_refl: "shrinks d d"
  by (simp add: shrinks_def list_all_iff)

lemma shrinks_trans: "shrinks d1 d2 \<Longrightarrow> shrinks d2 d3 \<Longrightarrow> shrinks d1 d3"
  by (auto simp: shrinks_def)

lemma apply_write_good:
  "apply_write w d = Inr (r, d') \<Longrightarrow> no_foreign_insert w \<Longrightarrow> db_wf d' \<and> shrinks d d'"
  using apply_write_wf[of w d "(r, d')"] apply_write_shrinks[of w d r d'] by (simp add: no_foreign_insert_def)

lemma apply_write_delete_enrollment:
  "apply_write (Delete ''enrollments'' [(''StudentID'', PInt i), (''ClassID'', PInt j)]) d =
   checked (d\<lparr>db_enrollments := filter (\<lambda>x. enr_key x \<noteq> (i, j)) (db_enrollments d)\<rparr>)
           (length (filter (\<lambda>x. enr_key x = (i, j)) (db_enrollments d)), 0)"
proof -
  let ?E = "db_enrollments d"
  let ?p = "\<lambda>x. enr_key x = (i, j)"
  have kc: "known_columns ''enrollments'' [(''StudentID'', PInt i), (''ClassID'', PInt j)] =
      Inr (the (table_columns ''enrollments''))"
    by (simp add: known_columns_def table_columns_def)
  have bs: "all_some (map (where_match [(''StudentID'', PInt i), (''ClassID'', PInt j)]) (map enrollment_row ?E)) =
      Some (map ?p ?E)"
    by (simp only: map_map where_match_enr_key_comp all_some_Some)
  have kept: "rows_to_db d ''enrollments'' (map fst (filter (Not \<circ> snd) (zip (map enrollment_row ?E) (map ?p ?E)))) =
      Inr (d\<lparr>db_enrollments := filter (\<lambda>x. \<not> ?p x) ?E\<rparr>)"
    by (simp only: zip_map_filter rows_to_db_enrollment) (simp add: comp_def)
  have casc: "cascade ''enrollments'' gone D = D" for gone D
    by (simp add: cascade_def)
  show ?thesis
    unfolding apply_write.simps kc pbind_simps Let_def table_rows_simps bs option.case kept casc
      length_filter_id_map by simp
qed


lemma rows_to_db_lecturer: "rows_to_db d ''lecturers'' (map lecturer_row xs) = Inr (d\<lparr>db_lecturers := xs\<rparr>)"
  by (simp add: rows_to_db_def map_res_map)

lemma where_match_lecturer_id_comp:
  "where_match [(''LecturerID'', PInt i)] \<circ> lecturer_row = (\<lambda>x. Some (lec_id x = i))"
  by (simp add: fun_eq_iff where_match_def all_some_def lecturer_row_def dict_get_def)

lemma apply_write_update_lecturer:
  "apply_write (Update ''lecturers'' [(''LecturerFirstName'', PStr a), (''LecturerLastName'', PStr b),
      (''LecturerEmail'', opt_str e), (''Office'', opt_str ofc)] [(''LecturerID'', PInt i)]) d =
   checked (d\<lparr>db_lecturers := map (lec_set i a b e ofc) (db_lecturers d)\<rparr>)
           (length (filter (\<lambda>x. lec_id x = i) (db_lecturers d)), 0)"
proof -
  let ?L = "db_lecturers d"
  let ?sets = "[(''LecturerFirstName'', PStr a), (''LecturerLastName'', PStr b), (''LecturerEmail'', opt_str e), (''Office'', opt_str ofc)]"
  have kc: "known_columns ''lecturers'' (?sets @ [(''LecturerID'', PInt i)]) = Inr (the (table_columns ''lecturers''))"
    by (simp add: known_columns_def table_columns_def)
  have bs: "all_some (map (where_match [(''LecturerID'', PInt i)]) (map lecturer_row ?L)) = Some (map (\<lambda>x. lec_id x = i) ?L)"
    by (simp only: map_map where_match_lecturer_id_comp all_some_Some)
  have rows: "map2 (\<lambda>r b. if b then override ?sets r else r) (map lecturer_row ?L) (map (\<lambda>x. lec_id x = i) ?L) =
      map lecturer_row (map (lec_set i a b e ofc) ?L)"
    by (simp add: map2_map_same override_def lecturer_row_def lec_set_def)
  show ?thesis
    unfolding apply_write.simps kc pbind_simps Let_def table_rows_simps bs option.case rows
      rows_to_db_lecturer length_filter_id_map ..
qed

lemma coll_Nil_iff [simp]: "coll y = [] \<longleftrightarrow> y = []" "coll [] = []"
  by (simp_all add: coll_def py_lower_def)

lemma integrity_error_not_validation [simp]: "integrity_error d' \<noteq> ValidationError m"
  by (simp add: integrity_error_def)

lemma lec_set_id [simp]: "lec_id (lec_set i a b e ofc x) = lec_id x"
  by (simp add: lec_set_def)

lemma lec_id_comp_lec_set [simp]: "lec_id \<circ> lec_set i a b e ofc = lec_id"
  by (simp add: fun_eq_iff)

lemma lec_id_image_lec_set [simp]: "lec_id ` lec_set i a b e ofc ` S = lec_id ` S"
  by (simp add: image_image)

lemma map_lec_set_other: "i \<notin> lec_id ` set xs \<Longrightarrow> map (lec_set i a b e ofc) xs = xs"
  by (induction xs) (auto simp: lec_set_def)

lemma set_map_filter_eq: "set (List.map_filter f xs) = {y. \<exists>x \<in> set xs. f x = Some y}"
  by (induction xs) (auto simp: map_filter_simps split: option.splits)

lemma distinct_email_lec_set:
  assumes "distinct (map lec_id L)" "distinct (map coll (List.map_filter lec_email L))"
    "\<forall>x \<in> set L. \<forall>y. lec_email x = Some y \<longrightarrow> coll y \<noteq> coll e"
  shows "distinct (map coll (List.map_filter lec_email (map (lec_set i a b (Some e) ofc) L)))"
  using assms
proof (induction L)
  case (Cons x xs)
  then have IH: "distinct (map coll (List.map_filter lec_email (map (lec_set i a b (Some e) ofc) xs)))"
    by (simp add: map_filter_simps split: option.splits)
  show ?case
  proof (cases "lec_id x = i")
    case True
    then have tl: "map (lec_set i a b (Some e) ofc) xs = xs"
      using Cons.prems(1) by (intro map_lec_set_other) auto
    have hd: "lec_email (lec_set i a b (Some e) ofc x) = Some e"
      using True by (simp add: lec_set_def)
    have "coll e \<notin> coll ` set (List.map_filter lec_email xs)"
      using Cons.prems(3) by (auto simp: set_map_filter_eq)
    then show ?thesis
      using IH by (simp add: tl hd map_filter_simps)
  next
    case False
    then have hd: "lec_set i a b (Some e) ofc x = x" by (simp add: lec_set_def)
    have sub: "set (List.map_filter lec_email (map (lec_set i a b (Some e) ofc) xs)) \<subseteq>
               insert e (set (List.map_filter lec_email xs))"
      by (auto simp: set_map_filter_eq lec_set_def)
    show ?thesis
    proof (cases "lec_email x")
      case None
      with IH show ?thesis by (simp add: hd map_filter_simps)
    next
      case (Some y)
      then have "coll y \<notin> coll ` set (List.map_filter lec_email xs)" "coll y \<noteq> coll e"
        using Cons.prems(2,3) by (auto simp: map_filter_simps)
      with sub have "coll y \<notin> coll ` set (List.map_filter lec_email (map (lec_set i a b (Some e) ofc) xs))"
        by blast
      with Some IH show ?thesis by (simp add: hd map_filter_simps)
    qed
  qed
qed simp

lemma email_clash_not_distinct:
  assumes "x \<in> set L" "y \<in> set L" "lec_id x \<noteq> lec_id y" "lec_email x = Some e" "lec_email y = Some e'" "coll e = coll e'"
  shows "\<not> distinct (map coll (List.map_filter lec_email L))"
  using assms
proof (induction L)
  case (Cons z zs)
  show ?case
  proof (cases "z = x")
    case True
    then have "y \<in> set zs" using Cons.prems(2,3) by auto
    then have "coll e' \<in> coll ` set (List.map_filter lec_email zs)" using Cons.prems(5) by (force simp: set_map_filter_eq)
    then show ?thesis using True Cons.prems(4,6) by (simp add: map_filter_simps)
  next
    case zx: False
    show ?thesis
    proof (cases "z = y")
      case True
      then have "x \<in> set zs" using Cons.prems(1,3) zx by auto
      then have "coll e \<in> coll ` set (List.map_filter lec_email zs)" using Cons.prems(4) by (force simp: set_map_filter_eq)
      then show ?thesis using True Cons.prems(5,6) by (simp add: map_filter_simps)
    next
      case False
      then have "\<not> distinct (map coll (List.map_filter lec_email zs))" using Cons zx by simp
      then show ?thesis by (simp add: map_filter_simps split: option.splits)
    qed
  qed
qed simp

lemma db_wf_lec_set:
  assumes "db_wf d" "\<forall>x \<in> set (db_lecturers d). \<forall>y. lec_email x = Some y \<longrightarrow> coll y \<noteq> coll e"
  shows "db_wf (d\<lparr>db_lecturers := map (lec_set i a b (Some e) ofc) (db_lecturers d)\<rparr>)"
  using assms distinct_email_lec_set[of "db_lecturers d" e i a b ofc] by (auto simp: db_wf_defs split: option.splits)

lemma where_match_class_id_comp:
  "where_match [(''ClassID'', PInt i)] \<circ> class_row = (\<lambda>x. Some (cls_id x = i))"
  by (simp add: fun_eq_iff where_match_def all_some_def class_row_def dict_get_def)

lemma rows_to_db_class: "rows_to_db d ''classes'' (map class_row xs) = Inr (d\<lparr>db_classes := xs\<rparr>)"
  by (simp add: rows_to_db_def map_res_map)

lemma apply_write_update_class:
  "apply_write (Update ''classes'' [(''SubjectCode'', PStr u), (''LecturerID'', opt_int lec), (''ClassName'', opt_str nm),
      (''Semester'', PStr sem), (''Year'', PInt y), (''MaxCapacity'', PInt cap)] [(''ClassID'', PInt i)]) d =
   checked (d\<lparr>db_classes := map (cls_set i u lec nm sem y cap) (db_classes d)\<rparr>)
           (length (filter (\<lambda>x. cls_id x = i) (db_classes d)), 0)"
proof -
  let ?C = "db_classes d"
  let ?sets = "[(''SubjectCode'', PStr u), (''LecturerID'', opt_int lec), (''ClassName'', opt_str nm),
      (''Semester'', PStr sem), (''Year'', PInt y), (''MaxCapacity'', PInt cap)]"
  have kc: "known_columns ''classes'' (?sets @ [(''ClassID'', PInt i)]) = Inr (the (table_columns ''classes''))"
    by (simp add: known_columns_def table_columns_def)
  have bs: "all_some (map (where_match [(''ClassID'', PInt i)]) (map class_row ?C)) = Some (map (\<lambda>x. cls_id x = i) ?C)"
    by (simp only: map_map where_match_class_id_comp all_some_Some)
  have rows: "map2 (\<lambda>r b. if b then override ?sets r else r) (map class_row ?C) (map (\<lambda>x. cls_id x = i) ?C) =
      map class_row (map (cls_set i u lec nm sem y cap) ?C)"
    by (simp add: map2_map_same override_def class_row_def cls_set_def)
  show ?thesis
    unfolding apply_write.simps kc pbind_simps Let_def table_rows_simps bs option.case rows
      rows_to_db_class length_filter_id_map ..
qed

lemma db_wf_map_classes:
  assumes "\<And>x. cls_id (f x) = cls_id x" "\<And>x. cls_subject (f x) = cls_subject x" "\<And>x. cls_lecturer (f x) = cls_lecturer x"
  shows "db_wf (d\<lparr>db_classes := map f (db_classes d)\<rparr>) = db_wf d"
proof -
  have "cls_id \<circ> f = cls_id" by (simp add: fun_eq_iff assms)
  moreover have "cls_id ` f ` S = cls_id ` S" for S unfolding image_image assms by simp
  ultimately show ?thesis by (simp add: db_wf_defs assms cong: option.case_cong)
qed

end
