(* ===== verification/Validators.thy ===== *)
theory Validators
  imports Storage
begin

text \<open>
  The validation layer, \<open>src/final/validators.py\<close> (class \<open>Validators\<close>). Each static
  method is one definition returning \<open>'a res\<close>: \<open>Inl (ValidationError msg)\<close> for the
  method's own \<open>raise\<close>, and the Python exception (\<open>KeyError\<close>, \<open>TypeError\<close>,
  \<open>AttributeError\<close>, \<open>OverflowError\<close>) where a built-in it calls raises one the method does
  not catch. The two uniqueness checks read the storage (\<open>db option\<close>, see \<open>Storage\<close>).
  \<open>date.today().year\<close> and \<open>datetime.now().year\<close> are the parameter \<open>cur_year\<close>.
  The regular expressions are matched by executable recognisers, each proved equal to the
  language of its pattern; \<open>$\<close> also matches before a final newline, as in Python.
\<close>

section \<open>Regular expressions of the validators\<close>

text \<open>\<open>[\w\.-]\<close>\<close>

definition email_char :: "char \<Rightarrow> bool" where
  "email_char c \<longleftrightarrow> is_word c \<or> c = CHR ''.'' \<or> c = CHR ''-''"

text \<open>The language of \<open>[\w\.-]+@[\w\.-]+\.\w+\<close>.\<close>

definition email_lang :: "string \<Rightarrow> bool" where
  "email_lang s \<longleftrightarrow> (\<exists>l d w. s = l @ CHR ''@'' # d @ CHR ''.'' # w \<and>
      l \<noteq> [] \<and> list_all email_char l \<and> d \<noteq> [] \<and> list_all email_char d \<and>
      w \<noteq> [] \<and> list_all is_word w)"

text \<open>The recogniser: the local part ends at the first \<open>@\<close>, the top-level label starts
  after the last dot.\<close>

definition email_core :: "string \<Rightarrow> bool" where
  "email_core s =
     (let l = takeWhile (\<lambda>c. c \<noteq> CHR ''@'') s; r = dropWhile (\<lambda>c. c \<noteq> CHR ''@'') s in
      case r of
        [] \<Rightarrow> False
      | _ # rest \<Rightarrow>
          (let w = rev (takeWhile (\<lambda>c. c \<noteq> CHR ''.'') (rev rest));
               dd = rev (dropWhile (\<lambda>c. c \<noteq> CHR ''.'') (rev rest))
           in l \<noteq> [] \<and> list_all email_char l \<and> w \<noteq> [] \<and> list_all is_word w \<and>
              dd \<noteq> [] \<and> butlast dd \<noteq> [] \<and> list_all email_char (butlast dd)))"

text \<open>\<open>re.match(pattern, s)\<close> for a pattern \<open>^p$\<close>.\<close>

definition anchored :: "(string \<Rightarrow> bool) \<Rightarrow> string \<Rightarrow> bool" where
  "anchored p s \<longleftrightarrow> p s \<or> (s \<noteq> [] \<and> last s = CHR ''\<newline>'' \<and> p (butlast s))"

definition email_match :: "string \<Rightarrow> bool" where
  "email_match s = anchored email_core s"

text \<open>\<open>^[A-Z]+\d+$\<close>\<close>

definition subject_code_core :: "string \<Rightarrow> bool" where
  "subject_code_core s =
     (let a = takeWhile is_upper s; b = dropWhile is_upper s in
      a \<noteq> [] \<and> b \<noteq> [] \<and> list_all is_digit b)"

definition subject_code_match :: "string \<Rightarrow> bool" where
  "subject_code_match s = anchored subject_code_core s"

section \<open>\<open>datetime.strptime(dob, "%Y-%m-%d")\<close>\<close>

text \<open>
  CPython's \<open>_strptime\<close> turns the format into the regular expression
  \<open>(\d\d\d\d)-(1[0-2]|0[1-9]|[1-9])-(3[01]|[12]\d|0[1-9]|[1-9]| [1-9])\<close>, matches it at the
  start of the string, takes the first match in the order of the alternatives, raises
  \<open>ValueError\<close> if input remains after it, and then builds the date, which raises
  \<open>ValueError\<close> for a day the month does not have or for year 0.
\<close>

definition digit_val :: "char \<Rightarrow> nat" where
  "digit_val c = of_char c - 48"

definition month_alts :: "string \<Rightarrow> (nat \<times> string) list" where
  "month_alts s =
     (case s of
        a # b # r \<Rightarrow> (if a = CHR ''1'' \<and> b \<in> {CHR ''0'', CHR ''1'', CHR ''2''} then [(10 + digit_val b, r)] else [])
                   @ (if a = CHR ''0'' \<and> is_digit b \<and> b \<noteq> CHR ''0'' then [(digit_val b, r)] else [])
      | _ \<Rightarrow> [])
   @ (case s of a # r \<Rightarrow> if is_digit a \<and> a \<noteq> CHR ''0'' then [(digit_val a, r)] else [] | [] \<Rightarrow> [])"

definition day_alts :: "string \<Rightarrow> (nat \<times> string) list" where
  "day_alts s =
     (case s of
        a # b # r \<Rightarrow> (if a = CHR ''3'' \<and> b \<in> {CHR ''0'', CHR ''1''} then [(30 + digit_val b, r)] else [])
                   @ (if (a = CHR ''1'' \<or> a = CHR ''2'') \<and> is_digit b then [(10 * digit_val a + digit_val b, r)] else [])
                   @ (if a = CHR ''0'' \<and> is_digit b \<and> b \<noteq> CHR ''0'' then [(digit_val b, r)] else [])
      | _ \<Rightarrow> [])
   @ (case s of a # r \<Rightarrow> if is_digit a \<and> a \<noteq> CHR ''0'' then [(digit_val a, r)] else [] | [] \<Rightarrow> [])
   @ (case s of a # b # r \<Rightarrow> if a = CHR '' '' \<and> is_digit b \<and> b \<noteq> CHR ''0'' then [(digit_val b, r)] else []
      | _ \<Rightarrow> [])"

definition leap_year :: "nat \<Rightarrow> bool" where
  "leap_year y \<longleftrightarrow> 4 dvd y \<and> (\<not> 100 dvd y \<or> 400 dvd y)"

definition days_in_month :: "nat \<Rightarrow> nat \<Rightarrow> nat" where
  "days_in_month y m =
     (if m = 2 then (if leap_year y then 29 else 28)
      else if m \<in> {4, 6, 9, 11} then 30 else 31)"

definition valid_date :: "nat \<Rightarrow> nat \<Rightarrow> nat \<Rightarrow> bool" where
  "valid_date y m d \<longleftrightarrow> 1 \<le> y \<and> 1 \<le> m \<and> m \<le> 12 \<and> 1 \<le> d \<and> d \<le> days_in_month y m"

definition strptime_ymd :: "string \<Rightarrow> (nat \<times> nat \<times> nat) option" where
  "strptime_ymd s =
     (case s of
        y1 # y2 # y3 # y4 # c # r \<Rightarrow>
          if list_all is_digit [y1, y2, y3, y4] \<and> c = CHR ''-'' then
            (case [(m, d, rest). (m, r') \<leftarrow> month_alts r, r' \<noteq> [] \<and> hd r' = CHR ''-'',
                                 (d, rest) \<leftarrow> day_alts (tl r')] of
               [] \<Rightarrow> None
             | (m, d, rest) # _ \<Rightarrow>
                 (let y = digits_val [y1, y2, y3, y4] in
                  if rest = [] \<and> valid_date y m d then Some (y, m, d) else None))
          else None
      | _ \<Rightarrow> None)"

section \<open>Field validators\<close>

text \<open>\<open>is_empty(value, field_name)\<close>, lines 16--20.\<close>

definition is_empty :: "pyval \<Rightarrow> string \<Rightarrow> unit res" where
  "is_empty v field =
     raise_if (v = PNone \<or> (case v of PStr s \<Rightarrow> py_strip s = [] | _ \<Rightarrow> False))
       (field @ '' is required and must not be empty.'')"

text \<open>\<open>check_unique(table, column, value, current_id, id_column)\<close>, lines 22--41.\<close>

definition check_unique ::
  "db option \<Rightarrow> string \<Rightarrow> string \<Rightarrow> pyval \<Rightarrow> pyval \<Rightarrow> string option \<Rightarrow> unit res" where
  "check_unique st table column value current_id id_column =
     (if \<not> truthy value then Inr ()
      else
        let id_col = (case id_column of Some c \<Rightarrow> if c \<noteq> [] then c else table @ ''ID''
                                      | None \<Rightarrow> table @ ''ID'');
            excl = (if current_id \<noteq> PNone then Some (id_col, current_id) else None)
        in raise_if (execute_exists st (\<lambda>d. select_exists d table column value excl))
             (column @ '' already exists in the system.''))"

text \<open>\<open>validate_full_name(full_name)\<close>, lines 46--56.\<close>

definition validate_full_name :: "pyval \<Rightarrow> (string \<times> string) res" where
  "validate_full_name v =
     pbind (is_empty v ''Full Name'') (\<lambda>_.
       case v of
         PStr s \<Rightarrow>
           if CHR '' '' \<notin> set (py_strip s) then Inl (ValidationError ''Full name must contain first and last name'')
           else (let parts = py_split (py_strip s) in Inr (hd parts, py_join '' '' (tl parts)))
       | _ \<Rightarrow> Inl (AttributeError ''object has no attribute strip''))"

text \<open>\<open>validate_email(email, table, current_id)\<close>, lines 58--69.\<close>

definition validate_email :: "db option \<Rightarrow> pyval \<Rightarrow> string \<Rightarrow> pyval \<Rightarrow> string res" where
  "validate_email st v table current_id =
     pbind (is_empty v ''Email'') (\<lambda>_.
       case v of
         PStr e \<Rightarrow>
           if \<not> email_match e then Inl (ValidationError ''Invalid email format'')
           else
             (let id_col = (if table = ''students'' then ''StudentID'' else ''LecturerID'') in
              pbind (check_unique st table ''Email'' v current_id (Some id_col)) (\<lambda>_. Inr e))
       | _ \<Rightarrow> Inl (TypeError ''expected string or bytes-like object''))"

text \<open>\<open>validate_dob(dob)\<close>, lines 71--83.\<close>

definition validate_dob :: "int \<Rightarrow> pyval \<Rightarrow> string res" where
  "validate_dob cur_year v =
     pbind (is_empty v ''Birthdate'') (\<lambda>_.
       case v of
         PStr s \<Rightarrow>
           (case strptime_ymd s of
              None \<Rightarrow> Inl (ValidationError ''DOB must be YYYY-MM-DD'')
            | Some (y, m, d) \<Rightarrow>
                (let age = cur_year - int y in
                 if age < 15 \<or> age > 80 then Inl (ValidationError ''Age must be between 15 and 80 years old.'')
                 else Inr s))
       | _ \<Rightarrow> Inl (TypeError ''strptime() argument 1 must be str''))"

text \<open>\<open>validate_gender(gender)\<close>, lines 85--96.\<close>

definition gender_map :: "(string \<times> string) list" where
  "gender_map = [(''Male'', ''M''), (''Female'', ''F''), (''Other'', ''O''),
                 (''M'', ''M''), (''F'', ''F''), (''O'', ''O'')]"

definition validate_gender :: "pyval \<Rightarrow> string res" where
  "validate_gender v =
     pbind (is_empty v ''Gender'') (\<lambda>_.
       case v of
         PStr g \<Rightarrow>
           if g \<notin> fst ` set gender_map \<and> g \<notin> snd ` set gender_map
           then Inl (ValidationError ''Gender must be Male, Female, or Other.'')
           else Inr (case map_of gender_map g of Some x \<Rightarrow> x | None \<Rightarrow> g)
       | _ \<Rightarrow> Inl (ValidationError ''Gender must be Male, Female, or Other.''))"

text \<open>\<open>validate_year(val)\<close>, lines 98--109: only \<open>ValueError\<close> of \<open>int()\<close> is caught.\<close>

definition validate_year :: "int \<Rightarrow> pyval \<Rightarrow> int res" where
  "validate_year cur_year v =
     pbind (is_empty v ''Year'') (\<lambda>_.
       case py_int v of
         Inl (ValueError _) \<Rightarrow> Inl (ValidationError ''Year must be a number.'')
       | Inl e \<Rightarrow> Inl e
       | Inr y \<Rightarrow> if y < 1990 \<or> y > cur_year + 5 then Inl (ValidationError ''Invalid year range.'') else Inr y)"

text \<open>\<open>validate_subject_code(code, is_new)\<close>, lines 111--125.\<close>

definition validate_subject_code :: "db option \<Rightarrow> pyval \<Rightarrow> bool \<Rightarrow> string res" where
  "validate_subject_code st v is_new =
     pbind (is_empty v ''Subject Code'') (\<lambda>_.
       case v of
         PStr s \<Rightarrow>
           (let code = py_upper (py_strip s) in
            if \<not> subject_code_match code
            then Inl (ValidationError ''Subject code must be LETTERS+NUMBERS (e.g., CS101)'')
            else if is_new
            then pbind (check_unique st ''subjects'' ''SubjectCode'' (PStr code) PNone (Some ''SubjectCode'')) (\<lambda>_. Inr code)
            else Inr code)
       | _ \<Rightarrow> Inl (AttributeError ''object has no attribute strip''))"

text \<open>\<open>validate_grade(grade, min_val, max_val)\<close>, lines 127--141. \<open>str(x).strip() == ""\<close>
  holds only for blank strings: \<open>str\<close> of a number or a bool is never blank.\<close>

definition str_blank :: "pyval \<Rightarrow> bool" where
  "str_blank v = (case v of PStr s \<Rightarrow> py_strip s = [] | _ \<Rightarrow> False)"

definition validate_grade :: "rat \<Rightarrow> rat \<Rightarrow> pyval \<Rightarrow> pyfloat option res" where
  "validate_grade lo hi v =
     (if v = PNone \<or> str_blank v then Inr None
      else case py_float v of
             Inl (ValueError _) \<Rightarrow> Inl (ValidationError ''Grade must be a number.'')
           | Inl e \<Rightarrow> Inl e
           | Inr g \<Rightarrow>
               if flt_lt g (Fin lo) \<or> flt_lt (Fin hi) g
               then Inl (ValidationError ''Grade must be between min_val and max_val'')
               else Inr (Some (py_round_float g)))"


section \<open>Record validators\<close>

text \<open>\<open>data.get(key, default)\<close>\<close>

definition dict_get_default :: "pydict \<Rightarrow> string \<Rightarrow> pyval \<Rightarrow> pyval" where
  "dict_get_default d k dflt = (case map_of d k of None \<Rightarrow> dflt | Some v \<Rightarrow> v)"

text \<open>\<open>x.strip()\<close> on a value that may not be a string.\<close>

definition strip_val :: "pyval \<Rightarrow> string res" where
  "strip_val v = (case v of PStr s \<Rightarrow> Inr (py_strip s) | _ \<Rightarrow> Inl (AttributeError ''object has no attribute strip''))"

text \<open>\<open>validate_student_data(data, student_id)\<close>, lines 147--178: the checks in the order
  of the code, the first failure wins.\<close>

definition validate_student_data :: "int \<Rightarrow> db option \<Rightarrow> pydict \<Rightarrow> pyval \<Rightarrow> pydict res" where
  "validate_student_data cur_year st data student_id =
     pbind (is_empty (dict_get data ''FirstName'') ''First Name'') (\<lambda>_.
     pbind (is_empty (dict_get data ''LastName'') ''Last Name'') (\<lambda>_.
     pbind (dict_getitem data ''Email'') (\<lambda>e0.
     pbind (validate_email st e0 ''students'' student_id) (\<lambda>email.
     pbind (dict_getitem data ''DOB'') (\<lambda>d0.
     pbind (validate_dob cur_year d0) (\<lambda>dob.
     pbind (dict_getitem data ''Gender'') (\<lambda>g0.
     pbind (validate_gender g0) (\<lambda>gender.
     pbind (dict_getitem data ''EnrollmentYear'') (\<lambda>y0.
     pbind (validate_year cur_year y0) (\<lambda>enrollment_year.
     pbind (dict_getitem data ''FirstName'') (\<lambda>fn.
     pbind (dict_getitem data ''LastName'') (\<lambda>ln.
       Inr [(''FirstName'', fn), (''LastName'', ln), (''Email'', PStr email), (''DOB'', PStr dob),
            (''Gender'', PStr gender), (''EnrollmentYear'', PInt enrollment_year),
            (''Address'', dict_get data ''Address''), (''Phone'', dict_get data ''Phone''),
            (''Major'', dict_get data ''Major'')]))))))))))))"

text \<open>\<open>validate_subject_data(data, is_new)\<close>, lines 180--207.\<close>

definition validate_subject_data :: "db option \<Rightarrow> pydict \<Rightarrow> bool \<Rightarrow> pydict res" where
  "validate_subject_data st data is_new =
     pbind (dict_getitem data ''SubjectCode'') (\<lambda>c0.
     pbind (validate_subject_code st c0 is_new) (\<lambda>subject_code.
     pbind (strip_val (dict_get_default data ''SubjectName'' (PStr []))) (\<lambda>name.
     pbind (is_empty (PStr name) ''Subject Name'') (\<lambda>_.
     (let credits0 = dict_get data ''Credits'' in
      pbind (is_empty credits0 ''Credits'') (\<lambda>_.
      pbind (case py_int credits0 of
               Inl (ValueError _) \<Rightarrow> Inl (ValidationError ''Credits must be an integer'')
             | r \<Rightarrow> r) (\<lambda>credits.
      if credits \<le> 0 \<or> credits > 10
      then Inl (ValidationError ''Credits must be a positive integer (1-10)'')
      else Inr [(''SubjectCode'', PStr subject_code), (''SubjectName'', PStr name),
                (''Credits'', PInt credits)])))))))"

text \<open>\<open>SELECT 1 FROM enrollments WHERE StudentID=%s AND ClassID=%s\<close>\<close>

definition enrollment_pair_exists :: "db \<Rightarrow> pyval \<Rightarrow> pyval \<Rightarrow> bool option" where
  "enrollment_pair_exists d sid cid =
     map_option (\<lambda>bs. True \<in> set bs)
       (all_some (map (\<lambda>r. case (sql_eq (dict_get r ''StudentID'') sid, sql_eq (dict_get r ''ClassID'') cid) of
                             (Some a, Some b) \<Rightarrow> Some (a \<and> b) | _ \<Rightarrow> None)
                      (table_rows d ''enrollments'')))"

text \<open>\<open>validate_enrollment_data(data, is_new)\<close>, lines 209--240.\<close>

definition validate_enrollment_data :: "db option \<Rightarrow> pydict \<Rightarrow> bool \<Rightarrow> pydict res" where
  "validate_enrollment_data st data is_new =
     (let student_id = dict_get data ''StudentID''; class_id = dict_get data ''ClassID'' in
      pbind (is_empty student_id ''Student ID'') (\<lambda>_.
      pbind (is_empty class_id ''Class ID'') (\<lambda>_.
      pbind (validate_grade 0 10 (dict_get data ''Grade'')) (\<lambda>grade.
      pbind (raise_if (is_new \<and> execute_exists st (\<lambda>d. enrollment_pair_exists d student_id class_id))
               ''Student is already enrolled in this class!'') (\<lambda>_.
        Inr [(''StudentID'', student_id), (''ClassID'', class_id),
             (''Grade'', case grade of None \<Rightarrow> PNone | Some g \<Rightarrow> PFloat g),
             (''GradeLetter'', dict_get data ''GradeLetter''), (''Note'', dict_get data ''Note'')])))))"


section \<open>Lemmas about the validators\<close>

lemma char_facts [simp]:
  "\<not> email_char (CHR ''@'')" "\<not> is_word (CHR ''.'')" "\<not> is_word (CHR ''@'')"
  "\<not> is_space (CHR ''@'')"
  by (simp_all add: email_char_def char_class_defs)

lemma nonblank_is_empty:
  assumes "x \<in> set e" "\<not> is_space x"
  shows "is_empty (PStr e) f = Inr ()" and "truthy (PStr e)"
  using assms by (auto simp: is_empty_def raise_if_def py_strip_Nil_iff list_all_iff)

subsection \<open>The email pattern\<close>

lemma email_core_at: "email_core s \<Longrightarrow> CHR ''@'' \<in> set s"
proof -
  assume "email_core s"
  then obtain a rest where r: "dropWhile (\<lambda>c. c \<noteq> CHR ''@'') s = a # rest"
    by (auto simp: email_core_def Let_def split: list.splits)
  then have "a = CHR ''@''" using hd_dropWhile[of "\<lambda>c. c \<noteq> CHR ''@''" s] by simp
  moreover have "a \<in> set s" using r by (metis list.set_intros(1) set_dropWhileD)
  ultimately show ?thesis by simp
qed

lemma email_at: "email_match e \<Longrightarrow> CHR ''@'' \<in> set e"
  unfolding email_match_def anchored_def
  by (metis email_core_at in_set_butlastD)

lemmas email_nonblank = nonblank_is_empty[OF email_at char_facts(4)]

text \<open>The recogniser \<open>email_core\<close> used for \<open>re.match\<close> in
  \<open>validate_email\<close> accepts exactly the strings of the pattern
  \<open>[\w\.-]+@[\w\.-]+\.\w+\<close>: a non-empty local part, one \<open>@\<close>, a non-empty domain, a
  dot and a non-empty final label of word characters.\<close>

theorem email_core_lang: "email_core s \<longleftrightarrow> email_lang s"
proof
  assume core: "email_core s"
  define l where "l = takeWhile (\<lambda>c. c \<noteq> CHR ''@'') s"
  obtain a rest where r: "dropWhile (\<lambda>c. c \<noteq> CHR ''@'') s = a # rest"
    using core by (auto simp: email_core_def Let_def split: list.splits)
  have a: "a = CHR ''@''" using hd_dropWhile[of "\<lambda>c. c \<noteq> CHR ''@''" s] r by simp
  have s: "s = l @ CHR ''@'' # rest"
    using takeWhile_dropWhile_id[of "\<lambda>c. c \<noteq> CHR ''@''" s] r a by (simp add: l_def)
  define w' where "w' = takeWhile (\<lambda>c. c \<noteq> CHR ''.'') (rev rest)"
  define dd' where "dd' = dropWhile (\<lambda>c. c \<noteq> CHR ''.'') (rev rest)"
  have conds: "l \<noteq> []" "list_all email_char l" "rev w' \<noteq> []" "list_all is_word (rev w')"
    "rev dd' \<noteq> []" "butlast (rev dd') \<noteq> []" "list_all email_char (butlast (rev dd'))"
    using core r by (simp_all add: email_core_def Let_def l_def w'_def dd'_def)
  obtain t where dd': "dd' = CHR ''.'' # t"
    using conds(5) hd_dropWhile[of "\<lambda>c. c \<noteq> CHR ''.''" "rev rest"]
    by (cases dd') (auto simp: dd'_def)
  have "rest = rev dd' @ rev w'"
    using takeWhile_dropWhile_id[of "\<lambda>c. c \<noteq> CHR ''.''" "rev rest"]
    by (metis rev_append rev_rev_ident w'_def dd'_def)
  then have rest: "rest = rev t @ CHR ''.'' # rev w'" using dd' by simp
  have bl: "butlast (rev dd') = rev t" using dd' by simp
  have "s = l @ CHR ''@'' # rev t @ CHR ''.'' # rev w'" using s rest by simp
  then show "email_lang s"
    unfolding email_lang_def using conds bl
    by (intro exI[of _ l] exI[of _ "rev t"] exI[of _ "rev w'"]) simp
next
  assume "email_lang s"
  then obtain l d w where s: "s = l @ CHR ''@'' # d @ CHR ''.'' # w"
    and c: "l \<noteq> []" "list_all email_char l" "d \<noteq> []" "list_all email_char d"
      "w \<noteq> []" "list_all is_word w"
    unfolding email_lang_def by blast
  have nl: "\<forall>x \<in> set l. x \<noteq> CHR ''@''" using c(2) by (auto simp: list_all_iff)
  have nw: "\<forall>x \<in> set (rev w). x \<noteq> CHR ''.''" using c(6) by (auto simp: list_all_iff)
  have tw: "takeWhile (\<lambda>c. c \<noteq> CHR ''@'') s = l"
    using nl by (simp add: s takeWhile_append2)
  have dw: "dropWhile (\<lambda>c. c \<noteq> CHR ''@'') s = CHR ''@'' # d @ CHR ''.'' # w"
    using nl by (simp add: s dropWhile_append2)
  have rr: "rev (d @ CHR ''.'' # w) = rev w @ CHR ''.'' # rev d" by simp
  have t2: "takeWhile (\<lambda>c. c \<noteq> CHR ''.'') (rev w @ CHR ''.'' # rev d) = rev w"
    using nw by (subst takeWhile_append2) auto
  have d2: "dropWhile (\<lambda>c. c \<noteq> CHR ''.'') (rev w @ CHR ''.'' # rev d) = CHR ''.'' # rev d"
    using nw by (subst dropWhile_append2) auto
  show "email_core s"
    unfolding email_core_def Let_def tw dw using c rr t2 d2 by simp
qed

subsection \<open>Uniqueness checks against the storage\<close>

lemma select_exists_students_email:
  "select_exists d ''students'' ''Email'' (PStr e) None =
     Some (\<exists>s \<in> set (db_students d). sql_str_eq (stu_email s) e)"
  "select_exists d ''students'' ''Email'' (PStr e) (Some (''StudentID'', PInt j)) =
     Some (\<exists>s \<in> set (db_students d). sql_str_eq (stu_email s) e \<and> stu_id s \<noteq> j)"
  by (simp_all add: select_exists_def table_columns_def table_rows_def row_test_def
      student_row_def dict_get_def sql_ne_def comp_def image_iff)

lemma select_exists_lecturers_email: "select_exists d ''lecturers'' ''Email'' v excl = None"
  by (simp add: select_exists_def table_columns_def)

lemma select_exists_subject_code:
  "select_exists d ''subjects'' ''SubjectCode'' (PStr c) None =
     Some (\<exists>u \<in> set (db_subjects d). sql_str_eq (sub_code u) c)"
  by (simp add: select_exists_def table_columns_def table_rows_def row_test_def
      subject_row_def dict_get_def comp_def image_iff)

lemma validate_email_students_eq:
  assumes "email_match e"
  shows "validate_email (Some d) (PStr e) ''students'' cid =
     (if select_exists d ''students'' ''Email'' (PStr e)
           (if cid \<noteq> PNone then Some (''StudentID'', cid) else None) = Some True
      then Inl (ValidationError ''Email already exists in the system.'') else Inr e)"
  using email_nonblank[OF assms] assms
  by (simp add: validate_email_def check_unique_def raise_if_def execute_exists_def split: option.split)

text \<open>Claim C1 (validate_email_duplicate). An email that a student row already has
  (equal under the case-insensitive collation) is rejected when a student is created
  (\<open>current_id\<close> is \<open>None\<close>) or when another student is updated.\<close>

theorem validate_email_duplicate:
  assumes "s \<in> set (db_students d)" "sql_str_eq (stu_email s) e" "email_match e"
    and "cid = PNone \<or> (\<exists>j. cid = PInt j \<and> j \<noteq> stu_id s)"
  shows "validate_email (Some d) (PStr e) ''students'' cid =
           Inl (ValidationError ''Email already exists in the system.'')"
  using assms(4)
proof
  assume c: "cid = PNone"
  have "\<exists>s \<in> set (db_students d). sql_str_eq (stu_email s) e" using assms(1,2) by blast
  then show ?thesis
    unfolding validate_email_students_eq[OF assms(3)] c by (simp add: select_exists_students_email)
next
  assume "\<exists>j. cid = PInt j \<and> j \<noteq> stu_id s"
  then obtain j where j: "cid = PInt j" "j \<noteq> stu_id s" by blast
  have "\<exists>s \<in> set (db_students d). sql_str_eq (stu_email s) e \<and> stu_id s \<noteq> j"
    using assms(1,2) j(2) by auto
  then show ?thesis
    unfolding validate_email_students_eq[OF assms(3)] j(1) by (simp add: select_exists_students_email)
qed

text \<open>Claim C9 (validate_email_keeps_own). On update, a student who resubmits their own
  email is accepted: in a well-formed database no other row has it.\<close>

theorem validate_email_keeps_own:
  assumes "db_wf d" "s \<in> set (db_students d)" "email_match (stu_email s)"
  shows "validate_email (Some d) (PStr (stu_email s)) ''students'' (PInt (stu_id s)) = Inr (stu_email s)"
proof -
  have inj: "inj_on (coll \<circ> stu_email) (set (db_students d))"
    using assms(1) by (simp add: db_wf_defs distinct_map)
  have "\<not> (\<exists>s' \<in> set (db_students d). sql_str_eq (stu_email s') (stu_email s) \<and> stu_id s' \<noteq> stu_id s)"
    using inj assms(2) by (auto simp: sql_str_eq_def inj_on_def)
  then show ?thesis
    unfolding validate_email_students_eq[OF assms(3)] by (simp add: select_exists_students_email)
qed

text \<open>Claim C30 (validate_email_storage_down): When the storage cannot be read, the
  uniqueness check is skipped: \<open>execute_query\<close> returns \<open>None\<close> and \<open>check_unique\<close>
  reads it as ``no such row''. The spec asks for \<open>StorageUnavailable\<close>.\<close>

theorem validate_email_storage_down:
  "email_match e \<Longrightarrow> validate_email None (PStr e) t cid = Inr e"
  using email_nonblank by (simp add: validate_email_def check_unique_def Let_def)

text \<open>Claim C29 (validate_email_lecturers_unchecked). For the \<open>lecturers\<close> table the
  uniqueness query names a column \<open>Email\<close> that the table does not have (it is
  \<open>LecturerEmail\<close>); the SQL error is swallowed and every well-formed email passes.\<close>

theorem validate_email_lecturers_unchecked:
  "email_match e \<Longrightarrow> validate_email st (PStr e) ''lecturers'' cid = Inr e"
  using email_nonblank
  by (simp add: validate_email_def check_unique_def Let_def execute_exists_def
      select_exists_lecturers_email split: option.split)

subsection \<open>Subject codes\<close>

lemma subject_code_match_nonempty: "subject_code_match c \<Longrightarrow> c \<noteq> []"
  by (auto simp: subject_code_match_def anchored_def subject_code_core_def)

lemma upper_strip_nonempty:
  assumes "py_upper (py_strip s) \<noteq> []"
  shows "is_empty (PStr s) f = Inr ()"
  using assms by (auto simp: is_empty_def py_upper_def)

lemma validate_subject_code_new_eq:
  assumes "subject_code_match (py_upper (py_strip s))"
  shows "validate_subject_code (Some d) (PStr s) True =
     (if \<exists>u \<in> set (db_subjects d). sql_str_eq (sub_code u) (py_upper (py_strip s))
      then Inl (ValidationError ''SubjectCode already exists in the system.'')
      else Inr (py_upper (py_strip s)))"
  using assms upper_strip_nonempty[OF subject_code_match_nonempty[OF assms]]
    subject_code_match_nonempty[OF assms]
  by (simp add: validate_subject_code_def check_unique_def raise_if_def select_exists_subject_code)

text \<open>A new subject code is trimmed and upper-cased
  and accepted when no stored subject has it.\<close>

theorem validate_subject_code_fresh:
  assumes "subject_code_match (py_upper (py_strip s))"
    and "\<forall>u \<in> set (db_subjects d). \<not> sql_str_eq (sub_code u) (py_upper (py_strip s))"
  shows "validate_subject_code (Some d) (PStr s) True = Inr (py_upper (py_strip s))"
  using assms by (simp add: validate_subject_code_new_eq)

text \<open>A new subject code that a stored subject
  already has, in any letter case, is rejected.\<close>

theorem validate_subject_code_duplicate:
  assumes "subject_code_match (py_upper (py_strip s))"
    and "u \<in> set (db_subjects d)" "sql_str_eq (sub_code u) (py_upper (py_strip s))"
  shows "validate_subject_code (Some d) (PStr s) True =
           Inl (ValidationError ''SubjectCode already exists in the system.'')"
proof -
  have "\<exists>u \<in> set (db_subjects d). sql_str_eq (sub_code u) (py_upper (py_strip s))"
    using assms(2,3) by blast
  then show ?thesis by (simp add: validate_subject_code_new_eq[OF assms(1)])
qed

subsection \<open>Grades\<close>

lemma py_round2_range:
  assumes "0 \<le> x" "x \<le> 10"
  shows "0 \<le> py_round2 x \<and> py_round2 x \<le> 10"
proof -
  obtain k where k: "py_round2 x = of_int k / 100" using py_round2_hundredths by blast
  have c: "\<bar>of_int k / 100 - x\<bar> \<le> 1/200" using py_round2_close[of x] k by simp
  have lo: "x - 1/200 \<le> of_int k / 100" and hi: "of_int k / 100 \<le> x + 1/200"
    using c unfolding abs_le_iff by linarith+
  have "- 1 < (of_int k :: rat)" using lo assms(1) by linarith
  then have "0 \<le> k" by linarith
  moreover have "(of_int k :: rat) < 1001" using hi assms(2) by linarith
  then have "k \<le> 1000" by linarith
  ultimately show ?thesis using k by simp
qed

text \<open>Claim C10 (validate_grade_result). A grade \<open>validate_grade\<close> accepts is either a
  number of hundredths in \<open>[0, 10]\<close> or \<open>nan\<close>: every comparison with \<open>nan\<close> is false in
  Python, so the range check \<open>grade < min_val or grade > max_val\<close> lets it through.\<close>

theorem validate_grade_result:
  assumes "validate_grade 0 10 v = Inr (Some g)"
  shows "g = NaN \<or> (\<exists>r. g = Fin r \<and> 0 \<le> r \<and> r \<le> 10 \<and> (\<exists>k. r = of_int k / 100))"
proof -
  obtain g0 where g0: "py_float v = Inr g0" "\<not> flt_lt g0 (Fin 0)" "\<not> flt_lt (Fin 10) g0"
    and g: "g = py_round_float g0"
    using assms by (auto simp: validate_grade_def split: if_splits sum.splits pyexc.splits)
  show ?thesis
  proof (cases g0)
    case (Fin x)
    then have "0 \<le> x" "x \<le> 10" using g0 by auto
    then show ?thesis using g Fin py_round2_range py_round2_hundredths by auto
  qed (use g0 g in auto)
qed

text \<open>\<open>validate_grade\<close> returns \<open>None\<close> (no grade) exactly
  for a missing value or a blank string; any other input is a number or an error.\<close>

theorem validate_grade_none_iff:
  "validate_grade lo hi v = Inr None \<longleftrightarrow> v = PNone \<or> str_blank v"
  by (auto simp: validate_grade_def split: sum.splits pyexc.splits)

text \<open>The string \<open>"nan"\<close> is accepted as a grade.\<close>

theorem validate_grade_nan: "validate_grade 0 10 (PStr ''nan'') = Inr (Some NaN)"
  by code_simp


end
