(* ===== verification/Queries.thy ===== *)
theory Queries
  imports Storage
begin

text \<open>
  The reporting queries of \<open>src/final/query_models.py\<close> (class \<open>QueryModels\<close>). Each
  SQL statement is a function of the database: the join as a list comprehension over the
  tables in storage order (a nested-loop join), \<open>WHERE\<close>/\<open>HAVING\<close> as guards, \<open>GROUP BY\<close>
  over the distinct keys, and \<open>ORDER BY\<close> as a stable sort on a key of collated strings,
  \<open>option\<close> for \<open>NULL\<close> (first in ascending order) and \<open>desc\<close> for \<open>DESC\<close>. SQL fixes
  neither the join order nor the order of ties, so the abstract specification of a result
  (\<open>sql_ordered\<close>) is: sorted by the key and the same multiset as the joined rows. The Python
  wrapper is kept around each statement: where it logs \<open>len(results)\<close> a failed read
  (\<open>execute_query\<close> returns \<open>None\<close>) becomes a \<open>TypeError\<close>.
\<close>

section \<open>Result ordering\<close>

definition sql_ordered :: "('r \<Rightarrow> 'k::linorder) \<Rightarrow> 'r list \<Rightarrow> 'r list \<Rightarrow> bool" where
  "sql_ordered key rows spec \<longleftrightarrow> sorted (map key rows) \<and> mset rows = mset spec"

definition len_of_none :: pyexc where
  "len_of_none = TypeError ''object of type 'NoneType' has no len()''"

text \<open>The wrapper of queries 1 to 4: \<open>results = db.execute_query(sql, params)\<close>, then
  \<open>len(results)\<close> in the log line, then \<open>return results\<close>.\<close>

definition logged_query :: "db option \<Rightarrow> (db \<Rightarrow> 'r list) \<Rightarrow> 'r list res" where
  "logged_query st q = (case execute_query st q of None \<Rightarrow> Inl len_of_none | Some rows \<Rightarrow> Inr rows)"

section \<open>Query 1: grades per subject (inner join), lines 34--84\<close>

record grade_row =
  gr_sid :: int
  gr_first :: string
  gr_last :: string
  gr_code :: string
  gr_subject :: string
  gr_cid :: int
  gr_cname :: "string option"
  gr_semester :: string
  gr_year :: int
  gr_grade :: "rat option"
  gr_letter :: "string option"

definition mk_grade_row :: "enrollment \<Rightarrow> student \<Rightarrow> cls \<Rightarrow> subject \<Rightarrow> grade_row" where
  "mk_grade_row e s c u =
     \<lparr>gr_sid = stu_id s, gr_first = stu_first s, gr_last = stu_last s, gr_code = sub_code u,
      gr_subject = sub_name u, gr_cid = cls_id c, gr_cname = cls_name c,
      gr_semester = cls_semester c, gr_year = cls_year c, gr_grade = enr_grade e,
      gr_letter = enr_letter e\<rparr>"

text \<open>\<open>if subject_code: sql += " WHERE sub.SubjectCode = %s"\<close>: an empty code is no filter.\<close>

definition code_filter :: "string option \<Rightarrow> string \<Rightarrow> bool" where
  "code_filter code x = (case code of None \<Rightarrow> True | Some c \<Rightarrow> c = [] \<or> sql_str_eq x c)"

text \<open>The rows one enrollment contributes to the join.\<close>

definition q1_block :: "db \<Rightarrow> string option \<Rightarrow> enrollment \<Rightarrow> grade_row list" where
  "q1_block d code e =
     [mk_grade_row e s c u. s \<leftarrow> db_students d, stu_id s = enr_student e,
        c \<leftarrow> db_classes d, cls_id c = enr_class e,
        u \<leftarrow> db_subjects d, sql_str_eq (cls_subject c) (sub_code u), code_filter code (sub_code u)]"

definition q1_join :: "db \<Rightarrow> string option \<Rightarrow> grade_row list" where
  "q1_join d code = concat (map (q1_block d code) (db_enrollments d))"

definition q1_key :: "grade_row \<Rightarrow> string \<times> string \<times> string" where
  "q1_key r = (coll (gr_subject r), coll (gr_last r), coll (gr_first r))"

definition query_student_grades_by_subject :: "db option \<Rightarrow> string option \<Rightarrow> grade_row list res" where
  "query_student_grades_by_subject st code = logged_query st (\<lambda>d. sort_key q1_key (q1_join d code))"

section \<open>Query 2: all students with their grades (left join), lines 116--159\<close>

record student_grade_row =
  sg_sid :: int
  sg_first :: string
  sg_last :: string
  sg_email :: string
  sg_major :: "string option"
  sg_cid :: "int option"
  sg_cname :: "string option"
  sg_semester :: "string option"
  sg_year :: "int option"
  sg_grade :: "rat option"
  sg_letter :: "string option"
  sg_total :: nat

text \<open>\<open>students s LEFT JOIN enrollments e LEFT JOIN classes c\<close>: a student without
  enrollments, and an enrollment without a class, still give one row with \<open>NULL\<close>s.\<close>

definition left_join :: "('a \<Rightarrow> 'b \<Rightarrow> bool) \<Rightarrow> 'a \<Rightarrow> 'b list \<Rightarrow> 'b option list" where
  "left_join p a bs = (case filter (p a) bs of [] \<Rightarrow> [None] | ms \<Rightarrow> map Some ms)"

definition q2_block :: "db \<Rightarrow> student \<Rightarrow> (student \<times> enrollment option \<times> cls option) list" where
  "q2_block d s =
     [(s, e, c). e \<leftarrow> left_join (\<lambda>s e. enr_student e = stu_id s) s (db_enrollments d),
        c \<leftarrow> (case e of None \<Rightarrow> [None]
              | Some e' \<Rightarrow> left_join (\<lambda>e c. cls_id c = enr_class e) e' (db_classes d))]"

definition q2_join :: "db \<Rightarrow> (student \<times> enrollment option \<times> cls option) list" where
  "q2_join d = concat (map (q2_block d) (db_students d))"

text \<open>\<open>COUNT(e.ClassID) OVER (PARTITION BY s.StudentID)\<close>: in every row, the number of
  rows of the same \<open>StudentID\<close> whose enrollment is not \<open>NULL\<close>.\<close>

definition q2_total :: "(student \<times> enrollment option \<times> cls option) list \<Rightarrow> int \<Rightarrow> nat" where
  "q2_total rows sid = length (filter (\<lambda>(s, e, c). stu_id s = sid \<and> e \<noteq> None) rows)"

definition mk_sg_row :: "nat \<Rightarrow> student \<times> enrollment option \<times> cls option \<Rightarrow> student_grade_row" where
  "mk_sg_row n x = (case x of (s, e, c) \<Rightarrow>
     \<lparr>sg_sid = stu_id s, sg_first = stu_first s, sg_last = stu_last s, sg_email = stu_email s,
      sg_major = stu_major s, sg_cid = map_option cls_id c, sg_cname = Option.bind c cls_name,
      sg_semester = map_option cls_semester c, sg_year = map_option cls_year c,
      sg_grade = Option.bind e enr_grade, sg_letter = Option.bind e enr_letter, sg_total = n\<rparr>)"

definition q2_rows :: "db \<Rightarrow> student_grade_row list" where
  "q2_rows d = (let j = q2_join d in map (\<lambda>x. mk_sg_row (q2_total j (stu_id (fst x))) x) j)"

definition q2_key :: "student_grade_row \<Rightarrow> int \<times> int option desc \<times> string option" where
  "q2_key r = (sg_sid r, Desc (sg_year r), map_option coll (sg_semester r))"

definition query_all_students_with_grades :: "db option \<Rightarrow> student_grade_row list res" where
  "query_all_students_with_grades st = logged_query st (\<lambda>d. sort_key q2_key (q2_rows d))"

section \<open>Query 3: complete enrollment information (five-way join), lines 164--271\<close>

record info_row =
  ei_sid :: int
  ei_first :: string
  ei_last :: string
  ei_email :: string
  ei_major :: "string option"
  ei_code :: string
  ei_subject :: string
  ei_credits :: int
  ei_cid :: int
  ei_cname :: "string option"
  ei_semester :: string
  ei_year :: int
  ei_lid :: "int option"
  ei_lfirst :: "string option"
  ei_llast :: "string option"
  ei_lname :: "string option"
  ei_office :: "string option"
  ei_grade :: "rat option"
  ei_letter :: "string option"
  ei_note :: "string option"

text \<open>A filter is added only when the Python argument is truthy (\<open>if student_id:\<close>):
  \<open>None\<close>, \<open>0\<close> and \<open>''\<close> impose no condition.\<close>

definition active_int :: "int option \<Rightarrow> int option" where
  "active_int x = (case x of Some n \<Rightarrow> if n = 0 then None else Some n | None \<Rightarrow> None)"

definition active_str :: "string option \<Rightarrow> string option" where
  "active_str x = (case x of Some v \<Rightarrow> if v = [] then None else Some v | None \<Rightarrow> None)"

definition opt_cond :: "'a option \<Rightarrow> ('a \<Rightarrow> bool) \<Rightarrow> bool" where
  "opt_cond x p = (case x of None \<Rightarrow> True | Some v \<Rightarrow> p v)"

text \<open>The \<open>WHERE\<close> clause over a joined row; \<open>l.LecturerID = %s\<close> is false on the \<open>NULL\<close>
  of a class without lecturer.\<close>

definition q3_where :: "int option \<Rightarrow> string option \<Rightarrow> int option \<Rightarrow> string option \<Rightarrow> int option \<Rightarrow>
    student \<Rightarrow> cls \<Rightarrow> subject \<Rightarrow> lecturer option \<Rightarrow> bool" where
  "q3_where sid code lid sem yr s c u l \<longleftrightarrow>
     opt_cond (active_int sid) (\<lambda>i. stu_id s = i) \<and>
     opt_cond (active_str code) (\<lambda>x. sql_str_eq (sub_code u) x) \<and>
     opt_cond (active_int lid) (\<lambda>i. map_option lec_id l = Some i) \<and>
     opt_cond (active_str sem) (\<lambda>x. sql_str_eq (cls_semester c) x) \<and>
     opt_cond (active_int yr) (\<lambda>y. cls_year c = y)"

definition mk_info_row :: "enrollment \<Rightarrow> student \<Rightarrow> cls \<Rightarrow> subject \<Rightarrow> lecturer option \<Rightarrow> info_row" where
  "mk_info_row e s c u l =
     \<lparr>ei_sid = stu_id s, ei_first = stu_first s, ei_last = stu_last s, ei_email = stu_email s,
      ei_major = stu_major s, ei_code = sub_code u, ei_subject = sub_name u, ei_credits = sub_credits u,
      ei_cid = cls_id c, ei_cname = cls_name c, ei_semester = cls_semester c, ei_year = cls_year c,
      ei_lid = map_option lec_id l, ei_lfirst = map_option lec_first l, ei_llast = map_option lec_last l,
      ei_lname = map_option (\<lambda>l. lec_first l @ '' '' @ lec_last l) l,
      ei_office = Option.bind l lec_office, ei_grade = enr_grade e, ei_letter = enr_letter e,
      ei_note = enr_note e\<rparr>"

definition q3_block :: "db \<Rightarrow> int option \<Rightarrow> string option \<Rightarrow> int option \<Rightarrow> string option \<Rightarrow> int option \<Rightarrow>
    enrollment \<Rightarrow> info_row list" where
  "q3_block d sid code lid sem yr e =
     [mk_info_row e s c u l. s \<leftarrow> db_students d, stu_id s = enr_student e,
        c \<leftarrow> db_classes d, cls_id c = enr_class e,
        u \<leftarrow> db_subjects d, sql_str_eq (cls_subject c) (sub_code u),
        l \<leftarrow> left_join (\<lambda>c l. cls_lecturer c = Some (lec_id l)) c (db_lecturers d),
        q3_where sid code lid sem yr s c u l]"

definition q3_key :: "info_row \<Rightarrow> int desc \<times> string \<times> string \<times> string" where
  "q3_key r = (Desc (ei_year r), coll (ei_semester r), coll (ei_subject r), coll (ei_last r))"

definition query_complete_enrollment_info :: "db option \<Rightarrow> int option \<Rightarrow> string option \<Rightarrow> int option \<Rightarrow>
    string option \<Rightarrow> int option \<Rightarrow> info_row list res" where
  "query_complete_enrollment_info st sid code lid sem yr =
     logged_query st (\<lambda>d. sort_key q3_key (concat (map (q3_block d sid code lid sem yr) (db_enrollments d))))"

text \<open>The abstraction of a row of query 1 and of an enrollment to the fields they share
  (student, class, grade, letter): the refinement lemma of query 1 relates them.\<close>

definition q1_proj :: "grade_row \<Rightarrow> int \<times> int \<times> rat option \<times> string option" where
  "q1_proj r = (gr_sid r, gr_cid r, gr_grade r, gr_letter r)"

definition enr_proj :: "enrollment \<Rightarrow> int \<times> int \<times> rat option \<times> string option" where
  "enr_proj e = (enr_student e, enr_class e, enr_grade e, enr_letter e)"

text \<open>Query 3 as the specification states it: one row per enrollment and its class, the
  supplied filters a conjunction of equalities on the enrollment and its class (the
  lecturer filter on the class's \<open>LecturerID\<close>), the lecturer itself optional.\<close>

definition q3_spec_ok :: "int option \<Rightarrow> string option \<Rightarrow> int option \<Rightarrow> string option \<Rightarrow> int option \<Rightarrow>
    enrollment \<Rightarrow> cls \<Rightarrow> bool" where
  "q3_spec_ok sid code lid sem yr e c \<longleftrightarrow>
     opt_cond (active_int sid) (\<lambda>i. enr_student e = i) \<and>
     opt_cond (active_str code) (\<lambda>x. sql_str_eq (cls_subject c) x) \<and>
     opt_cond (active_int lid) (\<lambda>i. cls_lecturer c = Some i) \<and>
     opt_cond (active_str sem) (\<lambda>x. sql_str_eq (cls_semester c) x) \<and>
     opt_cond (active_int yr) (\<lambda>y. cls_year c = y)"

definition q3_proj :: "info_row \<Rightarrow> int \<times> int \<times> rat option \<times> string option \<times> int option" where
  "q3_proj r = (ei_sid r, ei_cid r, ei_grade r, ei_letter r, ei_lid r)"

definition q3_spec :: "db \<Rightarrow> int option \<Rightarrow> string option \<Rightarrow> int option \<Rightarrow> string option \<Rightarrow> int option \<Rightarrow>
    (int \<times> int \<times> rat option \<times> string option \<times> int option) list" where
  "q3_spec d sid code lid sem yr =
     [(enr_student e, enr_class e, enr_grade e, enr_letter e, cls_lecturer c).
        e \<leftarrow> db_enrollments d, c \<leftarrow> db_classes d, cls_id c = enr_class e,
        q3_spec_ok sid code lid sem yr e c]"

section \<open>Lemmas\<close>

lemma logged_query_Some [simp]: "logged_query (Some d) q = Inr (q d)"
  by (simp add: logged_query_def)

lemma left_join_eq:
  "left_join p a bs = (if filter (p a) bs = [] then [None] else map Some (filter (p a) bs))"
  by (simp add: left_join_def split: list.split)

lemma class_match_one:
  assumes "db_wf d" "e \<in> set (db_enrollments d)"
  shows "length (filter (\<lambda>c. cls_id c = enr_class e) (db_classes d)) = 1"
  using assms filter_distinct_key_len[of cls_id "db_classes d" "enr_class e"]
  by (auto simp: db_wf_defs)

lemma q2_block_fst: "x \<in> set (q2_block d s) \<Longrightarrow> fst x = s"
  by (auto simp: q2_block_def)

lemma q2_block_none:
  "filter (\<lambda>e. enr_student e = stu_id s) (db_enrollments d) = [] \<Longrightarrow> q2_block d s = [(s, None, None)]"
  by (simp add: q2_block_def left_join_eq)

lemma q2_block_some:
  assumes "filter (\<lambda>e. enr_student e = stu_id s) (db_enrollments d) = es" "es \<noteq> []"
  shows "q2_block d s =
    concat (map (\<lambda>e. map (\<lambda>c. (s, Some e, c)) (left_join (\<lambda>e c. cls_id c = enr_class e) e (db_classes d))) es)"
  using assms by (simp add: q2_block_def left_join_eq comp_def)

lemma q2_block_counts:
  fixes d s
  assumes "db_wf d"
  defines "k \<equiv> length (filter (\<lambda>e. enr_student e = stu_id s) (db_enrollments d))"
  shows "length (q2_block d s) = max 1 k \<and> length (filter (\<lambda>x. fst (snd x) \<noteq> None) (q2_block d s)) = k"
proof (cases "filter (\<lambda>e. enr_student e = stu_id s) (db_enrollments d) = []")
  case True
  then show ?thesis by (simp add: q2_block_none k_def)
next
  case False
  define es where "es = filter (\<lambda>e. enr_student e = stu_id s) (db_enrollments d)"
  have one: "length (left_join (\<lambda>e c. cls_id c = enr_class e) e (db_classes d)) = 1" if "e \<in> set es" for e
    using class_match_one[OF assms(1)] that by (auto simp: left_join_eq es_def)
  have blk: "q2_block d s = concat (map (\<lambda>e. map (\<lambda>c. (s, Some e, c))
              (left_join (\<lambda>e c. cls_id c = enr_class e) e (db_classes d))) es)"
    using q2_block_some[OF es_def[symmetric]] False es_def by simp
  have "length (q2_block d s) = length es"
    unfolding blk length_concat by (simp add: comp_def one sum_list_triv cong: map_cong)
  moreover have "filter (\<lambda>x. fst (snd x) \<noteq> None) (q2_block d s) = q2_block d s"
    unfolding blk by (simp add: filter_concat comp_def)
  moreover have "1 \<le> length es" using False by (simp add: es_def Suc_le_eq)
  ultimately show ?thesis by (simp add: k_def es_def[symmetric] max_def)
qed

lemma q2_join_filter:
  assumes "distinct (map stu_id (db_students d))" "s \<in> set (db_students d)"
  shows "filter (\<lambda>x. stu_id (fst x) = stu_id s) (q2_join d) = q2_block d s"
  unfolding q2_join_def by (rule filter_concat_blocks[OF assms]) (simp add: q2_block_fst)

text \<open>Claim C11 (query_all_students_rows): query 2 returns, for every student of a well-formed database, exactly one row with NULL class and grade when the student has no enrollment, and otherwise one row per enrollment, every row of the student carrying TotalEnrollments equal to the student's number of enrollments.\<close>

theorem query_all_students_rows:
  fixes d s rows
  assumes "db_wf d" "s \<in> set (db_students d)"
    and "query_all_students_with_grades (Some d) = Inr rows"
  defines "k \<equiv> length (filter (\<lambda>e. enr_student e = stu_id s) (db_enrollments d))"
  shows "length (filter (\<lambda>r. sg_sid r = stu_id s) rows) = max 1 k \<and>
         (\<forall>r \<in> set rows. sg_sid r = stu_id s \<longrightarrow>
            sg_total r = k \<and> (k = 0 \<longrightarrow> sg_cid r = None \<and> sg_grade r = None))"
proof -
  have dist: "distinct (map stu_id (db_students d))" using assms(1) by (simp add: db_wf_defs)
  define j where "j = q2_join d"
  have rows: "rows = sort_key q2_key (q2_rows d)"
    using assms(3) by (simp add: query_all_students_with_grades_def)
  have blk: "filter (\<lambda>x. stu_id (fst x) = stu_id s) j = q2_block d s"
    using q2_join_filter[OF dist assms(2)] by (simp add: j_def)
  have tot: "q2_total j (stu_id s) = k"
  proof -
    have "q2_total j (stu_id s) =
          length (filter (\<lambda>x. fst (snd x) \<noteq> None) (filter (\<lambda>x. stu_id (fst x) = stu_id s) j))"
      by (simp add: q2_total_def filter_filter split_def)
    then show ?thesis using blk q2_block_counts[OF assms(1)] by (simp add: k_def)
  qed
  have sel: "filter (\<lambda>r. sg_sid r = stu_id s) (q2_rows d) = map (mk_sg_row k) (q2_block d s)"
  proof -
    have "filter (\<lambda>r. sg_sid r = stu_id s) (q2_rows d) =
          map (\<lambda>x. mk_sg_row (q2_total j (stu_id (fst x))) x) (filter (\<lambda>x. stu_id (fst x) = stu_id s) j)"
      by (simp add: q2_rows_def j_def[symmetric] filter_map comp_def mk_sg_row_def case_prod_beta)
    also have "\<dots> = map (mk_sg_row k) (q2_block d s)"
      using blk tot q2_block_fst[of _ d s] by (auto intro: map_cong)
    finally show ?thesis .
  qed
  have len: "length (filter (\<lambda>r. sg_sid r = stu_id s) rows) = max 1 k"
    unfolding rows filter_sort_key_length sel length_map
    using q2_block_counts[OF assms(1), of s] by (simp add: k_def)
  have "sg_total r = k \<and> (k = 0 \<longrightarrow> sg_cid r = None \<and> sg_grade r = None)"
    if "r \<in> set rows" "sg_sid r = stu_id s" for r
  proof -
    have "r \<in> set (map (mk_sg_row k) (q2_block d s))"
      using that rows sel filter_sort_key_set[of "\<lambda>r. sg_sid r = stu_id s" q2_key "q2_rows d"] by auto
    then obtain x where x: "x \<in> set (q2_block d s)" "r = mk_sg_row k x" by auto
    have "k = 0 \<Longrightarrow> x = (s, None, None)"
      using x(1) q2_block_none[of s d] by (simp add: k_def)
    then show ?thesis using x by (auto simp: mk_sg_row_def split: prod.split)
  qed
  with len show ?thesis by blast
qed

lemma code_filter_coll: "coll a = coll b \<Longrightarrow> code_filter code a = code_filter code b"
  by (simp add: code_filter_def sql_str_eq_def split: option.split)

lemma enrollment_join:
  assumes "db_wf d" "e \<in> set (db_enrollments d)"
  obtains s c u where
    "filter (\<lambda>s. stu_id s = enr_student e) (db_students d) = [s]" "stu_id s = enr_student e"
    "filter (\<lambda>c. cls_id c = enr_class e) (db_classes d) = [c]" "c \<in> set (db_classes d)"
    "cls_id c = enr_class e"
    "filter (\<lambda>u. sql_str_eq (cls_subject c) (sub_code u)) (db_subjects d) = [u]"
    "coll (sub_code u) = coll (cls_subject c)"
proof -
  have wf: "distinct (map stu_id (db_students d))" "distinct (map cls_id (db_classes d))"
      "distinct (map (coll \<circ> sub_code) (db_subjects d))"
      "enr_student e \<in> stu_id ` set (db_students d)" "enr_class e \<in> cls_id ` set (db_classes d)"
    using assms by (auto simp: db_wf_defs)
  obtain s where hs: "filter (\<lambda>s. stu_id s = enr_student e) (db_students d) = [s]"
      and s: "stu_id s = enr_student e"
    using filter_distinct_key_the[OF wf(1,4)] by blast
  obtain c where hc: "filter (\<lambda>c. cls_id c = enr_class e) (db_classes d) = [c]"
      and c: "c \<in> set (db_classes d)" "cls_id c = enr_class e"
    using filter_distinct_key_the[OF wf(2,5)] by blast
  have mem: "coll (cls_subject c) \<in> (coll \<circ> sub_code) ` set (db_subjects d)"
    using assms(1) c(1) by (force simp: db_wf_defs sql_str_eq_def)
  obtain u where hu0: "filter (\<lambda>u. (coll \<circ> sub_code) u = coll (cls_subject c)) (db_subjects d) = [u]"
      and "u \<in> set (db_subjects d)" and u': "(coll \<circ> sub_code) u = coll (cls_subject c)"
    using filter_distinct_key_the[OF wf(3) mem] by blast
  have feq: "(\<lambda>u. sql_str_eq (cls_subject c) (sub_code u)) =
      (\<lambda>u. (coll \<circ> sub_code) u = coll (cls_subject c))"
    by (auto simp: sql_str_eq_def fun_eq_iff)
  have "filter (\<lambda>u. sql_str_eq (cls_subject c) (sub_code u)) (db_subjects d) = [u]"
    unfolding feq by (rule hu0)
  with hs s hc c u' show ?thesis using that by simp
qed

lemma q1_block_wf:
  assumes "db_wf d" "e \<in> set (db_enrollments d)"
  shows "map q1_proj (q1_block d code e) =
    (if \<exists>c \<in> set (db_classes d). cls_id c = enr_class e \<and> code_filter code (cls_subject c)
     then [enr_proj e] else [])"
proof -
  obtain s c u where hs: "filter (\<lambda>s. stu_id s = enr_student e) (db_students d) = [s]"
      and s: "stu_id s = enr_student e"
      and hc: "filter (\<lambda>c. cls_id c = enr_class e) (db_classes d) = [c]"
      and c: "c \<in> set (db_classes d)" "cls_id c = enr_class e"
      and hu: "filter (\<lambda>u. sql_str_eq (cls_subject c) (sub_code u)) (db_subjects d) = [u]"
      and u: "coll (sub_code u) = coll (cls_subject c)"
    using enrollment_join[OF assms] by blast
  have ex: "(\<exists>c' \<in> set (db_classes d). cls_id c' = enr_class e \<and> code_filter code (cls_subject c')) =
      code_filter code (sub_code u)"
  proof
    assume "\<exists>c' \<in> set (db_classes d). cls_id c' = enr_class e \<and> code_filter code (cls_subject c')"
    then obtain c' where c': "c' \<in> set (db_classes d)" "cls_id c' = enr_class e"
        "code_filter code (cls_subject c')" by blast
    have "c' = c" by (rule filter_single_mem[OF hc c'(1)]) (simp add: c'(2))
    then show "code_filter code (sub_code u)" using c'(3) code_filter_coll[OF u] by simp
  next
    assume "code_filter code (sub_code u)"
    then show "\<exists>c' \<in> set (db_classes d). cls_id c' = enr_class e \<and> code_filter code (cls_subject c')"
      using c code_filter_coll[OF u] by auto
  qed
  have "filter (\<lambda>x. sql_str_eq (cls_subject c) (sub_code x) \<and> code_filter code (sub_code x)) (db_subjects d)
      = filter (\<lambda>x. code_filter code (sub_code x)) (filter (\<lambda>u. sql_str_eq (cls_subject c) (sub_code u)) (db_subjects d))"
    by simp
  also have "\<dots> = (if code_filter code (sub_code u) then [u] else [])" unfolding hu by simp
  finally have hcu: "filter (\<lambda>x. sql_str_eq (cls_subject c) (sub_code x) \<and> code_filter code (sub_code x)) (db_subjects d)
      = (if code_filter code (sub_code u) then [u] else [])" .
  show ?thesis
    unfolding ex using hs hc hcu c(2) s
    by (simp add: q1_block_def concat_map_if_filter q1_proj_def enr_proj_def mk_grade_row_def)
qed

text \<open>Claim C13 (query_student_grades_rows): in a well-formed database, query 1 returns its rows sorted by subject name, last name and first name, and exactly one row per enrollment whose class belongs to the requested subject (every enrollment when no code is given).\<close>

theorem query_student_grades_rows:
  assumes "db_wf d" "query_student_grades_by_subject (Some d) code = Inr rows"
  shows "sorted (map q1_key rows) \<and>
    mset (map q1_proj rows) = mset (map enr_proj (filter (\<lambda>e. \<exists>c \<in> set (db_classes d).
       cls_id c = enr_class e \<and> code_filter code (cls_subject c)) (db_enrollments d)))"
proof -
  have rows: "rows = sort_key q1_key (q1_join d code)"
    using assms(2) by (simp add: query_student_grades_by_subject_def)
  have "map q1_proj (q1_join d code) = concat (map (map q1_proj \<circ> q1_block d code) (db_enrollments d))"
    by (simp add: q1_join_def map_concat)
  also have "\<dots> = map enr_proj (filter (\<lambda>e. \<exists>c \<in> set (db_classes d).
       cls_id c = enr_class e \<and> code_filter code (cls_subject c)) (db_enrollments d))"
    by (rule concat_map_single_if) (simp add: q1_block_wf[OF assms(1)])
  finally have eq: "map q1_proj (q1_join d code) = map enr_proj (filter (\<lambda>e. \<exists>c \<in> set (db_classes d).
       cls_id c = enr_class e \<and> code_filter code (cls_subject c)) (db_enrollments d))" .
  have "mset (map q1_proj rows) = mset (map q1_proj (q1_join d code))"
    by (simp add: rows mset_map)
  then show ?thesis using eq by (simp add: rows sorted_sort_key)
qed

lemma lecturer_join:
  assumes "db_wf d" "c \<in> set (db_classes d)"
  obtains lo where "left_join (\<lambda>c l. cls_lecturer c = Some (lec_id l)) c (db_lecturers d) = [lo]"
    "map_option lec_id lo = cls_lecturer c"
proof (cases "cls_lecturer c")
  case None
  then show ?thesis using that by (simp add: left_join_def)
next
  case (Some i)
  have "distinct (map lec_id (db_lecturers d))" "i \<in> lec_id ` set (db_lecturers d)"
    using assms Some by (force simp: db_wf_defs)+
  then obtain l where hl: "filter (\<lambda>l. lec_id l = i) (db_lecturers d) = [l]" and l: "lec_id l = i"
    by (rule filter_distinct_key_the)
  have feq: "(\<lambda>l. cls_lecturer c = Some (lec_id l)) = (\<lambda>l. lec_id l = i)"
    using Some by auto
  have "left_join (\<lambda>c l. cls_lecturer c = Some (lec_id l)) c (db_lecturers d) = [Some l]"
    unfolding left_join_def feq hl by simp
  then show ?thesis using that l Some by simp
qed

lemma q3_where_spec:
  assumes "stu_id s = enr_student e" "coll (sub_code u) = coll (cls_subject c)"
    "map_option lec_id lo = cls_lecturer c"
  shows "q3_where sid code lid sem yr s c u lo = q3_spec_ok sid code lid sem yr e c"
  using assms by (simp add: q3_where_def q3_spec_ok_def sql_str_eq_def)

lemma q3_block_wf:
  assumes "db_wf d" "e \<in> set (db_enrollments d)"
  shows "map q3_proj (q3_block d sid code lid sem yr e) =
    [(enr_student e, enr_class e, enr_grade e, enr_letter e, cls_lecturer c).
       c \<leftarrow> db_classes d, cls_id c = enr_class e, q3_spec_ok sid code lid sem yr e c]"
proof -
  obtain s c u where hs: "filter (\<lambda>s. stu_id s = enr_student e) (db_students d) = [s]"
      and s: "stu_id s = enr_student e"
      and hc: "filter (\<lambda>c. cls_id c = enr_class e) (db_classes d) = [c]"
      and c: "c \<in> set (db_classes d)" "cls_id c = enr_class e"
      and hu: "filter (\<lambda>u. sql_str_eq (cls_subject c) (sub_code u)) (db_subjects d) = [u]"
      and u: "coll (sub_code u) = coll (cls_subject c)"
    using enrollment_join[OF assms] by blast
  obtain lo where hl: "left_join (\<lambda>c l. cls_lecturer c = Some (lec_id l)) c (db_lecturers d) = [lo]"
      and lo: "map_option lec_id lo = cls_lecturer c"
    using lecturer_join[OF assms(1) c(1)] by blast
  have rhs: "[(enr_student e, enr_class e, enr_grade e, enr_letter e, cls_lecturer c).
       c \<leftarrow> db_classes d, cls_id c = enr_class e, q3_spec_ok sid code lid sem yr e c] =
     (if q3_spec_ok sid code lid sem yr e c
      then [(enr_student e, enr_class e, enr_grade e, enr_letter e, cls_lecturer c)] else [])"
    by (simp add: concat_map_if2 filter_single_conj[OF hc])
  show ?thesis
    unfolding rhs using hs hc hu hl s c(2) lo q3_where_spec[OF s u lo]
    by (simp add: q3_block_def concat_map_if_filter q3_proj_def mk_info_row_def)
qed

text \<open>Claim C14 (query_complete_enrollment_refines): in a well-formed database, query 3 is sorted by year descending, semester, subject name and last name, and returns exactly one row per enrollment satisfying the conjunction of the supplied filters, the lecturer filter applied to the class's lecturer and the lecturer fields NULL for a class without lecturer.\<close>

theorem query_complete_enrollment_refines:
  assumes "db_wf d" "query_complete_enrollment_info (Some d) sid code lid sem yr = Inr rows"
  shows "sorted (map q3_key rows) \<and> mset (map q3_proj rows) = mset (q3_spec d sid code lid sem yr)"
proof -
  let ?j = "concat (map (q3_block d sid code lid sem yr) (db_enrollments d))"
  have rows: "rows = sort_key q3_key ?j"
    using assms(2) by (simp add: query_complete_enrollment_info_def)
  have "map q3_proj ?j = concat (map (map q3_proj \<circ> q3_block d sid code lid sem yr) (db_enrollments d))"
    by (simp add: map_concat)
  also have "\<dots> = q3_spec d sid code lid sem yr"
    unfolding q3_spec_def using q3_block_wf[OF assms(1)] by (simp cong: map_cong)
  finally have eq: "map q3_proj ?j = q3_spec d sid code lid sem yr" .
  have "mset (map q3_proj rows) = mset (map q3_proj ?j)"
    by (simp add: rows mset_map)
  then show ?thesis using eq by (simp add: rows sorted_sort_key)
qed

end
