(* ===== verification/Reports.thy ===== *)
theory Reports
  imports Queries
begin

text \<open>
  The aggregate queries of \<open>src/final/query_models.py\<close>: query 4 (students above the
  global average), the top students, the two grade distributions and the dashboard
  figures. \<open>GROUP BY\<close> is \<open>group_by\<close>: one group per distinct key, in order of first
  occurrence, holding the rows of that key in join order. \<open>AVG\<close> over the non-\<open>NULL\<close>
  grades is \<open>sql_avg\<close> (\<open>NULL\<close> on no grade), computed exactly; \<open>ROUND(x, 2)\<close> is
  \<open>sql_round2\<close>. Query 4 keeps the code's comparison: the raw personal average against the
  global average already rounded to two decimals.
\<close>

section \<open>SQL aggregation\<close>

definition group_by :: "('a \<Rightarrow> 'k) \<Rightarrow> 'a list \<Rightarrow> ('k \<times> 'a list) list" where
  "group_by f xs = map (\<lambda>k. (k, filter (\<lambda>x. f x = k) xs)) (remdups (map f xs))"

definition avg :: "rat list \<Rightarrow> rat" where
  "avg xs = sum_list xs / of_int (int (length xs))"

definition sql_avg :: "rat list \<Rightarrow> rat option" where
  "sql_avg xs = (if xs = [] then None else Some (avg xs))"

definition opt_list :: "'a option \<Rightarrow> 'a list" where
  "opt_list x = (case x of None \<Rightarrow> [] | Some v \<Rightarrow> [v])"

text \<open>The non-\<open>NULL\<close> grades of a list of enrollments (\<open>WHERE Grade IS NOT NULL\<close>).\<close>

definition grades_of :: "enrollment list \<Rightarrow> rat list" where
  "grades_of es = concat (map (opt_list \<circ> enr_grade) es)"

section \<open>Query 4: students above the global average, lines 276--337\<close>

record above_row =
  aa_sid :: int
  aa_first :: string
  aa_last :: string
  aa_email :: string
  aa_major :: "string option"
  aa_avg :: rat
  aa_global :: "rat option"
  aa_total :: nat
  aa_diff :: "rat option"

text \<open>\<open>WITH GlobalAvg AS (SELECT ROUND(AVG(Grade), 2) ...)\<close>.\<close>

definition global_avg :: "db \<Rightarrow> rat option" where
  "global_avg d = map_option sql_round2 (sql_avg (grades_of (db_enrollments d)))"

text \<open>\<open>students s JOIN enrollments e ON s.StudentID = e.StudentID WHERE e.Grade IS NOT NULL\<close>.\<close>

definition q4_join :: "db \<Rightarrow> (student \<times> rat) list" where
  "q4_join d = [(s, g). s \<leftarrow> db_students d, e \<leftarrow> db_enrollments d, stu_id s = enr_student e,
                        g \<leftarrow> opt_list (enr_grade e)]"

text \<open>\<open>HAVING COUNT(*) >= %s AND AVG(e.Grade) > (SELECT AvgGrade FROM GlobalAvg)\<close>; the
  comparison with a \<open>NULL\<close> global average is not true.\<close>

definition q4_having :: "int \<Rightarrow> rat option \<Rightarrow> (student \<times> rat) list \<Rightarrow> bool" where
  "q4_having minc ga grp \<longleftrightarrow>
     minc \<le> int (length grp) \<and> (case ga of None \<Rightarrow> False | Some g \<Rightarrow> g < avg (map snd grp))"

definition q4_row :: "rat option \<Rightarrow> (student \<times> rat) list \<Rightarrow> above_row" where
  "q4_row ga grp = (let s = fst (hd grp); a = avg (map snd grp) in
     \<lparr>aa_sid = stu_id s, aa_first = stu_first s, aa_last = stu_last s, aa_email = stu_email s,
      aa_major = stu_major s, aa_avg = sql_round2 a, aa_global = ga, aa_total = length grp,
      aa_diff = map_option (\<lambda>g. sql_round2 (a - g)) ga\<rparr>)"

definition q4_key :: "above_row \<Rightarrow> rat desc \<times> nat desc" where
  "q4_key r = (Desc (aa_avg r), Desc (aa_total r))"

definition q4_rows :: "db \<Rightarrow> int \<Rightarrow> above_row list" where
  "q4_rows d minc = (let ga = global_avg d in
     map (q4_row ga \<circ> snd) (filter (q4_having minc ga \<circ> snd) (group_by (stu_id \<circ> fst) (q4_join d))))"

definition query_students_above_average :: "db option \<Rightarrow> int \<Rightarrow> above_row list res" where
  "query_students_above_average st minc = logged_query st (\<lambda>d. sort_key q4_key (q4_rows d minc))"

text \<open>What the code compares, per student: the student's non-\<open>NULL\<close> grades.\<close>

definition student_grades :: "db \<Rightarrow> student \<Rightarrow> rat list" where
  "student_grades d s = grades_of (filter (\<lambda>e. stu_id s = enr_student e) (db_enrollments d))"

section \<open>Top students, lines 346--381\<close>

record top_row =
  ts_sid :: int
  ts_first :: string
  ts_last :: string
  ts_avg :: rat
  ts_total :: nat
  ts_min :: rat
  ts_max :: rat

definition top_row_of :: "(student \<times> rat) list \<Rightarrow> top_row" where
  "top_row_of grp = (let s = fst (hd grp); gs = map snd grp in
     \<lparr>ts_sid = stu_id s, ts_first = stu_first s, ts_last = stu_last s, ts_avg = sql_round2 (avg gs),
      ts_total = length grp, ts_min = Min (set gs), ts_max = Max (set gs)\<rparr>)"

text \<open>The same join and grouping as query 4, with \<open>HAVING COUNT(*) >= %s\<close>.\<close>

definition top_rows :: "db \<Rightarrow> int \<Rightarrow> top_row list" where
  "top_rows d minc =
     map (top_row_of \<circ> snd) (filter (\<lambda>kg. minc \<le> int (length (snd kg))) (group_by (stu_id \<circ> fst) (q4_join d)))"

text \<open>\<open>ORDER BY AvgGrade DESC LIMIT %s\<close>. The method returns \<open>execute_query\<close>'s value
  itself: \<open>None\<close> when the read fails, and also for a negative limit, which MySQL rejects.\<close>

definition query_top_students :: "db option \<Rightarrow> int \<Rightarrow> int \<Rightarrow> top_row list option" where
  "query_top_students st lmt minc =
     (case st of None \<Rightarrow> None
      | Some d \<Rightarrow> if lmt < 0 then None
                 else Some (take (nat lmt) (sort_key (\<lambda>r. Desc (ts_avg r)) (top_rows d minc))))"

section \<open>Grade distributions, lines 86--111 and 384--415\<close>

text \<open>\<open>get_grade_distribution\<close>: four ranges, \<open>ORDER BY GradeRange\<close> (the label strings).\<close>

definition grade_range :: "rat \<Rightarrow> string" where
  "grade_range g =
     (if g < 5 then ''0 - 5'' else if g < 7 then ''5 - 7'' else if g < 17 / 2 then ''7 - 8.5''
      else ''8.5 - 10'')"

definition get_grade_distribution :: "db option \<Rightarrow> (string \<times> nat) list option" where
  "get_grade_distribution st =
     execute_query st (\<lambda>d. sort_key (coll \<circ> fst)
       (map (\<lambda>kg. (fst kg, length (snd kg))) (group_by grade_range (grades_of (db_enrollments d)))))"

text \<open>\<open>query_grade_distribution\<close>: six letter ranges with their average, ordered by the
  position of the range in the \<open>CASE\<close>.\<close>

definition letter_range :: "rat \<Rightarrow> string" where
  "letter_range g =
     (if 9 \<le> g then ''A (9-10)'' else if 8 \<le> g then ''B (8-9)'' else if 7 \<le> g then ''C (7-8)''
      else if 6 \<le> g then ''D (6-7)'' else if 5 \<le> g then ''E (5-6)'' else ''F (0-5)'')"

definition letter_rank :: "string \<Rightarrow> nat" where
  "letter_rank l =
     (if l = ''A (9-10)'' then 1 else if l = ''B (8-9)'' then 2 else if l = ''C (7-8)'' then 3
      else if l = ''D (6-7)'' then 4 else if l = ''E (5-6)'' then 5 else 6)"

definition query_grade_distribution :: "db option \<Rightarrow> (string \<times> nat \<times> rat) list option" where
  "query_grade_distribution st =
     execute_query st (\<lambda>d. sort_key (letter_rank \<circ> fst)
       (map (\<lambda>kg. (fst kg, length (snd kg), sql_round2 (avg (snd kg))))
          (group_by letter_range (grades_of (db_enrollments d)))))"

section \<open>Dashboard figures, lines 479--508\<close>

record kpis =
  total_students :: nat
  total_subjects :: nat
  total_classes :: nat
  total_enrollments :: nat
  avg_grade :: "rat option"
  pass_rate :: "rat option"

text \<open>\<open>ROUND(100.0 * COUNT(CASE WHEN Grade >= 5 THEN 1 END) / COUNT(*), 2)\<close> over the
  non-\<open>NULL\<close> grades: a division by a zero count is \<open>NULL\<close> in MySQL.\<close>

definition pass_rate_of :: "rat list \<Rightarrow> rat option" where
  "pass_rate_of gs =
     (if gs = [] then None
      else Some (sql_round2 (100 * of_int (int (length (filter (\<lambda>g. 5 \<le> g) gs))) / of_int (int (length gs)))))"

definition dashboard :: "db \<Rightarrow> kpis" where
  "dashboard d =
     \<lparr>total_students = length (db_students d), total_subjects = length (db_subjects d),
      total_classes = length (db_classes d), total_enrollments = length (db_enrollments d),
      avg_grade = map_option sql_round2 (sql_avg (grades_of (db_enrollments d))),
      pass_rate = pass_rate_of (grades_of (db_enrollments d))\<rparr>"

text \<open>\<open>result = db.execute_query(sql, fetch_one=True); return result if result else {}\<close>:
  the one row of the statement, or the empty dict (\<open>None\<close> here) when the read fails.\<close>

definition get_dashboard_kpis :: "db option \<Rightarrow> kpis option" where
  "get_dashboard_kpis st = execute_query_one st (\<lambda>d. [dashboard d])"

section \<open>Subject and lecturer performance, lines 420--467\<close>

text \<open>\<open>query_subject_performance\<close>: \<open>subjects JOIN classes JOIN enrollments WHERE Grade IS NOT
  NULL GROUP BY sub.SubjectCode ORDER BY AvgGrade DESC\<close>; a group is the subject code under the
  collation, its rows are (subject, student id, grade).\<close>

record subject_perf =
  sp_code :: string
  sp_name :: string
  sp_credits :: int
  sp_students :: nat
  sp_avg :: rat
  sp_min :: rat
  sp_max :: rat
  sp_pass :: nat
  sp_fail :: nat

definition sp_join :: "db \<Rightarrow> (subject \<times> int \<times> rat) list" where
  "sp_join d = [(u, enr_student e, g). u \<leftarrow> db_subjects d, c \<leftarrow> db_classes d, sql_str_eq (sub_code u) (cls_subject c),
                                     e \<leftarrow> db_enrollments d, enr_class e = cls_id c, g \<leftarrow> opt_list (enr_grade e)]"

definition sp_row :: "(subject \<times> int \<times> rat) list \<Rightarrow> subject_perf" where
  "sp_row grp = (let u = fst (hd grp); gs = map (snd \<circ> snd) grp in
     \<lparr>sp_code = sub_code u, sp_name = sub_name u, sp_credits = sub_credits u,
      sp_students = length (remdups (map (fst \<circ> snd) grp)), sp_avg = sql_round2 (avg gs),
      sp_min = Min (set gs), sp_max = Max (set gs),
      sp_pass = length (filter (\<lambda>g. 5 \<le> g) gs), sp_fail = length (filter (\<lambda>g. g < 5) gs)\<rparr>)"

definition query_subject_performance :: "db option \<Rightarrow> subject_perf list option" where
  "query_subject_performance st =
     execute_query st (\<lambda>d. sort_key (\<lambda>r. Desc (sp_avg r))
       (map (sp_row \<circ> snd) (group_by (coll \<circ> sub_code \<circ> fst) (sp_join d))))"

text \<open>\<open>query_lecturer_performance\<close>: \<open>lecturers JOIN classes ON l.LecturerID = c.LecturerID JOIN
  enrollments ... GROUP BY l.LecturerID\<close>; rows are (lecturer, class id, student id, grade).\<close>

record lecturer_perf =
  lp_id :: int
  lp_name :: string
  lp_office :: "string option"
  lp_classes :: nat
  lp_students :: nat
  lp_avg :: rat
  lp_excellent :: nat

definition lp_join :: "db \<Rightarrow> (lecturer \<times> int \<times> int \<times> rat) list" where
  "lp_join d = [(l, cls_id c, enr_student e, g). l \<leftarrow> db_lecturers d, c \<leftarrow> db_classes d, cls_lecturer c = Some (lec_id l),
                                                e \<leftarrow> db_enrollments d, enr_class e = cls_id c, g \<leftarrow> opt_list (enr_grade e)]"

definition lp_row :: "(lecturer \<times> int \<times> int \<times> rat) list \<Rightarrow> lecturer_perf" where
  "lp_row grp = (let l = fst (hd grp); gs = map (\<lambda>x. snd (snd (snd x))) grp in
     \<lparr>lp_id = lec_id l, lp_name = lec_first l @ '' '' @ lec_last l, lp_office = lec_office l,
      lp_classes = length (remdups (map (\<lambda>x. fst (snd x)) grp)),
      lp_students = length (remdups (map (\<lambda>x. fst (snd (snd x))) grp)),
      lp_avg = sql_round2 (avg gs), lp_excellent = length (filter (\<lambda>g. 8 \<le> g) gs)\<rparr>)"

definition query_lecturer_performance :: "db option \<Rightarrow> lecturer_perf list option" where
  "query_lecturer_performance st =
     execute_query st (\<lambda>d. sort_key (\<lambda>r. Desc (lp_avg r))
       (map (lp_row \<circ> snd) (group_by (lec_id \<circ> fst) (lp_join d))))"

section \<open>The distributions as the specification states them\<close>

text \<open>The ranges in the order the charts show them.\<close>

definition range_labels :: "string list" where
  "range_labels = [''0 - 5'', ''5 - 7'', ''7 - 8.5'', ''8.5 - 10'']"

definition letter_labels :: "string list" where
  "letter_labels = [''A (9-10)'', ''B (8-9)'', ''C (7-8)'', ''D (6-7)'', ''E (5-6)'', ''F (0-5)'']"

section \<open>Lemmas\<close>

lemma group_by_key:
  "filter (\<lambda>kg. fst kg = k) (group_by f xs) =
     (if k \<in> f ` set xs then [(k, filter (\<lambda>x. f x = k) xs)] else [])"
proof -
  have "filter (\<lambda>kg. fst kg = k) (group_by f xs) =
        map (\<lambda>k. (k, filter (\<lambda>x. f x = k) xs)) (filter (\<lambda>y. y = k) (remdups (map f xs)))"
    by (simp add: group_by_def filter_map comp_def)
  then show ?thesis by (simp add: filter_eq_distinct)
qed

lemma group_by_groups:
  "kg \<in> set (group_by f xs) \<Longrightarrow> snd kg \<noteq> [] \<and> (\<forall>x \<in> set (snd kg). f x = fst kg)"
  by (auto simp: group_by_def filter_empty_conv)

lemma q4_join_eq: "q4_join d = concat (map (\<lambda>s. map (Pair s) (student_grades d s)) (db_students d))"
  by (simp add: q4_join_def student_grades_def grades_of_def map_concat comp_def
      concat_map_if_filter[symmetric] map_if_Nil)

lemma q4_join_student:
  assumes "distinct (map stu_id (db_students d))" "s \<in> set (db_students d)"
  shows "filter (\<lambda>x. stu_id (fst x) = stu_id s) (q4_join d) = map (Pair s) (student_grades d s)"
  unfolding q4_join_eq by (rule filter_concat_blocks[OF assms]) auto

lemma q4_row_sid: "kg \<in> set (group_by (stu_id \<circ> fst) xs) \<Longrightarrow> aa_sid (q4_row ga (snd kg)) = fst kg"
  using group_by_groups[of kg "stu_id \<circ> fst" xs] by (cases "snd kg") (auto simp: q4_row_def Let_def)

lemma q4_rows_student:
  assumes "distinct (map stu_id (db_students d))" "s \<in> set (db_students d)"
  defines "gs \<equiv> student_grades d s"
  shows "filter (\<lambda>r. aa_sid r = stu_id s) (q4_rows d minc) =
    (if gs \<noteq> [] \<and> q4_having minc (global_avg d) (map (Pair s) gs)
     then [q4_row (global_avg d) (map (Pair s) gs)] else [])"
proof -
  define G where "G = group_by (stu_id \<circ> fst) (q4_join d)"
  define ga where "ga = global_avg d"
  have "filter (\<lambda>r. aa_sid r = stu_id s) (q4_rows d minc) =
      map (q4_row ga \<circ> snd) (filter (\<lambda>kg. aa_sid (q4_row ga (snd kg)) = stu_id s) (filter (q4_having minc ga \<circ> snd) G))"
    by (simp add: q4_rows_def G_def ga_def filter_map comp_def Let_def)
  also have "\<dots> = map (q4_row ga \<circ> snd) (filter (q4_having minc ga \<circ> snd) (filter (\<lambda>kg. fst kg = stu_id s) G))"
    using q4_row_sid[of _ "q4_join d" ga] by (simp add: G_def filter_filter conj_commute cong: filter_cong)
  also have "filter (\<lambda>kg. fst kg = stu_id s) G = (if gs \<noteq> [] then [(stu_id s, map (Pair s) gs)] else [])"
    unfolding G_def group_by_key key_in_image_iff comp_def q4_join_student[OF assms(1,2)]
    by (simp add: gs_def)
  finally show ?thesis by (simp add: ga_def)
qed

text \<open>Claim C12 (query_students_above_average_rows): in a well-formed database, query 4 returns a student exactly when the student has at least min_classes graded enrollments and a raw average above the global average rounded to two decimals; then it returns one row for that student, with the rounded average, the global average and the number of graded enrollments.\<close>

theorem query_students_above_average_rows:
  fixes d s rows minc
  assumes "db_wf d" "s \<in> set (db_students d)" "query_students_above_average (Some d) minc = Inr rows"
  defines "gs \<equiv> student_grades d s"
  shows "(stu_id s \<in> aa_sid ` set rows \<longleftrightarrow>
            gs \<noteq> [] \<and> minc \<le> int (length gs) \<and> (\<exists>g. global_avg d = Some g \<and> g < avg gs)) \<and>
         (\<forall>r \<in> set rows. aa_sid r = stu_id s \<longrightarrow>
            length (filter (\<lambda>r. aa_sid r = stu_id s) rows) = 1 \<and> aa_avg r = sql_round2 (avg gs) \<and>
            aa_global r = global_avg d \<and> aa_total r = length gs)"
proof -
  have dist: "distinct (map stu_id (db_students d))" using assms(1) by (simp add: db_wf_defs)
  have rows: "rows = sort_key q4_key (q4_rows d minc)"
    using assms(3) by (simp add: query_students_above_average_def)
  have sel: "filter (\<lambda>r. aa_sid r = stu_id s) rows =
    (if gs \<noteq> [] \<and> q4_having minc (global_avg d) (map (Pair s) gs)
     then [q4_row (global_avg d) (map (Pair s) gs)] else [])"
  proof (rule mset_eq_le1)
    show "mset (filter (\<lambda>r. aa_sid r = stu_id s) rows) = mset (if gs \<noteq> [] \<and> q4_having minc (global_avg d) (map (Pair s) gs)
     then [q4_row (global_avg d) (map (Pair s) gs)] else [])"
      unfolding rows mset_filter_sort_key q4_rows_student[OF dist assms(2)] gs_def ..
  qed simp
  have snd_gs: "map snd (map (Pair s) gs) = gs" "map (snd \<circ> Pair s) gs = gs" by (induction gs) auto
  have mem: "stu_id s \<in> aa_sid ` set rows \<longleftrightarrow> filter (\<lambda>r. aa_sid r = stu_id s) rows \<noteq> []"
    by (rule key_in_image_iff)
  have row: "r \<in> set (filter (\<lambda>r. aa_sid r = stu_id s) rows)" if "r \<in> set rows" "aa_sid r = stu_id s" for r
    using that by simp
  show ?thesis
  proof (intro conjI ballI impI)
    show "stu_id s \<in> aa_sid ` set rows \<longleftrightarrow>
            gs \<noteq> [] \<and> minc \<le> int (length gs) \<and> (\<exists>g. global_avg d = Some g \<and> g < avg gs)"
      unfolding mem sel by (auto simp: q4_having_def snd_gs split: option.split)
  next
    fix r assume "r \<in> set rows" "aa_sid r = stu_id s"
    from row[OF this] have r: "r \<in> set (filter (\<lambda>r. aa_sid r = stu_id s) rows)" .
    then show "length (filter (\<lambda>r. aa_sid r = stu_id s) rows) = 1"
      unfolding sel by (simp split: if_splits)
    show "aa_avg r = sql_round2 (avg gs)" "aa_global r = global_avg d" "aa_total r = length gs"
      using r unfolding sel by (auto simp: q4_row_def Let_def snd_gs split: if_splits)
  qed
qed

lemma avg_bounds:
  assumes "xs \<noteq> []" "\<forall>x \<in> set xs. a \<le> x \<and> x \<le> b"
  shows "a \<le> avg xs \<and> avg xs \<le> b"
proof -
  have n: "(0::rat) < of_nat (length xs)" using assms(1) by simp
  show ?thesis using sum_list_bounds[OF assms(2)] n
    by (simp add: avg_def pos_le_divide_eq pos_divide_le_eq mult.commute)
qed

lemma grades_of_set: "set (grades_of es) = {g. \<exists>e \<in> set es. enr_grade e = Some g}"
  by (auto simp: grades_of_def opt_list_def split: option.splits)

lemma grades_of_wf: "db_wf d \<Longrightarrow> g \<in> set (grades_of (db_enrollments d)) \<Longrightarrow> 0 \<le> g \<and> g \<le> 10"
  by (auto simp: grades_of_set db_wf_defs grade_ok_def)

lemma q4_join_grade: "x \<in> set (q4_join d) \<Longrightarrow> snd x \<in> set (grades_of (db_enrollments d))"
  by (auto simp: q4_join_def grades_of_set opt_list_def split: option.splits)

lemma group_avg_bounds:
  assumes "db_wf d" "kg \<in> set (group_by (stu_id \<circ> fst) (q4_join d))"
  shows "0 \<le> sql_round2 (avg (map snd (snd kg))) \<and> sql_round2 (avg (map snd (snd kg))) \<le> 10"
proof -
  have ne: "map snd (snd kg) \<noteq> []" using group_by_groups[OF assms(2)] by simp
  have "\<forall>g \<in> set (map snd (snd kg)). 0 \<le> g \<and> g \<le> 10"
    using assms(2) q4_join_grade grades_of_wf[OF assms(1)] by (auto simp: group_by_def)
  from avg_bounds[OF ne this] show ?thesis
    using sql_round2_range[of 0 "avg (map snd (snd kg))" 10] by simp
qed

text \<open>when no enrollment has a grade, the dashboard figures are returned with a NULL average grade and a NULL pass rate, not a division by zero.\<close>

theorem dashboard_kpis_no_grades:
  "grades_of (db_enrollments d) = [] \<Longrightarrow>
   \<exists>k. get_dashboard_kpis (Some d) = Some k \<and> avg_grade k = None \<and> pass_rate k = None \<and>
       total_enrollments k = length (db_enrollments d)"
  by (simp add: get_dashboard_kpis_def execute_query_one_def dashboard_def sql_avg_def pass_rate_of_def)

lemma pass_rate_bounds:
  assumes "gs \<noteq> []"
  shows "0 \<le> sql_round2 (100 * of_int (int (length (filter (\<lambda>g. 5 \<le> g) gs))) / of_int (int (length gs)))
       \<and> sql_round2 (100 * of_int (int (length (filter (\<lambda>g. 5 \<le> g) gs))) / of_int (int (length gs))) \<le> 100"
proof -
  let ?c = "of_int (int (length (filter (\<lambda>g. 5 \<le> g) gs))) :: rat"
  let ?n = "of_int (int (length gs)) :: rat"
  have n: "0 < ?n" using assms by simp
  have c: "0 \<le> ?c" "?c \<le> ?n" by (simp_all add: length_filter_le)
  have "0 \<le> 100 * ?c / ?n" "100 * ?c / ?n \<le> 100" using n c by (simp_all add: divide_le_eq)
  then show ?thesis using sql_round2_range[of 0 "100 * ?c / ?n" 100] by simp
qed

text \<open>Claim C28 (dashboard_kpis_bounds): in a well-formed database, the dashboard's average grade lies in [0, 10], its pass rate in [0, 100], and one is NULL exactly when the other is.\<close>

theorem dashboard_kpis_bounds:
  assumes "db_wf d" "get_dashboard_kpis (Some d) = Some k"
  shows "(case avg_grade k of None \<Rightarrow> True | Some a \<Rightarrow> 0 \<le> a \<and> a \<le> 10) \<and>
         (case pass_rate k of None \<Rightarrow> True | Some p \<Rightarrow> 0 \<le> p \<and> p \<le> 100) \<and>
         (avg_grade k = None \<longleftrightarrow> pass_rate k = None)"
proof -
  define gs where "gs = grades_of (db_enrollments d)"
  have k: "k = dashboard d" using assms(2) by (simp add: get_dashboard_kpis_def execute_query_one_def)
  show ?thesis
  proof (cases "gs = []")
    case True
    then show ?thesis by (simp add: k dashboard_def gs_def[symmetric] sql_avg_def pass_rate_of_def)
  next
    case False
    have "\<forall>g \<in> set gs. 0 \<le> g \<and> g \<le> 10" using grades_of_wf[OF assms(1)] by (simp add: gs_def)
    then have "0 \<le> avg gs \<and> avg gs \<le> 10" by (rule avg_bounds[OF False])
    then have "0 \<le> sql_round2 (avg gs) \<and> sql_round2 (avg gs) \<le> 10"
      using sql_round2_range[of 0 "avg gs" 10] by simp
    then show ?thesis using False pass_rate_bounds[OF False]
      by (simp add: k dashboard_def gs_def[symmetric] sql_avg_def pass_rate_of_def)
  qed
qed

lemma top_rows_total: "r \<in> set (top_rows d minc) \<Longrightarrow> minc \<le> int (ts_total r)"
  by (auto simp: top_rows_def top_row_of_def Let_def)

lemma top_rows_avg:
  "db_wf d \<Longrightarrow> r \<in> set (top_rows d minc) \<Longrightarrow> 0 \<le> ts_avg r \<and> ts_avg r \<le> 10"
  using group_avg_bounds by (fastforce simp: top_rows_def top_row_of_def Let_def)

text \<open>query_top_students returns at most limit rows, sorted by average descending, each with at least min_classes graded enrollments and an average in [0, 10], a sub-multiset of the qualifying students in which no omitted student has a higher average.\<close>

theorem query_top_students_rows:
  assumes "db_wf d" "query_top_students (Some d) lmt minc = Some rows"
  shows "length rows \<le> nat lmt \<and> sorted (map (\<lambda>r. Desc (ts_avg r)) rows) \<and>
         (\<forall>r \<in> set rows. minc \<le> int (ts_total r) \<and> 0 \<le> ts_avg r \<and> ts_avg r \<le> 10) \<and>
         mset rows \<subseteq># mset (top_rows d minc) \<and>
         (\<forall>r \<in> set rows. \<forall>r' \<in># mset (top_rows d minc) - mset rows. ts_avg r' \<le> ts_avg r)"
proof -
  define L where "L = sort_key (\<lambda>r. Desc (ts_avg r)) (top_rows d minc)"
  have rows: "rows = take (nat lmt) L" and nn: "0 \<le> lmt"
    using assms(2) by (auto simp: query_top_students_def L_def split: if_splits)
  have sL: "sorted (map (\<lambda>r. Desc (ts_avg r)) L)" by (simp add: L_def sorted_sort_key)
  have mL: "mset L = mset (top_rows d minc)" by (simp add: L_def)
  have setL: "set L = set (top_rows d minc)" by (simp add: L_def)
  have split: "mset (top_rows d minc) = mset rows + mset (drop (nat lmt) L)"
    unfolding rows mL[symmetric] by (simp flip: mset_append)
  have rest: "mset (top_rows d minc) - mset rows = mset (drop (nat lmt) L)"
    unfolding split by simp
  have sub: "mset rows \<subseteq># mset (top_rows d minc)"
    unfolding split by simp
  have top: "ts_avg r' \<le> ts_avg r" if "r \<in> set rows" "r' \<in> set (drop (nat lmt) L)" for r r'
    using sorted_take_drop_le[OF sL, of r "nat lmt" r'] that by (simp add: rows)
  have mem: "r \<in> set (top_rows d minc)" if "r \<in> set rows" for r
    using that set_take_subset[of "nat lmt" L] setL by (auto simp: rows)
  have st: "sorted (map (\<lambda>r. Desc (ts_avg r)) rows)"
    using sL by (simp add: rows sorted_wrt_take flip: take_map)
  have c3: "\<forall>r \<in> set rows. minc \<le> int (ts_total r) \<and> 0 \<le> ts_avg r \<and> ts_avg r \<le> 10"
    using mem top_rows_total top_rows_avg[OF assms(1)] by blast
  have c5: "\<forall>r \<in> set rows. \<forall>r' \<in># mset (top_rows d minc) - mset rows. ts_avg r' \<le> ts_avg r"
    using top unfolding rest by simp
  have "length rows \<le> nat lmt" by (simp add: rows)
  then show ?thesis using st sub c3 c5 by blast
qed

lemma sort_groups_labels:
  assumes lab: "\<forall>x \<in> set xs. f x \<in> set labels" and dk: "distinct (map key labels)"
    and sk: "sorted (map key labels)"
  shows "sort_key (key \<circ> fst) (map (\<lambda>kg. (fst kg, h (snd kg))) (group_by f xs)) =
    map (\<lambda>l. (l, h (filter (\<lambda>x. f x = l) xs))) (filter (\<lambda>l. l \<in> f ` set xs) labels)"
    (is "sort_key _ ?A = ?B")
proof -
  have dl: "distinct labels" using dk by (simp add: distinct_map)
  have inj: "inj_on key (set labels)" using dk by (simp add: distinct_map)
  have A: "?A = map (\<lambda>l. (l, h (filter (\<lambda>x. f x = l) xs))) (remdups (map f xs))"
    by (simp add: group_by_def comp_def)
  have ks: "mset (remdups (map f xs)) = mset (filter (\<lambda>l. l \<in> f ` set xs) labels)"
  proof -
    have "set (remdups (map f xs)) = set (filter (\<lambda>l. l \<in> f ` set xs) labels)" using lab by auto
    then show ?thesis using set_eq_iff_mset_eq_distinct[of "remdups (map f xs)" "filter (\<lambda>l. l \<in> f ` set xs) labels"] dl
      by simp
  qed
  have dA: "distinct (map (key \<circ> fst) ?A)"
    unfolding A using lab inj
    by (auto simp: comp_def distinct_map intro: inj_on_subset)
  have dB: "distinct (map (key \<circ> fst) ?B)"
    using dk by (simp add: comp_def distinct_map_filter)
  have mAB: "mset ?B = mset ?A" unfolding A mset_map ks by (rule refl)
  show ?thesis
  proof (rule properties_for_sort_key)
    show "mset ?B = mset ?A" by (rule mAB)
  next
    fix k assume k: "k \<in> set ?B"
    have kA: "k \<in> set ?A" using k unfolding mset_eq_setD[OF mAB] .
    show "filter (\<lambda>x. (key \<circ> fst) k = (key \<circ> fst) x) ?B = filter (\<lambda>x. (key \<circ> fst) k = (key \<circ> fst) x) ?A"
      unfolding filter_distinct_key_single'[OF dB k] filter_distinct_key_single'[OF dA kA] ..
  next
    show "sorted (map (key \<circ> fst) ?B)"
      using sk by (simp add: comp_def sorted_filter)
  qed
qed

lemma grade_range_labels: "grade_range g \<in> set range_labels"
  by (simp add: grade_range_def range_labels_def)

lemma range_labels_order: "distinct (map coll range_labels) \<and> sorted (map coll range_labels)"
  by code_simp

lemma letter_range_labels: "letter_range g \<in> set letter_labels"
  by (simp add: letter_range_def letter_labels_def)

lemma letter_labels_order: "distinct (map letter_rank letter_labels) \<and> sorted (map letter_rank letter_labels)"
  by (simp add: letter_labels_def letter_rank_def)

text \<open>get_grade_distribution returns one row per non-empty range among [0,5), [5,7), [7,8.5), [8.5,10], in that order, with the number of grades in the range.\<close>

theorem get_grade_distribution_rows:
  "get_grade_distribution (Some d) =
     Some (map (\<lambda>l. (l, length (filter (\<lambda>g. grade_range g = l) (grades_of (db_enrollments d)))))
             (filter (\<lambda>l. l \<in> grade_range ` set (grades_of (db_enrollments d))) range_labels))"
  using sort_groups_labels[of "grades_of (db_enrollments d)" grade_range range_labels coll length]
    grade_range_labels range_labels_order
  by (simp add: get_grade_distribution_def execute_query_def)

text \<open>query_grade_distribution returns one row per non-empty letter range, from A to F, with the number of grades in the range and their average rounded to two decimals.\<close>

theorem query_grade_distribution_rows:
  "query_grade_distribution (Some d) =
     Some (map (\<lambda>l. (l, length (filter (\<lambda>g. letter_range g = l) (grades_of (db_enrollments d))),
                       sql_round2 (avg (filter (\<lambda>g. letter_range g = l) (grades_of (db_enrollments d))))))
             (filter (\<lambda>l. l \<in> letter_range ` set (grades_of (db_enrollments d))) letter_labels))"
  using sort_groups_labels[of "grades_of (db_enrollments d)" letter_range letter_labels letter_rank
      "\<lambda>grp. (length grp, sql_round2 (avg grp))"]
    letter_range_labels letter_labels_order
  by (simp add: query_grade_distribution_def execute_query_def)

text \<open>when no enrollment has a grade, query 4 returns no row (the global average is NULL) instead of dividing by zero.\<close>

theorem query_students_above_average_no_grades:
  "grades_of (db_enrollments d) = [] \<Longrightarrow> query_students_above_average (Some d) minc = Inr []"
  by (simp add: query_students_above_average_def q4_rows_def global_avg_def sql_avg_def q4_having_def
      comp_def)

text \<open>When the storage cannot be read, queries 1 to 4 raise a TypeError (the log line takes len(None)), the top students and both grade distributions return None, and the dashboard returns the empty dict; none reports a storage error.\<close>

theorem queries_storage_failure:
  "query_student_grades_by_subject None code = Inl len_of_none \<and>
   query_all_students_with_grades None = Inl len_of_none \<and>
   query_complete_enrollment_info None sid code lid sem yr = Inl len_of_none \<and>
   query_students_above_average None minc = Inl len_of_none \<and>
   query_top_students None lmt minc = None \<and> get_grade_distribution None = None \<and>
   query_grade_distribution None = None \<and> get_dashboard_kpis None = None"
  by (simp add: query_student_grades_by_subject_def query_all_students_with_grades_def
      query_complete_enrollment_info_def query_students_above_average_def logged_query_def
      query_top_students_def get_grade_distribution_def query_grade_distribution_def
      get_dashboard_kpis_def execute_query_one_def execute_query_def)


text \<open>Every row of the subject performance counts each graded enrollment once, as a pass or
  a fail, has at least one grade, and no more students than grades.\<close>

lemma subject_performance_counts:
  assumes "query_subject_performance st = Some rs" "r \<in> set rs"
  shows "0 < sp_pass r + sp_fail r \<and> sp_students r \<le> sp_pass r + sp_fail r \<and> sp_min r \<le> sp_max r"
proof -
  obtain d where st: "st = Some d" using assms(1) by (cases st) (auto simp: query_subject_performance_def execute_query_def)
  then obtain kg where kg: "kg \<in> set (group_by (coll \<circ> sub_code \<circ> fst) (sp_join d))" "r = sp_row (snd kg)"
    using assms by (auto simp: query_subject_performance_def execute_query_def)
  let ?gs = "map (snd \<circ> snd) (snd kg)"
  have ne: "snd kg \<noteq> []" using group_by_groups[OF kg(1)] by simp
  have pf: "length (filter (\<lambda>g. 5 \<le> g) ?gs) + length (filter (\<lambda>g. g < 5) ?gs) = length (snd kg)"
    using sum_length_filter_compl[of "\<lambda>g. 5 \<le> g" ?gs] by (simp add: not_le)
  have "length (remdups (map (fst \<circ> snd) (snd kg))) \<le> length (snd kg)"
    using length_remdups_leq[of "map (fst \<circ> snd) (snd kg)"] by simp
  moreover have "Min (set ?gs) \<le> Max (set ?gs)" using ne by simp
  ultimately show ?thesis
    using ne pf by (simp add: kg(2) sp_row_def Let_def)
qed

end
