(* ===== verification/Models.thy ===== *)
theory Models
  imports Writes Validators Reports "HOL-Library.Sublist"
begin

text \<open>
  The repository layer, \<open>src/final/models.py\<close>: one class per table with static
  create/read/update/delete methods. Each method is a function of the storage
  (\<open>db option\<close>) and its Python arguments; a write returns its Python result with the
  new tables, or the exception it raises (\<open>Inl\<close>), in which case the tables are unchanged.
  Reads go through \<open>execute_query\<close>, so a SQL error is \<open>None\<close> like an absent row. The
  methods are modelled as they are written, including the keys they read from the
  validators' results: the validators return \<open>CamelCase\<close> keys (\<open>FirstName\<close>,
  \<open>SubjectCode\<close>, \<open>StudentID\<close>), the create and update methods read
  \<open>snake_case\<close> keys (\<open>first_name\<close>, \<open>code\<close>, \<open>student_id\<close>), and the lecturer and
  class methods call \<open>Validators.validate_required\<close>, \<open>validate_semester\<close> and
  \<open>validate_capacity\<close>, which \<open>Validators\<close> does not define.
\<close>

section \<open>Reads\<close>

text \<open>\<open>SELECT * FROM t WHERE c = %s AND ...\<close>: \<open>None\<close> is a SQL error.\<close>

definition select_where :: "db \<Rightarrow> string \<Rightarrow> (string \<times> pyval) list \<Rightarrow> pydict list option" where
  "select_where d t w =
     (case known_columns t w of Inl _ \<Rightarrow> None
      | Inr _ \<Rightarrow> map_option (\<lambda>bs. map fst (filter snd (zip (table_rows d t) bs)))
                  (all_some (map (where_match w) (table_rows d t))))"

text \<open>\<open>execute_query\<close> on a statement that may fail: a failure is \<open>None\<close>, as is a
  missing storage.\<close>

definition query_all :: "db option \<Rightarrow> (db \<Rightarrow> 'r list option) \<Rightarrow> 'r list option" where
  "query_all st q = Option.bind st q"

definition query_one :: "db option \<Rightarrow> (db \<Rightarrow> 'r list option) \<Rightarrow> 'r option" where
  "query_one st q = Option.bind (Option.bind st q) (\<lambda>rs. case rs of [] \<Rightarrow> None | r # _ \<Rightarrow> Some r)"

text \<open>The order MySQL sorts a column by: \<open>NULL\<close> first, numbers by value, strings by
  the collation.\<close>

definition order_key :: "pyval \<Rightarrow> nat \<times> rat \<times> string" where
  "order_key v = (case v of PNone \<Rightarrow> (0, 0, [])
     | PBool b \<Rightarrow> (1, if b then 1 else 0, []) | PInt i \<Rightarrow> (1, of_int i, [])
     | PFloat (Fin r) \<Rightarrow> (1, r, []) | PFloat _ \<Rightarrow> (1, 0, []) | PStr s \<Rightarrow> (2, 0, coll s))"

text \<open>\<open>LIKE\<close>: \<open>%\<close> any string, \<open>_\<close> one character, a backslash escapes the next
  character; compared under the collation.\<close>

fun like_match :: "string \<Rightarrow> string \<Rightarrow> bool" where
  "like_match [] s = (s = [])"
| "like_match (c # p) s =
     (if c = CHR ''%'' then like_match p s \<or> (case s of [] \<Rightarrow> False | _ # s' \<Rightarrow> like_match (c # p) s')
      else case s of [] \<Rightarrow> False
        | x # s' \<Rightarrow> (if c = CHR ''_'' then like_match p s'
                    else if c = CHR 0x5C \<and> p \<noteq> [] then x = hd p \<and> like_match (tl p) s'
                    else x = c \<and> like_match p s'))"

definition sql_like :: "pyval \<Rightarrow> string \<Rightarrow> bool" where
  "sql_like v p = (case v of PStr s \<Rightarrow> like_match (coll p) (coll s) | _ \<Rightarrow> False)"

text \<open>A pattern with no \<open>LIKE\<close> metacharacter.\<close>

definition no_wildcard :: "string \<Rightarrow> bool" where
  "no_wildcard p \<longleftrightarrow> list_all (\<lambda>c. c \<noteq> CHR ''%'' \<and> c \<noteq> CHR ''_'' \<and> c \<noteq> CHR 0x5C) p"

section \<open>Module-level wrappers, lines 16--23\<close>

definition models_validate_student_data :: "int \<Rightarrow> db option \<Rightarrow> pydict \<Rightarrow> pydict res" where
  "models_validate_student_data cy st data = validate_student_data cy st data PNone"

definition models_validate_subject_data :: "db option \<Rightarrow> pydict \<Rightarrow> pydict res" where
  "models_validate_subject_data st data = validate_subject_data st data False"

definition models_validate_enrollment_data :: "db option \<Rightarrow> pydict \<Rightarrow> pydict res" where
  "models_validate_enrollment_data st data = validate_enrollment_data st data False"

section \<open>BaseModel, lines 30--57\<close>

text \<open>\<open>_format_where_clause(filters)\<close>: the clause text and its parameters.\<close>

definition format_where_clause :: "(string \<times> pyval) list \<Rightarrow> string \<times> pyval list" where
  "format_where_clause filters =
     (if filters = [] then ([], [])
      else ('' WHERE '' @ py_join '' AND '' (map (\<lambda>kv. fst kv @ '' = %s'') filters), map snd filters))"

section \<open>StudentModel, lines 65--245\<close>

definition student_cols :: "string list" where
  "student_cols = [''FirstName'', ''LastName'', ''DOB'', ''Gender'', ''Address'', ''Phone'', ''Email'',
                   ''EnrollmentYear'', ''Major'']"

text \<open>The keys \<open>create\<close> and \<open>update\<close> read from the validated dict, in the order of the
  parameter tuple.\<close>

definition student_keys :: "string list" where
  "student_keys = [''first_name'', ''last_name'', ''dob'', ''gender'', ''address'', ''phone'', ''email'',
                   ''enrollment_year'', ''major'']"

definition student_create :: "int \<Rightarrow> db option \<Rightarrow> pydict \<Rightarrow> (int \<times> db) res" where
  "student_create cy st data =
     pbind (models_validate_student_data cy st data) (\<lambda>clean.
     pbind (map_res (dict_getitem clean) student_keys) (\<lambda>ps.
     cursor_insert st (Insert ''students'' (zip student_cols ps))))"

definition student_get_by_id :: "db option \<Rightarrow> pyval \<Rightarrow> pydict option" where
  "student_get_by_id st sid = query_one st (\<lambda>d. select_where d ''students'' [(''StudentID'', sid)])"

definition student_update :: "int \<Rightarrow> db option \<Rightarrow> pyval \<Rightarrow> pydict \<Rightarrow> (nat \<times> db) res" where
  "student_update cy st sid data =
     pbind (models_validate_student_data cy st data) (\<lambda>clean.
     pbind (map_res (dict_getitem clean) student_keys) (\<lambda>ps.
     execute_update st (Update ''students'' (zip student_cols ps) [(''StudentID'', sid)])))"

definition student_delete :: "db option \<Rightarrow> pyval \<Rightarrow> (nat \<times> db) res" where
  "student_delete st sid = execute_update st (Delete ''students'' [(''StudentID'', sid)])"

text \<open>\<open>ORDER BY {order_by} LIMIT %s OFFSET %s\<close>: the column name is pasted into the SQL
  text; an unknown column and a negative limit or offset are SQL errors.\<close>

definition student_list :: "db option \<Rightarrow> int \<Rightarrow> int \<Rightarrow> string \<Rightarrow> pydict list option" where
  "student_list st lmt off order_by =
     query_all st (\<lambda>d.
       if order_by \<notin> set student_cols \<and> order_by \<noteq> ''StudentID'' \<or> lmt < 0 \<or> off < 0 then None
       else Some (take (nat lmt) (drop (nat off)
              (sort_key (\<lambda>r. order_key (dict_get r order_by)) (table_rows d ''students'')))))"

text \<open>\<open>WHERE f1 LIKE %s OR f2 LIKE %s ... ORDER BY StudentID\<close> with the parameter
  \<open>f"%{keyword}%"\<close>; the keyword's own \<open>%\<close> and \<open>_\<close> are not escaped.\<close>

definition student_search :: "db option \<Rightarrow> string \<Rightarrow> string list option \<Rightarrow> pydict list option" where
  "student_search st keyword flds =
     (let fs = (case flds of None \<Rightarrow> [''FirstName'', ''LastName'', ''Email''] | Some f \<Rightarrow> f);
          term = CHR ''%'' # keyword @ ''%'' in
      query_all st (\<lambda>d.
        if \<not> list_all (\<lambda>f. f \<in> set student_cols) fs then None
        else Some (sort_key (\<lambda>r. order_key (dict_get r ''StudentID''))
                     (filter (\<lambda>r. list_ex (\<lambda>f. sql_like (dict_get r f) term) fs) (table_rows d ''students'')))))"

text \<open>\<open>result['count'] if result else 0\<close>: a failed read counts 0.\<close>

definition student_count :: "db option \<Rightarrow> nat" where
  "student_count st = (case st of None \<Rightarrow> 0 | Some d \<Rightarrow> length (db_students d))"

text \<open>\<open>get_with_avg_grade\<close>: the grouping of the top-students query, without its limit.\<close>

definition student_get_with_avg_grade :: "db option \<Rightarrow> int \<Rightarrow> top_row list option" where
  "student_get_with_avg_grade st minc =
     execute_query st (\<lambda>d. sort_key (\<lambda>r. Desc (ts_avg r)) (top_rows d minc))"


section \<open>SubjectModel, lines 251--294\<close>

definition subject_create :: "db option \<Rightarrow> pydict \<Rightarrow> (string \<times> db) res" where
  "subject_create st data =
     pbind (models_validate_subject_data st data) (\<lambda>clean.
     pbind (map_res (dict_getitem clean) [''code'', ''name'', ''credits'']) (\<lambda>ps.
     pbind (execute_update st (Insert ''subjects'' (zip [''SubjectCode'', ''SubjectName'', ''Credits''] ps)))
       (\<lambda>(_, d'). pbind (dict_getitem clean ''code'') (\<lambda>c. case c of PStr code \<Rightarrow> Inr (code, d')
                                                     | _ \<Rightarrow> Inr ([], d')))))"

definition subject_get_by_code :: "db option \<Rightarrow> pyval \<Rightarrow> pydict option" where
  "subject_get_by_code st code = query_one st (\<lambda>d. select_where d ''subjects'' [(''SubjectCode'', code)])"

definition subject_update :: "db option \<Rightarrow> pyval \<Rightarrow> pydict \<Rightarrow> (nat \<times> db) res" where
  "subject_update st code data =
     pbind (map_res (dict_getitem data) [''name'', ''credits'']) (\<lambda>ps.
     execute_update st (Update ''subjects'' (zip [''SubjectName'', ''Credits''] ps) [(''SubjectCode'', code)]))"

definition subject_delete :: "db option \<Rightarrow> pyval \<Rightarrow> (nat \<times> db) res" where
  "subject_delete st code = execute_update st (Delete ''subjects'' [(''SubjectCode'', code)])"

definition subject_list :: "db option \<Rightarrow> pydict list option" where
  "subject_list st = execute_query st (\<lambda>d.
     sort_key (\<lambda>r. order_key (dict_get r ''SubjectCode'')) (table_rows d ''subjects''))"

definition subject_count :: "db option \<Rightarrow> nat" where
  "subject_count st = (case st of None \<Rightarrow> 0 | Some d \<Rightarrow> length (db_subjects d))"

section \<open>LecturerModel, lines 301--371\<close>

text \<open>\<open>Validators.validate_required(...)\<close> is looked up before its arguments are
  evaluated, and \<open>Validators\<close> has no such attribute.\<close>

definition missing_validator :: "string \<Rightarrow> pyexc" where
  "missing_validator name = AttributeError (''type object 'Validators' has no attribute '' @ name)"

definition lecturer_create :: "db option \<Rightarrow> pydict \<Rightarrow> (int \<times> db) res" where
  "lecturer_create st data = Inl (missing_validator ''validate_required'')"

definition lecturer_get_by_id :: "db option \<Rightarrow> pyval \<Rightarrow> pydict option" where
  "lecturer_get_by_id st lid = query_one st (\<lambda>d. select_where d ''lecturers'' [(''LecturerID'', lid)])"

definition lecturer_update :: "db option \<Rightarrow> pyval \<Rightarrow> pydict \<Rightarrow> (nat \<times> db) res" where
  "lecturer_update st lid data =
     pbind (map_res (dict_getitem data) [''first_name'', ''last_name'']) (\<lambda>ps.
     execute_update st (Update ''lecturers''
       (zip [''LecturerFirstName'', ''LecturerLastName'', ''LecturerEmail'', ''Office'']
            (ps @ [dict_get data ''email'', dict_get data ''office''])) [(''LecturerID'', lid)]))"

definition lecturer_delete :: "db option \<Rightarrow> pyval \<Rightarrow> (nat \<times> db) res" where
  "lecturer_delete st lid = execute_update st (Delete ''lecturers'' [(''LecturerID'', lid)])"

definition lecturer_list :: "db option \<Rightarrow> pydict list option" where
  "lecturer_list st = execute_query st (\<lambda>d.
     sort_key (\<lambda>r. order_key (dict_get r ''LecturerID'')) (table_rows d ''lecturers''))"

definition class_key :: "cls \<Rightarrow> int desc \<times> string" where
  "class_key c = (Desc (cls_year c), coll (cls_semester c))"

definition lecturer_get_with_classes :: "db option \<Rightarrow> int \<Rightarrow> pydict list option" where
  "lecturer_get_with_classes st lid = execute_query st (\<lambda>d.
     map (\<lambda>(c, u). class_row c @ [(''SubjectName'', PStr (sub_name u))])
       (sort_key (class_key \<circ> fst)
         [(c, u). c \<leftarrow> db_classes d, u \<leftarrow> db_subjects d, sql_str_eq (cls_subject c) (sub_code u),
                  cls_lecturer c = Some lid]))"

section \<open>ClassModel, lines 379--482\<close>

definition class_create :: "db option \<Rightarrow> pydict \<Rightarrow> (int \<times> db) res" where
  "class_create st data = Inl (missing_validator ''validate_required'')"

definition class_get_by_id :: "db option \<Rightarrow> int \<Rightarrow> pydict option" where
  "class_get_by_id st cid = query_one st (\<lambda>d. Some
     [class_row c @ [(''SubjectName'', PStr (sub_name u)), (''Credits'', PInt (sub_credits u)),
                     (''LecturerFirstName'', opt_str (map_option lec_first l)),
                     (''LecturerLastName'', opt_str (map_option lec_last l))].
        c \<leftarrow> db_classes d, u \<leftarrow> db_subjects d, sql_str_eq (cls_subject c) (sub_code u),
        l \<leftarrow> left_join (\<lambda>c l. cls_lecturer c = Some (lec_id l)) c (db_lecturers d), cls_id c = cid])"

definition class_update :: "db option \<Rightarrow> pyval \<Rightarrow> pydict \<Rightarrow> (nat \<times> db) res" where
  "class_update st cid data =
     pbind (dict_getitem data ''subject_code'') (\<lambda>u.
     pbind (dict_getitem data ''semester'') (\<lambda>sem.
     pbind (dict_getitem data ''year'') (\<lambda>y.
     execute_update st (Update ''classes''
       [(''SubjectCode'', u), (''LecturerID'', dict_get data ''lecturer_id''),
        (''ClassName'', dict_get data ''class_name''), (''Semester'', sem), (''Year'', y),
        (''MaxCapacity'', dict_get_default data ''max_capacity'' (PInt 60))] [(''ClassID'', cid)]))))"

definition class_delete :: "db option \<Rightarrow> pyval \<Rightarrow> (nat \<times> db) res" where
  "class_delete st cid = execute_update st (Delete ''classes'' [(''ClassID'', cid)])"

text \<open>\<open>list(year, semester)\<close>: a filter only for a truthy argument; one row per class
  with its number of enrollments (\<open>COUNT(e.StudentID)\<close> over the left join).\<close>

definition class_list :: "db option \<Rightarrow> int option \<Rightarrow> string option \<Rightarrow> pydict list option" where
  "class_list st yr sem = execute_query st (\<lambda>d.
     map (\<lambda>(c, u, l). class_row c @
            [(''SubjectName'', PStr (sub_name u)), (''LecturerFirstName'', opt_str (map_option lec_first l)),
             (''LecturerLastName'', opt_str (map_option lec_last l)),
             (''EnrolledCount'', PInt (int (length (filter (\<lambda>e. enr_class e = cls_id c) (db_enrollments d)))))])
       (sort_key (class_key \<circ> fst)
         [(c, u, l). c \<leftarrow> db_classes d, u \<leftarrow> take 1 (filter (\<lambda>u. sql_str_eq (cls_subject c) (sub_code u)) (db_subjects d)),
                     l \<leftarrow> left_join (\<lambda>c l. cls_lecturer c = Some (lec_id l)) c (db_lecturers d),
                     opt_cond (active_int yr) (\<lambda>y. cls_year c = y),
                     opt_cond (active_str sem) (\<lambda>x. sql_str_eq (cls_semester c) x)]))"

definition class_get_enrollment_count :: "db option \<Rightarrow> int \<Rightarrow> nat" where
  "class_get_enrollment_count st cid =
     (case st of None \<Rightarrow> 0 | Some d \<Rightarrow> length (filter (\<lambda>e. enr_class e = cid) (db_enrollments d)))"

section \<open>EnrollmentModel, lines 487--577\<close>

definition enrollment_exists :: "db option \<Rightarrow> pyval \<Rightarrow> pyval \<Rightarrow> bool" where
  "enrollment_exists st sid cid =
     (query_one st (\<lambda>d. select_where d ''enrollments'' [(''StudentID'', sid), (''ClassID'', cid)]) \<noteq> None)"

definition enrollment_create :: "db option \<Rightarrow> pydict \<Rightarrow> (bool \<times> db) res" where
  "enrollment_create st data =
     pbind (models_validate_enrollment_data st data) (\<lambda>clean.
     pbind (dict_getitem clean ''student_id'') (\<lambda>sid.
     pbind (dict_getitem clean ''class_id'') (\<lambda>cid.
     if enrollment_exists st sid cid then Inl (ValidationError ''Student already enrolled in this class'')
     else pbind (execute_update st (Insert ''enrollments''
                  [(''StudentID'', sid), (''ClassID'', cid), (''Grade'', dict_get clean ''grade''),
                   (''GradeLetter'', dict_get clean ''grade_letter''), (''Note'', dict_get clean ''note'')]))
            (\<lambda>(_, d'). Inr (True, d')))))"

definition enrollment_update :: "db option \<Rightarrow> pyval \<Rightarrow> pyval \<Rightarrow> pydict \<Rightarrow> (nat \<times> db) res" where
  "enrollment_update st sid cid data =
     execute_update st (Update ''enrollments''
       [(''Grade'', dict_get data ''grade''), (''GradeLetter'', dict_get data ''grade_letter''),
        (''Note'', dict_get data ''note'')] [(''StudentID'', sid), (''ClassID'', cid)])"

definition enrollment_delete :: "db option \<Rightarrow> pyval \<Rightarrow> pyval \<Rightarrow> (nat \<times> db) res" where
  "enrollment_delete st sid cid =
     execute_update st (Delete ''enrollments'' [(''StudentID'', sid), (''ClassID'', cid)])"

definition enrollment_get_by_student :: "db option \<Rightarrow> int \<Rightarrow> pydict list option" where
  "enrollment_get_by_student st sid = execute_query st (\<lambda>d.
     map (\<lambda>(e, c, u). enrollment_row e @
            [(''ClassName'', opt_str (cls_name c)), (''Semester'', PStr (cls_semester c)),
             (''Year'', PInt (cls_year c)), (''SubjectName'', PStr (sub_name u)),
             (''Credits'', PInt (sub_credits u))])
       (sort_key (class_key \<circ> fst \<circ> snd)
         [(e, c, u). e \<leftarrow> db_enrollments d, c \<leftarrow> db_classes d, enr_class e = cls_id c,
                     u \<leftarrow> db_subjects d, sql_str_eq (cls_subject c) (sub_code u), enr_student e = sid]))"

definition enrollment_get_by_class :: "db option \<Rightarrow> int \<Rightarrow> pydict list option" where
  "enrollment_get_by_class st cid = execute_query st (\<lambda>d.
     map (\<lambda>(e, s). enrollment_row e @
            [(''FirstName'', PStr (stu_first s)), (''LastName'', PStr (stu_last s)),
             (''Email'', PStr (stu_email s))])
       (sort_key (\<lambda>(e, s). (coll (stu_last s), coll (stu_first s)))
         [(e, s). e \<leftarrow> db_enrollments d, s \<leftarrow> db_students d, enr_student e = stu_id s, enr_class e = cid]))"


section \<open>Lemmas\<close>

lemma validate_student_data_keys:
  "validate_student_data cy st data sid = Inr clean \<Longrightarrow>
   map fst clean = [''FirstName'', ''LastName'', ''Email'', ''DOB'', ''Gender'', ''EnrollmentYear'', ''Address'', ''Phone'', ''Major'']"
  unfolding validate_student_data_def by (auto simp: pbind_Inr_iff)

lemma validate_subject_data_keys:
  "validate_subject_data st data n = Inr clean \<Longrightarrow> map fst clean = [''SubjectCode'', ''SubjectName'', ''Credits'']"
  unfolding validate_subject_data_def Let_def by (auto simp: pbind_Inr_iff split: if_splits)

lemma validate_enrollment_data_keys:
  "validate_enrollment_data st data n = Inr clean \<Longrightarrow> map fst clean = [''StudentID'', ''ClassID'', ''Grade'', ''GradeLetter'', ''Note'']"
  unfolding validate_enrollment_data_def Let_def by (auto simp: pbind_Inr_iff)

lemma student_create_raises:
  "student_create cy st data =
     (case validate_student_data cy st data PNone of Inl e \<Rightarrow> Inl e | Inr _ \<Rightarrow> Inl (KeyError ''first_name''))"
  by (auto simp: student_create_def models_validate_student_data_def student_keys_def dict_getitem_def
                 map_of_None_keys[OF validate_student_data_keys] split: sum.split)

lemma student_update_raises:
  "student_update cy st sid data =
     (case validate_student_data cy st data PNone of Inl e \<Rightarrow> Inl e | Inr _ \<Rightarrow> Inl (KeyError ''first_name''))"
  by (auto simp: student_update_def models_validate_student_data_def student_keys_def dict_getitem_def
                 map_of_None_keys[OF validate_student_data_keys] split: sum.split)

lemma subject_create_raises:
  "subject_create st data =
     (case validate_subject_data st data False of Inl e \<Rightarrow> Inl e | Inr _ \<Rightarrow> Inl (KeyError ''code''))"
  by (auto simp: subject_create_def models_validate_subject_data_def dict_getitem_def
                 map_of_None_keys[OF validate_subject_data_keys] split: sum.split)

lemma enrollment_create_raises:
  "enrollment_create st data =
     (case validate_enrollment_data st data False of Inl e \<Rightarrow> Inl e | Inr _ \<Rightarrow> Inl (KeyError ''student_id''))"
  by (auto simp: enrollment_create_def models_validate_enrollment_data_def dict_getitem_def
                 map_of_None_keys[OF validate_enrollment_data_keys] split: sum.split)

lemma like_match_pct:
  "like_match (CHR ''%'' # p) s \<longleftrightarrow> (\<exists>i \<le> length s. like_match p (drop i s))"
proof (induction s)
  case Nil then show ?case by simp
next
  case (Cons x s)
  show ?case
  proof
    assume "like_match (CHR ''%'' # p) (x # s)"
    then show "\<exists>i \<le> length (x # s). like_match p (drop i (x # s))"
      using Cons by (auto intro: exI[of _ 0] exI[of _ "Suc _"])
  next
    assume "\<exists>i \<le> length (x # s). like_match p (drop i (x # s))"
    then obtain i where "i \<le> length (x # s)" "like_match p (drop i (x # s))" by blast
    then show "like_match (CHR ''%'' # p) (x # s)"
      using Cons by (cases i) auto
  qed
qed

lemma like_match_lit:
  "list_all (\<lambda>c. c \<noteq> CHR ''%'' \<and> c \<noteq> CHR ''_'' \<and> c \<noteq> CHR 0x5C) p \<Longrightarrow>
   like_match (p @ q) s \<longleftrightarrow> (\<exists>r. s = p @ r \<and> like_match q r)"
  by (induction p arbitrary: s) (auto split: list.split)

lemma like_match_pct_end: "\<exists>i \<le> length s. like_match [] (drop i s)"
  by (auto intro: exI[of _ "length s"])

lemma like_match_infix:
  assumes "list_all (\<lambda>c. c \<noteq> CHR ''%'' \<and> c \<noteq> CHR ''_'' \<and> c \<noteq> CHR 0x5C) p"
  shows "like_match (CHR ''%'' # p @ ''%'') s \<longleftrightarrow> sublist p s"
proof -
  have "like_match (CHR ''%'' # p @ ''%'') s \<longleftrightarrow> (\<exists>i \<le> length s. \<exists>r. drop i s = p @ r)"
    by (simp only: like_match_pct like_match_lit[OF assms] like_match_pct_end simp_thms)
  also have "\<dots> \<longleftrightarrow> sublist p s"
    unfolding sublist_def
  proof (intro iffI; elim exE conjE)
    fix i r assume "drop i s = p @ r"
    then have "s = take i s @ p @ r" by (metis append_take_drop_id)
    then show "\<exists>ps ss. s = ps @ p @ ss" by blast
  next
    fix ps ss assume "s = ps @ p @ ss"
    then show "\<exists>i \<le> length s. \<exists>r. drop i s = p @ r" by (intro exI[of _ "length ps"]) auto
  qed
  finally show ?thesis .
qed

lemma coll_pct: "coll (CHR ''%'' # kw @ ''%'') = CHR ''%'' # coll kw @ ''%''"
  by (simp add: coll_def py_lower_def lower_char_def is_upper_def)

lemma student_row_get [simp]:
  "dict_get (student_row s) ''StudentID'' = PInt (stu_id s)"
  "dict_get (student_row s) ''FirstName'' = PStr (stu_first s)"
  "dict_get (student_row s) ''LastName'' = PStr (stu_last s)"
  "dict_get (student_row s) ''Email'' = PStr (stu_email s)"
  by (simp_all add: student_row_def dict_get_def)

lemma student_search_default:
  "student_search (Some d) kw None =
     Some (sort_key (\<lambda>r. order_key (dict_get r ''StudentID''))
       (map student_row (filter (\<lambda>s. like_match (coll (CHR ''%'' # kw @ ''%'')) (coll (stu_first s)) \<or>
                                      like_match (coll (CHR ''%'' # kw @ ''%'')) (coll (stu_last s)) \<or>
                                      like_match (coll (CHR ''%'' # kw @ ''%'')) (coll (stu_email s)))
                                (db_students d))))"
  by (simp add: student_search_def query_all_def student_cols_def table_rows_def filter_map comp_def sql_like_def)

text \<open>Claim C2 (models_create_raises): no create method of models.py ever inserts: StudentModel.create and update fail with KeyError first_name once validation passes, SubjectModel.create with KeyError code, EnrollmentModel.create with KeyError student_id, and LecturerModel.create and ClassModel.create with an AttributeError before reading their data.\<close>

theorem models_create_raises:
  "student_create cy st data =
     (case validate_student_data cy st data PNone of Inl e \<Rightarrow> Inl e | Inr _ \<Rightarrow> Inl (KeyError ''first_name'')) \<and>
   student_update cy st sid data =
     (case validate_student_data cy st data PNone of Inl e \<Rightarrow> Inl e | Inr _ \<Rightarrow> Inl (KeyError ''first_name'')) \<and>
   subject_create st data =
     (case validate_subject_data st data False of Inl e \<Rightarrow> Inl e | Inr _ \<Rightarrow> Inl (KeyError ''code'')) \<and>
   lecturer_create st data = Inl (AttributeError ''type object 'Validators' has no attribute validate_required'') \<and>
   class_create st data = Inl (AttributeError ''type object 'Validators' has no attribute validate_required'') \<and>
   enrollment_create st data =
     (case validate_enrollment_data st data False of Inl e \<Rightarrow> Inl e | Inr _ \<Rightarrow> Inl (KeyError ''student_id''))"
  by (simp add: student_create_raises student_update_raises subject_create_raises enrollment_create_raises
                lecturer_create_def class_create_def missing_validator_def)

text \<open>For a keyword with no LIKE metacharacter, StudentModel.search with the default fields returns, ordered by StudentID, exactly the students whose first name, last name or email contains the keyword, case-insensitively.\<close>

theorem student_search_infix:
  assumes "no_wildcard (coll kw)"
  shows "student_search (Some d) kw None =
     Some (sort_key (\<lambda>r. order_key (dict_get r ''StudentID''))
       (map student_row (filter (\<lambda>s. sublist (coll kw) (coll (stu_first s)) \<or> sublist (coll kw) (coll (stu_last s)) \<or>
                                      sublist (coll kw) (coll (stu_email s))) (db_students d))))"
  unfolding student_search_default coll_pct like_match_infix[OF assms[unfolded no_wildcard_def]] ..

text \<open>The keyword is not escaped: StudentModel.search with the keyword "%" returns every student.\<close>

theorem student_search_percent:
  "student_search (Some d) ''%'' None =
     Some (sort_key (\<lambda>r. order_key (dict_get r ''StudentID'')) (table_rows d ''students''))"
proof -
  have "like_match (coll ''%%%'') s" for s
    by (simp add: coll_def py_lower_def lower_char_def is_upper_def like_match_pct del: like_match.simps)
       (auto intro: exI[of _ "length s"])
  then show ?thesis by (simp add: student_search_default table_rows_def)
qed

text \<open>StudentModel.list returns min(limit, number of students - offset) rows.\<close>

theorem student_list_page:
  "student_list (Some d) lmt off ob = Some rs \<Longrightarrow>
   length rs = min (nat lmt) (length (db_students d) - nat off)"
  by (auto simp: student_list_def query_all_def table_rows_def split: if_splits)

text \<open>Claim C15 (subject_delete_restrict): in a well-formed database, deleting a subject that a class refers to fails with the IntegrityError of a foreign key and changes nothing.\<close>

theorem subject_delete_restrict:
  assumes "db_wf d" and "c \<in> set (db_classes d)" and "sql_str_eq (cls_subject c) code"
  shows "subject_delete (Some d) (PStr code) = Inl (IntegrityError ''a foreign key constraint fails'')"
proof -
  let ?U = "db_subjects d"
  let ?p = "\<lambda>u. sql_str_eq (sub_code u) code"
  let ?D = "d\<lparr>db_subjects := filter (\<lambda>u. \<not> ?p u) ?U\<rparr>"
  have kc: "known_columns ''subjects'' [(''SubjectCode'', PStr code)] = Inr (the (table_columns ''subjects''))"
    by (simp add: known_columns_def table_columns_def)
  have bs: "all_some (map (where_match [(''SubjectCode'', PStr code)]) (map subject_row ?U)) = Some (map ?p ?U)"
    by (simp only: map_map where_match_subject_code_comp all_some_Some)
  have kept: "rows_to_db d ''subjects'' (map fst (filter (Not \<circ> snd) (zip (map subject_row ?U) (map ?p ?U)))) = Inr ?D"
    by (simp only: zip_map_filter rows_to_db_subject) (simp add: comp_def)
  have casc: "cascade ''subjects'' gone ?D = ?D" for gone
    by (simp add: cascade_def)
  have keys: "keys_ok ?D"
    using assms(1) by (simp add: db_wf_def keys_ok_def distinct_map_filter)
  have fks: "\<not> fks_ok ?D"
  proof
    assume "fks_ok ?D"
    then have "\<forall>c \<in> set (db_classes d). \<exists>s \<in> set (filter (\<lambda>u. \<not> ?p u) ?U). sql_str_eq (cls_subject c) (sub_code s)"
      by (simp add: fks_ok_def)
    then show False using assms(2,3) by (auto simp: sql_str_eq_def)
  qed
  have chk: "checked ?D (length (filter id (map ?p ?U)), 0::int) = Inl (IntegrityError ''a foreign key constraint fails'')"
    using keys fks by (simp add: checked_def db_wf_def integrity_error_def)
  have "apply_write (Delete ''subjects'' [(''SubjectCode'', PStr code)]) d = Inl (IntegrityError ''a foreign key constraint fails'')"
    unfolding apply_write.simps kc pbind_simps Let_def table_rows_simps bs option.case kept casc chk ..
  then show ?thesis by (simp add: subject_delete_def execute_update_def)
qed

lemma select_subject_code:
  "select_where d ''subjects'' [(''SubjectCode'', PStr k)] =
   Some (map subject_row (filter (\<lambda>u. sql_str_eq (sub_code u) k) (db_subjects d)))"
  by (simp add: select_where_def known_columns_def table_columns_def table_rows_simps
                where_match_subject_code_comp zip_map_filter)


lemma select_lecturer_id:
  "select_where d ''lecturers'' [(''LecturerID'', PInt i)] =
   Some (map lecturer_row (filter (\<lambda>x. lec_id x = i) (db_lecturers d)))"
  by (simp add: select_where_def known_columns_def table_columns_def table_rows_simps
                where_match_lecturer_id_comp zip_map_filter)

lemma left_join_ne: "left_join p a bs \<noteq> []"
  by (simp add: left_join_def split: list.split)

lemma class_get_by_id_stored:
  assumes "distinct (map cls_id (db_classes d))" "c \<in> set (db_classes d)"
    "\<exists>u \<in> set (db_subjects d). sql_str_eq (cls_subject c) (sub_code u)"
  shows "\<exists>ext. class_get_by_id (Some d) (cls_id c) = Some (class_row c @ ext)"
proof -
  let ?row = "\<lambda>c u l. class_row c @ [(''SubjectName'', PStr (sub_name u)), (''Credits'', PInt (sub_credits u)),
                     (''LecturerFirstName'', opt_str (map_option lec_first l)),
                     (''LecturerLastName'', opt_str (map_option lec_last l))]"
  let ?L = "[?row x u l. x \<leftarrow> db_classes d, u \<leftarrow> db_subjects d, sql_str_eq (cls_subject x) (sub_code u),
              l \<leftarrow> left_join (\<lambda>c l. cls_lecturer c = Some (lec_id l)) x (db_lecturers d), cls_id x = cls_id c]"
  obtain u where u: "u \<in> set (db_subjects d)" "sql_str_eq (cls_subject c) (sub_code u)" using assms(3) by blast
  obtain l where l: "l \<in> set (left_join (\<lambda>c l. cls_lecturer c = Some (lec_id l)) c (db_lecturers d))"
    using left_join_ne by (metis list.set_sel(1))
  have "?row c u l \<in> set ?L" using assms(2) u l by auto
  then obtain r rs where L: "?L = r # rs" by (cases ?L) auto
  have inj: "inj_on cls_id (set (db_classes d))" using assms(1) by (simp add: distinct_map)
  have "\<forall>r' \<in> set ?L. \<exists>ext. r' = class_row c @ ext"
    using assms(2) inj by (auto dest: inj_onD)
  then obtain ext where "r = class_row c @ ext" using L by auto
  then show ?thesis
    by (simp add: class_get_by_id_def query_one_def L)
qed

text \<open>Claim C4 (student_delete_cascade): in a well-formed database, StudentModel.delete of a stored student's id succeeds, returns one affected row, and removes exactly that student and, by the foreign key's cascade, the student's enrollments.\<close>

theorem student_delete_cascade:
  assumes "db_wf d" "s \<in> set (db_students d)"
  shows "student_delete (Some d) (PInt (stu_id s)) =
    Inr (1, d\<lparr>db_students := filter (\<lambda>x. stu_id x \<noteq> stu_id s) (db_students d),
              db_enrollments := filter (\<lambda>e. enr_student e \<noteq> stu_id s) (db_enrollments d)\<rparr>)"
  using apply_write_delete_student[OF assms] by (simp add: student_delete_def execute_update_def del: apply_write.simps)

end
