(* ===== verification/Dialogs.thy ===== *)
theory Dialogs
  imports Models
begin

text \<open>
  The save handlers of the edit dialogs. \<open>src/final/studentdialog_logic.py\<close>
  (\<open>StudentDialog\<close>) validates its form itself and writes with its own connection
  (\<open>INSERT\<close>/\<open>UPDATE\<close> on \<open>students\<close>, then \<open>commit\<close>); \<open>src/final/dialogs_complete.py\<close>
  (\<open>SubjectDialog\<close>, \<open>LecturerDialog\<close>, \<open>ClassDialog\<close>, \<open>EnrollmentDialog\<close>) builds a dict of
  \<open>snake_case\<close> keys from its widgets and calls the repository methods of \<open>models.py\<close>.
  A handler's result is the message box it shows, whether the dialog is accepted
  (\<open>self.accept()\<close>) and the database afterwards. The widgets are their values: text
  fields are strings, spin boxes integers or hundredths within their range, a combo box
  its current text or data, the date edit a calendar date.
\<close>

section \<open>Message boxes and exceptions\<close>

datatype gui_msg = Information string | Warning string | Critical string

text \<open>\<open>str(e)\<close> of an exception the handlers show.\<close>

definition exc_str :: "pyexc \<Rightarrow> string" where
  "exc_str e = (case e of KeyError k \<Rightarrow> CHR 0x27 # k @ [CHR 0x27]
     | ValidationError m \<Rightarrow> m | ValueError m \<Rightarrow> m | TypeError m \<Rightarrow> m | AttributeError m \<Rightarrow> m
     | OverflowError m \<Rightarrow> m | DatabaseError m \<Rightarrow> m | IntegrityError m \<Rightarrow> m
     | RuntimeError m \<Rightarrow> m | NameError m \<Rightarrow> m)"

section \<open>StudentDialog, studentdialog_logic.py\<close>

record sd_form =
  sd_student_id :: string
  sd_full_name :: string
  sd_address :: string
  sd_phone :: string
  sd_email :: string
  sd_dob :: "nat \<times> nat \<times> nat"
  sd_gender :: string
  sd_major :: string

text \<open>\<open>^[a-zA-Z0-9._%+-]+@[a-zA-Z0-9.-]+\.[a-zA-Z]{2,}$\<close>: the local part is everything
  before the first \<open>@\<close>; the letters after the last dot are the top-level label.\<close>

definition is_alpha :: "char \<Rightarrow> bool" where
  "is_alpha c \<longleftrightarrow> is_upper c \<or> is_lower c"

definition sd_local_char :: "char \<Rightarrow> bool" where
  "sd_local_char c \<longleftrightarrow> is_alpha c \<or> is_digit c \<or> c \<in> set ''._%+-''"

definition sd_domain_char :: "char \<Rightarrow> bool" where
  "sd_domain_char c \<longleftrightarrow> is_alpha c \<or> is_digit c \<or> c \<in> set ''.-''"

definition sd_email_core :: "string \<Rightarrow> bool" where
  "sd_email_core s =
     (let l = takeWhile (\<lambda>c. c \<noteq> CHR ''@'') s; r = dropWhile (\<lambda>c. c \<noteq> CHR ''@'') s in
      case r of
        [] \<Rightarrow> False
      | _ # rest \<Rightarrow>
          (let w = rev (takeWhile (\<lambda>c. c \<noteq> CHR ''.'') (rev rest));
               dd = rev (dropWhile (\<lambda>c. c \<noteq> CHR ''.'') (rev rest))
           in l \<noteq> [] \<and> list_all sd_local_char l \<and> 2 \<le> length w \<and> list_all is_alpha w \<and>
              dd \<noteq> [] \<and> butlast dd \<noteq> [] \<and> list_all sd_domain_char (butlast dd)))"

definition sd_email_match :: "string \<Rightarrow> bool" where
  "sd_email_match s = anchored sd_email_core s"

text \<open>\<open>phone and not phone.replace('+', '').replace('-', '').replace(' ', '').isdigit()\<close>
  is the failing test; \<open>isdigit\<close> of the empty string is false.\<close>

definition sd_phone_ok :: "string \<Rightarrow> bool" where
  "sd_phone_ok phone \<longleftrightarrow>
     phone = [] \<or> (let p = filter (\<lambda>c. c \<notin> set ''+- '') phone in p \<noteq> [] \<and> list_all is_digit p)"

text \<open>\<open>name_parts = full_name.strip().split()\<close>: the first word and the rest joined by single
  spaces, or the whole name and an empty last name.\<close>

definition sd_split_name :: "string \<Rightarrow> string \<times> string" where
  "sd_split_name full =
     (let parts = py_split (py_strip full) in
      if 2 \<le> length parts then (hd parts, py_join '' '' (tl parts)) else (full, []))"

text \<open>\<open>gender_map.get(gender_text, gender_text[0] if gender_text else 'M')\<close>; the
  Vietnamese \<open>N\<close>u with its UTF-8 bytes.\<close>

definition sd_gender_map_add :: "(string \<times> string) list" where
  "sd_gender_map_add = [(''Male'', ''M''), (''Female'', ''F''), (''Nam'', ''M''),
                        (''N'' @ [CHR 0xE1, CHR 0xBB, CHR 0xAF], ''F'')]"

definition sd_gender_map_update :: "(string \<times> string) list" where
  "sd_gender_map_update = sd_gender_map_add @ [(''M'', ''M''), (''F'', ''F'')]"

definition sd_map_gender :: "(string \<times> string) list \<Rightarrow> string \<Rightarrow> string" where
  "sd_map_gender gmap g = (case map_of gmap g of Some v \<Rightarrow> v | None \<Rightarrow> if g = [] then ''M'' else [hd g])"

text \<open>\<open>QDate.toString("yyyy-MM-dd")\<close>\<close>

definition pad0 :: "nat \<Rightarrow> string \<Rightarrow> string" where
  "pad0 n s = replicate (n - length s) (CHR ''0'') @ s"

definition qdate_str :: "nat \<times> nat \<times> nat \<Rightarrow> string" where
  "qdate_str ymd = (case ymd of (y, m, d) \<Rightarrow>
     pad0 4 (nat_str y) @ ''-'' @ pad0 2 (nat_str m) @ ''-'' @ pad0 2 (nat_str d))"

text \<open>The checks shared by \<open>add_student\<close> (lines 52--118) and \<open>update_student\<close>
  (lines 150--213), in the code's order, with the warning texts that differ between the
  two; the columns of the statement, or the warning shown. \<open>EnrollmentYear\<close> is the year of
  birth plus 18.\<close>

definition sd_fields ::
  "(string \<times> string) list \<Rightarrow> string \<Rightarrow> string \<Rightarrow> sd_form \<Rightarrow> string + (string \<times> pyval) list" where
  "sd_fields gmap email_msg phone_msg f =
     (let full_name = py_strip (sd_full_name f); address = py_strip (sd_address f);
          phone = py_strip (sd_phone f); email = py_strip (sd_email f);
          major = py_strip (sd_major f) in
      case sd_dob f of (y, m, d) \<Rightarrow>
      if full_name = [] \<or> email = [] then Inl ''Full Name and Email are required.''
      else if \<not> valid_date y m d then Inl ''Invalid birthdate.''
      else if \<not> sd_email_match email then Inl email_msg
      else if \<not> sd_phone_ok phone then Inl phone_msg
      else (case sd_split_name full_name of (first_name, last_name) \<Rightarrow>
            let gender = sd_map_gender gmap (sd_gender f) in
            if major = [] \<or> major = ''New Item'' then Inl ''Please select or enter a valid major.''
            else Inr [(''FirstName'', PStr first_name), (''LastName'', PStr last_name),
                      (''DOB'', PStr (qdate_str (y, m, d))), (''Gender'', PStr gender),
                      (''Address'', PStr address), (''Phone'', PStr phone), (''Email'', PStr email),
                      (''EnrollmentYear'', PInt (int y + 18)), (''Major'', PStr major)]))"

text \<open>\<open>self.cursor.execute(sql, values); self.conn.commit()\<close> and the two \<open>except\<close>
  clauses: an \<open>IntegrityError\<close> whose text has \<open>Duplicate entry\<close> is reported as a taken email.\<close>

definition sd_add_fields :: "sd_form \<Rightarrow> string + (string \<times> pyval) list" where
  "sd_add_fields = sd_fields sd_gender_map_add ''Invalid email format. Use: example@domain.com''
                     ''Phone number must contain only digits, +, -, or spaces.''"

definition sd_update_fields :: "sd_form \<Rightarrow> string + (string \<times> pyval) list" where
  "sd_update_fields = sd_fields sd_gender_map_update ''Invalid email format.'' ''Phone number must contain only digits.''"

definition sd_commit :: "string \<Rightarrow> string \<Rightarrow> ((nat \<times> int) \<times> db) res \<Rightarrow> db \<Rightarrow> gui_msg \<times> bool \<times> db" where
  "sd_commit ok_msg dup_msg r d =
     (case r of
        Inr (_, d') \<Rightarrow> (Information ok_msg, True, d')
      | Inl (IntegrityError m) \<Rightarrow>
          (Warning (if sublist ''Duplicate entry'' m then dup_msg else ''Database integrity error:\<newline>'' @ m), False, d)
      | Inl e \<Rightarrow> (Critical (''An error occurred:\<newline>'' @ exc_str e), False, d))"

text \<open>Without a connection (\<open>__init__\<close> failed) \<open>self.cursor\<close> is missing; the \<open>except\<close>
  clause then calls \<open>self.conn.rollback()\<close>, whose \<open>AttributeError\<close> leaves the slot.\<close>

definition sd_no_conn :: pyexc where
  "sd_no_conn = AttributeError ''StudentDialog object has no attribute conn''"

definition sd_add_student :: "bool \<Rightarrow> db \<Rightarrow> sd_form \<Rightarrow> (gui_msg \<times> bool \<times> db) res" where
  "sd_add_student conn d f =
     (case sd_add_fields f of
        Inl w \<Rightarrow> Inr (Warning w, False, d)
      | Inr kvs \<Rightarrow>
          if \<not> conn then Inl sd_no_conn
          else Inr (sd_commit (''Student '' @ [CHR 0x27] @ py_strip (sd_full_name f) @ [CHR 0x27] @ '' added successfully!'')
                      ''Email already exists in the database!'' (apply_write (Insert ''students'' kvs) d) d))"

definition sd_update_student :: "bool \<Rightarrow> db \<Rightarrow> pyval \<Rightarrow> sd_form \<Rightarrow> (gui_msg \<times> bool \<times> db) res" where
  "sd_update_student conn d sid f =
     (case sd_update_fields f of
        Inl w \<Rightarrow> Inr (Warning w, False, d)
      | Inr kvs \<Rightarrow>
          if \<not> conn then Inl sd_no_conn
          else Inr (sd_commit (''Student '' @ [CHR 0x27] @ py_strip (sd_full_name f) @ [CHR 0x27] @ '' updated successfully!'')
                      ''Email already exists for another student!''
                      (apply_write (Update ''students'' kvs [(''StudentID'', sid)]) d) d))"

definition sd_save_student :: "bool \<Rightarrow> pyval \<Rightarrow> bool \<Rightarrow> db \<Rightarrow> sd_form \<Rightarrow> (gui_msg \<times> bool \<times> db) res" where
  "sd_save_student edit_mode sid conn d f =
     (if edit_mode then sd_update_student conn d sid f else sd_add_student conn d f)"


text \<open>The student a form that passes the checks describes, with the given id.\<close>

definition sd_record :: "(string \<times> string) list \<Rightarrow> int \<Rightarrow> sd_form \<Rightarrow> student" where
  "sd_record gmap i f = (case sd_split_name (py_strip (sd_full_name f)) of (fname, lname) \<Rightarrow>
     \<lparr>stu_id = i, stu_first = fname, stu_last = lname, stu_dob = qdate_str (sd_dob f),
      stu_gender = sd_map_gender gmap (sd_gender f), stu_address = Some (py_strip (sd_address f)),
      stu_phone = Some (py_strip (sd_phone f)), stu_email = py_strip (sd_email f),
      stu_year = int (fst (sd_dob f)) + 18, stu_major = Some (py_strip (sd_major f))\<rparr>)"

section \<open>The dialogs of dialogs_complete.py\<close>

text \<open>The \<open>try\<close> of every \<open>save_*\<close> method: success shows the message and accepts the
  dialog; a \<open>ValidationError\<close> is a warning with its text, any other exception a critical
  box \<open>Failed to save: {e}\<close>; the dialog stays open and the database unchanged.\<close>

definition dlg_commit :: "string \<Rightarrow> ('a \<times> db) res \<Rightarrow> db option \<Rightarrow> gui_msg \<times> bool \<times> db option" where
  "dlg_commit ok_msg r st =
     (case r of
        Inr (_, d') \<Rightarrow> (Information ok_msg, True, Some d')
      | Inl (ValidationError m) \<Rightarrow> (Warning m, False, st)
      | Inl e \<Rightarrow> (Critical (''Failed to save: '' @ exc_str e), False, st))"

record subject_form =
  sf_code :: string
  sf_name :: string
  sf_credits :: int

text \<open>\<open>SubjectDialog.load_subject_data\<close>, lines 126--135: the spin box clamps to its
  range 1--10.\<close>

definition subject_dialog_load :: "db option \<Rightarrow> string \<Rightarrow> subject_form \<Rightarrow> gui_msg option \<times> subject_form" where
  "subject_dialog_load st code f =
     (case subject_get_by_code st (PStr code) of
        None \<Rightarrow> (None, f)
      | Some r \<Rightarrow> (case (dict_get r ''SubjectCode'', dict_get r ''SubjectName'', dict_get r ''Credits'') of
           (PStr c, PStr n, PInt k) \<Rightarrow> (None, f\<lparr>sf_code := c, sf_name := n, sf_credits := max 1 (min 10 k)\<rparr>)
         | _ \<Rightarrow> (Some (Critical ''Failed to load subject: TypeError''), f)))"

text \<open>\<open>SubjectDialog.save_subject\<close>, lines 137--158.\<close>

definition subject_dialog_save :: "bool \<Rightarrow> string \<Rightarrow> db option \<Rightarrow> subject_form \<Rightarrow> gui_msg \<times> bool \<times> db option" where
  "subject_dialog_save edit_mode subject_code st f =
     (let data = [(''code'', PStr (sf_code f)), (''name'', PStr (sf_name f)), (''credits'', PInt (sf_credits f))] in
      if edit_mode then dlg_commit ''Subject updated successfully!'' (subject_update st (PStr subject_code) data) st
      else dlg_commit ''Subject added successfully!'' (subject_create st data) st)"

record lecturer_form =
  lf_first :: string
  lf_last :: string
  lf_email :: string
  lf_office :: string

text \<open>\<open>QLineEdit.setText(v)\<close>: a string, or \<open>None\<close> for an empty text; any other value
  raises \<open>TypeError\<close>.\<close>

definition qt_set_text :: "pyval \<Rightarrow> string res" where
  "qt_set_text v = (case v of PStr s \<Rightarrow> Inr s | PNone \<Rightarrow> Inr []
                    | _ \<Rightarrow> Inl (TypeError ''setText(self, a0: Optional[str]): argument 1 has unexpected type''))"

definition lecturer_load_failed :: "pyexc \<Rightarrow> gui_msg" where
  "lecturer_load_failed e = Critical (''Failed to load lecturer: '' @ exc_str e)"

text \<open>\<open>LecturerDialog.load_lecturer_data\<close>, lines 264--274: the four fields in order, each
  \<open>setText\<close> done before the next read; a failure keeps the fields already set.\<close>

definition lecturer_dialog_load :: "db option \<Rightarrow> int \<Rightarrow> lecturer_form \<Rightarrow> gui_msg option \<times> lecturer_form" where
  "lecturer_dialog_load st lid f =
     (case lecturer_get_by_id st (PInt lid) of
        None \<Rightarrow> (None, f)
      | Some r \<Rightarrow>
         (case pbind (dict_getitem r ''LecturerFirstName'') qt_set_text of
            Inl e \<Rightarrow> (Some (lecturer_load_failed e), f)
          | Inr a \<Rightarrow>
         (case pbind (dict_getitem r ''LecturerLastName'') qt_set_text of
            Inl e \<Rightarrow> (Some (lecturer_load_failed e), f\<lparr>lf_first := a\<rparr>)
          | Inr b \<Rightarrow>
         (case qt_set_text (dict_get_default r ''LecturerEmail'' (PStr [])) of
            Inl e \<Rightarrow> (Some (lecturer_load_failed e), f\<lparr>lf_first := a, lf_last := b\<rparr>)
          | Inr c \<Rightarrow>
         (case qt_set_text (dict_get_default r ''Office'' (PStr [])) of
            Inl e \<Rightarrow> (Some (lecturer_load_failed e), f\<lparr>lf_first := a, lf_last := b, lf_email := c\<rparr>)
          | Inr ofc \<Rightarrow> (None, f\<lparr>lf_first := a, lf_last := b, lf_email := c, lf_office := ofc\<rparr>))))))"

text \<open>\<open>LecturerDialog.save_lecturer\<close>, lines 276--298.\<close>

definition lecturer_dialog_save :: "bool \<Rightarrow> int \<Rightarrow> db option \<Rightarrow> lecturer_form \<Rightarrow> gui_msg \<times> bool \<times> db option" where
  "lecturer_dialog_save edit_mode lid st f =
     (let data = [(''first_name'', PStr (lf_first f)), (''last_name'', PStr (lf_last f)),
                  (''email'', PStr (lf_email f)), (''office'', PStr (lf_office f))] in
      if edit_mode then dlg_commit ''Lecturer updated successfully!'' (lecturer_update st (PInt lid) data) st
      else dlg_commit ''Lecturer added successfully!'' (lecturer_create st data) st)"

record class_form =
  cf_subject :: pyval
  cf_lecturer :: pyval
  cf_name :: string
  cf_semester :: string
  cf_year :: int
  cf_capacity :: int

text \<open>\<open>ClassDialog.save_class\<close>, lines 468--492: the combo boxes give their item data
  (\<open>None\<close> for no lecturer, or for an empty subject list).\<close>

definition class_dialog_save :: "bool \<Rightarrow> int \<Rightarrow> db option \<Rightarrow> class_form \<Rightarrow> gui_msg \<times> bool \<times> db option" where
  "class_dialog_save edit_mode cid st f =
     (let data = [(''subject_code'', cf_subject f), (''lecturer_id'', cf_lecturer f),
                  (''class_name'', PStr (cf_name f)), (''semester'', PStr (cf_semester f)),
                  (''year'', PInt (cf_year f)), (''max_capacity'', PInt (cf_capacity f))] in
      if edit_mode then dlg_commit ''Class updated successfully!'' (class_update st (PInt cid) data) st
      else dlg_commit ''Class added successfully!'' (class_create st data) st)"

record enrollment_form =
  ef_student :: pyval
  ef_class :: pyval
  ef_grade :: rat
  ef_letter :: string
  ef_note :: string

text \<open>\<open>EnrollmentDialog.save_enrollment\<close>, lines 668--693: \<open>grade = value if value > 0
  else None\<close>, an empty letter or note is \<open>None\<close>.\<close>

definition enrollment_dialog_data :: "enrollment_form \<Rightarrow> pydict" where
  "enrollment_dialog_data f =
     [(''student_id'', ef_student f), (''class_id'', ef_class f),
      (''grade'', if 0 < ef_grade f then PFloat (Fin (ef_grade f)) else PNone),
      (''grade_letter'', if ef_letter f = [] then PNone else PStr (ef_letter f)),
      (''note'', let n = py_strip (ef_note f) in if n = [] then PNone else PStr n)]"

definition enrollment_dialog_save ::
  "bool \<Rightarrow> int \<Rightarrow> int \<Rightarrow> db option \<Rightarrow> enrollment_form \<Rightarrow> gui_msg \<times> bool \<times> db option" where
  "enrollment_dialog_save edit_mode sid cid st f =
     (let data = enrollment_dialog_data f in
      if edit_mode then dlg_commit ''Enrollment updated successfully!'' (enrollment_update st (PInt sid) (PInt cid) data) st
      else dlg_commit ''Enrollment added successfully!'' (enrollment_create st data) st)"


section \<open>Lemmas\<close>

lemma sd_fields_Inr:
  assumes "sd_fields gmap em pm f = Inr kvs"
  shows "kvs = [(''FirstName'', PStr (fst (sd_split_name (py_strip (sd_full_name f))))),
                (''LastName'', PStr (snd (sd_split_name (py_strip (sd_full_name f))))),
                (''DOB'', PStr (qdate_str (sd_dob f))), (''Gender'', PStr (sd_map_gender gmap (sd_gender f))),
                (''Address'', PStr (py_strip (sd_address f))), (''Phone'', PStr (py_strip (sd_phone f))),
                (''Email'', PStr (py_strip (sd_email f))), (''EnrollmentYear'', PInt (int (fst (sd_dob f)) + 18)),
                (''Major'', PStr (py_strip (sd_major f)))]"
  using assms by (auto simp: sd_fields_def Let_def split: prod.splits if_splits)

lemma sd_fields_insert:
  assumes "sd_fields gmap em pm f = Inr kvs"
  shows "apply_write (Insert ''students'' kvs) d =
    checked (d\<lparr>db_students := db_students d @ [sd_record gmap (db_auto d ''students'') f],
               db_auto := (db_auto d)(''students'' := db_auto d ''students'' + 1)\<rparr>)
            (1, db_auto d ''students'')"
  unfolding sd_fields_Inr[OF assms] apply_write_insert_student sd_record_def
  by (simp split: prod.split)

lemma enrollment_dialog_data_get:
  "dict_get (enrollment_dialog_data f) ''grade'' = opt_num (if 0 < ef_grade f then Some (ef_grade f) else None)"
  "dict_get (enrollment_dialog_data f) ''grade_letter'' = opt_str (if ef_letter f = [] then None else Some (ef_letter f))"
  "dict_get (enrollment_dialog_data f) ''note'' =
     opt_str (let n = py_strip (ef_note f) in if n = [] then None else Some n)"
  by (simp_all add: enrollment_dialog_data_def dict_get_def opt_num_def opt_str_def Let_def)

text \<open>Claim C6 (sd_add_student_ok): in a well-formed database whose AUTO_INCREMENT counter lies above every stored id, StudentDialog.add_student on a form that passes its checks and whose email no stored student has (case-insensitively) inserts exactly the student the form describes, with the counter's value as its id and EnrollmentYear = year of birth + 18, advances the counter, shows the success message and accepts the dialog.\<close>

theorem sd_add_student_ok:
  assumes "db_wf d" "auto_ok d" "sd_add_fields f = Inr kvs"
    "\<forall>s \<in> set (db_students d). \<not> sql_str_eq (stu_email s) (py_strip (sd_email f))"
  shows "sd_add_student True d f =
    Inr (Information (''Student '' @ [CHR 0x27] @ py_strip (sd_full_name f) @ [CHR 0x27] @ '' added successfully!''), True,
         d\<lparr>db_students := db_students d @ [sd_record sd_gender_map_add (db_auto d ''students'') f],
           db_auto := (db_auto d)(''students'' := db_auto d ''students'' + 1)\<rparr>)"
proof -
  let ?s = "sd_record sd_gender_map_add (db_auto d ''students'') f"
  let ?d' = "d\<lparr>db_students := db_students d @ [?s], db_auto := (db_auto d)(''students'' := db_auto d ''students'' + 1)\<rparr>"
  have "db_wf (d\<lparr>db_students := db_students d @ [?s]\<rparr>)"
    using assms(1,4) auto_ok_fresh(1)[OF assms(2)]
    by (intro db_wf_add_student) (auto simp: sd_record_def sql_str_eq_def split: prod.split)
  then have wf: "db_wf ?d'" by simp
  have a: "apply_write (Insert ''students'' kvs) d = Inr ((1, db_auto d ''students''), ?d')"
    using sd_fields_insert[OF assms(3)[unfolded sd_add_fields_def]] wf by (simp add: checked_def)
  show ?thesis
    unfolding sd_add_student_def assms(3) sum.case a by (simp add: sd_commit_def)
qed

text \<open>Claim C19 (sd_add_student_duplicate): StudentDialog.add_student on a form that passes its checks but whose email a stored student already has shows "Email already exists in the database!", keeps the dialog open and changes nothing.\<close>

theorem sd_add_student_duplicate:
  assumes "sd_add_fields f = Inr kvs" "s \<in> set (db_students d)" "sql_str_eq (stu_email s) (py_strip (sd_email f))"
  shows "sd_add_student True d f = Inr (Warning ''Email already exists in the database!'', False, d)"
proof -
  let ?s = "sd_record sd_gender_map_add (db_auto d ''students'') f"
  have "\<not> keys_ok (d\<lparr>db_students := db_students d @ [?s], db_auto := (db_auto d)(''students'' := db_auto d ''students'' + 1)\<rparr>)"
    using keys_dup_student[OF assms(2), of ?s] assms(3) by (simp add: keys_ok_def sd_record_def sql_str_eq_def split: prod.split)
  then have a: "apply_write (Insert ''students'' kvs) d = Inl (IntegrityError ''Duplicate entry'')"
    using sd_fields_insert[OF assms(1)[unfolded sd_add_fields_def]]
    by (simp add: checked_def db_wf_def integrity_error_def)
  show ?thesis
    unfolding sd_add_student_def assms(1) sum.case a by (simp add: sd_commit_def)
qed

text \<open>Claim C7 (enrollment_dialog_edit): in a well-formed database, saving the edit EnrollmentDialog with a grade in [0, 10] updates exactly the enrollment with the dialog's key: the grade is stored as NULL when it is 0, an empty letter or note as NULL; the dialog reports success also when no row has that key.\<close>

theorem enrollment_dialog_edit:
  assumes "db_wf d" "0 \<le> ef_grade f" "ef_grade f \<le> 10"
  shows "enrollment_dialog_save True sid cid (Some d) f =
    (Information ''Enrollment updated successfully!'', True,
     Some (d\<lparr>db_enrollments := map (enr_set (sid, cid) (if 0 < ef_grade f then Some (ef_grade f) else None)
                                      (if ef_letter f = [] then None else Some (ef_letter f))
                                      (let n = py_strip (ef_note f) in if n = [] then None else Some n))
                                 (db_enrollments d)\<rparr>))"
proof -
  have "grade_ok (if 0 < ef_grade f then Some (ef_grade f) else None)"
    using assms(2,3) by (simp add: grade_ok_def)
  note wf = db_wf_enr_set[OF assms(1) this]
  show ?thesis
    unfolding enrollment_dialog_save_def Let_def if_True enrollment_update_def enrollment_dialog_data_get
    by (simp add: execute_update_def apply_write_update_enrollment checked_def wf[unfolded Let_def]
                  dlg_commit_def del: apply_write.simps)
qed

text \<open>Opening the edit SubjectDialog of a stored subject with credits in 1..10 and saving it unchanged reports success and leaves the database as it was.\<close>

theorem subject_dialog_edit_unchanged:
  assumes "db_wf d" "u \<in> set (db_subjects d)" "1 \<le> sub_credits u" "sub_credits u \<le> 10"
  shows "subject_dialog_save True (sub_code u) (Some d) (snd (subject_dialog_load (Some d) (sub_code u) f0)) =
         (Information ''Subject updated successfully!'', True, Some d)"
proof -
  let ?U = "db_subjects d"
  have dist: "distinct (map (coll \<circ> sub_code) ?U)" using assms(1) by (simp add: db_wf_defs)
  have filt: "filter (\<lambda>u'. sql_str_eq (sub_code u') (sub_code u)) ?U = [u]"
    using filter_distinct_key_single[OF dist assms(2)] by (simp add: sql_str_eq_def)
  have load: "snd (subject_dialog_load (Some d) (sub_code u) f0) =
      f0\<lparr>sf_code := sub_code u, sf_name := sub_name u, sf_credits := sub_credits u\<rparr>"
    using assms(3,4)
    by (simp add: subject_dialog_load_def subject_get_by_code_def query_one_def select_subject_code filt
                  subject_row_def dict_get_def)
  have same: "map (sub_set (sub_code u) (sub_name u) (sub_credits u)) ?U = ?U"
  proof (rule map_idI)
    fix x assume x: "x \<in> set ?U"
    show "sub_set (sub_code u) (sub_name u) (sub_credits u) x = x"
    proof (cases "sql_str_eq (sub_code x) (sub_code u)")
      case True
      then have "x \<in> set (filter (\<lambda>u'. sql_str_eq (sub_code u') (sub_code u)) ?U)" using x by simp
      then have "x = u" by (simp add: filt)
      then show ?thesis by (simp add: sub_set_def)
    qed (simp add: sub_set_def)
  qed
  have upd: "subject_update (Some d) (PStr (sub_code u))
      [(''code'', PStr (sub_code u)), (''name'', PStr (sub_name u)), (''credits'', PInt (sub_credits u))] = Inr (1, d)"
    using assms(1)
    by (simp add: subject_update_def dict_getitem_def execute_update_def apply_write_update_subject same filt
                  checked_def del: apply_write.simps)
  show ?thesis
    by (simp add: load subject_dialog_save_def upd dlg_commit_def)
qed

lemma lecturer_dialog_load_stored:
  assumes "distinct (map lec_id (db_lecturers d))" "l \<in> set (db_lecturers d)"
  shows "snd (lecturer_dialog_load (Some d) (lec_id l) f) =
         f\<lparr>lf_first := lec_first l, lf_last := lec_last l,
           lf_email := (case lec_email l of None \<Rightarrow> [] | Some e \<Rightarrow> e),
           lf_office := (case lec_office l of None \<Rightarrow> [] | Some e \<Rightarrow> e)\<rparr>"
  using filter_distinct_key_single[OF assms]
  by (simp add: lecturer_dialog_load_def lecturer_get_by_id_def query_one_def select_lecturer_id lecturer_row_def
      dict_getitem_def dict_get_default_def qt_set_text_def opt_str_def pbind_def split: option.splits)

lemma lecturer_dialog_save_edit:
  "lecturer_dialog_save True i (Some d) f =
   (let d' = d\<lparr>db_lecturers := map (lec_set i (lf_first f) (lf_last f) (Some (lf_email f)) (Some (lf_office f))) (db_lecturers d)\<rparr>
    in if db_wf d' then (Information ''Lecturer updated successfully!'', True, Some d')
       else (Critical (''Failed to save: '' @ exc_str (integrity_error d')), False, Some d))"
proof -
  have u: "lecturer_update (Some d) (PInt i) [(''first_name'', PStr (lf_first f)), (''last_name'', PStr (lf_last f)),
        (''email'', PStr (lf_email f)), (''office'', PStr (lf_office f))] =
      pbind (apply_write (Update ''lecturers'' [(''LecturerFirstName'', PStr (lf_first f)), (''LecturerLastName'', PStr (lf_last f)),
        (''LecturerEmail'', opt_str (Some (lf_email f))), (''Office'', opt_str (Some (lf_office f)))] [(''LecturerID'', PInt i)]) d)
        (\<lambda>((n, _), d'). Inr (n, d'))"
    by (simp add: lecturer_update_def dict_getitem_def dict_get_def execute_update_def opt_str_def del: apply_write.simps)
  show ?thesis
    unfolding lecturer_dialog_save_def Let_def if_True u apply_write_update_lecturer
    by (simp add: checked_def dlg_commit_def split: pyexc.splits)
qed

text \<open>Claim C21 (lecturer_edit_null_email): opening the edit LecturerDialog of a lecturer whose email
  is NULL and saving it unchanged stores the empty string as the email (and as the office when that is
  NULL); doing the same for a second lecturer without email then fails with a duplicate-entry error on
  the UNIQUE email column, so of the lecturers without email at most one can be edited.\<close>

theorem lecturer_edit_null_email:
  fixes la lb :: lecturer and d :: db
  defines "o1 \<equiv> (case lec_office la of None \<Rightarrow> [] | Some x \<Rightarrow> x)"
  defines "d1 \<equiv> d\<lparr>db_lecturers := map (lec_set (lec_id la) (lec_first la) (lec_last la) (Some []) (Some o1)) (db_lecturers d)\<rparr>"
  assumes "db_wf d" "la \<in> set (db_lecturers d)" "lb \<in> set (db_lecturers d)" "lec_id la \<noteq> lec_id lb"
    "lec_email la = None" "lec_email lb = None" "\<forall>x \<in> set (db_lecturers d). lec_email x \<noteq> Some []"
  shows "lecturer_dialog_save True (lec_id la) (Some d) (snd (lecturer_dialog_load (Some d) (lec_id la) fa)) =
           (Information ''Lecturer updated successfully!'', True, Some d1) \<and>
         lecturer_dialog_save True (lec_id lb) (Some d1) (snd (lecturer_dialog_load (Some d1) (lec_id lb) fb)) =
           (Critical ''Failed to save: Duplicate entry'', False, Some d1)"
proof -
  have dist: "distinct (map lec_id (db_lecturers d))" using assms(3) by (simp add: db_wf_defs)
  have wf1: "db_wf d1"
    unfolding d1_def using assms(3,9) by (intro db_wf_lec_set) auto
  have s1: "lecturer_dialog_save True (lec_id la) (Some d) (snd (lecturer_dialog_load (Some d) (lec_id la) fa)) =
           (Information ''Lecturer updated successfully!'', True, Some d1)"
    using wf1 by (simp add: lecturer_dialog_load_stored[OF dist assms(4)] lecturer_dialog_save_edit assms(7)
      d1_def o1_def)
  let ?s1 = "lec_set (lec_id la) (lec_first la) (lec_last la) (Some []) (Some o1)"
  have l2in: "lb \<in> set (db_lecturers d1)"
    using assms(5,6) by (force simp: d1_def lec_set_def intro: image_eqI[where x=lb])
  have dist1: "distinct (map lec_id (db_lecturers d1))" using wf1 by (simp add: db_wf_defs)
  let ?o2 = "case lec_office lb of None \<Rightarrow> [] | Some x \<Rightarrow> x"
  let ?s2 = "lec_set (lec_id lb) (lec_first lb) (lec_last lb) (Some []) (Some ?o2)"
  let ?d2 = "d1\<lparr>db_lecturers := map ?s2 (db_lecturers d1)\<rparr>"
  have "?s2 (?s1 la) \<in> set (db_lecturers ?d2)" "?s2 lb \<in> set (db_lecturers ?d2)"
    using assms(4) l2in by (auto simp: d1_def)
  moreover have "lec_email (?s2 (?s1 la)) = Some []" "lec_email (?s2 lb) = Some []"
    using assms(6) by (simp_all add: lec_set_def)
  moreover have "lec_id (?s2 (?s1 la)) \<noteq> lec_id (?s2 lb)" using assms(6) by simp
  ultimately have "\<not> keys_ok ?d2"
    unfolding keys_ok_def using email_clash_not_distinct by blast
  then have s2: "lecturer_dialog_save True (lec_id lb) (Some d1) (snd (lecturer_dialog_load (Some d1) (lec_id lb) fb)) =
           (Critical ''Failed to save: Duplicate entry'', False, Some d1)"
    by (simp add: lecturer_dialog_load_stored[OF dist1 l2in] lecturer_dialog_save_edit assms(8) db_wf_def
      integrity_error_def exc_str_def)
  show ?thesis using s1 s2 by simp
qed

end
