(* ===== verification/Pages.thy ===== *)
theory Pages
  imports Dialogs
begin

text \<open>
  The management pages of \<open>src/final/main_win.py\<close>: \<open>StudentsPage\<close>, \<open>SubjectsPage\<close>,
  \<open>LecturersPage\<close>, \<open>ClassesPage\<close> and \<open>EnrollmentsPage\<close>, each a \<open>BaseTablePage\<close> with a
  table, a status label and the slots \<open>load_data\<close>, \<open>on_add\<close>, \<open>on_edit\<close>, \<open>on_delete\<close>.
  A page is its table's cell texts, the selected row and the status text. The model keeps
  the columns the slots read back (the id and name columns); the others are only shown.
  A slot is a function of the server (\<open>up\<close>: whether MySQL answers; the pool and the
  student dialog's own connection both need it), the tables, the page and the user's
  input (the confirmation answer, the form submitted in the opened dialog); it returns the
  message boxes shown, in order, the page and the tables. An exception that leaves a slot
  is \<open>Inl\<close>: PyQt6 aborts the application on it.
\<close>

section \<open>BaseTablePage, lines 61--238\<close>

record page =
  pg_rows :: "string list list"
  pg_sel :: "nat option"
  pg_status :: string

text \<open>The text of a cell: \<open>str(v)\<close> of a number, the string itself, empty for \<open>NULL\<close>.\<close>

definition val_text :: "pyval \<Rightarrow> string" where
  "val_text v = (case v of PStr s \<Rightarrow> s | PInt i \<Rightarrow> py_str_int i | _ \<Rightarrow> [])"

text \<open>\<open>get_selected_row_data(column)\<close>, lines 228--235, followed by the slots' \<open>if not x\<close>.\<close>

definition get_selected_row_data :: "page \<Rightarrow> nat \<Rightarrow> string option" where
  "get_selected_row_data pg c =
     (case pg_sel pg of None \<Rightarrow> None
      | Some r \<Rightarrow> if r < length (pg_rows pg) \<and> c < length (pg_rows pg ! r) then Some (pg_rows pg ! r ! c) else None)"

definition selected :: "page \<Rightarrow> nat \<Rightarrow> string option" where
  "selected pg c = (case get_selected_row_data pg c of Some t \<Rightarrow> if t = [] then None else Some t | None \<Rightarrow> None)"

definition pool :: "bool \<Rightarrow> db \<Rightarrow> db option" where
  "pool up d = (if up then Some d else None)"

definition db_after :: "db option \<Rightarrow> db \<Rightarrow> db" where
  "db_after st d = (case st of Some d' \<Rightarrow> d' | None \<Rightarrow> d)"

text \<open>\<open>self.table.setRowCount(len(rows))\<close> and the cells, then the status label.\<close>

definition fill :: "string \<Rightarrow> (pydict \<Rightarrow> string list) \<Rightarrow> pydict list \<Rightarrow> page \<Rightarrow> page" where
  "fill what cells rs pg = pg\<lparr>pg_rows := map cells rs, pg_status := ''Total '' @ what @ '': '' @ nat_str (length rs)\<rparr>"

text \<open>The \<open>load_data\<close> of a page over a read that gives \<open>None\<close> on a failure:
  \<open>len(None)\<close> raises, and the \<open>except\<close> shows \<open>Failed to load ...\<close>.\<close>

definition load_rows :: "string \<Rightarrow> (pydict \<Rightarrow> string list) \<Rightarrow> pydict list option \<Rightarrow> page \<Rightarrow> gui_msg list \<times> page" where
  "load_rows what cells r pg =
     (case r of None \<Rightarrow> ([Critical (''Failed to load '' @ what @ '': '' @ exc_str len_of_none)], pg)
      | Some rs \<Rightarrow> ([], fill what cells rs pg))"

text \<open>\<open>on_delete\<close> after the selection check and the \<open>Yes\<close>: the model call, the success box
  and \<open>refresh_table()\<close>, or \<open>Delete failed: {e}\<close>.\<close>

definition delete_then :: "string \<Rightarrow> string \<Rightarrow> ('a \<times> db) res \<Rightarrow> bool \<Rightarrow> db \<Rightarrow>
    (db option \<Rightarrow> page \<Rightarrow> gui_msg list \<times> page) \<Rightarrow> page \<Rightarrow> gui_msg list \<times> page \<times> db" where
  "delete_then ok_msg fail_tail r up d reload pg =
     (case r of
        Inr (_, d') \<Rightarrow> (case reload (pool up d') pg of (ms, pg') \<Rightarrow> (Information ok_msg # ms, pg', d'))
      | Inl e \<Rightarrow> ([Critical (''Delete failed: '' @ exc_str e @ fail_tail)], pg, d))"

text \<open>A dialog opened by \<open>on_add\<close> or \<open>on_edit\<close>: \<open>if dialog.exec(): self.refresh_table()\<close>.\<close>

definition after_dialog :: "gui_msg \<times> bool \<times> db option \<Rightarrow> bool \<Rightarrow> db \<Rightarrow>
    (db option \<Rightarrow> page \<Rightarrow> gui_msg list \<times> page) \<Rightarrow> page \<Rightarrow> gui_msg list \<times> page \<times> db" where
  "after_dialog r up d reload pg =
     (case r of (m, acc, st') \<Rightarrow>
        if acc then (case reload st' pg of (ms, pg') \<Rightarrow> (m # ms, pg', db_after st' d))
        else ([m], pg, db_after st' d))"

text \<open>\<open>int(text)\<close> of a selected id outside a \<open>try\<close>: a \<open>ValueError\<close> leaves the slot.\<close>

definition int_of_cell :: "string \<Rightarrow> int res" where
  "int_of_cell t = py_int (PStr t)"

section \<open>StudentsPage, lines 246--330\<close>

definition student_cells :: "pydict \<Rightarrow> string list" where
  "student_cells r = map (val_text \<circ> dict_get r) [''StudentID'', ''FirstName'', ''LastName'']"

definition students_load :: "db option \<Rightarrow> string \<Rightarrow> page \<Rightarrow> gui_msg list \<times> page" where
  "students_load st search_term pg =
     load_rows ''students'' student_cells
       (if search_term \<noteq> [] then student_search st search_term None else student_list st 500 0 ''StudentID'') pg"

definition students_reload :: "db option \<Rightarrow> page \<Rightarrow> gui_msg list \<times> page" where
  "students_reload st pg = students_load st [] pg"

text \<open>\<open>StudentDialog(...)\<close> then \<open>exec()\<close>: the user submits the form once; an accepted
  dialog refreshes the table.\<close>

definition students_dialog :: "bool \<Rightarrow> pyval \<Rightarrow> bool \<Rightarrow> db \<Rightarrow> page \<Rightarrow> sd_form \<Rightarrow> (gui_msg list \<times> page \<times> db) res" where
  "students_dialog edit_mode sid up d pg f =
     pbind (sd_save_student edit_mode sid up d f) (\<lambda>(m, acc, d').
       Inr (after_dialog (m, acc, pool up d') up d students_reload pg))"

definition students_on_add :: "bool \<Rightarrow> db \<Rightarrow> page \<Rightarrow> sd_form \<Rightarrow> (gui_msg list \<times> page \<times> db) res" where
  "students_on_add up d pg f = students_dialog False PNone up d pg f"

definition students_on_edit :: "bool \<Rightarrow> db \<Rightarrow> page \<Rightarrow> sd_form \<Rightarrow> (gui_msg list \<times> page \<times> db) res" where
  "students_on_edit up d pg f =
     (case selected pg 0 of
        None \<Rightarrow> Inr ([Warning ''Please select a student to edit!''], pg, d)
      | Some t \<Rightarrow> pbind (int_of_cell t) (\<lambda>i. students_dialog True (PInt i) up d pg f))"

definition students_on_delete :: "bool \<Rightarrow> db \<Rightarrow> page \<Rightarrow> bool \<Rightarrow> gui_msg list \<times> page \<times> db" where
  "students_on_delete up d pg yes =
     (case selected pg 0 of
        None \<Rightarrow> ([Warning ''Please select a student to delete!''], pg, d)
      | Some t \<Rightarrow>
          if \<not> yes then ([], pg, d)
          else (case int_of_cell t of
                  Inl e \<Rightarrow> ([Critical (''Delete failed: '' @ exc_str e)], pg, d)
                | Inr i \<Rightarrow> delete_then ''Student deleted successfully!'' []
                             (student_delete (pool up d) (PInt i)) up d students_reload pg))"

section \<open>SubjectsPage, lines 337--410\<close>

definition subject_cells :: "pydict \<Rightarrow> string list" where
  "subject_cells r = map (val_text \<circ> dict_get r) [''SubjectCode'', ''SubjectName'']"

definition subjects_load :: "db option \<Rightarrow> page \<Rightarrow> gui_msg list \<times> page" where
  "subjects_load st pg = load_rows ''subjects'' subject_cells (subject_list st) pg"

definition subjects_on_add :: "bool \<Rightarrow> db \<Rightarrow> page \<Rightarrow> subject_form \<Rightarrow> gui_msg list \<times> page \<times> db" where
  "subjects_on_add up d pg f = after_dialog (subject_dialog_save False [] (pool up d) f) up d subjects_load pg"

definition subjects_on_edit :: "bool \<Rightarrow> db \<Rightarrow> page \<Rightarrow> subject_form \<Rightarrow> gui_msg list \<times> page \<times> db" where
  "subjects_on_edit up d pg f =
     (case selected pg 0 of
        None \<Rightarrow> ([Warning ''Please select a subject to edit!''], pg, d)
      | Some code \<Rightarrow> after_dialog (subject_dialog_save True code (pool up d) f) up d subjects_load pg)"

definition subjects_on_delete :: "bool \<Rightarrow> db \<Rightarrow> page \<Rightarrow> bool \<Rightarrow> gui_msg list \<times> page \<times> db" where
  "subjects_on_delete up d pg yes =
     (case selected pg 0 of
        None \<Rightarrow> ([Warning ''Please select a subject to delete!''], pg, d)
      | Some code \<Rightarrow>
          if \<not> yes then ([], pg, d)
          else delete_then ''Subject deleted successfully!''
                 (''\<newline>\<newline>Probably classes still exist for this subject.'')
                 (subject_delete (pool up d) (PStr code)) up d subjects_load pg)"

section \<open>LecturersPage, lines 417--490\<close>

definition lecturer_cells :: "pydict \<Rightarrow> string list" where
  "lecturer_cells r = map (val_text \<circ> dict_get r) [''LecturerID'', ''LecturerFirstName'', ''LecturerLastName'']"

definition lecturers_load :: "db option \<Rightarrow> page \<Rightarrow> gui_msg list \<times> page" where
  "lecturers_load st pg = load_rows ''lecturers'' lecturer_cells (lecturer_list st) pg"

definition lecturers_on_add :: "bool \<Rightarrow> db \<Rightarrow> page \<Rightarrow> lecturer_form \<Rightarrow> gui_msg list \<times> page \<times> db" where
  "lecturers_on_add up d pg f = after_dialog (lecturer_dialog_save False 0 (pool up d) f) up d lecturers_load pg"

definition lecturers_on_edit :: "bool \<Rightarrow> db \<Rightarrow> page \<Rightarrow> lecturer_form \<Rightarrow> (gui_msg list \<times> page \<times> db) res" where
  "lecturers_on_edit up d pg f =
     (case selected pg 0 of
        None \<Rightarrow> Inr ([Warning ''Please select a lecturer to edit!''], pg, d)
      | Some t \<Rightarrow> pbind (int_of_cell t) (\<lambda>i.
          Inr (after_dialog (lecturer_dialog_save True i (pool up d) f) up d lecturers_load pg)))"

definition lecturers_on_delete :: "bool \<Rightarrow> db \<Rightarrow> page \<Rightarrow> bool \<Rightarrow> gui_msg list \<times> page \<times> db" where
  "lecturers_on_delete up d pg yes =
     (case selected pg 0 of
        None \<Rightarrow> ([Warning ''Please select a lecturer to delete!''], pg, d)
      | Some t \<Rightarrow>
          if \<not> yes then ([], pg, d)
          else (case int_of_cell t of
                  Inl e \<Rightarrow> ([Critical (''Delete failed: '' @ exc_str e)], pg, d)
                | Inr i \<Rightarrow> delete_then ''Lecturer deleted successfully!'' []
                             (lecturer_delete (pool up d) (PInt i)) up d lecturers_load pg))"

section \<open>ClassesPage, lines 498--580\<close>

definition class_cells :: "pydict \<Rightarrow> string list" where
  "class_cells r = map (val_text \<circ> dict_get r) [''ClassID'', ''SubjectName'']"

definition classes_load :: "db option \<Rightarrow> page \<Rightarrow> gui_msg list \<times> page" where
  "classes_load st pg = load_rows ''classes'' class_cells (class_list st None None) pg"

definition classes_on_add :: "bool \<Rightarrow> db \<Rightarrow> page \<Rightarrow> class_form \<Rightarrow> gui_msg list \<times> page \<times> db" where
  "classes_on_add up d pg f = after_dialog (class_dialog_save False 0 (pool up d) f) up d classes_load pg"

definition classes_on_edit :: "bool \<Rightarrow> db \<Rightarrow> page \<Rightarrow> class_form \<Rightarrow> (gui_msg list \<times> page \<times> db) res" where
  "classes_on_edit up d pg f =
     (case selected pg 0 of
        None \<Rightarrow> Inr ([Warning ''Please select a class to edit!''], pg, d)
      | Some t \<Rightarrow> pbind (int_of_cell t) (\<lambda>i.
          Inr (after_dialog (class_dialog_save True i (pool up d) f) up d classes_load pg)))"

definition classes_on_delete :: "bool \<Rightarrow> db \<Rightarrow> page \<Rightarrow> bool \<Rightarrow> gui_msg list \<times> page \<times> db" where
  "classes_on_delete up d pg yes =
     (case selected pg 0 of
        None \<Rightarrow> ([Warning ''Please select a class to delete!''], pg, d)
      | Some t \<Rightarrow>
          if \<not> yes then ([], pg, d)
          else (case int_of_cell t of
                  Inl e \<Rightarrow> ([Critical (''Delete failed: '' @ exc_str e)], pg, d)
                | Inr i \<Rightarrow> delete_then ''Class deleted successfully!'' []
                             (class_delete (pool up d) (PInt i)) up d classes_load pg))"


section \<open>EnrollmentsPage, lines 603--697\<close>

text \<open>The page reads \<open>QueryModels.query_complete_enrollment_info()\<close>; its rows are records.\<close>

definition enrollment_cells :: "info_row \<Rightarrow> string list" where
  "enrollment_cells r = [py_str_int (ei_sid r), ei_first r @ '' '' @ ei_last r, py_str_int (ei_cid r), ei_subject r]"

definition enrollments_load :: "db option \<Rightarrow> page \<Rightarrow> gui_msg list \<times> page" where
  "enrollments_load st pg =
     (case query_complete_enrollment_info st None None None None None of
        Inl e \<Rightarrow> ([Critical (''Failed to load enrollments: '' @ exc_str e)], pg)
      | Inr rs \<Rightarrow> ([], pg\<lparr>pg_rows := map enrollment_cells rs,
                          pg_status := ''Total enrollments: '' @ nat_str (length rs)\<rparr>))"

definition enrollments_on_add :: "bool \<Rightarrow> db \<Rightarrow> page \<Rightarrow> enrollment_form \<Rightarrow> gui_msg list \<times> page \<times> db" where
  "enrollments_on_add up d pg f =
     after_dialog (enrollment_dialog_save False 0 0 (pool up d) f) up d enrollments_load pg"

definition enrollments_on_edit :: "bool \<Rightarrow> db \<Rightarrow> page \<Rightarrow> enrollment_form \<Rightarrow> (gui_msg list \<times> page \<times> db) res" where
  "enrollments_on_edit up d pg f =
     (case (selected pg 0, selected pg 2) of
        (Some t, Some u) \<Rightarrow> pbind (int_of_cell t) (\<lambda>i. pbind (int_of_cell u) (\<lambda>j.
           Inr (after_dialog (enrollment_dialog_save True i j (pool up d) f) up d enrollments_load pg)))
      | _ \<Rightarrow> Inr ([Warning ''Please select an enrollment to edit!''], pg, d))"

definition enrollments_on_delete :: "bool \<Rightarrow> db \<Rightarrow> page \<Rightarrow> bool \<Rightarrow> gui_msg list \<times> page \<times> db" where
  "enrollments_on_delete up d pg yes =
     (case (selected pg 0, selected pg 2) of
        (Some t, Some u) \<Rightarrow>
          if \<not> yes then ([], pg, d)
          else (case (int_of_cell t, int_of_cell u) of
                  (Inr i, Inr j) \<Rightarrow> delete_then ''Enrollment deleted successfully!'' []
                                     (enrollment_delete (pool up d) (PInt i) (PInt j)) up d enrollments_load pg
                | (Inl e, _) \<Rightarrow> ([Critical (''Delete failed: '' @ exc_str e)], pg, d)
                | (_, Inl e) \<Rightarrow> ([Critical (''Delete failed: '' @ exc_str e)], pg, d))
      | _ \<Rightarrow> ([Warning ''Please select an enrollment to delete!''], pg, d))"


text \<open>A write that succeeds leaves well-formed tables that did not grow; a slot either
  leaves the tables as they were or makes such a write.\<close>

definition write_ok :: "db \<Rightarrow> ('a \<times> db) res \<Rightarrow> bool" where
  "write_ok d r \<longleftrightarrow> (\<forall>x d'. r = Inr (x, d') \<longrightarrow> db_wf d' \<and> shrinks d d')"

definition db_step :: "db \<Rightarrow> db \<Rightarrow> bool" where
  "db_step d d' \<longleftrightarrow> d' = d \<or> (db_wf d' \<and> shrinks d d')"

section \<open>The main window, main.py and main_win.py\<close>

text \<open>\<open>MainWindow.setup_ui\<close> builds every page, each loading its table once. The user
  then types in the student search field (\<open>textChanged\<close>, line 87, which fires only when the text changes; the
  other pages ignore it; \<open>gs_search\<close> is the field's text),
  selects a row, or presses Add, Edit or Delete on a page; the server can go down and come
  back. Switching pages (\<open>show_page\<close>) only changes the visible widget; no page reloads
  when another page changes the tables.\<close>

record gui_state =
  gs_up :: bool
  gs_db :: db
  gs_students :: page
  gs_subjects :: page
  gs_lecturers :: page
  gs_classes :: page
  gs_enrollments :: page
  gs_search :: string

datatype tab = TStudents | TSubjects | TLecturers | TClasses | TEnrollments

datatype gui_event =
    Server bool
  | Search string
  | SelectRow tab nat
  | StudentAdd sd_form | StudentEdit sd_form | StudentDelete bool
  | SubjectAdd subject_form | SubjectEdit subject_form | SubjectDelete bool
  | LecturerAdd lecturer_form | LecturerEdit lecturer_form | LecturerDelete bool
  | ClassAdd class_form | ClassEdit class_form | ClassDelete bool
  | EnrollmentAdd enrollment_form | EnrollmentEdit enrollment_form | EnrollmentDelete bool

definition empty_page :: page where
  "empty_page = \<lparr>pg_rows = [], pg_sel = None, pg_status = []\<rparr>"

definition main_window :: "bool \<Rightarrow> db \<Rightarrow> gui_msg list \<times> gui_state" where
  "main_window up d =
     (let st = pool up d;
          (m1, p1) = students_reload st empty_page; (m2, p2) = subjects_load st empty_page;
          (m3, p3) = lecturers_load st empty_page; (m4, p4) = classes_load st empty_page;
          (m5, p5) = enrollments_load st empty_page
      in (m1 @ m2 @ m3 @ m4 @ m5,
          \<lparr>gs_up = up, gs_db = d, gs_students = p1, gs_subjects = p2, gs_lecturers = p3,
           gs_classes = p4, gs_enrollments = p5, gs_search = []\<rparr>))"

text \<open>A click on a row of the table selects it.\<close>

definition select_row :: "nat \<Rightarrow> page \<Rightarrow> page" where
  "select_row r pg = (if r < length (pg_rows pg) then pg\<lparr>pg_sel := Some r\<rparr> else pg)"

definition on_tab :: "tab \<Rightarrow> (page \<Rightarrow> page) \<Rightarrow> gui_state \<Rightarrow> gui_state" where
  "on_tab t g s = (case t of
       TStudents \<Rightarrow> s\<lparr>gs_students := g (gs_students s)\<rparr>
     | TSubjects \<Rightarrow> s\<lparr>gs_subjects := g (gs_subjects s)\<rparr>
     | TLecturers \<Rightarrow> s\<lparr>gs_lecturers := g (gs_lecturers s)\<rparr>
     | TClasses \<Rightarrow> s\<lparr>gs_classes := g (gs_classes s)\<rparr>
     | TEnrollments \<Rightarrow> s\<lparr>gs_enrollments := g (gs_enrollments s)\<rparr>)"

definition gui_step :: "gui_state \<Rightarrow> gui_event \<Rightarrow> (gui_msg list \<times> gui_state) res" where
  "gui_step s ev =
     (let up = gs_up s; d = gs_db s in
      case ev of
        Server b \<Rightarrow> Inr ([], s\<lparr>gs_up := b\<rparr>)
      | Search t \<Rightarrow> if t = gs_search s then Inr ([], s)
                    else (case students_load (pool up d) t (gs_students s) of
                            (ms, pg) \<Rightarrow> Inr (ms, s\<lparr>gs_students := pg, gs_search := t\<rparr>))
      | SelectRow t r \<Rightarrow> Inr ([], on_tab t (select_row r) s)
      | StudentAdd f \<Rightarrow> pbind (students_on_add up d (gs_students s) f)
                         (\<lambda>(ms, pg, d'). Inr (ms, s\<lparr>gs_db := d', gs_students := pg\<rparr>))
      | StudentEdit f \<Rightarrow> pbind (students_on_edit up d (gs_students s) f)
                         (\<lambda>(ms, pg, d'). Inr (ms, s\<lparr>gs_db := d', gs_students := pg\<rparr>))
      | StudentDelete y \<Rightarrow> (case students_on_delete up d (gs_students s) y of
                            (ms, pg, d') \<Rightarrow> Inr (ms, s\<lparr>gs_db := d', gs_students := pg\<rparr>))
      | SubjectAdd f \<Rightarrow> (case subjects_on_add up d (gs_subjects s) f of
                            (ms, pg, d') \<Rightarrow> Inr (ms, s\<lparr>gs_db := d', gs_subjects := pg\<rparr>))
      | SubjectEdit f \<Rightarrow> (case subjects_on_edit up d (gs_subjects s) f of
                            (ms, pg, d') \<Rightarrow> Inr (ms, s\<lparr>gs_db := d', gs_subjects := pg\<rparr>))
      | SubjectDelete y \<Rightarrow> (case subjects_on_delete up d (gs_subjects s) y of
                            (ms, pg, d') \<Rightarrow> Inr (ms, s\<lparr>gs_db := d', gs_subjects := pg\<rparr>))
      | LecturerAdd f \<Rightarrow> (case lecturers_on_add up d (gs_lecturers s) f of
                            (ms, pg, d') \<Rightarrow> Inr (ms, s\<lparr>gs_db := d', gs_lecturers := pg\<rparr>))
      | LecturerEdit f \<Rightarrow> pbind (lecturers_on_edit up d (gs_lecturers s) f)
                         (\<lambda>(ms, pg, d'). Inr (ms, s\<lparr>gs_db := d', gs_lecturers := pg\<rparr>))
      | LecturerDelete y \<Rightarrow> (case lecturers_on_delete up d (gs_lecturers s) y of
                            (ms, pg, d') \<Rightarrow> Inr (ms, s\<lparr>gs_db := d', gs_lecturers := pg\<rparr>))
      | ClassAdd f \<Rightarrow> (case classes_on_add up d (gs_classes s) f of
                            (ms, pg, d') \<Rightarrow> Inr (ms, s\<lparr>gs_db := d', gs_classes := pg\<rparr>))
      | ClassEdit f \<Rightarrow> pbind (classes_on_edit up d (gs_classes s) f)
                         (\<lambda>(ms, pg, d'). Inr (ms, s\<lparr>gs_db := d', gs_classes := pg\<rparr>))
      | ClassDelete y \<Rightarrow> (case classes_on_delete up d (gs_classes s) y of
                            (ms, pg, d') \<Rightarrow> Inr (ms, s\<lparr>gs_db := d', gs_classes := pg\<rparr>))
      | EnrollmentAdd f \<Rightarrow> (case enrollments_on_add up d (gs_enrollments s) f of
                            (ms, pg, d') \<Rightarrow> Inr (ms, s\<lparr>gs_db := d', gs_enrollments := pg\<rparr>))
      | EnrollmentEdit f \<Rightarrow> pbind (enrollments_on_edit up d (gs_enrollments s) f)
                         (\<lambda>(ms, pg, d'). Inr (ms, s\<lparr>gs_db := d', gs_enrollments := pg\<rparr>))
      | EnrollmentDelete y \<Rightarrow> (case enrollments_on_delete up d (gs_enrollments s) y of
                            (ms, pg, d') \<Rightarrow> Inr (ms, s\<lparr>gs_db := d', gs_enrollments := pg\<rparr>)))"

text \<open>The states the application reaches from its start on the tables \<open>d\<close>: a slot that
  raises ends the run.\<close>

inductive gui_reach :: "bool \<Rightarrow> db \<Rightarrow> gui_state \<Rightarrow> bool" where
  start: "gui_reach up d (snd (main_window up d))"
| step: "gui_reach up d s \<Longrightarrow> gui_step s ev = Inr (ms, s') \<Longrightarrow> gui_reach up d s'"

text \<open>A run: the events in order, stopping at the first exception.\<close>

fun gui_run :: "gui_state \<Rightarrow> gui_event list \<Rightarrow> (gui_msg list \<times> gui_state) res" where
  "gui_run s [] = Inr ([], s)"
| "gui_run s (ev # evs) = pbind (gui_step s ev) (\<lambda>(ms, s'). pbind (gui_run s' evs) (\<lambda>(ms', s''). Inr (ms @ ms', s'')))"


section \<open>Lemmas\<close>

lemma int_of_cell_str: "int_of_cell (py_str_int i) = Inr i"
  unfolding int_of_cell_def by (rule py_int_str_int)

lemma students_reload_rows:
  "pg_rows (snd (students_reload (Some d) pg)) =
   map student_cells (take 500 (sort_key (\<lambda>r. order_key (dict_get r ''StudentID'')) (map student_row (db_students d))))"
  by (simp add: students_reload_def students_load_def load_rows_def fill_def student_list_def query_all_def
                student_cols_def table_rows_simps)

lemma write_ok_execute_update: "no_foreign_insert w \<Longrightarrow> write_ok d (execute_update (pool up d) w)"
  by (auto simp: write_ok_def execute_update_def pool_def pbind_Inr_iff dest: apply_write_good)

lemma write_ok_pbind: "(\<And>a. write_ok d (f a)) \<Longrightarrow> write_ok d (pbind m f)"
  by (cases m) (simp_all add: write_ok_def)

lemma write_ok_Inl: "write_ok d (Inl e)"
  by (simp add: write_ok_def)

lemma no_foreign_insert_simps [simp]:
  "no_foreign_insert (Update t sets w)" "no_foreign_insert (Delete t w)"
  by (simp_all add: no_foreign_insert_def)

lemma models_write_ok:
  "write_ok d (student_delete (pool up d) sid)"
  "write_ok d (subject_update (pool up d) code data)"
  "write_ok d (subject_delete (pool up d) code)"
  "write_ok d (lecturer_update (pool up d) lid data)"
  "write_ok d (lecturer_delete (pool up d) lid)"
  "write_ok d (class_update (pool up d) cid data)"
  "write_ok d (class_delete (pool up d) cid)"
  "write_ok d (enrollment_update (pool up d) sid cid data)"
  "write_ok d (enrollment_delete (pool up d) sid cid)"
  by (simp_all add: student_delete_def subject_update_def subject_delete_def lecturer_update_def
      lecturer_delete_def class_update_def class_delete_def enrollment_update_def enrollment_delete_def
      write_ok_execute_update write_ok_pbind)

lemma models_create_ok:
  "write_ok d (subject_create (pool up d) data)"
  "write_ok d (lecturer_create (pool up d) data)"
  "write_ok d (class_create (pool up d) data)"
  "write_ok d (enrollment_create (pool up d) data)"
  by (simp_all add: subject_create_raises lecturer_create_def class_create_def enrollment_create_raises
      write_ok_Inl split: sum.split)

lemma dlg_commit_step:
  "write_ok d r \<Longrightarrow> db_step d (db_after (snd (snd (dlg_commit m r (pool up d)))) d)"
  by (auto simp: dlg_commit_def db_after_def db_step_def write_ok_def pool_def split: sum.split pyexc.split)

lemma after_dialog_db: "snd (snd (after_dialog r up d reload pg)) = db_after (snd (snd r)) d"
  by (simp add: after_dialog_def split: prod.split)

lemma delete_then_step: "write_ok d r \<Longrightarrow> db_step d (snd (snd (delete_then m t r up d reload pg)))"
  by (auto simp: delete_then_def db_step_def write_ok_def split: sum.split prod.split)

lemma db_step_refl: "db_step d d"
  by (simp add: db_step_def)

lemma dialogs_save_step:
  "db_step d (db_after (snd (snd (subject_dialog_save e c (pool up d) sf))) d)"
  "db_step d (db_after (snd (snd (lecturer_dialog_save e i (pool up d) lf))) d)"
  "db_step d (db_after (snd (snd (class_dialog_save e i (pool up d) cf))) d)"
  "db_step d (db_after (snd (snd (enrollment_dialog_save e i j (pool up d) ef))) d)"
  by (simp_all add: subject_dialog_save_def lecturer_dialog_save_def class_dialog_save_def
      enrollment_dialog_save_def Let_def dlg_commit_step models_write_ok models_create_ok)

lemma sd_commit_db: "snd (snd (sd_commit m1 m2 r d)) = (case r of Inr (_, d') \<Rightarrow> d' | Inl _ \<Rightarrow> d)"
  by (simp add: sd_commit_def split: sum.split pyexc.split prod.split)

lemma apply_write_step: "no_foreign_insert w \<Longrightarrow> db_step d (case apply_write w d of Inr (_, d') \<Rightarrow> d' | Inl _ \<Rightarrow> d)"
  by (auto simp: db_step_def split: sum.split dest: apply_write_good)

lemma sd_save_student_step:
  assumes "sd_save_student e sid up d f = Inr (m, acc, d')"
  shows "db_step d d'"
proof -
  have add: "db_step d (snd (snd x))" if "sd_add_student up d f = Inr x" for x
  proof (cases "sd_add_fields f")
    case (Inl w) then show ?thesis using that by (auto simp: sd_add_student_def db_step_def)
  next
    case (Inr kvs)
    then have "snd (snd x) = (case apply_write (Insert ''students'' kvs) d of Inr (_, d') \<Rightarrow> d' | Inl _ \<Rightarrow> d)"
      using that by (auto simp: sd_add_student_def sd_commit_db split: if_splits simp del: apply_write.simps)
    then show ?thesis using apply_write_step[of "Insert ''students'' kvs" d] by (simp add: no_foreign_insert_def)
  qed
  have upd: "db_step d (snd (snd x))" if "sd_update_student up d sid f = Inr x" for x
  proof (cases "sd_update_fields f")
    case (Inl w) then show ?thesis using that by (auto simp: sd_update_student_def db_step_def)
  next
    case (Inr kvs)
    then have "snd (snd x) = (case apply_write (Update ''students'' kvs [(''StudentID'', sid)]) d of
                                Inr (_, d') \<Rightarrow> d' | Inl _ \<Rightarrow> d)"
      using that by (auto simp: sd_update_student_def sd_commit_db split: if_splits simp del: apply_write.simps)
    then show ?thesis using apply_write_step[of "Update ''students'' kvs [(''StudentID'', sid)]" d] by simp
  qed
  show ?thesis using assms add upd by (force simp: sd_save_student_def split: if_splits)
qed

lemma db_after_pool_step: "db_step d d1 \<Longrightarrow> db_step d (db_after (pool up d1) d)"
  by (simp add: db_after_def pool_def db_step_refl)

lemma after_dialog_eq: "after_dialog r up d reload pg = (ms, pg', d') \<Longrightarrow> d' = db_after (snd (snd r)) d"
  using after_dialog_db[of r up d reload pg] by simp

lemma students_dialog_step:
  "students_dialog e sid up d pg f = Inr (ms, pg', d') \<Longrightarrow> db_step d d'"
  by (auto simp: students_dialog_def pbind_Inr_iff
           dest!: sd_save_student_step after_dialog_eq intro: db_after_pool_step)

lemma int_of_cell_pbind:
  "pbind (int_of_cell t) g = Inr r \<Longrightarrow> \<exists>i. g i = Inr r"
  by (auto simp: pbind_Inr_iff)

lemma pages_step:
  "students_on_add up d pg f = Inr (ms, pg', d') \<Longrightarrow> db_step d d'"
  "students_on_edit up d pg f = Inr (ms, pg', d') \<Longrightarrow> db_step d d'"
  "lecturers_on_edit up d pg lf = Inr (ms, pg', d') \<Longrightarrow> db_step d d'"
  "classes_on_edit up d pg cf = Inr (ms, pg', d') \<Longrightarrow> db_step d d'"
  "enrollments_on_edit up d pg ef = Inr (ms, pg', d') \<Longrightarrow> db_step d d'"
  by (auto simp: students_on_add_def students_on_edit_def lecturers_on_edit_def classes_on_edit_def
                 enrollments_on_edit_def after_dialog_db db_step_refl dialogs_save_step
           split: option.splits prod.splits
           dest!: students_dialog_step int_of_cell_pbind after_dialog_eq)

lemma pages_step':
  "db_step d (snd (snd (students_on_delete up d pg y)))"
  "db_step d (snd (snd (subjects_on_add up d pg sf)))"
  "db_step d (snd (snd (subjects_on_edit up d pg sf)))"
  "db_step d (snd (snd (subjects_on_delete up d pg y)))"
  "db_step d (snd (snd (lecturers_on_add up d pg lf)))"
  "db_step d (snd (snd (lecturers_on_delete up d pg y)))"
  "db_step d (snd (snd (classes_on_add up d pg cf)))"
  "db_step d (snd (snd (classes_on_delete up d pg y)))"
  "db_step d (snd (snd (enrollments_on_add up d pg ef)))"
  "db_step d (snd (snd (enrollments_on_delete up d pg y)))"
  by (simp_all add: students_on_delete_def subjects_on_add_def subjects_on_edit_def subjects_on_delete_def
      lecturers_on_add_def lecturers_on_delete_def classes_on_add_def classes_on_delete_def
      enrollments_on_add_def enrollments_on_delete_def after_dialog_db dialogs_save_step
      delete_then_step models_write_ok db_step_refl split: option.split sum.split prod.split)

lemma step_of_snd: "db_step d (snd (snd r)) \<Longrightarrow> r = (ms, pg, d') \<Longrightarrow> db_step d d'"
  by simp

lemma gui_step_db:
  assumes "gui_step s ev = Inr (ms, s')"
  shows "db_step (gs_db s) (gs_db s')"
  using assms
  by (cases ev) (auto simp: gui_step_def Let_def pbind_Inr_iff db_step_refl on_tab_def
                      split: prod.splits tab.splits if_splits dest: pages_step pages_step'[THEN step_of_snd])

lemma gui_reach_db:
  assumes "gui_reach up d s"
  shows "shrinks d (gs_db s) \<and> (db_wf d \<longrightarrow> db_wf (gs_db s))"
  using assms
proof induction
  case start
  have "gs_db (snd (main_window u x)) = x" for u x by (simp add: main_window_def Let_def split: prod.split)
  then show ?case by (simp add: shrinks_refl)
next
  case (step s ev ms s')
  then show ?case using gui_step_db[OF step(2)] by (auto simp: db_step_def intro: shrinks_trans)
qed

text \<open>Every state the application reaches from well-formed tables, through any sequence of searches, selections, dialogs and deletions on the five management pages and any server outages, has well-formed tables.\<close>

theorem gui_reach_wf: "gui_reach up d s \<Longrightarrow> db_wf d \<Longrightarrow> db_wf (gs_db s)"
  using gui_reach_db by blast

text \<open>Claim C3 (gui_reach_no_new_rows): no sequence of user actions in the application adds a subject, a lecturer, a class or an enrollment: in every reachable state these tables have at most as many rows as at the start.\<close>

theorem gui_reach_no_new_rows:
  "gui_reach up d s \<Longrightarrow>
   length (db_subjects (gs_db s)) \<le> length (db_subjects d) \<and> length (db_lecturers (gs_db s)) \<le> length (db_lecturers d) \<and>
   length (db_classes (gs_db s)) \<le> length (db_classes d) \<and> length (db_enrollments (gs_db s)) \<le> length (db_enrollments d)"
  using gui_reach_db[of up d s] by (simp add: shrinks_def table_rows_simps)

text \<open>Claim C8 (students_delete_selected): on a StudentsPage loaded from well-formed tables, selecting row k and confirming Delete removes exactly the student whose id row k shows, together with that student's enrollments.\<close>

theorem students_delete_selected:
  assumes "db_wf d" "k < length (pg_rows (snd (students_reload (Some d) pg)))"
  shows "\<exists>s \<in> set (db_students d).
           pg_rows (snd (students_reload (Some d) pg)) ! k ! 0 = py_str_int (stu_id s) \<and>
           snd (snd (students_on_delete True d ((snd (students_reload (Some d) pg))\<lparr>pg_sel := Some k\<rparr>) True)) =
             d\<lparr>db_students := filter (\<lambda>x. stu_id x \<noteq> stu_id s) (db_students d),
               db_enrollments := filter (\<lambda>e. enr_student e \<noteq> stu_id s) (db_enrollments d)\<rparr>"
proof -
  let ?R = "take 500 (sort_key (\<lambda>r. order_key (dict_get r ''StudentID'')) (map student_row (db_students d)))"
  let ?pg = "snd (students_reload (Some d) pg)"
  have k: "k < length ?R" using assms(2) by (simp add: students_reload_rows)
  have "?R ! k \<in> set (map student_row (db_students d))"
    using nth_mem[OF k] set_take_subset by (fastforce simp: set_sort)
  then obtain s where s: "s \<in> set (db_students d)" and r: "?R ! k = student_row s" by auto
  have cell: "pg_rows ?pg ! k = [py_str_int (stu_id s), stu_first s, stu_last s]"
    using k r by (simp add: students_reload_rows student_cells_def val_text_def)
  have sel: "selected (?pg\<lparr>pg_sel := Some k\<rparr>) 0 = Some (py_str_int (stu_id s))"
    using assms(2) cell by (simp add: selected_def get_selected_row_data_def py_str_int_ne)
  have del: "student_delete (pool True d) (PInt (stu_id s)) =
      Inr (1, d\<lparr>db_students := filter (\<lambda>x. stu_id x \<noteq> stu_id s) (db_students d),
                db_enrollments := filter (\<lambda>e. enr_student e \<noteq> stu_id s) (db_enrollments d)\<rparr>)"
    using apply_write_delete_student[OF assms(1) s]
    by (simp add: student_delete_def pool_def execute_update_def del: apply_write.simps)
  show ?thesis
    using s cell
    by (intro bexI[OF _ s]) (simp add: students_on_delete_def sel int_of_cell_str del
                                       delete_then_def split: prod.split)
qed

text \<open>EnrollmentsPage.on_delete of a selected key that no enrollment has (a row left over from before a deletion elsewhere) reports "Enrollment deleted successfully!" and changes nothing.\<close>

theorem enrollments_delete_no_row:
  assumes "db_wf d" "selected pg 0 = Some (py_str_int i)" "selected pg 2 = Some (py_str_int j)"
    "(i, j) \<notin> enr_key ` set (db_enrollments d)"
  shows "enrollments_on_delete True d pg True =
    (Information ''Enrollment deleted successfully!'' # fst (enrollments_load (Some d) pg),
     snd (enrollments_load (Some d) pg), d)"
proof -
  have "filter (\<lambda>x. enr_key x \<noteq> (i, j)) (db_enrollments d) = db_enrollments d"
    using assms(4) by (auto simp: filter_id_conv image_iff)
  moreover have "filter (\<lambda>x. enr_key x = (i, j)) (db_enrollments d) = []"
    using assms(4) by (auto simp: filter_empty_conv image_iff)
  ultimately have "enrollment_delete (pool True d) (PInt i) (PInt j) = Inr (0, d)"
    using assms(1)
    by (simp add: enrollment_delete_def pool_def execute_update_def apply_write_delete_enrollment checked_def
             del: apply_write.simps)
  then show ?thesis
    using assms(2,3) by (simp add: enrollments_on_delete_def int_of_cell_str delete_then_def pool_def split: prod.split)
qed

end
