(* ===== verification/ServiceApp.thy ===== *)
theory ServiceApp
  imports Models
begin

text \<open>
  The second application, \<open>src/final/student-info-manager/app\<close>: a connection function
  (\<open>app/db/connection.py\<close>), one model class per table (\<open>app/models/*.py\<close>, static
  methods that open a connection, run one statement and close it), the enrollment service
  (\<open>app/services/enrollment_service.py\<close>) that checks a request before it inserts, and the
  script \<open>demo.py\<close> that creates a student and enrolls it. The connection has
  \<open>autocommit=True\<close>, so each statement commits by itself; unlike \<open>src/final/db_connection.py\<close>,
  the models do not catch MySQL errors, so a failed read raises like a failed write. The
  storage is a \<open>db option\<close> as in \<open>Storage\<close>, \<open>None\<close> when no connection can be made; the
  statements run through \<open>apply_write\<close> and \<open>select_where\<close>.
\<close>

section \<open>app/db/connection.py\<close>

definition get_connection :: "db option \<Rightarrow> db res" where
  "get_connection st = (case st of None \<Rightarrow> Inl (RuntimeError ''Database connection failed'')
                        | Some d \<Rightarrow> Inr d)"

text \<open>\<open>cur.execute(sql, params)\<close> on a fresh connection: a write returns \<open>rowcount\<close> and
  \<open>lastrowid\<close> with the committed tables; a read returns the rows, and a SQL error raises.\<close>

definition app_write :: "db option \<Rightarrow> sql_write \<Rightarrow> ((nat \<times> int) \<times> db) res" where
  "app_write st w = pbind (get_connection st) (apply_write w)"

definition app_select :: "db option \<Rightarrow> (db \<Rightarrow> pydict list option) \<Rightarrow> pydict list res" where
  "app_select st q = pbind (get_connection st) (\<lambda>d.
     case q d of None \<Rightarrow> Inl (DatabaseError ''You have an error in your SQL syntax'') | Some rs \<Rightarrow> Inr rs)"

definition fetchone :: "pydict list \<Rightarrow> pydict option" where
  "fetchone rs = (case rs of [] \<Rightarrow> None | r # _ \<Rightarrow> Some r)"

section \<open>StudentModel, app/models/student_model.py\<close>

definition student_model_create :: "db option \<Rightarrow> pydict \<Rightarrow> (int \<times> db) res" where
  "student_model_create st s =
     pbind (dict_getitem s ''first_name'') (\<lambda>f. pbind (dict_getitem s ''last_name'') (\<lambda>l.
     pbind (dict_getitem s ''dob'') (\<lambda>b. pbind (dict_getitem s ''gender'') (\<lambda>g.
     pbind (dict_getitem s ''enrollment_year'') (\<lambda>y.
     pbind (app_write st (Insert ''students''
        [(''FirstName'', f), (''LastName'', l), (''DOB'', b), (''Gender'', g),
         (''Address'', dict_get s ''address''), (''Phone'', dict_get s ''phone''),
         (''Email'', dict_get s ''email''), (''EnrollmentYear'', y), (''Major'', dict_get s ''major'')]))
       (\<lambda>((_, i), d'). Inr (i, d')))))))"

definition student_model_get_by_id :: "db option \<Rightarrow> pyval \<Rightarrow> pydict option res" where
  "student_model_get_by_id st sid =
     pbind (app_select st (\<lambda>d. select_where d ''students'' [(''StudentID'', sid)])) (\<lambda>rs. Inr (fetchone rs))"

text \<open>\<open>update(student_id, data)\<close>: the keys of \<open>data\<close> are pasted into the \<open>SET\<close> clause
  as column names; an empty \<open>data\<close> leaves \<open>SET  WHERE\<close>, a syntax error.\<close>

definition student_model_update :: "db option \<Rightarrow> pyval \<Rightarrow> pydict \<Rightarrow> (nat \<times> db) res" where
  "student_model_update st sid data =
     pbind (get_connection st) (\<lambda>d.
       if data = [] then Inl (DatabaseError ''You have an error in your SQL syntax'')
       else pbind (apply_write (Update ''students'' data [(''StudentID'', sid)]) d) (\<lambda>((n, _), d'). Inr (n, d')))"

definition student_model_delete :: "db option \<Rightarrow> pyval \<Rightarrow> (nat \<times> db) res" where
  "student_model_delete st sid =
     pbind (app_write st (Delete ''students'' [(''StudentID'', sid)])) (\<lambda>((n, _), d'). Inr (n, d'))"

definition student_model_list :: "db option \<Rightarrow> int \<Rightarrow> int \<Rightarrow> pydict list res" where
  "student_model_list st lmt off =
     app_select st (\<lambda>d. if lmt < 0 \<or> off < 0 then None
       else Some (take (nat lmt) (drop (nat off)
              (sort_key (\<lambda>r. order_key (dict_get r ''StudentID'')) (table_rows d ''students'')))))"

section \<open>SubjectModel, app/models/subject_model.py\<close>

definition subject_model_create :: "db option \<Rightarrow> pydict \<Rightarrow> (unit \<times> db) res" where
  "subject_model_create st u =
     pbind (map_res (dict_getitem u) [''code'', ''name'', ''credits'']) (\<lambda>ps.
     pbind (app_write st (Insert ''subjects'' (zip [''SubjectCode'', ''SubjectName'', ''Credits''] ps)))
       (\<lambda>(_, d'). Inr ((), d')))"

definition subject_model_get_by_code :: "db option \<Rightarrow> pyval \<Rightarrow> pydict option res" where
  "subject_model_get_by_code st code =
     pbind (app_select st (\<lambda>d. select_where d ''subjects'' [(''SubjectCode'', code)])) (\<lambda>rs. Inr (fetchone rs))"

definition subject_model_list_all :: "db option \<Rightarrow> pydict list res" where
  "subject_model_list_all st =
     app_select st (\<lambda>d. Some (sort_key (\<lambda>r. order_key (dict_get r ''SubjectCode'')) (table_rows d ''subjects'')))"

section \<open>LecturerModel, app/models/lecturer_model.py\<close>

definition lecturer_model_create :: "db option \<Rightarrow> pydict \<Rightarrow> (int \<times> db) res" where
  "lecturer_model_create st data =
     pbind (dict_getitem data ''first_name'') (\<lambda>f. pbind (dict_getitem data ''last_name'') (\<lambda>l.
     pbind (app_write st (Insert ''lecturers''
        [(''LecturerFirstName'', f), (''LecturerLastName'', l), (''LecturerEmail'', dict_get data ''email''),
         (''Office'', dict_get data ''office'')]))
       (\<lambda>((_, i), d'). Inr (i, d'))))"

definition lecturer_model_get_by_id :: "db option \<Rightarrow> pyval \<Rightarrow> pydict option res" where
  "lecturer_model_get_by_id st lid =
     pbind (app_select st (\<lambda>d. select_where d ''lecturers'' [(''LecturerID'', lid)])) (\<lambda>rs. Inr (fetchone rs))"

section \<open>ClassModel, app/models/class_model.py\<close>

definition class_model_create :: "db option \<Rightarrow> pydict \<Rightarrow> (int \<times> db) res" where
  "class_model_create st data =
     pbind (dict_getitem data ''subject_code'') (\<lambda>u.
     pbind (dict_getitem data ''semester'') (\<lambda>sem. pbind (dict_getitem data ''year'') (\<lambda>y.
     pbind (app_write st (Insert ''classes''
        [(''SubjectCode'', u), (''LecturerID'', dict_get data ''lecturer_id''),
         (''ClassName'', dict_get data ''class_name''), (''Semester'', sem), (''Year'', y),
         (''MaxCapacity'', dict_get_default data ''max_capacity'' (PInt 60))]))
       (\<lambda>((_, i), d'). Inr (i, d')))))"

definition class_model_get_by_id :: "db option \<Rightarrow> pyval \<Rightarrow> pydict option res" where
  "class_model_get_by_id st cid =
     pbind (app_select st (\<lambda>d. select_where d ''classes'' [(''ClassID'', cid)])) (\<lambda>rs. Inr (fetchone rs))"

definition class_model_list_all :: "db option \<Rightarrow> pydict list res" where
  "class_model_list_all st =
     app_select st (\<lambda>d. Some (sort_key (\<lambda>r. (Desc (order_key (dict_get r ''Year'')), order_key (dict_get r ''Semester'')))
                                 (table_rows d ''classes'')))"

definition class_model_delete :: "db option \<Rightarrow> pyval \<Rightarrow> (nat \<times> db) res" where
  "class_model_delete st cid =
     pbind (app_write st (Delete ''classes'' [(''ClassID'', cid)])) (\<lambda>((n, _), d'). Inr (n, d'))"

section \<open>EnrollmentModel, app/models/enrollment_model.py\<close>

definition enrollment_model_create :: "db option \<Rightarrow> pyval \<Rightarrow> pyval \<Rightarrow> pyval \<Rightarrow> pyval \<Rightarrow> pyval \<Rightarrow> (bool \<times> db) res" where
  "enrollment_model_create st sid cid g gl n =
     pbind (app_write st (Insert ''enrollments''
        [(''StudentID'', sid), (''ClassID'', cid), (''Grade'', g), (''GradeLetter'', gl), (''Note'', n)]))
       (\<lambda>(_, d'). Inr (True, d'))"

definition enrollment_model_exists :: "db option \<Rightarrow> pyval \<Rightarrow> pyval \<Rightarrow> bool res" where
  "enrollment_model_exists st sid cid =
     pbind (app_select st (\<lambda>d. select_where d ''enrollments'' [(''StudentID'', sid), (''ClassID'', cid)]))
       (\<lambda>rs. Inr (fetchone rs \<noteq> None))"

section \<open>EnrollmentService.enroll, app/services/enrollment_service.py\<close>

text \<open>\<open>0 <= float(grade) <= 10\<close>: false for \<open>nan\<close> and the infinities.\<close>

definition grade_in_range :: "pyfloat \<Rightarrow> bool" where
  "grade_in_range f = (case f of Fin r \<Rightarrow> 0 \<le> r \<and> r \<le> 10 | _ \<Rightarrow> False)"

definition enrollment_service_enroll ::
  "db option \<Rightarrow> pyval \<Rightarrow> pyval \<Rightarrow> pyval \<Rightarrow> pyval \<Rightarrow> pyval \<Rightarrow> (bool \<times> db) res" where
  "enrollment_service_enroll st sid cid g gl n =
     pbind (student_model_get_by_id st sid) (\<lambda>student.
     if student = None then Inl (ValueError ''Student not found'') else
     pbind (class_model_get_by_id st cid) (\<lambda>c.
     if c = None then Inl (ValueError ''Class not found'') else
     pbind (enrollment_model_exists st sid cid) (\<lambda>ex.
     if ex then Inl (ValueError ''Student already enrolled in this class'') else
     pbind (if g = PNone then Inr ()
            else pbind (py_float g) (\<lambda>f. if grade_in_range f then Inr ()
                                         else Inl (ValueError ''Grade must be between 0 and 10''))) (\<lambda>_.
     pbind (enrollment_model_create st sid cid g gl n) (\<lambda>(_, d'). Inr (True, d'))))))"

section \<open>demo.py\<close>

text \<open>The script: create a student with the given email, read class 1, enroll the new
  student in it with grade 8.5, letter B and note Good.\<close>

definition demo_student :: "string \<Rightarrow> pydict" where
  "demo_student email =
     [(''first_name'', PStr ''Demo''), (''last_name'', PStr ''Student''), (''dob'', PStr ''2002-01-01''),
      (''gender'', PStr ''M''), (''address'', PStr ''Hanoi''), (''phone'', PStr ''0900000000''),
      (''email'', PStr email), (''enrollment_year'', PInt 2024), (''major'', PStr ''Computer Science'')]"

definition demo_run :: "db option \<Rightarrow> string \<Rightarrow> db res" where
  "demo_run st email =
     pbind (student_model_create st (demo_student email)) (\<lambda>(sid, d1).
     pbind (class_model_get_by_id (Some d1) (PInt 1)) (\<lambda>_.
     pbind (enrollment_service_enroll (Some d1) (PInt sid) (PInt 1) (PFloat (Fin (17/2))) (PStr ''B'') (PStr ''Good''))
       (\<lambda>(_, d2). Inr d2)))"

section \<open>Specification of the service\<close>

text \<open>What \<open>enroll\<close> promises on the tables: the first failed check in the code's order,
  or the tables with the new enrollment appended.\<close>

definition enroll_spec :: "db \<Rightarrow> int \<Rightarrow> int \<Rightarrow> rat option \<Rightarrow> string option \<Rightarrow> string option \<Rightarrow> (bool \<times> db) res" where
  "enroll_spec d s c g l n =
     (if s \<notin> stu_id ` set (db_students d) then Inl (ValueError ''Student not found'')
      else if c \<notin> cls_id ` set (db_classes d) then Inl (ValueError ''Class not found'')
      else if (s, c) \<in> enr_key ` set (db_enrollments d) then Inl (ValueError ''Student already enrolled in this class'')
      else if \<not> grade_ok g then Inl (ValueError ''Grade must be between 0 and 10'')
      else Inr (True, d\<lparr>db_enrollments := db_enrollments d @
              [\<lparr>enr_student = s, enr_class = c, enr_grade = g, enr_letter = l, enr_note = n\<rparr>]\<rparr>))"

section \<open>Lemmas\<close>

lemma fetchone_None [simp]: "fetchone rs = None \<longleftrightarrow> rs = []"
  by (simp add: fetchone_def split: list.split)

lemma select_by_key:
  "select_where d ''students'' [(''StudentID'', PInt i)] =
   Some (map student_row (filter (\<lambda>x. stu_id x = i) (db_students d)))"
  "select_where d ''classes'' [(''ClassID'', PInt i)] =
   Some (map class_row (filter (\<lambda>x. cls_id x = i) (db_classes d)))"
  "select_where d ''enrollments'' [(''StudentID'', PInt s), (''ClassID'', PInt c)] =
   Some (map enrollment_row (filter (\<lambda>x. enr_key x = (s, c)) (db_enrollments d)))"
  by (simp_all add: select_where_def known_columns_def table_columns_def table_rows_simps
      where_match_student_id_comp where_match_class_id_comp where_match_enr_key_comp zip_map_filter)

lemma apply_write_insert_enrollment:
  "apply_write (Insert ''enrollments'' [(''StudentID'', PInt s), (''ClassID'', PInt c), (''Grade'', opt_num g),
      (''GradeLetter'', opt_str l), (''Note'', opt_str n)]) d =
   checked (d\<lparr>db_enrollments := db_enrollments d @
      [\<lparr>enr_student = s, enr_class = c, enr_grade = g, enr_letter = l, enr_note = n\<rparr>]\<rparr>) (1, 0)"
proof -
  let ?e = "\<lparr>enr_student = s, enr_class = c, enr_grade = g, enr_letter = l, enr_note = n\<rparr>"
  let ?kvs = "[(''StudentID'', PInt s), (''ClassID'', PInt c), (''Grade'', opt_num g),
      (''GradeLetter'', opt_str l), (''Note'', opt_str n)]"
  have kc: "known_columns ''enrollments'' ?kvs = Inr (the (table_columns ''enrollments''))"
    by (simp add: known_columns_def table_columns_def)
  have row: "insert_row ''enrollments'' (the (table_columns ''enrollments'')) ?kvs (db_auto d ''enrollments'')
      = enrollment_row ?e"
    by (simp add: insert_row_def table_columns_def enrollment_row_def)
  have rtd: "rows_to_db d ''enrollments'' (map enrollment_row (db_enrollments d) @ [enrollment_row ?e]) =
      Inr (d\<lparr>db_enrollments := db_enrollments d @ [?e]\<rparr>)"
    using rows_to_db_enrollment[of d "db_enrollments d @ [?e]"] by simp
  have rid: "(case auto_column ''enrollments'' of Some x \<Rightarrow> (case dict_get (enrollment_row ?e) x of PInt i \<Rightarrow> i | _ \<Rightarrow> 0)
             | None \<Rightarrow> 0) = 0"
    by (simp add: auto_column_def)
  have ab: "auto_bump ''enrollments'' 0 (d\<lparr>db_enrollments := db_enrollments d @ [?e]\<rparr>) =
      d\<lparr>db_enrollments := db_enrollments d @ [?e]\<rparr>"
    by (simp add: auto_bump_def auto_column_def)
  show ?thesis
    unfolding apply_write.simps kc pbind_simps Let_def table_rows_simps row rtd rid ab ..
qed

lemma db_wf_add_enrollment:
  assumes "db_wf d" "enr_student e \<in> stu_id ` set (db_students d)" "enr_class e \<in> cls_id ` set (db_classes d)"
    "enr_key e \<notin> enr_key ` set (db_enrollments d)" "grade_ok (enr_grade e)"
  shows "db_wf (d\<lparr>db_enrollments := db_enrollments d @ [e]\<rparr>)"
  using assms by (auto simp: db_wf_defs distinct_map_snoc split: option.splits)

lemma grade_check_opt_num:
  "(if opt_num g = PNone then Inr ()
    else pbind (py_float (opt_num g)) (\<lambda>f. if grade_in_range f then Inr () else Inl (ValueError m))) =
   (if grade_ok g then Inr () else Inl (ValueError m))"
  by (simp add: opt_num_def grade_ok_def grade_in_range_def split: option.split)

lemma service_reads:
  "student_model_get_by_id (Some d) (PInt s) = Inr (fetchone (map student_row (filter (\<lambda>x. stu_id x = s) (db_students d))))"
  "class_model_get_by_id (Some d) (PInt c) = Inr (fetchone (map class_row (filter (\<lambda>x. cls_id x = c) (db_classes d))))"
  "enrollment_model_exists (Some d) (PInt s) (PInt c) = Inr (\<exists>x \<in> set (db_enrollments d). enr_key x = (s, c))"
  by (simp_all add: student_model_get_by_id_def class_model_get_by_id_def enrollment_model_exists_def
      app_select_def get_connection_def select_by_key filter_empty_conv)

lemma service_enroll_spec:
  assumes "db_wf d"
  shows "enrollment_service_enroll (Some d) (PInt s) (PInt c) (opt_num g) (opt_str l) (opt_str n) =
         enroll_spec d s c g l n"
proof -
  have ins: "enrollment_model_create (Some d) (PInt s) (PInt c) (opt_num g) (opt_str l) (opt_str n) =
      pbind (checked (d\<lparr>db_enrollments := db_enrollments d @
        [\<lparr>enr_student = s, enr_class = c, enr_grade = g, enr_letter = l, enr_note = n\<rparr>]\<rparr>) (1::nat, 0::int))
        (\<lambda>(_, d'). Inr (True, d'))"
    by (simp add: enrollment_model_create_def app_write_def get_connection_def apply_write_insert_enrollment
        del: apply_write.simps)
  let ?ok = "s \<in> stu_id ` set (db_students d) \<and> c \<in> cls_id ` set (db_classes d) \<and>
             (s, c) \<notin> enr_key ` set (db_enrollments d) \<and> grade_ok g"
  show ?thesis
  proof (cases ?ok)
    case True
    then have "db_wf (d\<lparr>db_enrollments := db_enrollments d @
        [\<lparr>enr_student = s, enr_class = c, enr_grade = g, enr_letter = l, enr_note = n\<rparr>]\<rparr>)"
      by (intro db_wf_add_enrollment[OF assms]) (simp_all add: enr_key_def)
    with True show ?thesis
      by (auto simp: enrollment_service_enroll_def service_reads grade_check_opt_num ins enroll_spec_def
          checked_def filter_empty_conv image_iff)
  next
    case False
    then show ?thesis
      by (auto simp: enrollment_service_enroll_def service_reads grade_check_opt_num enroll_spec_def
          filter_empty_conv image_iff)
  qed
qed

text \<open>Claim C5 (enroll_refines): on well-formed tables, EnrollmentService.enroll refines its specification: it raises the ValueError of the first failed check (student, class, duplicate, grade range) and otherwise appends exactly the requested enrollment, so the database never rejects the insert.\<close>

theorem enroll_refines:
  assumes "db_wf d"
  shows "enrollment_service_enroll (Some d) (PInt s) (PInt c) (opt_num g) (opt_str l) (opt_str n) =
         enroll_spec d s c g l n"
  by (rule service_enroll_spec[OF assms])

lemma student_model_create_demo:
  "student_model_create (Some d) (demo_student e) =
   pbind (checked (d\<lparr>db_students := db_students d @
       [\<lparr>stu_id = db_auto d ''students'', stu_first = ''Demo'', stu_last = ''Student'',
         stu_dob = ''2002-01-01'', stu_gender = ''M'', stu_address = Some ''Hanoi'', stu_phone = Some ''0900000000'',
         stu_email = e, stu_year = 2024, stu_major = Some ''Computer Science''\<rparr>],
       db_auto := (db_auto d)(''students'' := db_auto d ''students'' + 1)\<rparr>)
       (1::nat, db_auto d ''students'')) (\<lambda>((_, i), d'). Inr (i, d'))"
  by (simp add: student_model_create_def demo_student_def dict_getitem_def dict_get_def app_write_def
      get_connection_def apply_write_insert_student del: apply_write.simps)

text \<open>Claim C26 (demo_enrolls): on well-formed tables with class 1, a fresh email and the AUTO_INCREMENT counter above every stored id, demo.py creates the student with the counter's value as its id and enrolls it in class 1 with grade 8.5, letter B and note Good.\<close>

theorem demo_enrolls:
  assumes "db_wf d" "auto_ok d" "1 \<in> cls_id ` set (db_classes d)"
    "\<forall>s \<in> set (db_students d). coll (stu_email s) \<noteq> coll e"
  shows "demo_run (Some d) e =
    (let i = db_auto d ''students'' in
     Inr (d\<lparr>db_students := db_students d @
       [\<lparr>stu_id = i, stu_first = ''Demo'', stu_last = ''Student'', stu_dob = ''2002-01-01'', stu_gender = ''M'',
         stu_address = Some ''Hanoi'', stu_phone = Some ''0900000000'', stu_email = e, stu_year = 2024,
         stu_major = Some ''Computer Science''\<rparr>],
       db_enrollments := db_enrollments d @
       [\<lparr>enr_student = i, enr_class = 1, enr_grade = Some (17/2), enr_letter = Some ''B'',
         enr_note = Some ''Good''\<rparr>],
       db_auto := (db_auto d)(''students'' := i + 1)\<rparr>))"
proof -
  let ?i = "db_auto d ''students''"
  let ?s = "\<lparr>stu_id = ?i, stu_first = ''Demo'', stu_last = ''Student'', stu_dob = ''2002-01-01'', stu_gender = ''M'',
         stu_address = Some ''Hanoi'', stu_phone = Some ''0900000000'', stu_email = e, stu_year = 2024,
         stu_major = Some ''Computer Science''\<rparr>"
  let ?d1 = "d\<lparr>db_students := db_students d @ [?s], db_auto := (db_auto d)(''students'' := ?i + 1)\<rparr>"
  have fresh: "?i \<notin> stu_id ` set (db_students d)"
    by (rule auto_ok_fresh(1)[OF assms(2)])
  have "db_wf (d\<lparr>db_students := db_students d @ [?s]\<rparr>)"
    using db_wf_add_student[OF assms(1)] fresh assms(4) by simp
  then have wf1: "db_wf ?d1" by simp
  have notin: "(?i, 1) \<notin> enr_key ` set (db_enrollments d)"
    using assms(1) fresh by (auto simp: db_wf_defs enr_key_def)
  have enr: "enrollment_service_enroll (Some ?d1) (PInt ?i) (PInt 1) (PFloat (Fin (17/2))) (PStr ''B'') (PStr ''Good'') =
      enroll_spec ?d1 ?i 1 (Some (17/2)) (Some ''B'') (Some ''Good'')"
    using service_enroll_spec[OF wf1, of ?i 1 "Some (17/2)" "Some ''B''" "Some ''Good''"]
    by (simp add: opt_num_def opt_str_def)
  have spec: "enroll_spec ?d1 ?i 1 (Some (17/2)) (Some ''B'') (Some ''Good'') =
      Inr (True, ?d1\<lparr>db_enrollments := db_enrollments d @
       [\<lparr>enr_student = ?i, enr_class = 1, enr_grade = Some (17/2), enr_letter = Some ''B'', enr_note = Some ''Good''\<rparr>]\<rparr>)"
    using assms(3) notin by (simp add: enroll_spec_def grade_ok_def)
  show ?thesis
    using wf1 by (simp add: demo_run_def student_model_create_demo checked_def enr spec Let_def
        class_model_get_by_id_def app_select_def get_connection_def select_by_key)
qed

text \<open>StudentModel.update given the snake_case dict StudentModel.create takes raises MySQL's unknown-column error.\<close>

theorem student_update_create_keys:
  "student_model_update (Some d) sid (demo_student e) = Inl (DatabaseError ''Unknown column'')"
  by (simp add: student_model_update_def get_connection_def demo_student_def known_columns_def table_columns_def)

lemma apply_write_insert_class:
  "apply_write (Insert ''classes'' [(''SubjectCode'', PStr u), (''LecturerID'', opt_int lid), (''ClassName'', opt_str nm),
      (''Semester'', PStr sem), (''Year'', PInt y), (''MaxCapacity'', PInt cap)]) d =
   checked (d\<lparr>db_classes := db_classes d @
      [\<lparr>cls_id = db_auto d ''classes'', cls_subject = u, cls_lecturer = lid, cls_name = nm,
        cls_semester = sem, cls_year = y, cls_capacity = cap\<rparr>],
      db_auto := (db_auto d)(''classes'' := db_auto d ''classes'' + 1)\<rparr>) (1, db_auto d ''classes'')"
proof -
  let ?n = "db_auto d ''classes''"
  let ?c = "\<lparr>cls_id = ?n, cls_subject = u, cls_lecturer = lid, cls_name = nm,
        cls_semester = sem, cls_year = y, cls_capacity = cap\<rparr>"
  let ?kvs = "[(''SubjectCode'', PStr u), (''LecturerID'', opt_int lid), (''ClassName'', opt_str nm),
      (''Semester'', PStr sem), (''Year'', PInt y), (''MaxCapacity'', PInt cap)]"
  have kc: "known_columns ''classes'' ?kvs = Inr (the (table_columns ''classes''))"
    by (simp add: known_columns_def table_columns_def)
  have row: "insert_row ''classes'' (the (table_columns ''classes'')) ?kvs ?n = class_row ?c"
    by (simp add: insert_row_def table_columns_def auto_column_def class_row_def)
  have rtd: "rows_to_db d ''classes'' (map class_row (db_classes d) @ [class_row ?c]) =
      Inr (d\<lparr>db_classes := db_classes d @ [?c]\<rparr>)"
    using rows_to_db_class[of d "db_classes d @ [?c]"] by simp
  have rid: "(case auto_column ''classes'' of Some x \<Rightarrow> (case dict_get (class_row ?c) x of PInt i \<Rightarrow> i | _ \<Rightarrow> 0)
             | None \<Rightarrow> 0) = ?n"
    by (simp add: auto_column_def class_row_def dict_get_def)
  have ab: "auto_bump ''classes'' ?n (d\<lparr>db_classes := db_classes d @ [?c]\<rparr>) =
      d\<lparr>db_classes := db_classes d @ [?c], db_auto := (db_auto d)(''classes'' := ?n + 1)\<rparr>"
    by (simp add: auto_bump_def auto_column_def)
  show ?thesis
    unfolding apply_write.simps kc pbind_simps Let_def table_rows_simps row rtd rid ab ..
qed

lemma db_wf_add_class:
  assumes "db_wf d" "cls_id c \<notin> cls_id ` set (db_classes d)"
    "\<exists>u \<in> set (db_subjects d). sql_str_eq (cls_subject c) (sub_code u)" "cls_lecturer c = None"
  shows "db_wf (d\<lparr>db_classes := db_classes d @ [c]\<rparr>)"
  using assms by (auto simp: db_wf_defs distinct_map_snoc split: option.splits)

text \<open>ClassModel.create without lecturer, name and capacity inserts a class with the counter's id, no lecturer and capacity 60, when its subject exists.\<close>

theorem class_create_default_capacity:
  assumes "db_wf d" "auto_ok d" "\<exists>x \<in> set (db_subjects d). sql_str_eq u (sub_code x)"
  shows "class_model_create (Some d) [(''subject_code'', PStr u), (''semester'', PStr sem), (''year'', PInt y)] =
    (let i = db_auto d ''classes'' in
     Inr (i, d\<lparr>db_classes := db_classes d @
       [\<lparr>cls_id = i, cls_subject = u, cls_lecturer = None, cls_name = None, cls_semester = sem,
         cls_year = y, cls_capacity = 60\<rparr>], db_auto := (db_auto d)(''classes'' := i + 1)\<rparr>))"
proof -
  let ?n = "db_auto d ''classes''"
  let ?c = "\<lparr>cls_id = ?n, cls_subject = u, cls_lecturer = None, cls_name = None, cls_semester = sem,
         cls_year = y, cls_capacity = 60\<rparr>"
  have "db_wf (d\<lparr>db_classes := db_classes d @ [?c]\<rparr>)"
    using assms(1,3) auto_ok_fresh(3)[OF assms(2)] by (intro db_wf_add_class) simp_all
  then have wf: "db_wf (d\<lparr>db_classes := db_classes d @ [?c], db_auto := (db_auto d)(''classes'' := ?n + 1)\<rparr>)"
    by simp
  have w: "app_write (Some d) (Insert ''classes'' [(''SubjectCode'', PStr u), (''LecturerID'', PNone),
      (''ClassName'', PNone), (''Semester'', PStr sem), (''Year'', PInt y), (''MaxCapacity'', PInt 60)]) =
      checked (d\<lparr>db_classes := db_classes d @ [?c], db_auto := (db_auto d)(''classes'' := ?n + 1)\<rparr>) (1, ?n)"
    using apply_write_insert_class[of u None None sem y 60 d]
    by (simp add: app_write_def get_connection_def opt_int_def opt_str_def del: apply_write.simps)
  show ?thesis
    using wf by (simp add: class_model_create_def dict_getitem_def dict_get_def dict_get_default_def w
        checked_def Let_def del: apply_write.simps)
qed

end
