(* ===== verification/QueryPages.thy ===== *)
theory QueryPages
  imports Dialogs
begin

text \<open>
  The query pages and the dashboard of \<open>src/final/main_win.py\<close> (\<open>Query1Page\<close> to
  \<open>Query4Page\<close>, \<open>DashboardPage\<close>): each \<open>load_data\<close> runs a query of
  \<open>query_models.py\<close> and writes its rows into a table. A page is the table's header labels,
  its cell texts and the status label; a slot returns the message box it shows (if any) and
  the new page. The text of a cell is \<open>str(value) if value else ''\<close>: a value Python
  counts as false (\<open>None\<close>, \<open>0\<close>, \<open>Decimal('0.00')\<close>, \<open>''\<close>) is shown blank. A number
  MySQL returns from \<open>ROUND(..., 2)\<close> or from the \<open>Grade\<close> column is a \<open>Decimal\<close> with two
  places (the validators round grades to hundredths), so \<open>str\<close> prints two decimals.
\<close>

section \<open>Text of a value\<close>

text \<open>\<open>str(Decimal(x))\<close> for a value with two decimal places.\<close>

definition dec2_str :: "rat \<Rightarrow> string" where
  "dec2_str r =
     (let c = nat \<lfloor>\<bar>r\<bar> * 100\<rfloor>
      in (if r < 0 then ''-'' else []) @ nat_str (c div 100) @ ''.'' @
         [char_of (48 + c mod 100 div 10), char_of (48 + c mod 10)])"

text \<open>\<open>str(v)\<close> of a value read from MySQL.\<close>

fun py_str_val :: "pyval \<Rightarrow> string" where
  "py_str_val PNone = ''None''"
| "py_str_val (PBool b) = (if b then ''True'' else ''False'')"
| "py_str_val (PInt i) = py_str_int i"
| "py_str_val (PFloat (Fin r)) = dec2_str r"
| "py_str_val (PFloat PosInf) = ''Infinity''"
| "py_str_val (PFloat NegInf) = ''-Infinity''"
| "py_str_val (PFloat NaN) = ''NaN''"
| "py_str_val (PStr s) = s"

definition cell_text :: "pyval \<Rightarrow> string" where
  "cell_text v = (if truthy v then py_str_val v else [])"

section \<open>Result rows as the dicts the cursor returns, in the order of the SELECT lists\<close>

definition grade_row_dict :: "grade_row \<Rightarrow> pydict" where
  "grade_row_dict r =
     [(''StudentID'', PInt (gr_sid r)), (''FirstName'', PStr (gr_first r)), (''LastName'', PStr (gr_last r)),
      (''SubjectCode'', PStr (gr_code r)), (''SubjectName'', PStr (gr_subject r)), (''ClassID'', PInt (gr_cid r)),
      (''ClassName'', opt_str (gr_cname r)), (''Semester'', PStr (gr_semester r)), (''Year'', PInt (gr_year r)),
      (''Grade'', opt_num (gr_grade r)), (''GradeLetter'', opt_str (gr_letter r))]"

definition sg_row_dict :: "student_grade_row \<Rightarrow> pydict" where
  "sg_row_dict r =
     [(''StudentID'', PInt (sg_sid r)), (''FirstName'', PStr (sg_first r)), (''LastName'', PStr (sg_last r)),
      (''Email'', PStr (sg_email r)), (''Major'', opt_str (sg_major r)), (''ClassID'', opt_int (sg_cid r)),
      (''ClassName'', opt_str (sg_cname r)), (''Semester'', opt_str (sg_semester r)),
      (''Year'', opt_int (sg_year r)), (''Grade'', opt_num (sg_grade r)), (''GradeLetter'', opt_str (sg_letter r)),
      (''TotalEnrollments'', PInt (int (sg_total r)))]"

definition info_row_dict :: "info_row \<Rightarrow> pydict" where
  "info_row_dict r =
     [(''StudentID'', PInt (ei_sid r)), (''StudentFirstName'', PStr (ei_first r)),
      (''StudentLastName'', PStr (ei_last r)), (''StudentEmail'', PStr (ei_email r)), (''Major'', opt_str (ei_major r)),
      (''SubjectCode'', PStr (ei_code r)), (''SubjectName'', PStr (ei_subject r)), (''Credits'', PInt (ei_credits r)),
      (''ClassID'', PInt (ei_cid r)), (''ClassName'', opt_str (ei_cname r)), (''Semester'', PStr (ei_semester r)),
      (''Year'', PInt (ei_year r)), (''LecturerID'', opt_int (ei_lid r)), (''LecturerFirstName'', opt_str (ei_lfirst r)),
      (''LecturerLastName'', opt_str (ei_llast r)), (''LecturerName'', opt_str (ei_lname r)),
      (''Office'', opt_str (ei_office r)), (''Grade'', opt_num (ei_grade r)), (''GradeLetter'', opt_str (ei_letter r)),
      (''Note'', opt_str (ei_note r))]"

definition above_row_dict :: "above_row \<Rightarrow> pydict" where
  "above_row_dict r =
     [(''StudentID'', PInt (aa_sid r)), (''FirstName'', PStr (aa_first r)), (''LastName'', PStr (aa_last r)),
      (''Email'', PStr (aa_email r)), (''Major'', opt_str (aa_major r)), (''StudentAvg'', PFloat (Fin (aa_avg r))),
      (''GlobalAvg'', opt_num (aa_global r)), (''TotalClasses'', PInt (int (aa_total r))),
      (''DifferenceFromAvg'', opt_num (aa_diff r))]"

section \<open>The result table of a query page\<close>

record qpage =
  qp_headers :: "string list"
  qp_cells :: "string list list"
  qp_status :: string

text \<open>\<open>if results: ...\<close>: the columns are the keys of the first row and every cell is
  rewritten; an empty result leaves the table as it was.\<close>

definition fill_table :: "pydict list \<Rightarrow> qpage \<Rightarrow> qpage" where
  "fill_table rs p =
     (if rs = [] then p
      else p\<lparr>qp_headers := map fst (hd rs), qp_cells := map (map (cell_text \<circ> snd)) rs\<rparr>)"

definition found_status :: "pydict list \<Rightarrow> string" where
  "found_status rs = ''Found '' @ py_str_int (int (length rs)) @ '' records''"

text \<open>The body of \<open>load_data\<close> after the query: an exception shows
  \<open>Query failed: {e}\<close> and leaves the page unchanged.\<close>

definition query_page_show :: "(pydict list \<Rightarrow> string) \<Rightarrow> pydict list res \<Rightarrow> qpage \<Rightarrow> gui_msg option \<times> qpage" where
  "query_page_show status r p =
     (case r of Inl e \<Rightarrow> (Some (Critical (''Query failed: '' @ exc_str e)), p)
      | Inr rs \<Rightarrow> (None, (fill_table rs p)\<lparr>qp_status := status rs\<rparr>))"

section \<open>Query1Page, lines 699--834\<close>

text \<open>The subject filter: the combo box's items (text, data), the first being
  \<open>("All Subjects", None)\<close>, and the current index.\<close>

record q1_page =
  q1_combo :: "(string \<times> pyval) list"
  q1_index :: nat
  q1_table :: qpage

definition q1_code :: "pyval \<Rightarrow> string option" where
  "q1_code v = (case v of PStr c \<Rightarrow> Some c | _ \<Rightarrow> None)"

text \<open>\<open>if self.combo_subject.count() == 1\<close>: the subjects are added once, from
  \<open>SubjectModel.list()\<close>; a failed read is \<open>None\<close>, and iterating it raises.\<close>

definition q1_fill_combo :: "db option \<Rightarrow> q1_page \<Rightarrow> q1_page res" where
  "q1_fill_combo st p =
     (if length (q1_combo p) = 1 then
        (case subject_list st of None \<Rightarrow> Inl (TypeError ''NoneType object is not iterable'')
         | Some us \<Rightarrow> Inr (p\<lparr>q1_combo := q1_combo p @
             map (\<lambda>u. (py_str_val (dict_get u ''SubjectCode'') @ '' - '' @ py_str_val (dict_get u ''SubjectName''),
                       dict_get u ''SubjectCode'')) us\<rparr>))
      else Inr p)"

definition query1_load :: "db option \<Rightarrow> q1_page \<Rightarrow> gui_msg option \<times> q1_page" where
  "query1_load st p =
     (case q1_fill_combo st p of
        Inl e \<Rightarrow> (Some (Critical (''Query failed: '' @ exc_str e)), p)
      | Inr p1 \<Rightarrow>
          (let res = map_sum id (map grade_row_dict)
                       (query_student_grades_by_subject st (q1_code (snd (q1_combo p1 ! q1_index p1))));
               (m, t) = query_page_show found_status res (q1_table p1)
           in (m, p1\<lparr>q1_table := t\<rparr>)))"

text \<open>\<open>currentIndexChanged.connect(self.load_data)\<close>: choosing an item reloads.\<close>

definition query1_select :: "db option \<Rightarrow> nat \<Rightarrow> q1_page \<Rightarrow> gui_msg option \<times> q1_page" where
  "query1_select st i p = query1_load st (p\<lparr>q1_index := i\<rparr>)"

section \<open>Query2Page, lines 836--941\<close>

definition query2_load :: "db option \<Rightarrow> qpage \<Rightarrow> gui_msg option \<times> qpage" where
  "query2_load st p =
     query_page_show found_status (map_sum id (map sg_row_dict) (query_all_students_with_grades st)) p"

section \<open>Query3Page, lines 943--1069\<close>

text \<open>\<open>semester = None if combo == "All" else combo\<close>; \<open>year = None if spin == 2020\<close>
  (the spin box's minimum shows the text \<open>All\<close>).\<close>

definition query3_load :: "db option \<Rightarrow> string \<Rightarrow> int \<Rightarrow> qpage \<Rightarrow> gui_msg option \<times> qpage" where
  "query3_load st sem_text yr p =
     (let sem = (if sem_text = ''All'' then None else Some sem_text);
          y = (if yr = 2020 then None else Some yr)
      in query_page_show found_status
           (map_sum id (map info_row_dict) (query_complete_enrollment_info st None None None sem y)) p)"

section \<open>Query4Page, lines 1071--1198\<close>

definition q4_status :: "pydict list \<Rightarrow> string" where
  "q4_status rs =
     ''Found '' @ py_str_int (int (length rs)) @ '' students above global average ('' @
     (if rs = [] then ''0'' else py_str_val (dict_get (hd rs) ''GlobalAvg'')) @ '')''"

definition query4_load :: "db option \<Rightarrow> int \<Rightarrow> qpage \<Rightarrow> gui_msg option \<times> qpage" where
  "query4_load st minc p =
     query_page_show q4_status (map_sum id (map above_row_dict) (query_students_above_average st minc)) p"

section \<open>DashboardPage, lines 1200--1369\<close>

text \<open>The five KPI labels, the bars of the grade chart (category, count), and the rows of
  the top-students table.\<close>

record dash_page =
  dp_kpi :: "string list"
  dp_chart :: "(string \<times> nat) list"
  dp_top :: "string list list"

text \<open>\<open>str(kpis.get(key, 0))\<close>: the empty dict of a failed read gives the defaults; a key
  whose value is \<open>NULL\<close> is present, so \<open>str(None)\<close> is shown.\<close>

definition kpi_texts :: "kpis option \<Rightarrow> string list" where
  "kpi_texts k =
     (case k of None \<Rightarrow> [''0'', ''0'', ''0'', ''0'', ''0%'']
      | Some x \<Rightarrow> [py_str_int (int (total_students x)), py_str_int (int (total_subjects x)),
                   py_str_int (int (total_classes x)), py_str_val (opt_num (avg_grade x)),
                   py_str_val (opt_num (pass_rate x)) @ ''%''])"

text \<open>\<open>load_grade_distribution_chart(data)\<close>: the old chart is removed first; iterating a
  \<open>None\<close> result raises inside the method's own \<open>try\<close>, so no chart is drawn.\<close>

definition chart_of :: "(string \<times> nat) list option \<Rightarrow> (string \<times> nat) list" where
  "chart_of data = (case data of None \<Rightarrow> [] | Some rows \<Rightarrow> rows)"

text \<open>\<open>load_top_students\<close>: rank, \<open>FirstName LastName\<close>, average and classes of the first
  ten; \<open>len(None)\<close> raises inside its \<open>try\<close> and leaves the table.\<close>

definition top_cells :: "top_row list \<Rightarrow> string list list" where
  "top_cells rs =
     map (\<lambda>(i, r). [py_str_int (int i + 1), ts_first r @ '' '' @ ts_last r, dec2_str (ts_avg r),
                    py_str_int (int (ts_total r))]) (zip [0..<length rs] rs)"

definition load_top_students :: "db option \<Rightarrow> string list list \<Rightarrow> string list list" where
  "load_top_students st old = (case query_top_students st 10 1 of None \<Rightarrow> old | Some rs \<Rightarrow> top_cells rs)"

definition dashboard_load :: "db option \<Rightarrow> dash_page \<Rightarrow> dash_page" where
  "dashboard_load st p =
     \<lparr>dp_kpi = kpi_texts (get_dashboard_kpis st), dp_chart = chart_of (get_grade_distribution st),
      dp_top = load_top_students st (dp_top p)\<rparr>"

section \<open>Lemmas\<close>

lemma fill_table_Nil [simp]: "fill_table [] p = p"
  by (simp add: fill_table_def)

lemma query_page_show_Inr:
  "query_page_show status (Inr rs) p = (None, (fill_table rs p)\<lparr>qp_status := status rs\<rparr>)"
  by (simp add: query_page_show_def)

lemma fill_table_cells:
  "rs \<noteq> [] \<Longrightarrow> qp_cells (fill_table rs p) = map (map (cell_text \<circ> snd)) rs"
  by (simp add: fill_table_def)

lemma py_str_int_0 [simp]: "py_str_int 0 = ''0''"
  by code_simp

lemma q2_row_no_enrollment:
  assumes "db_wf d" "s \<in> set (db_students d)" "\<forall>e \<in> set (db_enrollments d). enr_student e \<noteq> stu_id s"
  shows "mk_sg_row 0 (s, None, None) \<in> set (q2_rows d)"
proof -
  let ?j = "q2_join d"
  have dist: "distinct (map stu_id (db_students d))" using assms(1) by (simp add: db_wf_defs)
  have none: "filter (\<lambda>e. enr_student e = stu_id s) (db_enrollments d) = []"
    using assms(3) by (simp add: filter_empty_conv)
  have blk: "filter (\<lambda>x. stu_id (fst x) = stu_id s) ?j = [(s, None, None)]"
    using q2_join_filter[OF dist assms(2)] q2_block_none[OF none] by simp
  then have mem: "(s, None, None) \<in> set ?j"
    by (metis filter_is_subset list.set_intros(1) subsetD)
  have "q2_total ?j (stu_id s) =
        length (filter (\<lambda>x. fst (snd x) \<noteq> None) (filter (\<lambda>x. stu_id (fst x) = stu_id s) ?j))"
    by (simp add: q2_total_def filter_filter split_def)
  then have tot: "q2_total ?j (stu_id s) = 0" using blk by simp
  have "mk_sg_row (q2_total ?j (stu_id (fst (s, None, None)))) (s, None, None) \<in> set (q2_rows d)"
    unfolding q2_rows_def Let_def set_map using mem by (intro image_eqI[where x="(s, None, None)"]) simp_all
  then show ?thesis using tot by simp
qed

text \<open>Claim C22 (query2_zero_blank): on a well-formed database, Query2Page shows a student without enrollments in a row whose last seven cells (class, grade and TotalEnrollments) are blank: the count 0 is hidden like a NULL, where the specification asks for TotalEnrollments = 0.\<close>

theorem query2_zero_blank:
  assumes "db_wf d" "s \<in> set (db_students d)" "\<forall>e \<in> set (db_enrollments d). enr_student e \<noteq> stu_id s"
  shows "\<exists>p'. query2_load (Some d) p = (None, p') \<and>
           map (cell_text \<circ> snd) (sg_row_dict (mk_sg_row 0 (s, None, None))) \<in> set (qp_cells p') \<and>
           drop 5 (map (cell_text \<circ> snd) (sg_row_dict (mk_sg_row 0 (s, None, None)))) = replicate 7 []"
proof -
  let ?rows = "sort_key q2_key (q2_rows d)"
  have mem: "mk_sg_row 0 (s, None, None) \<in> set ?rows"
    using q2_row_no_enrollment[OF assms] by simp
  then have "?rows \<noteq> []" by (metis empty_iff list.set(1))
  then have ne: "map sg_row_dict ?rows \<noteq> []" by simp
  have load: "query2_load (Some d) p = (None, (fill_table (map sg_row_dict ?rows) p)\<lparr>qp_status := found_status (map sg_row_dict ?rows)\<rparr>)"
    by (simp add: query2_load_def query_all_students_with_grades_def query_page_show_Inr)
  have cells: "map (cell_text \<circ> snd) (sg_row_dict (mk_sg_row 0 (s, None, None))) \<in>
      set (qp_cells (fill_table (map sg_row_dict ?rows) p))"
    unfolding fill_table_cells[OF ne] using mem by auto
  have blank: "drop 5 (map (cell_text \<circ> snd) (sg_row_dict (mk_sg_row 0 (s, None, None)))) = replicate 7 []"
    by (simp add: sg_row_dict_def mk_sg_row_def cell_text_def opt_str_def opt_int_def opt_num_def numeral_eq_Suc)
  show ?thesis using load cells blank by simp
qed

text \<open>Claim C27 (dashboard_no_grades_text): when no enrollment has a grade the dashboard shows the three counts and the texts None and None% for the average and the pass rate.\<close>

theorem dashboard_no_grades_text:
  assumes "grades_of (db_enrollments d) = []"
  shows "dp_kpi (dashboard_load (Some d) p) =
    [py_str_int (int (length (db_students d))), py_str_int (int (length (db_subjects d))),
     py_str_int (int (length (db_classes d))), ''None'', ''None%'']"
  using assms by (simp add: dashboard_load_def kpi_texts_def get_dashboard_kpis_def execute_query_one_def
      dashboard_def sql_avg_def pass_rate_of_def opt_num_def)

lemma top_cells_rank:
  "length (top_cells rs) = length rs \<and> (\<forall>i < length rs. hd (top_cells rs ! i) = py_str_int (int i + 1))"
  by (simp add: top_cells_def)

text \<open>the dashboard's top-students table has at most ten rows and row i shows rank i + 1.\<close>

theorem dashboard_top_ranks:
  "length (dp_top (dashboard_load (Some d) p)) \<le> 10 \<and>
   (\<forall>i < length (dp_top (dashboard_load (Some d) p)). hd (dp_top (dashboard_load (Some d) p) ! i) = py_str_int (int i + 1))"
  using top_cells_rank[of "take 10 (sort_key (\<lambda>r. Desc (ts_avg r)) (top_rows d 1))"]
  by (simp add: dashboard_load_def load_top_students_def query_top_students_def)

text \<open>Claim C23 (query1_stale_rows): choosing in Query1Page a subject whose query has no row keeps the previous subject's rows and headers on screen and only sets the status to Found 0 records.\<close>

theorem query1_stale_rows:
  assumes "length (q1_combo p) \<noteq> 1" "snd (q1_combo p ! i) = PStr c" "q1_join d (Some c) = []"
  shows "query1_select (Some d) i p =
           (None, p\<lparr>q1_index := i, q1_table := (q1_table p)\<lparr>qp_status := ''Found 0 records''\<rparr>\<rparr>)"
  using assms by (simp add: query1_select_def query1_load_def q1_fill_combo_def q1_code_def
      query_student_grades_by_subject_def query_page_show_Inr found_status_def)

end
