(* ===== verification/AltFrontends.thy ===== *)
theory AltFrontends
  imports QueryPages
begin

text \<open>
  The alternative front ends of \<open>src/final\<close>: the student window \<open>Frontend.py\<close> (class
  \<open>MyApp\<close> with its \<open>DatabaseManager\<close>), the dialogs of \<open>dialog.py\<close>, the Tk window
  \<open>tinker.py\<close> and the table window \<open>database.py\<close>. \<open>Frontend.py\<close> keeps one connection
  without autocommit: its first \<open>SELECT\<close> opens a transaction, and under InnoDB's default
  \<open>REPEATABLE READ\<close> every later read of that transaction sees the same snapshot, until the
  \<open>commit\<close> or \<open>rollback\<close> of a delete ends it. The window's state holds that snapshot
  (\<open>fe_snap\<close>); the database that other connections commit to is passed separately. The
  student dialog it opens is \<open>StudentDialog\<close> of \<open>studentdialog_logic.py\<close>
  (\<open>sd_update_student\<close>), with its own connection.
\<close>

section \<open>Frontend.py: the student table\<close>

record fe_window =
  fe_connected :: bool
  fe_snap :: "db option"
  fe_rows :: "string list list"
  fe_sel :: "nat option"

definition fe_columns :: "string list" where
  "fe_columns = [''StudentID'', ''FirstName'', ''LastName'', ''Address'', ''Email'', ''Phone'', ''DOB'',
                 ''EnrollmentYear'', ''Gender'', ''Major'']"

text \<open>\<open>self.db.cursor.execute(...)\<close> in the window's transaction: without a cursor
  (\<open>create_connect\<close> failed) the attribute access raises; a read sees the snapshot, and the
  first read of a transaction takes it.\<close>

definition fe_read :: "db option \<Rightarrow> fe_window \<Rightarrow> (db \<times> fe_window) res" where
  "fe_read st w =
     (if \<not> fe_connected w then Inl (AttributeError ''NoneType object has no attribute execute'')
      else case st of None \<Rightarrow> Inl (DatabaseError ''Lost connection to MySQL server'')
      | Some d \<Rightarrow> (case fe_snap w of Some d0 \<Rightarrow> Inr (d0, w) | None \<Rightarrow> Inr (d, w\<lparr>fe_snap := Some d\<rparr>)))"

text \<open>\<open>WHERE FirstName LIKE %s OR LastName LIKE %s OR Email LIKE %s\<close> with \<open>%term%\<close>.\<close>

definition fe_match :: "string \<Rightarrow> pydict \<Rightarrow> bool" where
  "fe_match t r = list_ex (\<lambda>c. sql_like (dict_get r c) (CHR ''%'' # t @ ''%'')) [''FirstName'', ''LastName'', ''Email'']"

definition fe_table :: "db \<Rightarrow> string \<Rightarrow> string list list" where
  "fe_table d t =
     map (\<lambda>r. map (\<lambda>c. py_str_val (dict_get r c)) fe_columns)
       (sort_key (\<lambda>r. order_key (dict_get r ''StudentID''))
          (if t \<noteq> [] then filter (fe_match t) (table_rows d ''students'') else table_rows d ''students''))"

text \<open>\<open>load_students_table(search_term)\<close>: every cell is \<open>str(value)\<close>, so \<open>NULL\<close> shows
  \<open>None\<close>; an exception shows \<open>Failed to load students\<close>.\<close>

definition fe_load :: "db option \<Rightarrow> string \<Rightarrow> fe_window \<Rightarrow> gui_msg list \<times> fe_window" where
  "fe_load st t w =
     (case fe_read st w of
        Inl e \<Rightarrow> ([Critical (''Failed to load students: '' @ exc_str e)], w)
      | Inr (d, w1) \<Rightarrow> ([], w1\<lparr>fe_rows := fe_table d t\<rparr>))"

definition fe_search :: "db option \<Rightarrow> string \<Rightarrow> fe_window \<Rightarrow> gui_msg list \<times> fe_window" where
  "fe_search st t w = fe_load st (py_strip t) w"

text \<open>\<open>delete_student\<close> after the confirmation: the \<open>DELETE\<close> with the id text of the
  selected row, \<open>commit\<close>, the message and a reload; on an error \<open>rollback\<close> (which raises
  itself without a connection).\<close>

definition fe_delete_student :: "db option \<Rightarrow> bool \<Rightarrow> fe_window \<Rightarrow> (gui_msg list \<times> fe_window \<times> db option) res" where
  "fe_delete_student st yes w =
     (case fe_sel w of
        None \<Rightarrow> Inr ([Warning ''Please select a student to delete!''], w, st)
      | Some r \<Rightarrow>
          if \<not> yes then Inr ([], w, st)
          else if \<not> fe_connected w then Inl (AttributeError ''NoneType object has no attribute rollback'')
          else (case st of
                  None \<Rightarrow> Inr ([Critical ''Failed to delete: Lost connection to MySQL server''], w\<lparr>fe_snap := None\<rparr>, st)
                | Some d \<Rightarrow>
                    (case apply_write (Delete ''students'' [(''StudentID'', PStr (fe_rows w ! r ! 0))]) d of
                       Inl e \<Rightarrow> Inr ([Critical (''Failed to delete: '' @ exc_str e)], w\<lparr>fe_snap := None\<rparr>, st)
                     | Inr (_, d') \<Rightarrow>
                         (case fe_load (Some d') [] (w\<lparr>fe_snap := None\<rparr>) of
                            (ms, w') \<Rightarrow> Inr (Information ''Student deleted successfully.'' # ms, w', Some d')))))"

section \<open>Frontend.py: editing a student\<close>

text \<open>\<open>QDate.fromString(dob, "yyyy-MM-dd")\<close>: \<open>None\<close> is the null date, which
  \<open>setDate\<close> ignores.\<close>

definition qdate_from_string :: "string \<Rightarrow> (nat \<times> nat \<times> nat) option" where
  "qdate_from_string s =
     (if length s = 10 \<and> s ! 4 = CHR ''-'' \<and> s ! 7 = CHR ''-'' \<and>
         list_all is_digit (take 4 s @ take 2 (drop 5 s) @ drop 8 s)
      then (let y = digits_val (take 4 s); m = digits_val (take 2 (drop 5 s)); d = digits_val (drop 8 s)
            in if valid_date y m d then Some (y, m, d) else None)
      else None)"

text \<open>The form \<open>edit_student\<close> fills from the row's cells, on the dialog's fresh form
  \<open>f0\<close>: id, \<open>first last\<close>, address, phone, email, birth date, \<open>Male\<close>/\<open>Female\<close> for
  \<open>M\<close>/\<open>F\<close>, and the major.\<close>

definition fe_prefill :: "sd_form \<Rightarrow> string list \<Rightarrow> sd_form" where
  "fe_prefill f0 row =
     f0\<lparr>sd_student_id := row ! 0, sd_full_name := row ! 1 @ '' '' @ row ! 2, sd_address := row ! 3,
        sd_phone := row ! 5, sd_email := row ! 4,
        sd_dob := (case qdate_from_string (row ! 6) of Some ymd \<Rightarrow> ymd | None \<Rightarrow> sd_dob f0),
        sd_gender := (if row ! 8 = ''M'' then ''Male'' else if row ! 8 = ''F'' then ''Female'' else sd_gender f0),
        sd_major := row ! 9\<rparr>"

text \<open>\<open>dialog.exec()\<close> of a \<open>StudentDialog\<close>: before each press of Confirm the user edits
  the widgets (an edit is a function on the form, \<open>id\<close> when nothing is changed); the
  dialog's \<open>save_student\<close> then either refuses with a message box, the dialog staying open
  with its widgets as they are, or accepts and closes it. When the user stops confirming
  (Cancel, or closing the window) \<open>exec()\<close> returns false. An exception leaves the slot.\<close>

fun sd_dialog_exec ::
  "(db \<Rightarrow> sd_form \<Rightarrow> (gui_msg \<times> bool \<times> db) res) \<Rightarrow> db \<Rightarrow> sd_form \<Rightarrow> (sd_form \<Rightarrow> sd_form) list \<Rightarrow>
   (gui_msg list \<times> bool \<times> db) res" where
  "sd_dialog_exec save d f [] = Inr ([], False, d)"
| "sd_dialog_exec save d f (e # es) =
     pbind (save d (e f)) (\<lambda>(m, acc, d').
       if acc then Inr ([m], True, d')
       else pbind (sd_dialog_exec save d' (e f) es) (\<lambda>(ms, a, d''). Inr (m # ms, a, d'')))"

text \<open>\<open>edit_student\<close>, lines 137--180: the dialog opens on the form prefilled from the row
  and runs the user's edits; an accepted dialog is followed by a reload and \<open>Student updated
  successfully!\<close>. \<open>conn\<close> says whether the dialog's own connection opened.\<close>

definition fe_edit_student ::
  "bool \<Rightarrow> db \<Rightarrow> sd_form \<Rightarrow> (sd_form \<Rightarrow> sd_form) list \<Rightarrow> fe_window \<Rightarrow> (gui_msg list \<times> fe_window \<times> db) res" where
  "fe_edit_student conn d f0 es w =
     (case fe_sel w of
        None \<Rightarrow> Inr ([Warning ''Please select a student to edit!''], w, d)
      | Some r \<Rightarrow>
          (let row = fe_rows w ! r in
           pbind (sd_dialog_exec (\<lambda>d' f. sd_update_student conn d' (PStr (row ! 0)) f) d (fe_prefill f0 row) es)
             (\<lambda>(ms, acc, d').
                if acc then (case fe_load (Some d') [] w of
                               (ms', w') \<Rightarrow> Inr (ms @ ms' @ [Information ''Student updated successfully!''], w', d'))
                else Inr (ms, w, d'))))"

text \<open>\<open>show_student_dialog\<close>, lines 43--48: an add dialog on the fresh form \<open>f0\<close>; an accepted
  one is followed by a reload and \<open>Student added! Table refreshed.\<close>\<close>

definition fe_add_student ::
  "bool \<Rightarrow> db \<Rightarrow> sd_form \<Rightarrow> (sd_form \<Rightarrow> sd_form) list \<Rightarrow> fe_window \<Rightarrow> (gui_msg list \<times> fe_window \<times> db) res" where
  "fe_add_student conn d f0 es w =
     pbind (sd_dialog_exec (\<lambda>d' f. sd_add_student conn d' f) d f0 es) (\<lambda>(ms, acc, d').
       if acc then (case fe_load (Some d') [] w of
                      (ms', w') \<Rightarrow> Inr (ms @ ms' @ [Information ''Student added! Table refreshed.''], w', d'))
       else Inr (ms, w, d'))"

section \<open>Frontend.py: DatabaseManager\<close>

definition fe_fetch_query :: "db option \<Rightarrow> fe_window \<Rightarrow> (db \<Rightarrow> pydict list option) \<Rightarrow> pydict list option \<times> fe_window" where
  "fe_fetch_query st w q =
     (case fe_read st w of Inl _ \<Rightarrow> (None, w) | Inr (d, w1) \<Rightarrow> (q d, w1))"

definition fe_execute_update :: "db option \<Rightarrow> fe_window \<Rightarrow> sql_write \<Rightarrow> bool \<times> fe_window \<times> db option" where
  "fe_execute_update st w q =
     (if \<not> fe_connected w then (False, w, st)
      else case st of None \<Rightarrow> (False, w\<lparr>fe_snap := None\<rparr>, st)
      | Some d \<Rightarrow> (case apply_write q d of
                     Inl _ \<Rightarrow> (False, w\<lparr>fe_snap := None\<rparr>, st)
                   | Inr (_, d') \<Rightarrow> (True, w\<lparr>fe_snap := None\<rparr>, Some d')))"

section \<open>dialog.py\<close>

text \<open>The module defines \<open>db\<close> as a function returning a connection, and the dialogs call
  \<open>db.execute_insert\<close> and \<open>db.execute_query\<close> on it: the attribute lookup raises.\<close>

definition dlg_no_attr :: "string \<Rightarrow> pyexc" where
  "dlg_no_attr a = AttributeError (''function object has no attribute '' @ a)"

definition dlg_save_subject :: "string \<Rightarrow> string \<Rightarrow> int \<Rightarrow> (gui_msg \<times> bool) res" where
  "dlg_save_subject code name credits =
     (if py_strip code = [] \<or> py_strip name = [] then Inr (Warning ''All fields are required!'', False)
      else Inl (dlg_no_attr ''execute_insert''))"

definition dlg_save_lecturer :: "string \<Rightarrow> string \<Rightarrow> string \<Rightarrow> string \<Rightarrow> (gui_msg \<times> bool) res" where
  "dlg_save_lecturer first_name last_name email office =
     (if py_strip first_name = [] \<or> py_strip last_name = [] then Inr (Warning ''First and last name are required!'', False)
      else Inl (dlg_no_attr ''execute_insert''))"

text \<open>\<open>ClassDialog.__init__\<close> and \<open>EnrollmentDialog.__init__\<close> fill their combo boxes with
  \<open>db.execute_query\<close> before they can be shown.\<close>

definition dlg_class_dialog_init :: "unit res" where
  "dlg_class_dialog_init = Inl (dlg_no_attr ''execute_query'')"

definition dlg_enrollment_dialog_init :: "unit res" where
  "dlg_enrollment_dialog_init = Inl (dlg_no_attr ''execute_query'')"

definition dlg_save_class :: "pyval \<Rightarrow> (gui_msg \<times> bool) res" where
  "dlg_save_class subject_code =
     (if \<not> truthy subject_code then Inr (Warning ''Subject is required!'', False)
      else Inl (dlg_no_attr ''execute_insert''))"

definition dlg_save_enrollment :: "pyval \<Rightarrow> pyval \<Rightarrow> rat \<Rightarrow> (gui_msg \<times> bool) res" where
  "dlg_save_enrollment sid cid spin =
     (let grade = (if 0 < spin then Some spin else None) in
      if \<not> truthy sid \<or> \<not> truthy cid then Inr (Warning ''Student and Class are required!'', False)
      else if (case grade of Some g \<Rightarrow> g < 0 \<or> 10 < g | None \<Rightarrow> False)
      then Inr (Warning ''Grade must be between 0 and 10!'', False)
      else Inl (dlg_no_attr ''execute_query''))"

section \<open>tinker.py\<close>

text \<open>\<open>fetch_students\<close>: a new connection, \<open>SELECT * FROM students ORDER BY StudentID\<close>; a
  failed connection raises (the \<open>if conn is None\<close> test never holds).\<close>

definition tk_fetch_students :: "db option \<Rightarrow> pydict list res" where
  "tk_fetch_students st =
     (case st of None \<Rightarrow> Inl (DatabaseError ''Can't connect to MySQL server'')
      | Some d \<Rightarrow> Inr (sort_key (\<lambda>r. order_key (dict_get r ''StudentID'')) (table_rows d ''students'')))"

definition tk_refresh_tree :: "db option \<Rightarrow> string list list res" where
  "tk_refresh_tree st =
     pbind (tk_fetch_students st) (\<lambda>rs.
       Inr (map (\<lambda>r. map (\<lambda>c. py_str_val (dict_get r c))
                       [''StudentID'', ''FirstName'', ''LastName'', ''DOB'', ''Gender'', ''Major'']) rs))"

text \<open>\<open>refresh_tree\<close> empties the tree before it reads, so a failed read leaves it empty
  and raises.\<close>

text \<open>\<open>add_student\<close>: the required fields and the date format, then \<open>get_connection()\<close>,
  a name \<open>tinker.py\<close> never defines.\<close>

definition tk_add_student :: "string \<Rightarrow> string \<Rightarrow> string \<Rightarrow> (gui_msg option) res" where
  "tk_add_student fname lname dob =
     (if fname = [] \<or> lname = [] \<or> dob = [] then Inr (Some (Warning ''Please fill all required fields!''))
      else if strptime_ymd dob = None then Inr (Some (Critical ''DOB must be YYYY-MM-DD''))
      else Inl (NameError ''name get_connection is not defined''))"

section \<open>database.py\<close>

text \<open>\<open>StudentTableWindow.load_students_table\<close>: \<open>fetch_all\<close> gives \<open>[]\<close> without a cursor
  and raises on a failed statement; no rows leaves the table; the rows come in table order
  (no \<open>ORDER BY\<close>).\<close>

definition dbw_load_students_table :: "bool \<Rightarrow> db option \<Rightarrow> string list list \<Rightarrow> string list list res" where
  "dbw_load_students_table has_cursor st old =
     (if \<not> has_cursor then Inr old
      else case st of None \<Rightarrow> Inl (DatabaseError ''Lost connection to MySQL server'')
      | Some d \<Rightarrow> (let rows = map (\<lambda>r. map (\<lambda>c. py_str_val (dict_get r c))
                                  [''StudentID'', ''FirstName'', ''LastName'', ''DOB'', ''Gender'', ''Email'', ''Major''])
                                 (table_rows d ''students'')
                  in Inr (if rows = [] then old else rows)))"

section \<open>test.py: the mock students page\<close>

text \<open>\<open>StudentsCRUDPage.load_sample_data\<close>: three fixed rows, no database.\<close>

definition tp_sample_rows :: "string list list" where
  "tp_sample_rows =
     [[''1'', ''Minh Tran'', ''2004-05-12'', ''s1@example.com'', ''Computer Science''],
      [''2'', ''Linh Pham'', ''2004-09-21'', ''s2@example.com'', ''Physics''],
      [''3'', ''Khoa Le'', ''2003-03-10'', ''s3@example.com'', ''Mathematics'']]"

text \<open>\<open>validate_and_create\<close>: required fields, then a duplicate test that only looks for the
  text \<open>s1@example.com\<close> inside the email; nothing is stored.\<close>

definition tp_validate_and_create :: "string \<Rightarrow> string \<Rightarrow> string \<Rightarrow> nat \<times> nat \<times> nat \<Rightarrow> gui_msg" where
  "tp_validate_and_create first_name last_name email dob =
     (if first_name = [] \<or> last_name = [] \<or> email = []
      then Warning ''First Name, Last Name, and Email are required fields.''
      else if sublist ''s1@example.com'' email
      then Critical ''Email already exists (duplicate logical key).''
      else Information (''Student '' @ first_name @ '' created successfully (DOB: '' @ qdate_str dob @
                        '').\<newline>Database connection needed to finalize.''))"

section \<open>Lemmas\<close>

lemma sd_fields_phone:
  "\<not> sd_phone_ok (py_strip (sd_phone f)) \<Longrightarrow> \<exists>w. sd_fields g em pm f = Inl w"
  by (auto simp: sd_fields_def Let_def split: prod.split)

lemma py_strip_None [simp]: "py_strip ''None'' = ''None''"
  by code_simp

lemma sd_phone_ok_None [simp]: "\<not> sd_phone_ok ''None''"
  by code_simp

lemma sd_dialog_exec_accept:
  assumes "sd_dialog_exec save d f es = Inr (ms, True, d')"
    and keep: "\<forall>d0 g m d1. save d0 g = Inr (m, False, d1) \<longrightarrow> d1 = d0"
    and "P f" "\<forall>e \<in> set es. \<forall>g. P g \<longrightarrow> P (e g)"
  shows "\<exists>g m. P g \<and> save d g = Inr (m, True, d')"
  using assms(1,3,4)
proof (induction es arbitrary: d f ms)
  case (Cons e es)
  have pe: "P (e f)" using Cons.prems(2,3) by simp
  obtain m acc d1 where sv: "save d (e f) = Inr (m, acc, d1)"
    using Cons.prems(1) by (auto simp: pbind_Inr_iff)
  show ?case
  proof (cases acc)
    case True
    then show ?thesis using Cons.prems(1) sv pe by auto
  next
    case False
    then have "save d (e f) = Inr (m, False, d1)" using sv by simp
    then have "d1 = d" using keep by blast
    moreover obtain ms' where "sd_dialog_exec save d1 (e f) es = Inr (ms', True, d')"
      using Cons.prems(1) sv False by (auto simp: pbind_Inr_iff)
    ultimately show ?thesis using Cons.IH[of d "e f"] pe Cons.prems(3) by auto
  qed
qed simp

lemma sd_dialog_exec_refused:
  assumes keep: "\<forall>d0 g m d1. save d0 g = Inr (m, False, d1) \<longrightarrow> d1 = d0"
    and "sd_dialog_exec save d f es = Inr (ms, False, d')"
  shows "d' = d"
  using assms(2)
proof (induction es arbitrary: d f ms)
  case (Cons e es)
  obtain m acc d1 where sv: "save d (e f) = Inr (m, acc, d1)"
    using Cons.prems by (auto simp: pbind_Inr_iff)
  have na: "\<not> acc" using Cons.prems sv by (auto split: if_splits)
  then have "save d (e f) = Inr (m, False, d1)" using sv by simp
  then have d1: "d1 = d" using keep by blast
  obtain ms' where "sd_dialog_exec save d1 (e f) es = Inr (ms', False, d')"
    using Cons.prems sv na by (auto simp: pbind_Inr_iff)
  then show ?case using Cons.IH d1 by blast
qed simp

lemma sd_dialog_exec_never:
  assumes "\<forall>d0 g. P g \<longrightarrow> (\<exists>m. save d0 g = Inr (m, False, d0))" "P f" "\<forall>e \<in> set es. \<forall>g. P g \<longrightarrow> P (e g)"
  shows "\<exists>ms. sd_dialog_exec save d f es = Inr (ms, False, d)"
  using assms(2,3)
proof (induction es arbitrary: f)
  case (Cons e es)
  have pe: "P (e f)" using Cons.prems by simp
  then obtain m where "save d (e f) = Inr (m, False, d)" using assms(1) by blast
  moreover obtain ms where "sd_dialog_exec save d (e f) es = Inr (ms, False, d)"
    using Cons.IH[OF pe] Cons.prems(2) by auto
  ultimately show ?case by simp
qed simp

lemma sd_update_student_refused: "sd_update_student conn d sid f = Inr (m, False, d1) \<Longrightarrow> d1 = d"
  by (auto simp: sd_update_student_def sd_commit_def split: sum.splits if_splits pyexc.splits)

lemma sd_update_student_address:
  assumes "sd_update_student conn d sid f = Inr (m, True, d')" "x \<in> set (db_students d')" "x \<notin> set (db_students d)"
  shows "stu_address x = Some (py_strip (sd_address f))"
proof -
  obtain kvs where kvs: "sd_update_fields f = Inr kvs"
    using assms(1) by (auto simp: sd_update_student_def split: sum.splits)
  obtain r where w: "apply_write (Update ''students'' kvs [(''StudentID'', sid)]) d = Inr (r, d')"
    using assms(1) kvs by (auto simp: sd_update_student_def sd_commit_def split: sum.splits if_splits pyexc.splits)
  obtain y where "student_of_row (override kvs (student_row y)) = Inr x"
    using apply_write_update_students_rows[OF w assms(2,3)] by blast
  then show ?thesis
    using sd_fields_Inr[OF kvs[unfolded sd_update_fields_def]]
    by (auto simp: student_of_row_def override_def student_row_def dict_get_def param_str_def pbind_Inr_iff)
qed

text \<open>Claim C25 (frontend_edit_null_address): in Frontend.py, editing a student whose address is NULL: the table shows the text None, the dialog opens with it, and unless the user retypes the address every row the dialog writes stores the text None as the address.\<close>

theorem frontend_edit_null_address:
  assumes "fe_sel w = Some r" "fe_rows w ! r = map (\<lambda>c. py_str_val (dict_get (student_row s) c)) fe_columns"
    "stu_address s = None" "\<forall>e \<in> set es. \<forall>g. sd_address (e g) = sd_address g"
    "fe_edit_student conn d f0 es w = Inr (ms, w', d')"
  shows "\<forall>x \<in> set (db_students d'). x \<notin> set (db_students d) \<longrightarrow> stu_address x = Some ''None''"
proof (intro ballI impI)
  fix x assume x: "x \<in> set (db_students d')" "x \<notin> set (db_students d)"
  let ?row = "fe_rows w ! r"
  let ?save = "\<lambda>d' f. sd_update_student conn d' (PStr (?row ! 0)) f"
  have a0: "sd_address (fe_prefill f0 ?row) = ''None''"
    using assms(2,3) by (simp add: fe_prefill_def fe_columns_def student_row_def dict_get_def opt_str_def)
  obtain ms1 acc where ex: "sd_dialog_exec ?save d (fe_prefill f0 ?row) es = Inr (ms1, acc, d')"
    using assms(1,5) by (auto simp: fe_edit_student_def Let_def pbind_Inr_iff split: if_splits prod.splits)
  show "stu_address x = Some ''None''"
  proof (cases acc)
    case True
    have ex1: "sd_dialog_exec ?save d (fe_prefill f0 ?row) es = Inr (ms1, True, d')" using ex True by simp
    have keep: "\<forall>d0 g m d1. ?save d0 g = Inr (m, False, d1) \<longrightarrow> d1 = d0"
      by (auto dest: sd_update_student_refused)
    have pr: "\<forall>e \<in> set es. \<forall>g. sd_address g = ''None'' \<longrightarrow> sd_address (e g) = ''None''"
      using assms(4) by simp
    obtain g m where "sd_address g = ''None''" and sv: "?save d g = Inr (m, True, d')"
      using sd_dialog_exec_accept[where P="\<lambda>g. sd_address g = ''None''", OF ex1 keep a0 pr] by blast
    then show ?thesis using sd_update_student_address[OF sv x] by simp
  next
    case False
    have ex0: "sd_dialog_exec ?save d (fe_prefill f0 ?row) es = Inr (ms1, False, d')" using ex False by simp
    have keep: "\<forall>d0 g m d1. ?save d0 g = Inr (m, False, d1) \<longrightarrow> d1 = d0"
      by (auto dest: sd_update_student_refused)
    have "d' = d" by (rule sd_dialog_exec_refused[OF keep ex0])
    then show ?thesis using x by simp
  qed
qed

text \<open>A student whose phone is NULL cannot be saved through Frontend.py unless the user
  retypes the phone: the dialog opens with the text None, which fails the phone check, and
  every confirmation is refused.\<close>

lemma frontend_edit_no_phone:
  assumes "fe_sel w = Some r" "fe_rows w ! r = map (\<lambda>c. py_str_val (dict_get (student_row s) c)) fe_columns"
    "stu_phone s = None" "\<forall>e \<in> set es. \<forall>g. sd_phone (e g) = sd_phone g"
  shows "\<exists>ms. fe_edit_student conn d f0 es w = Inr (ms, w, d)"
proof -
  let ?row = "fe_rows w ! r"
  have p0: "sd_phone (fe_prefill f0 ?row) = ''None''"
    using assms(2,3) by (simp add: fe_prefill_def fe_columns_def student_row_def dict_get_def opt_str_def)
  have rf: "\<exists>m. sd_update_student conn d0 sid g = Inr (m, False, d0)" if "sd_phone g = ''None''" for d0 sid g
  proof -
    have "\<not> sd_phone_ok (py_strip (sd_phone g))" using that by simp
    then obtain m where "sd_update_fields g = Inl m"
      using sd_fields_phone[of g sd_gender_map_update "''Invalid email format.''"
          "''Phone number must contain only digits.''"]
      unfolding sd_update_fields_def by auto
    then show ?thesis by (simp add: sd_update_student_def)
  qed
  have rf': "\<forall>d0 g. sd_phone g = ''None'' \<longrightarrow>
      (\<exists>m. sd_update_student conn d0 (PStr (?row ! 0)) g = Inr (m, False, d0))"
    using rf by blast
  have pr: "\<forall>e \<in> set es. \<forall>g. sd_phone g = ''None'' \<longrightarrow> sd_phone (e g) = ''None''" using assms(4) by simp
  obtain ms where "sd_dialog_exec (\<lambda>d' f. sd_update_student conn d' (PStr (?row ! 0)) f) d (fe_prefill f0 ?row) es =
      Inr (ms, False, d)"
    using sd_dialog_exec_never[where P="\<lambda>g. sd_phone g = ''None''", OF rf' p0 pr] by blast
  then show ?thesis using assms(1) by (simp add: fe_edit_student_def)
qed

text \<open>Claim C24 (frontend_edit_stale): once Frontend.py's transaction has read its snapshot, the table after an edit shows the old rows or the snapshot's rows, never the tables the dialog committed.\<close>

theorem frontend_edit_stale:
  assumes "fe_connected w" "fe_snap w = Some d0" "fe_edit_student conn d f0 es w = Inr (ms, w', d')"
  shows "fe_rows w' = fe_rows w \<or> fe_rows w' = fe_table d0 []"
  using assms
  by (auto simp: fe_edit_student_def fe_load_def fe_read_def pbind_Inr_iff Let_def
      split: option.splits if_splits prod.splits)

text \<open>The dialogs of dialog.py and the Tk window tinker.py cannot add anything: a subject or lecturer that passes the checks raises AttributeError, the class and enrollment dialogs fail to open, and tinker's add_student of a complete form with a valid date raises NameError.\<close>

theorem alt_frontends_cannot_add:
  "(py_strip c \<noteq> [] \<and> py_strip n \<noteq> [] \<longrightarrow> dlg_save_subject c n k = Inl (dlg_no_attr ''execute_insert'')) \<and>
   (py_strip a \<noteq> [] \<and> py_strip b \<noteq> [] \<longrightarrow> dlg_save_lecturer a b le lo = Inl (dlg_no_attr ''execute_insert'')) \<and>
   (\<nexists>m. dlg_save_subject c n k = Inr (m, True)) \<and> (\<nexists>m. dlg_save_lecturer a b le lo = Inr (m, True)) \<and>
   dlg_class_dialog_init \<noteq> Inr () \<and> dlg_enrollment_dialog_init \<noteq> Inr () \<and>
   (x \<noteq> [] \<and> y \<noteq> [] \<and> z \<noteq> [] \<and> strptime_ymd z \<noteq> None \<longrightarrow> tk_add_student x y z = Inl (NameError ''name get_connection is not defined''))"
  by (intro conjI) (simp_all add: dlg_save_subject_def dlg_save_lecturer_def dlg_class_dialog_init_def
      dlg_enrollment_dialog_init_def tk_add_student_def)

end
