(* ===== verification/SecondWindow.thy ===== *)
theory SecondWindow
  imports AltFrontends Pages
begin

text \<open>
  The Qt main window of the second application (the file of \<open>src/final/student-info-manager\<close>
  beside \<open>demo.py\<close>, class \<open>MainWindow\<close>): five management tabs and a dashboard over
  \<open>db_connection.db\<close> of \<open>src/final\<close>, whose \<open>execute_query\<close> returns \<open>None\<close> on a SQL error.
  The module imports \<open>student_crud\<close>, which the repository does not have, its constructor
  calls \<open>db.connect()\<close>, which \<open>DatabaseConnection\<close> does not define, and it names dialog
  classes it never imports; the load and delete methods are modelled as methods of a window
  that was built. A table's state is its cell texts. A cell is \<open>QTableWidgetItem(str(v))\<close>
  or \<open>QTableWidgetItem(v)\<close>; the latter shows a string as it is and \<open>None\<close> as an empty
  cell, takes an integer for the item type (an empty cell), and raises \<open>TypeError\<close> on a
  float; none of the load methods catches it.
\<close>

section \<open>Cells\<close>

definition qt_type_error :: pyexc where
  "qt_type_error = TypeError ''QTableWidgetItem(): arguments did not match any overloaded call''"

datatype cell_conv = StrOf | AsIs

fun cell_of :: "cell_conv \<Rightarrow> pyval \<Rightarrow> string res" where
  "cell_of StrOf v = Inr (py_str_val v)"
| "cell_of AsIs v = (case v of PStr s \<Rightarrow> Inr s | PNone \<Rightarrow> Inr []
                        | PInt _ \<Rightarrow> Inr [] | PBool _ \<Rightarrow> Inr [] | PFloat _ \<Rightarrow> Inl qt_type_error)"

definition row_cells :: "(cell_conv \<times> string) list \<Rightarrow> pydict \<Rightarrow> string list res" where
  "row_cells spec r = map_res (\<lambda>(k, c). cell_of k (dict_get r c)) spec"

text \<open>\<open>if rows: ... else: setRowCount(0)\<close>: a failed read clears the table too.\<close>

definition tw_fill :: "(cell_conv \<times> string) list \<Rightarrow> pydict list option \<Rightarrow> string list list res" where
  "tw_fill spec rows = (case rows of Some rs \<Rightarrow> map_res (row_cells spec) rs | None \<Rightarrow> Inr [])"

section \<open>The five tabs, lines 83--432\<close>

definition tw_student_spec :: "(cell_conv \<times> string) list" where
  "tw_student_spec =
     [(StrOf, ''StudentID''), (AsIs, ''FirstName''), (AsIs, ''LastName''), (StrOf, ''DOB''), (AsIs, ''Gender''),
      (AsIs, ''Address''), (AsIs, ''Phone''), (AsIs, ''Email''), (StrOf, ''EnrollmentYear''), (AsIs, ''Major'')]"

definition tw_load_students :: "db option \<Rightarrow> string \<Rightarrow> string list list res" where
  "tw_load_students st t =
     tw_fill tw_student_spec (execute_query st (\<lambda>d.
       sort_key (\<lambda>r. order_key (dict_get r ''StudentID'')) (filter (fe_match t) (table_rows d ''students''))))"

definition tw_load_subjects :: "db option \<Rightarrow> string list list res" where
  "tw_load_subjects st =
     tw_fill [(AsIs, ''SubjectCode''), (AsIs, ''SubjectName''), (StrOf, ''Credits'')]
       (execute_query st (\<lambda>d. sort_key (\<lambda>r. order_key (dict_get r ''SubjectCode'')) (table_rows d ''subjects'')))"

definition tw_load_lecturers :: "db option \<Rightarrow> string list list res" where
  "tw_load_lecturers st =
     tw_fill [(StrOf, ''LecturerID''), (AsIs, ''LecturerFirstName''), (AsIs, ''LecturerLastName''),
              (AsIs, ''LecturerEmail''), (AsIs, ''Office'')]
       (execute_query st (\<lambda>d. sort_key (\<lambda>r. order_key (dict_get r ''LecturerID'')) (table_rows d ''lecturers'')))"

definition tw_load_classes :: "db option \<Rightarrow> string list list res" where
  "tw_load_classes st =
     tw_fill [(StrOf, ''ClassID''), (AsIs, ''SubjectCode''), (StrOf, ''LecturerID''), (AsIs, ''ClassName''),
              (AsIs, ''Semester''), (StrOf, ''Year''), (StrOf, ''MaxCapacity'')]
       (execute_query st (\<lambda>d. sort_key (\<lambda>r. (Desc (order_key (dict_get r ''Year'')), order_key (dict_get r ''Semester'')))
                                 (table_rows d ''classes'')))"

text \<open>\<open>enrollments e JOIN students s\<close>, \<open>CONCAT(s.FirstName, ' ', s.LastName) as Name\<close>,
  \<open>ORDER BY e.StudentID, e.ClassID\<close>.\<close>

definition tw_enrollment_rows :: "db \<Rightarrow> pydict list" where
  "tw_enrollment_rows d =
     sort_key (\<lambda>r. (order_key (dict_get r ''StudentID''), order_key (dict_get r ''ClassID'')))
       [[(''StudentID'', PInt (enr_student e)), (''Name'', PStr (stu_first s @ '' '' @ stu_last s)),
         (''ClassID'', PInt (enr_class e)), (''Grade'', opt_num (enr_grade e)),
         (''GradeLetter'', opt_str (enr_letter e)), (''Note'', opt_str (enr_note e))].
        e \<leftarrow> db_enrollments d, s \<leftarrow> db_students d, stu_id s = enr_student e]"

definition tw_load_enrollments :: "db option \<Rightarrow> string list list res" where
  "tw_load_enrollments st =
     tw_fill [(StrOf, ''StudentID''), (AsIs, ''Name''), (StrOf, ''ClassID''), (StrOf, ''Grade''),
              (AsIs, ''GradeLetter''), (AsIs, ''Note'')]
       (execute_query st tw_enrollment_rows)"

text \<open>A Python call \<open>f(..., k=v)\<close>: a keyword the function's parameters do not name raises
  \<open>TypeError\<close> before the body runs.\<close>

definition py_call_kwargs :: "string \<Rightarrow> string list \<Rightarrow> string list \<Rightarrow> unit res" where
  "py_call_kwargs fname params kws =
     (case filter (\<lambda>k. k \<notin> set params) kws of
        [] \<Rightarrow> Inr ()
      | k # _ \<Rightarrow> Inl (TypeError (fname @ ''() got an unexpected keyword argument '' @ k)))"

text \<open>The parameters of \<open>DatabaseConnection.execute_query\<close>, \<open>db_connection.py\<close> line 104.\<close>

definition dbc_execute_query_params :: "string list" where
  "dbc_execute_query_params = [''query'', ''params'', ''fetch_one'']"

definition tw_fetch_kwarg :: pyexc where
  "tw_fetch_kwarg = TypeError ''execute_query() got an unexpected keyword argument fetch''"

text \<open>The delete slots: no current row warns; then the id is read (\<open>int(...)\<close> except for
  the subject code), the user confirms, and the slot calls
  \<open>db.execute_query(query, params, fetch=False)\<close>. Were the keyword accepted,
  \<open>execute_query\<close> would run the \<open>DELETE\<close>, fail in \<open>fetchall()\<close> (a \<open>DELETE\<close> has no result
  set), roll back and return \<open>None\<close>, so the slot would show nothing.\<close>

definition tw_delete :: "string \<Rightarrow> (string list \<Rightarrow> unit res) \<Rightarrow> nat option \<Rightarrow> string list list \<Rightarrow> bool \<Rightarrow> gui_msg list res" where
  "tw_delete what key sel rows yes =
     (case sel of None \<Rightarrow> Inr [Warning what]
      | Some r \<Rightarrow> pbind (key (rows ! r)) (\<lambda>_.
          if yes then pbind (py_call_kwargs ''execute_query'' dbc_execute_query_params [''fetch'']) (\<lambda>_. Inr [])
          else Inr []))"

definition tw_delete_student :: "nat option \<Rightarrow> string list list \<Rightarrow> bool \<Rightarrow> gui_msg list res" where
  "tw_delete_student = tw_delete ''Please select a student to delete!'' (\<lambda>row. pbind (int_of_cell (row ! 0)) (\<lambda>_. Inr ()))"

definition tw_delete_subject :: "nat option \<Rightarrow> string list list \<Rightarrow> bool \<Rightarrow> gui_msg list res" where
  "tw_delete_subject = tw_delete ''Please select a subject!'' (\<lambda>row. Inr ())"

definition tw_delete_lecturer :: "nat option \<Rightarrow> string list list \<Rightarrow> bool \<Rightarrow> gui_msg list res" where
  "tw_delete_lecturer = tw_delete ''Please select a lecturer!'' (\<lambda>row. pbind (int_of_cell (row ! 0)) (\<lambda>_. Inr ()))"

definition tw_delete_class :: "nat option \<Rightarrow> string list list \<Rightarrow> bool \<Rightarrow> gui_msg list res" where
  "tw_delete_class = tw_delete ''Please select a class!'' (\<lambda>row. pbind (int_of_cell (row ! 0)) (\<lambda>_. Inr ()))"

definition tw_delete_enrollment :: "nat option \<Rightarrow> string list list \<Rightarrow> bool \<Rightarrow> gui_msg list res" where
  "tw_delete_enrollment = tw_delete ''Please select an enrollment!''
     (\<lambda>row. pbind (int_of_cell (row ! 0)) (\<lambda>_. pbind (int_of_cell (row ! 2)) (\<lambda>_. Inr ())))"

section \<open>Dashboard, lines 598--637\<close>

record tw_dash =
  tw_students_lbl :: string
  tw_subjects_lbl :: string
  tw_classes_lbl :: string
  tw_avg_lbl :: string
  tw_top :: "string list list"

text \<open>\<open>if result: label.setText(str(result[0]['cnt']))\<close>; the average only when it is truthy;
  the top ten only when there are rows (the table is not cleared otherwise).\<close>

definition tw_count_label :: "db option \<Rightarrow> (db \<Rightarrow> nat) \<Rightarrow> string \<Rightarrow> string" where
  "tw_count_label st f old = (case st of None \<Rightarrow> old | Some d \<Rightarrow> py_str_int (int (f d)))"

definition tw_load_dashboard :: "db option \<Rightarrow> tw_dash \<Rightarrow> tw_dash" where
  "tw_load_dashboard st p =
     (let avg_g = Option.bind st (\<lambda>d. map_option sql_round2 (sql_avg (grades_of (db_enrollments d))));
          top = (case query_top_students st 10 1 of None \<Rightarrow> [] | Some rs \<Rightarrow> rs)
      in \<lparr>tw_students_lbl = tw_count_label st (length \<circ> db_students) (tw_students_lbl p),
          tw_subjects_lbl = tw_count_label st (length \<circ> db_subjects) (tw_subjects_lbl p),
          tw_classes_lbl = tw_count_label st (length \<circ> db_classes) (tw_classes_lbl p),
          tw_avg_lbl = (case avg_g of Some a \<Rightarrow> if a \<noteq> 0 then dec2_str a else tw_avg_lbl p | None \<Rightarrow> tw_avg_lbl p),
          tw_top = (if top = [] then tw_top p
                    else map (\<lambda>(i, r). [py_str_int (int i + 1), ts_first r @ '' '' @ ts_last r, dec2_str (ts_avg r)])
                           (zip [0..<length top] top))\<rparr>)"

section \<open>The window\<close>

record tw_window =
  tw_students :: "string list list"
  tw_subjects :: "string list list"
  tw_lecturers :: "string list list"
  tw_classes :: "string list list"
  tw_enrollments :: "string list list"
  tw_dashboard :: tw_dash

text \<open>\<open>load_all_data\<close>: the five tables and the dashboard in order; an exception of a load
  leaves the method (and, called from \<open>__init__\<close>, the window is never shown).\<close>

definition tw_load_all_data :: "db option \<Rightarrow> tw_window \<Rightarrow> tw_window res" where
  "tw_load_all_data st w =
     pbind (tw_load_students st []) (\<lambda>s. pbind (tw_load_subjects st) (\<lambda>u.
     pbind (tw_load_lecturers st) (\<lambda>l. pbind (tw_load_classes st) (\<lambda>c.
     pbind (tw_load_enrollments st) (\<lambda>e.
       Inr \<lparr>tw_students = s, tw_subjects = u, tw_lecturers = l, tw_classes = c, tw_enrollments = e,
            tw_dashboard = tw_load_dashboard st (tw_dashboard w)\<rparr>)))))"

section \<open>The queries tab, lines 456--468 and 511--548\<close>

text \<open>\<open>run_query\<close> of \<open>create_query_tab\<close>: \<open>str(row[key])\<close> of every column in the order
  of the SELECT list, so a NULL shows as \<open>None\<close>; no rows or a failed read clear the table.\<close>

definition tw_run_query :: "db option \<Rightarrow> (db \<Rightarrow> pydict list) \<Rightarrow> string list list" where
  "tw_run_query st q = (case execute_query st q of Some rs \<Rightarrow> map (map (py_str_val \<circ> snd)) rs | None \<Rightarrow> [])"

text \<open>Query 2, \<open>students s LEFT JOIN enrollments e ... ORDER BY s.StudentID\<close>: a student with
  no enrollment gives one row with a NULL grade. Rows of one student keep the join's order.\<close>

definition tw_q2_row :: "student \<Rightarrow> pyval \<Rightarrow> pydict" where
  "tw_q2_row s g =
     [(''StudentID'', PInt (stu_id s)), (''StudentName'', PStr (stu_first s @ '' '' @ stu_last s)),
      (''Major'', opt_str (stu_major s)), (''Grade'', g)]"

definition tw_q2_rows :: "db \<Rightarrow> pydict list" where
  "tw_q2_rows d =
     sort_key (\<lambda>r. order_key (dict_get r ''StudentID''))
       (concat (map (\<lambda>s. let es = filter (\<lambda>e. enr_student e = stu_id s) (db_enrollments d) in
                          if es = [] then [tw_q2_row s PNone] else map (\<lambda>e. tw_q2_row s (opt_num (enr_grade e))) es)
                    (db_students d)))"

section \<open>Loads never raise, deletes always raise\<close>

lemma map_res_total: "(\<And>x. x \<in> set xs \<Longrightarrow> \<exists>y. f x = Inr y) \<Longrightarrow> \<exists>ys. map_res f xs = Inr ys"
proof (induction xs)
  case (Cons a xs)
  obtain y where "f a = Inr y" using Cons.prems by auto
  moreover obtain ys where "map_res f xs = Inr ys" using Cons.IH Cons.prems by auto
  ultimately
  show ?case by (simp add: pbind_def)
qed simp

lemma row_cells_total:
  assumes "\<And>c x. (AsIs, c) \<in> set spec \<Longrightarrow> dict_get r c \<noteq> PFloat x"
  shows "\<exists>cs. row_cells spec r = Inr cs"
proof -
  have cell: "\<exists>y. cell_of k v = Inr y" if "k = AsIs \<Longrightarrow> \<forall>x. v \<noteq> PFloat x" for k v
    using that by (cases k; cases v) auto
  show ?thesis
    unfolding row_cells_def
  proof (intro map_res_total, clarify)
    fix k c assume "(k, c) \<in> set spec"
    then show "\<exists>y. cell_of k (dict_get r c) = Inr y" using assms by (intro cell) auto
  qed
qed

lemma tw_fill_total:
  assumes "\<And>r c x. r \<in> set rs \<Longrightarrow> (AsIs, c) \<in> set spec \<Longrightarrow> dict_get r c \<noteq> PFloat x"
  shows "\<exists>css. tw_fill spec (Some rs) = Inr css"
  unfolding tw_fill_def option.case using assms by (intro map_res_total row_cells_total) auto

lemma tw_fill_None [simp]: "tw_fill spec None = Inr []"
  by (simp add: tw_fill_def)

lemma opt_str_not_float [simp]: "opt_str v \<noteq> PFloat x"
  by (simp add: opt_str_def split: option.splits)

lemma opt_int_not_float [simp]: "opt_int v \<noteq> PFloat x"
  by (simp add: opt_int_def split: option.splits)

lemma tw_load_students_total: "\<exists>css. tw_load_students st t = Inr css"
  by (cases st) (auto simp: execute_query_def tw_load_students_def table_rows_simps tw_student_spec_def student_row_def dict_get_def
      intro!: tw_fill_total)

lemma tw_load_subjects_total: "\<exists>css. tw_load_subjects st = Inr css"
  by (cases st) (auto simp: execute_query_def tw_load_subjects_def table_rows_simps subject_row_def dict_get_def intro!: tw_fill_total)

lemma tw_load_lecturers_total: "\<exists>css. tw_load_lecturers st = Inr css"
  by (cases st) (auto simp: execute_query_def tw_load_lecturers_def table_rows_simps lecturer_row_def dict_get_def intro!: tw_fill_total)

lemma tw_load_classes_total: "\<exists>css. tw_load_classes st = Inr css"
  by (cases st) (auto simp: execute_query_def tw_load_classes_def table_rows_simps class_row_def dict_get_def intro!: tw_fill_total)

lemma tw_load_enrollments_total: "\<exists>css. tw_load_enrollments st = Inr css"
  by (cases st) (auto simp: execute_query_def tw_load_enrollments_def tw_enrollment_rows_def dict_get_def intro!: tw_fill_total)

text \<open>every column the window passes to \<open>QTableWidgetItem\<close>
  unconverted holds a string or NULL in every table, so \<open>load_all_data\<close> never raises, whether
  the database is readable or not: a student with no address or phone shows an empty cell.\<close>

theorem tw_load_all_data_total: "\<exists>w'. tw_load_all_data st w = Inr w'"
  using tw_load_students_total[of st "[]"] tw_load_subjects_total[of st] tw_load_lecturers_total[of st]
    tw_load_classes_total[of st] tw_load_enrollments_total[of st]
  by (auto simp: tw_load_all_data_def)

text \<open>On every tab, a confirmed delete of a row whose id cells are numbers
  raises \<open>TypeError\<close> from the \<open>fetch\<close> keyword that \<open>DatabaseConnection.execute_query\<close> does not
  take, before the DELETE runs; the row is never deleted.\<close>

theorem tw_deletes_raise:
  assumes "sel = Some r" "rows ! r ! 0 = py_str_int i" "rows ! r ! 2 = py_str_int j"
  shows "tw_delete_student sel rows True = Inl tw_fetch_kwarg \<and> tw_delete_subject sel rows True = Inl tw_fetch_kwarg \<and>
         tw_delete_lecturer sel rows True = Inl tw_fetch_kwarg \<and> tw_delete_class sel rows True = Inl tw_fetch_kwarg \<and>
         tw_delete_enrollment sel rows True = Inl tw_fetch_kwarg"
  using assms by (simp add: tw_delete_student_def tw_delete_subject_def tw_delete_lecturer_def tw_delete_class_def
      tw_delete_enrollment_def tw_delete_def int_of_cell_str py_call_kwargs_def dbc_execute_query_params_def tw_fetch_kwarg_def)

text \<open>Query 2 of the queries tab shows the text \<open>None\<close> in the grade column of a student with
  no enrollment (and in the major column when the major is NULL), where Query2Page of the
  first application shows an empty cell.\<close>

theorem tw_q2_unenrolled:
  assumes "s \<in> set (db_students d)" "\<forall>e \<in> set (db_enrollments d). enr_student e \<noteq> stu_id s"
  shows "[py_str_int (stu_id s), stu_first s @ '' '' @ stu_last s, py_str_val (opt_str (stu_major s)), ''None'']
           \<in> set (tw_run_query (Some d) tw_q2_rows)"
proof -
  have "filter (\<lambda>e. enr_student e = stu_id s) (db_enrollments d) = []"
    using assms(2) by (simp add: filter_empty_conv)
  then have "tw_q2_row s PNone \<in> set (tw_q2_rows d)"
    using assms(1) by (force simp: tw_q2_rows_def)
  then show ?thesis
    by (force simp: tw_run_query_def execute_query_def tw_q2_row_def)
qed

end
