(* ===== verification/Export.thy ===== *)
theory Export
  imports SecondWindow
begin

text \<open>
  CSV export. The export slots of \<open>main_win.py\<close> (\<open>BaseTablePage.on_export\<close>),
  \<open>Frontend.py\<close> (\<open>export_students_csv\<close>) and the second application's main window
  (\<open>export_table_to_csv\<close>) write a table widget through \<open>csv.writer\<close>;
  \<open>query_models.export_query_to_csv\<close> writes query rows through \<open>csv.DictWriter\<close>. A table
  widget is its header items and its items (\<open>None\<close> for a missing item); a written file is
  its name and its text. The writer is Python's default \<open>excel\<close> dialect: fields separated
  by commas, records ended by CR LF, a field quoted (with doubled quotes inside) when it
  contains a comma, a quote, CR or LF, and a record of one empty field written as \<open>""\<close>.
  \<open>csv_read\<close> reads such files back; opening the file is not modelled (it does not fail).
\<close>

section \<open>The writer\<close>

definition csv_dq :: char where
  "csv_dq = CHR 0x22"

definition csv_crlf :: string where
  "csv_crlf = [CHR 0x0D, CHR 0x0A]"

definition csv_special :: "char \<Rightarrow> bool" where
  "csv_special c \<longleftrightarrow> c = CHR '','' \<or> c = csv_dq \<or> c = CHR 0x0D \<or> c = CHR 0x0A"

definition csv_quote_body :: "string \<Rightarrow> string" where
  "csv_quote_body s = concat (map (\<lambda>c. if c = csv_dq then [csv_dq, csv_dq] else [c]) s)"

definition csv_field :: "string \<Rightarrow> string" where
  "csv_field s = (if list_ex csv_special s then csv_dq # csv_quote_body s @ [csv_dq] else s)"

text \<open>\<open>writer.writerow(fields)\<close>.\<close>

definition csv_record :: "string list \<Rightarrow> string" where
  "csv_record fs = (if fs = [[]] then [csv_dq, csv_dq] else py_join '','' (map csv_field fs)) @ csv_crlf"

definition csv_text :: "string list list \<Rightarrow> string" where
  "csv_text rows = concat (map csv_record rows)"

section \<open>Table widgets and the export slots\<close>

record qtable =
  qt_headers :: "string option list"
  qt_items :: "string option list list"

text \<open>\<open>table.item(row, col)\<close>: \<open>None\<close> where no item was set.\<close>

definition qt_item :: "qtable \<Rightarrow> nat \<Rightarrow> nat \<Rightarrow> string option" where
  "qt_item t r c = (if r < length (qt_items t) \<and> c < length (qt_items t ! r) then qt_items t ! r ! c else None)"

text \<open>The data rows: \<open>item.text() if item else ''\<close> for every row and column.\<close>

definition qt_row_data :: "qtable \<Rightarrow> string list list" where
  "qt_row_data t =
     map (\<lambda>r. map (\<lambda>c. case qt_item t r c of Some s \<Rightarrow> s | None \<Rightarrow> []) [0..<length (qt_headers t)])
       [0..<length (qt_items t)]"

text \<open>\<open>header.text() if header else f"Column{col}"\<close>.\<close>

definition qt_header_texts :: "qtable \<Rightarrow> string list" where
  "qt_header_texts t =
     map (\<lambda>c. case qt_headers t ! c of Some h \<Rightarrow> h | None \<Rightarrow> ''Column'' @ nat_str c) [0..<length (qt_headers t)]"

text \<open>\<open>BaseTablePage.on_export\<close>, \<open>main_win.py\<close> lines 188--226: no rows warns before the file
  dialog; an empty file name (the dialog cancelled) does nothing.\<close>

definition mw_on_export :: "qtable \<Rightarrow> string \<Rightarrow> gui_msg list \<times> (string \<times> string) option" where
  "mw_on_export t filename =
     (if qt_items t = [] then ([Warning ''No data to export!''], None)
      else if filename = [] then ([], None)
      else ([Information (''Exported '' @ nat_str (length (qt_items t)) @ '' rows to:'' @ [CHR 0x0A] @ filename)],
            Some (filename, csv_text (qt_header_texts t # qt_row_data t))))"

text \<open>\<open>StudentManagementApp.export_students_csv\<close>, \<open>Frontend.py\<close> lines 182--219.\<close>

definition fe_export_students_csv :: "qtable \<Rightarrow> string \<Rightarrow> gui_msg list \<times> (string \<times> string) option" where
  "fe_export_students_csv t file_path =
     (if qt_items t = [] then ([Warning ''No data to export!''], None)
      else if file_path = [] then ([], None)
      else ([Information (''Data exported successfully to:'' @ [CHR 0x0A] @ file_path)],
            Some (file_path, csv_text (qt_header_texts t # qt_row_data t))))"

text \<open>\<open>MainWindow.export_table_to_csv\<close> of the second application, lines 647--674: no
  row check, and \<open>horizontalHeaderItem(col).text()\<close> without the fallback, so a missing
  header item raises \<open>AttributeError\<close> after the file was opened (it stays empty) and the
  box says only \<open>Export failed:\<close>.\<close>

definition tw_export_table_to_csv :: "qtable \<Rightarrow> string \<Rightarrow> gui_msg list \<times> (string \<times> string) option" where
  "tw_export_table_to_csv t path =
     (if path = [] then ([], None)
      else if None \<in> set (qt_headers t) then ([Critical ''Export failed:''], Some (path, []))
      else ([Information (''Data exported to '' @ path)],
            Some (path, csv_text (map the (qt_headers t) # qt_row_data t))))"

text \<open>The table of a tab of the second application: header labels and one item per cell.\<close>

definition tw_qtable :: "string list \<Rightarrow> string list list \<Rightarrow> qtable" where
  "tw_qtable hs rows = \<lparr>qt_headers = map Some hs, qt_items = map (map Some) rows\<rparr>"

section \<open>Export of query rows, query_models.py lines 514--541\<close>

text \<open>A value as \<open>csv.writer\<close> writes it: \<open>None\<close> as the empty string, anything else as
  \<open>str(v)\<close>.\<close>

definition csv_value :: "pyval \<Rightarrow> string" where
  "csv_value v = (case v of PNone \<Rightarrow> [] | _ \<Rightarrow> py_str_val v)"

text \<open>\<open>DictWriter(f, fieldnames=data[0].keys())\<close>: a row with a key outside the field names
  raises \<open>ValueError\<close> (\<open>extrasaction='raise'\<close>) after the rows before it were written; a
  missing key is written as \<open>''\<close>. The function returns whether it succeeded and the file.\<close>

definition dict_row_ok :: "string list \<Rightarrow> pydict \<Rightarrow> bool" where
  "dict_row_ok keys r \<longleftrightarrow> list_all (\<lambda>kv. fst kv \<in> set keys) r"

definition dict_row_fields :: "string list \<Rightarrow> pydict \<Rightarrow> string list" where
  "dict_row_fields keys r = map (\<lambda>k. case map_of r k of None \<Rightarrow> [] | Some v \<Rightarrow> csv_value v) keys"

definition export_query_to_csv :: "pydict list \<Rightarrow> string \<Rightarrow> bool \<times> (string \<times> string) option" where
  "export_query_to_csv data filename =
     (if data = [] then (False, None)
      else let keys = map fst (hd data);
               good = takeWhile (dict_row_ok keys) data
           in (length good = length data,
               Some (filename, csv_text (keys # map (dict_row_fields keys) good))))"

text \<open>The \<open>export_csv\<close> slots of the four query pages: after the file dialog the query
  runs again with the page's parameters and \<open>export_query_to_csv\<close> writes its rows; the
  box appears only when that returns \<open>True\<close>, and a read that fails raises out of the slot.\<close>

definition query_export :: "pydict list res \<Rightarrow> string \<Rightarrow> (gui_msg list \<times> (string \<times> string) option) res" where
  "query_export results filename =
     (if filename = [] then Inr ([], None)
      else pbind results (\<lambda>rs.
        let (ok, file) = export_query_to_csv rs filename
        in Inr (if ok then [Information (''Exported to '' @ filename)] else [], file)))"

text \<open>\<open>Query1Page.export_csv\<close>, \<open>main_win.py\<close> lines 817--833.\<close>

definition query1_export :: "db option \<Rightarrow> string option \<Rightarrow> string \<Rightarrow> (gui_msg list \<times> (string \<times> string) option) res" where
  "query1_export st code filename =
     query_export (map_sum id (map grade_row_dict) (query_student_grades_by_subject st code)) filename"

text \<open>\<open>Query2Page.export_csv\<close>, lines 925--940.\<close>

definition query2_export :: "db option \<Rightarrow> string \<Rightarrow> (gui_msg list \<times> (string \<times> string) option) res" where
  "query2_export st filename =
     query_export (map_sum id (map sg_row_dict) (query_all_students_with_grades st)) filename"

text \<open>\<open>Query3Page.export_csv\<close>, lines 1051--1068, with the page's semester and year filters.\<close>

definition query3_export :: "db option \<Rightarrow> string \<Rightarrow> int \<Rightarrow> string \<Rightarrow> (gui_msg list \<times> (string \<times> string) option) res" where
  "query3_export st sem_text yr filename =
     (let sem = (if sem_text = ''All'' then None else Some sem_text);
          y = (if yr = 2020 then None else Some yr)
      in query_export (map_sum id (map info_row_dict) (query_complete_enrollment_info st None None None sem y)) filename)"

text \<open>\<open>Query4Page.export_csv\<close>, lines 1177--1193.\<close>

definition query4_export :: "db option \<Rightarrow> int \<Rightarrow> string \<Rightarrow> (gui_msg list \<times> (string \<times> string) option) res" where
  "query4_export st minc filename =
     query_export (map_sum id (map above_row_dict) (query_students_above_average st minc)) filename"

section \<open>Reading a file back\<close>

text \<open>The inside of a quoted field, after the opening quote: a doubled quote is one quote;
  the field ends at the next single quote. The field and the number of characters read,
  the closing quote included.\<close>

fun csv_quoted :: "string \<Rightarrow> (string \<times> nat) option" where
  "csv_quoted [] = None"
| "csv_quoted (c # r) =
     (if c = csv_dq then
        (case r of
           [] \<Rightarrow> Some ([], 1)
         | d # r' \<Rightarrow> if d = csv_dq then map_option (\<lambda>(f, n). (csv_dq # f, n + 2)) (csv_quoted r') else Some ([], 1))
      else map_option (\<lambda>(f, n). (c # f, n + 1)) (csv_quoted r))"

definition csv_stop :: "char \<Rightarrow> bool" where
  "csv_stop c \<longleftrightarrow> c = CHR '','' \<or> c = CHR 0x0D \<or> c = CHR 0x0A"

text \<open>One field, quoted or up to the next comma or line end, and the text after it.\<close>

definition csv_read_field :: "string \<Rightarrow> string \<times> string" where
  "csv_read_field s =
     (case s of
        c # r \<Rightarrow> if c = csv_dq then (case csv_quoted r of Some (f, n) \<Rightarrow> (f, drop n r) | None \<Rightarrow> (r, []))
                 else (takeWhile (Not \<circ> csv_stop) s, dropWhile (Not \<circ> csv_stop) s)
      | [] \<Rightarrow> ([], []))"

text \<open>The fields of one record and the text after its line end.\<close>

function csv_fields :: "string \<Rightarrow> string list \<times> string" where
  "csv_fields s =
     (let (f, r) = csv_read_field s in
      case r of
        [] \<Rightarrow> ([f], [])
      | c # r' \<Rightarrow>
          if c = CHR '','' then (let (fs, r'') = csv_fields r' in (f # fs, r''))
          else if c = CHR 0x0D then (case r' of d # r'' \<Rightarrow> if d = CHR 0x0A then ([f], r'') else ([f], r') | [] \<Rightarrow> ([f], []))
          else ([f], r'))"
  by pat_completeness auto
termination
proof (relation "measure length", goal_cases)
  case 1
  show ?case by simp
next
  case (2 s f r c r')
  have "length (snd (csv_read_field s)) \<le> length s"
    using length_dropWhile_le[of "Not \<circ> csv_stop" s]
    by (auto simp: csv_read_field_def split: list.splits option.splits)
  then show ?case using 2 by (cases "csv_read_field s") auto
qed

declare csv_fields.simps [simp del]

text \<open>The records of a file; an empty line is a record without fields.\<close>

function csv_read :: "string \<Rightarrow> string list list" where
  "csv_read s =
     (if s = [] then []
      else if take 2 s = csv_crlf then [] # csv_read (drop 2 s)
      else let (fs, r) = csv_fields s in fs # csv_read r)"
  by pat_completeness auto
termination
proof (relation "measure length", goal_cases)
  case 1
  show ?case by simp
next
  case (2 s)
  then show ?case by simp
next
  case (3 s fs r)
  have field: "length (snd (csv_read_field x)) \<le> length x" for x
    using length_dropWhile_le[of "Not \<circ> csv_stop" x]
    by (auto simp: csv_read_field_def split: list.splits option.splits)
  have le: "length (snd (csv_fields x)) \<le> length x" for x
  proof (induction x rule: csv_fields.induct)
    case (1 x)
    then show ?case
      using field[of x]
      by (subst csv_fields.simps) (fastforce split: prod.splits list.splits if_splits)
  qed
  obtain f r0 where fr: "csv_read_field s = (f, r0)" by fastforce
  then have r0: "length r0 \<le> length s" using field[of s] by simp
  have "length (snd (csv_fields s)) < length s"
  proof (cases r0)
    case Nil
    then show ?thesis using 3 by (simp add: csv_fields.simps[of s] fr)
  next
    case (Cons c r')
    have "length (snd (csv_fields r')) < length s" using le[of r'] r0 Cons by simp
    then show ?thesis
      using r0 Cons by (auto simp: csv_fields.simps[of s] fr split: prod.splits list.splits)
  qed
  then show ?case
    using 3 by (metis in_measure snd_conv)
qed

declare csv_read.simps [simp del]

section \<open>Lemmas\<close>

lemma csv_quoted_body:
  assumes "r = [] \<or> hd r \<noteq> csv_dq"
  shows "csv_quoted (csv_quote_body s @ csv_dq # r) = Some (s, length (csv_quote_body s) + 1)"
proof (induction s)
  case Nil
  then show ?case using assms by (cases r) (auto simp: csv_quote_body_def)
next
  case (Cons c s)
  then show ?case by (auto simp: csv_quote_body_def)
qed

lemma csv_stop_special: "csv_stop c \<Longrightarrow> csv_special c"
  by (auto simp: csv_stop_def csv_special_def)

lemma csv_stop_not_dq: "csv_stop c \<Longrightarrow> c \<noteq> csv_dq"
  by (auto simp: csv_stop_def csv_dq_def)

lemma csv_read_field_unquoted:
  "s = [] \<or> hd s \<noteq> csv_dq \<Longrightarrow> csv_read_field s = (takeWhile (Not \<circ> csv_stop) s, dropWhile (Not \<circ> csv_stop) s)"
  by (cases s) (auto simp: csv_read_field_def)

lemma csv_read_field_csv_field:
  assumes "r = [] \<or> csv_stop (hd r)"
  shows "csv_read_field (csv_field f @ r) = (f, r)"
proof (cases "list_ex csv_special f")
  case True
  have "r = [] \<or> hd r \<noteq> csv_dq" using assms csv_stop_not_dq by blast
  then show ?thesis
    using True by (simp add: csv_field_def csv_read_field_def csv_quoted_body)
next
  case False
  then have ns: "\<forall>c \<in> set f. (Not \<circ> csv_stop) c"
    by (auto simp: list_ex_iff dest: csv_stop_special)
  have tr: "takeWhile (Not \<circ> csv_stop) r = [] \<and> dropWhile (Not \<circ> csv_stop) r = r"
    using assms by (cases r) auto
  have "f @ r = [] \<or> hd (f @ r) \<noteq> csv_dq"
    using False assms csv_stop_not_dq
    by (cases f) (auto simp: csv_special_def)
  then show ?thesis
    using False ns tr
    by (simp add: csv_field_def csv_read_field_unquoted takeWhile_append2 dropWhile_append2 del: takeWhile_eq_Nil_iff)
qed

lemma csv_fields_record:
  "fs \<noteq> [] \<Longrightarrow> csv_fields (py_join '','' (map csv_field fs) @ csv_crlf @ r) = (fs, r)"
proof (induction fs)
  case (Cons x xs)
  note IH = Cons.IH
  show ?case
  proof (cases xs)
    case Nil
    have "csv_read_field (csv_field x @ csv_crlf @ r) = (x, csv_crlf @ r)"
      by (rule csv_read_field_csv_field) (simp add: csv_crlf_def csv_stop_def)
    then show ?thesis
      using Nil by (subst csv_fields.simps) (simp add: csv_crlf_def)
  next
    case (Cons y ys)
    let ?rest = "py_join '','' (map csv_field xs) @ csv_crlf @ r"
    have j: "py_join '','' (map csv_field (x # xs)) @ csv_crlf @ r = csv_field x @ CHR '','' # ?rest"
      using Cons by simp
    have "csv_read_field (csv_field x @ CHR '','' # ?rest) = (x, CHR '','' # ?rest)"
      by (rule csv_read_field_csv_field) (simp add: csv_stop_def)
    then show ?thesis
      using IH Cons unfolding j by (subst csv_fields.simps) simp
  qed
qed simp

lemma csv_record_start:
  assumes "fs \<noteq> []" "fs \<noteq> [[]]"
  obtains c s where "py_join '','' (map csv_field fs) @ csv_crlf = c # s" "c \<noteq> CHR 0x0D"
proof -
  obtain x xs where fs: "fs = x # xs" using assms(1) by (cases fs) auto
  show ?thesis
  proof (cases x)
    case Nil
    then obtain y ys where "xs = y # ys" using fs assms(2) by (cases xs) auto
    then show ?thesis using that fs Nil by (simp add: csv_field_def)
  next
    case (Cons c s)
    then have "csv_field x \<noteq> [] \<and> hd (csv_field x) \<noteq> CHR 0x0D"
      by (auto simp: csv_field_def csv_special_def csv_dq_def)
    then obtain c' s' where cs: "csv_field x = c' # s'" "c' \<noteq> CHR 0x0D"
      by (cases "csv_field x") auto
    have "py_join '','' (map csv_field fs) =
        csv_field x @ (case xs of [] \<Rightarrow> [] | _ \<Rightarrow> CHR '','' # py_join '','' (map csv_field xs))"
      using fs by (cases xs) auto
    then have "py_join '','' (map csv_field fs) @ csv_crlf =
        c' # (s' @ (case xs of [] \<Rightarrow> [] | _ \<Rightarrow> CHR '','' # py_join '','' (map csv_field xs)) @ csv_crlf)"
      by (simp add: cs(1))
    then show ?thesis using cs(2) by (rule that)
  qed
qed

lemma csv_read_text: "csv_read (csv_text rows) = rows"
proof (induction rows)
  case Nil
  then show ?case by (simp add: csv_text_def csv_read.simps)
next
  case (Cons fs rows)
  let ?r = "csv_text rows"
  have ct: "csv_text (fs # rows) = csv_record fs @ ?r" by (simp add: csv_text_def)
  consider "fs = []" | "fs = [[]]" | "fs \<noteq> []" and "fs \<noteq> [[]]" by blast
  then show ?case
  proof cases
    case 1
    then show ?thesis
      using Cons.IH unfolding ct by (subst csv_read.simps) (simp add: csv_record_def csv_crlf_def)
  next
    case 2
    have "csv_fields (csv_dq # csv_dq # CHR 0x0D # CHR 0x0A # ?r) = ([[]], ?r)"
      by (simp add: csv_fields.simps csv_read_field_def csv_dq_def)
    then show ?thesis
      using 2 Cons.IH
      unfolding ct by (subst csv_read.simps) (simp add: csv_record_def csv_crlf_def csv_dq_def)
  next
    case 3
    obtain c s where cs: "py_join '','' (map csv_field fs) @ csv_crlf = c # s" "c \<noteq> CHR 0x0D"
      using csv_record_start[OF 3] by blast
    have "take 2 (c # s @ ?r) \<noteq> csv_crlf" using cs(2) by (simp add: csv_crlf_def)
    moreover have "csv_fields (c # s @ ?r) = (fs, ?r)"
      using csv_fields_record[OF 3(1), of ?r] cs(1) by (metis append_assoc append_Cons)
    ultimately show ?thesis
      using 3 Cons.IH cs(1) unfolding ct by (subst csv_read.simps) (simp add: csv_record_def)
  qed
qed

text \<open>Claim C16 (mw_on_export_roundtrip): exporting a page with at least one row to a chosen file
  reports the row count and writes a file that reads back, record by record, as the header texts
  (\<open>Column{n}\<close> for a missing header item) followed by the cell texts of every row and column
  (empty for a missing item): commas, quotes and line breaks inside cells are quoted.\<close>

theorem mw_on_export_roundtrip:
  assumes "qt_items t \<noteq> []" "filename \<noteq> []"
  shows "\<exists>txt. mw_on_export t filename =
           ([Information (''Exported '' @ nat_str (length (qt_items t)) @ '' rows to:'' @ [CHR 0x0A] @ filename)],
            Some (filename, txt)) \<and>
         csv_read txt = qt_header_texts t # qt_row_data t"
  using assms by (simp add: mw_on_export_def csv_read_text)

lemma fe_export_roundtrip:
  assumes "qt_items t \<noteq> []" "file_path \<noteq> []"
  shows "\<exists>txt. fe_export_students_csv t file_path =
           ([Information (''Data exported successfully to:'' @ [CHR 0x0A] @ file_path)], Some (file_path, txt)) \<and>
         csv_read txt = qt_header_texts t # qt_row_data t"
  using assms by (simp add: fe_export_students_csv_def csv_read_text)

lemma tw_export_roundtrip:
  "path \<noteq> [] \<Longrightarrow> \<exists>txt. tw_export_table_to_csv (tw_qtable hs rows) path =
     ([Information (''Data exported to '' @ path)], Some (path, txt)) \<and>
     csv_read txt = hs # map (\<lambda>r. map (\<lambda>c. if c < length r then r ! c else []) [0..<length hs]) rows"
  by (auto simp: tw_export_table_to_csv_def tw_qtable_def csv_read_text qt_row_data_def qt_item_def comp_def
      intro!: map_cong nth_equalityI)

text \<open>Claim C17 (export_query_to_csv_roundtrip): export_query_to_csv of query_models.py, given a non-empty result whose rows use only the keys of the first row, succeeds and writes a file that reads back as the first row's keys followed, for each row, by its values in that key order (NULL and a missing key as the empty field), whatever commas, quotes or line breaks the values hold.\<close>

theorem export_query_to_csv_roundtrip:
  assumes "data \<noteq> []" "\<forall>r \<in> set data. dict_row_ok (map fst (hd data)) r"
  shows "\<exists>txt. export_query_to_csv data filename = (True, Some (filename, txt)) \<and>
           csv_read txt = map fst (hd data) # map (dict_row_fields (map fst (hd data))) data"
proof -
  have tw: "takeWhile (dict_row_ok (map fst (hd data))) data = data"
    using assms(2) by (simp add: takeWhile_eq_all_conv)
  show ?thesis
    using assms(1) by (simp add: export_query_to_csv_def Let_def csv_read_text tw)
qed

end
