(* ===== verification/DialogLoad.thy ===== *)
theory DialogLoad
  imports QueryPages
begin

text \<open>
  The construction of \<open>ClassDialog\<close> and \<open>EnrollmentDialog\<close> of \<open>dialogs_complete.py\<close>:
  \<open>setup_ui\<close>'s initial widget values, \<open>load_dropdowns\<close> (the combo boxes filled from the
  models) and, in edit mode, \<open>load_class_data\<close> and \<open>load_enrollment_data\<close>; then the form
  that \<open>save_class\<close> and \<open>save_enrollment\<close> read. A \<open>QComboBox\<close> is its items (text and data)
  and its current index; a spin box clamps \<open>setValue\<close> to its range. Each method runs its
  statements in order inside one \<open>try\<close>: an exception stops it, keeps what was already set
  and shows a message box.
\<close>

section \<open>Widgets\<close>

record combo =
  cb_items :: "(string \<times> pyval) list"
  cb_index :: int

definition combo_empty :: combo where
  "combo_empty = \<lparr>cb_items = [], cb_index = -1\<rparr>"

text \<open>\<open>addItems(texts)\<close> on an empty combo: the items without data, the first one current.\<close>

definition combo_of_texts :: "string list \<Rightarrow> combo" where
  "combo_of_texts ts = \<lparr>cb_items = map (\<lambda>t. (t, PNone)) ts, cb_index = (if ts = [] then -1 else 0)\<rparr>"

text \<open>\<open>addItem(text, data)\<close>: the first item added becomes current.\<close>

definition combo_add_item :: "combo \<Rightarrow> string \<Rightarrow> pyval \<Rightarrow> combo" where
  "combo_add_item cb t v = \<lparr>cb_items = cb_items cb @ [(t, v)], cb_index = (if cb_index cb < 0 then 0 else cb_index cb)\<rparr>"

fun first_index :: "('a \<Rightarrow> bool) \<Rightarrow> 'a list \<Rightarrow> nat option" where
  "first_index P [] = None"
| "first_index P (x # xs) = (if P x then Some 0 else map_option Suc (first_index P xs))"

text \<open>\<open>findData(v)\<close>: the first item whose data equals \<open>v\<close>, or -1.\<close>

definition combo_find_data :: "combo \<Rightarrow> pyval \<Rightarrow> int" where
  "combo_find_data cb v = (case first_index (\<lambda>it. snd it = v) (cb_items cb) of Some i \<Rightarrow> int i | None \<Rightarrow> -1)"

text \<open>\<open>setCurrentText(t)\<close> of a non-editable combo: the first item with that text becomes
  current; a text no item has changes nothing.\<close>

definition combo_set_text :: "combo \<Rightarrow> string \<Rightarrow> combo" where
  "combo_set_text cb t = (case first_index (\<lambda>it. fst it = t) (cb_items cb) of Some i \<Rightarrow> cb\<lparr>cb_index := int i\<rparr> | None \<Rightarrow> cb)"

definition combo_current :: "combo \<Rightarrow> (string \<times> pyval) option" where
  "combo_current cb = (if 0 \<le> cb_index cb \<and> nat (cb_index cb) < length (cb_items cb) then Some (cb_items cb ! nat (cb_index cb)) else None)"

text \<open>\<open>currentData()\<close> and \<open>currentText()\<close>: \<open>None\<close> and \<open>''\<close> without a current item.\<close>

definition combo_data :: "combo \<Rightarrow> pyval" where
  "combo_data cb = (case combo_current cb of Some it \<Rightarrow> snd it | None \<Rightarrow> PNone)"

definition combo_text :: "combo \<Rightarrow> string" where
  "combo_text cb = (case combo_current cb of Some it \<Rightarrow> fst it | None \<Rightarrow> [])"

text \<open>\<open>QSpinBox.setValue(v)\<close>: an integer, clamped to the range; any other value raises.\<close>

definition qt_spin_int :: "int \<Rightarrow> int \<Rightarrow> pyval \<Rightarrow> int res" where
  "qt_spin_int lo hi v =
     (case v of PInt i \<Rightarrow> Inr (max lo (min hi i)) | PBool b \<Rightarrow> Inr (max lo (min hi (of_bool b)))
      | _ \<Rightarrow> Inl (TypeError ''setValue(self, val: int): argument 1 has unexpected type''))"

text \<open>Iterating over the \<open>None\<close> that a failed read returns.\<close>

definition none_not_iterable :: pyexc where
  "none_not_iterable = TypeError ''NoneType object is not iterable''"

text \<open>A \<open>for\<close> loop adding one item per row; an exception stops it after the items added.\<close>

fun combo_add_rows :: "(pydict \<Rightarrow> (string \<times> pyval) res) \<Rightarrow> pydict list \<Rightarrow> combo \<Rightarrow> pyexc option \<times> combo" where
  "combo_add_rows f [] cb = (None, cb)"
| "combo_add_rows f (r # rs) cb =
     (case f r of Inl e \<Rightarrow> (Some e, cb) | Inr (t, v) \<Rightarrow> combo_add_rows f rs (combo_add_item cb t v))"

text \<open>The next statement of a method, unless an earlier one raised.\<close>

definition dseq :: "('d \<Rightarrow> 'd res) \<Rightarrow> pyexc option \<times> 'd \<Rightarrow> pyexc option \<times> 'd" where
  "dseq f ed = (case ed of (Some e, d) \<Rightarrow> (Some e, d) | (None, d) \<Rightarrow> (case f d of Inl e \<Rightarrow> (Some e, d) | Inr d' \<Rightarrow> (None, d')))"

text \<open>\<open>if index >= 0: combo.setCurrentIndex(index)\<close> after \<open>findData\<close>.\<close>

definition combo_select_data :: "combo \<Rightarrow> pyval \<Rightarrow> combo" where
  "combo_select_data cb v = (let i = combo_find_data cb v in if 0 \<le> i then cb\<lparr>cb_index := i\<rparr> else cb)"

section \<open>ClassDialog, lines 305--466\<close>

record class_dialog =
  cd_subject :: combo
  cd_lecturer :: combo
  cd_name :: string
  cd_semester :: combo
  cd_year :: int
  cd_capacity :: int

text \<open>\<open>setup_ui\<close>, lines 346--373: the semester items, year 2024 in 2000--2035, capacity 60 in
  10--200.\<close>

definition class_dialog_setup :: class_dialog where
  "class_dialog_setup =
     \<lparr>cd_subject = combo_empty, cd_lecturer = combo_empty, cd_name = [],
      cd_semester = combo_of_texts [''S1'', ''S2'', ''S3'', ''SUMMER''], cd_year = 2024, cd_capacity = 60\<rparr>"

definition subject_item :: "pydict \<Rightarrow> (string \<times> pyval) res" where
  "subject_item r =
     pbind (dict_getitem r ''SubjectCode'') (\<lambda>c. pbind (dict_getitem r ''SubjectName'') (\<lambda>n.
       Inr (py_str_val c @ '' - '' @ py_str_val n, c)))"

definition lecturer_item :: "pydict \<Rightarrow> (string \<times> pyval) res" where
  "lecturer_item r =
     pbind (dict_getitem r ''LecturerFirstName'') (\<lambda>a. pbind (dict_getitem r ''LecturerLastName'') (\<lambda>b.
       pbind (dict_getitem r ''LecturerID'') (\<lambda>i. Inr (py_str_val a @ '' '' @ py_str_val b, i))))"

definition dropdown_failed :: "pyexc \<Rightarrow> gui_msg" where
  "dropdown_failed e = Warning (''Failed to load dropdown data: '' @ exc_str e)"

text \<open>\<open>ClassDialog.load_dropdowns\<close>, lines 422--441.\<close>

definition class_load_dropdowns :: "db option \<Rightarrow> class_dialog \<Rightarrow> gui_msg option \<times> class_dialog" where
  "class_load_dropdowns st dlg =
     (case subject_list st of
        None \<Rightarrow> (Some (dropdown_failed none_not_iterable), dlg)
      | Some us \<Rightarrow>
          (case combo_add_rows subject_item us (cd_subject dlg) of
             (Some e, cb) \<Rightarrow> (Some (dropdown_failed e), dlg\<lparr>cd_subject := cb\<rparr>)
           | (None, cb) \<Rightarrow>
               (let dlg1 = dlg\<lparr>cd_subject := cb, cd_lecturer := combo_add_item (cd_lecturer dlg) ''None'' PNone\<rparr> in
                case lecturer_list st of
                  None \<Rightarrow> (Some (dropdown_failed none_not_iterable), dlg1)
                | Some ls \<Rightarrow>
                    (case combo_add_rows lecturer_item ls (cd_lecturer dlg1) of
                       (e, cb') \<Rightarrow> (map_option dropdown_failed e, dlg1\<lparr>cd_lecturer := cb'\<rparr>)))))"

text \<open>\<open>ClassDialog.load_class_data\<close>, lines 443--466.\<close>

definition class_load_data :: "db option \<Rightarrow> int \<Rightarrow> class_dialog \<Rightarrow> gui_msg option \<times> class_dialog" where
  "class_load_data st cid dlg =
     (case class_get_by_id st cid of
        None \<Rightarrow> (None, dlg)
      | Some r \<Rightarrow>
          (let s1 = (\<lambda>g. pbind (dict_getitem r ''SubjectCode'') (\<lambda>v.
                       Inr (g\<lparr>cd_subject := combo_select_data (cd_subject g) v\<rparr>)));
               s2 = (\<lambda>g. if truthy (dict_get_default r ''LecturerID'' PNone)
                         then pbind (dict_getitem r ''LecturerID'') (\<lambda>v.
                                Inr (g\<lparr>cd_lecturer := combo_select_data (cd_lecturer g) v\<rparr>))
                         else Inr g);
               s3 = (\<lambda>g. pbind (qt_set_text (dict_get_default r ''ClassName'' (PStr []))) (\<lambda>t.
                       Inr (g\<lparr>cd_name := t\<rparr>)));
               s4 = (\<lambda>g. pbind (dict_getitem r ''Semester'') (\<lambda>v. pbind (qt_set_text v) (\<lambda>t.
                       Inr (g\<lparr>cd_semester := combo_set_text (cd_semester g) t\<rparr>))));
               s5 = (\<lambda>g. pbind (dict_getitem r ''Year'') (\<lambda>v. pbind (qt_spin_int 2000 2035 v) (\<lambda>y.
                       Inr (g\<lparr>cd_year := y\<rparr>))));
               s6 = (\<lambda>g. pbind (qt_spin_int 10 200 (dict_get_default r ''MaxCapacity'' (PInt 60))) (\<lambda>k.
                       Inr (g\<lparr>cd_capacity := k\<rparr>)));
               res = dseq s6 (dseq s5 (dseq s4 (dseq s3 (dseq s2 (dseq s1 (None, dlg))))))
           in (map_option (\<lambda>e. Critical (''Failed to load class: '' @ exc_str e)) (fst res), snd res)))"

text \<open>\<open>ClassDialog.__init__\<close>, lines 318--331: \<open>setup_ui\<close>, \<open>load_dropdowns\<close>, and in edit mode
  with a truthy id \<open>load_class_data\<close>; the message boxes shown and the dialog.\<close>

definition class_dialog_open :: "db option \<Rightarrow> bool \<Rightarrow> int \<Rightarrow> gui_msg list \<times> class_dialog" where
  "class_dialog_open st edit_mode cid =
     (let (m1, d1) = class_load_dropdowns st class_dialog_setup in
      if edit_mode \<and> cid \<noteq> 0 then (let (m2, d2) = class_load_data st cid d1 in (opt_list m1 @ opt_list m2, d2))
      else (opt_list m1, d1))"

text \<open>What \<open>save_class\<close> reads from the widgets.\<close>

definition class_dialog_form :: "class_dialog \<Rightarrow> class_form" where
  "class_dialog_form g =
     \<lparr>cf_subject = combo_data (cd_subject g), cf_lecturer = combo_data (cd_lecturer g), cf_name = cd_name g,
      cf_semester = combo_text (cd_semester g), cf_year = cd_year g, cf_capacity = cd_capacity g\<rparr>"


section \<open>EnrollmentDialog, lines 511--666\<close>

record enrollment_dialog =
  ed_student :: combo
  ed_class :: combo
  ed_grade :: rat
  ed_letter :: combo
  ed_note :: string

text \<open>\<open>setup_ui\<close>, lines 527--570: empty student and class combos, the grade spin box at 0 in
  0.0--10.0 with two decimals, the letters \<open>["", "A", "B", "C", "D", "F"]\<close>, an empty note.\<close>

definition enrollment_dialog_setup :: enrollment_dialog where
  "enrollment_dialog_setup =
     \<lparr>ed_student = combo_empty, ed_class = combo_empty, ed_grade = 0,
      ed_letter = combo_of_texts ['''', ''A'', ''B'', ''C'', ''D'', ''F''], ed_note = []\<rparr>"

text \<open>\<open>QDoubleSpinBox.setValue(v)\<close> with two decimals: the value rounded to two decimals, half
  up, then clamped to the range; an infinity gives the bound on its side. A NaN, which no stored
  grade is, is taken as the minimum.\<close>

definition qt_round2 :: "rat \<Rightarrow> rat" where
  "qt_round2 r = of_int (round (r * 100)) / 100"

definition qt_dspin :: "rat \<Rightarrow> rat \<Rightarrow> pyval \<Rightarrow> rat res" where
  "qt_dspin lo hi v =
     (case v of PFloat (Fin r) \<Rightarrow> Inr (max lo (min hi (qt_round2 r)))
      | PFloat PosInf \<Rightarrow> Inr hi | PFloat NegInf \<Rightarrow> Inr lo | PFloat NaN \<Rightarrow> Inr lo
      | PInt i \<Rightarrow> Inr (max lo (min hi (of_int i))) | PBool b \<Rightarrow> Inr (max lo (min hi (of_bool b)))
      | _ \<Rightarrow> Inl (TypeError ''setValue(self, val: float): argument 1 has unexpected type''))"

definition student_item :: "pydict \<Rightarrow> (string \<times> pyval) res" where
  "student_item r =
     pbind (dict_getitem r ''StudentID'') (\<lambda>i. pbind (dict_getitem r ''FirstName'') (\<lambda>a.
       pbind (dict_getitem r ''LastName'') (\<lambda>b. Inr (py_str_val i @ '' - '' @ py_str_val a @ '' '' @ py_str_val b, i))))"

definition class_item :: "pydict \<Rightarrow> (string \<times> pyval) res" where
  "class_item r =
     pbind (dict_getitem r ''ClassID'') (\<lambda>i. pbind (dict_getitem r ''Semester'') (\<lambda>s.
       pbind (dict_getitem r ''Year'') (\<lambda>y.
         Inr (py_str_val i @ '' - '' @ py_str_val (dict_get_default r ''SubjectName'' (PStr [])) @
              '' ('' @ py_str_val s @ '' '' @ py_str_val y @ '')'', i))))"

text \<open>\<open>EnrollmentDialog.load_dropdowns\<close>, lines 618--634: the first 500 students by id, then all
  classes.\<close>

definition enr_load_dropdowns :: "db option \<Rightarrow> enrollment_dialog \<Rightarrow> gui_msg option \<times> enrollment_dialog" where
  "enr_load_dropdowns st g =
     (case student_list st 500 0 ''StudentID'' of
        None \<Rightarrow> (Some (dropdown_failed none_not_iterable), g)
      | Some ss \<Rightarrow>
          (case combo_add_rows student_item ss (ed_student g) of
             (Some e, cb) \<Rightarrow> (Some (dropdown_failed e), g\<lparr>ed_student := cb\<rparr>)
           | (None, cb) \<Rightarrow>
               (let g1 = g\<lparr>ed_student := cb\<rparr> in
                case class_list st None None of
                  None \<Rightarrow> (Some (dropdown_failed none_not_iterable), g1)
                | Some cs \<Rightarrow>
                    (case combo_add_rows class_item cs (ed_class g1) of
                       (e, cb') \<Rightarrow> (map_option dropdown_failed e, g1\<lparr>ed_class := cb'\<rparr>)))))"

text \<open>\<open>next((e for e in enrollments if e['ClassID'] == self.class_id), None)\<close>; the ids compared
  are the integers the rows carry.\<close>

fun enr_next :: "int \<Rightarrow> pydict list \<Rightarrow> pydict option res" where
  "enr_next cid [] = Inr None"
| "enr_next cid (r # rs) = pbind (dict_getitem r ''ClassID'') (\<lambda>v. if v = PInt cid then Inr (Some r) else enr_next cid rs)"

text \<open>\<open>EnrollmentDialog.load_enrollment_data\<close>, lines 636--666.\<close>

definition enr_load_data :: "db option \<Rightarrow> int \<Rightarrow> int \<Rightarrow> enrollment_dialog \<Rightarrow> gui_msg option \<times> enrollment_dialog" where
  "enr_load_data st sid cid g =
     (let failed = (\<lambda>e. Critical (''Failed to load enrollment: '' @ exc_str e)) in
      case enrollment_get_by_student st sid of
        None \<Rightarrow> (Some (failed none_not_iterable), g)
      | Some es \<Rightarrow>
          (case enr_next cid es of
             Inl e \<Rightarrow> (Some (failed e), g)
           | Inr None \<Rightarrow> (None, g)
           | Inr (Some r) \<Rightarrow>
               (let s1 = (\<lambda>g. Inr (g\<lparr>ed_student := combo_select_data (ed_student g) (PInt sid)\<rparr>));
                    s2 = (\<lambda>g. Inr (g\<lparr>ed_class := combo_select_data (ed_class g) (PInt cid)\<rparr>));
                    s3 = (\<lambda>g. if truthy (dict_get_default r ''Grade'' PNone)
                              then pbind (dict_getitem r ''Grade'') (\<lambda>v. pbind (qt_dspin 0 10 v) (\<lambda>x.
                                     Inr (g\<lparr>ed_grade := x\<rparr>)))
                              else Inr g);
                    s4 = (\<lambda>g. if truthy (dict_get_default r ''GradeLetter'' PNone)
                              then pbind (dict_getitem r ''GradeLetter'') (\<lambda>v. pbind (qt_set_text v) (\<lambda>t.
                                     Inr (g\<lparr>ed_letter := combo_set_text (ed_letter g) t\<rparr>)))
                              else Inr g);
                    s5 = (\<lambda>g. if truthy (dict_get_default r ''Note'' PNone)
                              then pbind (dict_getitem r ''Note'') (\<lambda>v. pbind (qt_set_text v) (\<lambda>t.
                                     Inr (g\<lparr>ed_note := t\<rparr>)))
                              else Inr g);
                    res = (if r = [] then (None, g) else dseq s5 (dseq s4 (dseq s3 (dseq s2 (dseq s1 (None, g))))))
                in (map_option failed (fst res), snd res))))"

text \<open>\<open>EnrollmentDialog.__init__\<close>, lines 511--525.\<close>

definition enrollment_dialog_open :: "db option \<Rightarrow> bool \<Rightarrow> int \<Rightarrow> int \<Rightarrow> gui_msg list \<times> enrollment_dialog" where
  "enrollment_dialog_open st edit_mode sid cid =
     (let (m1, d1) = enr_load_dropdowns st enrollment_dialog_setup in
      if edit_mode \<and> sid \<noteq> 0 \<and> cid \<noteq> 0
      then (let (m2, d2) = enr_load_data st sid cid d1 in (opt_list m1 @ opt_list m2, d2))
      else (opt_list m1, d1))"

text \<open>What \<open>save_enrollment\<close> reads from the widgets.\<close>

definition enrollment_dialog_form :: "enrollment_dialog \<Rightarrow> enrollment_form" where
  "enrollment_dialog_form g =
     \<lparr>ef_student = combo_data (ed_student g), ef_class = combo_data (ed_class g), ef_grade = ed_grade g,
      ef_letter = combo_text (ed_letter g), ef_note = ed_note g\<rparr>"


section \<open>Lemmas\<close>

lemma combo_add_rows_total:
  assumes "\<And>r. r \<in> set rs \<Longrightarrow> f r = Inr (g r)"
  shows "combo_add_rows f rs cb =
         (None, \<lparr>cb_items = cb_items cb @ map g rs, cb_index = (if cb_index cb < 0 \<and> rs \<noteq> [] then 0 else cb_index cb)\<rparr>)"
  using assms
proof (induction rs arbitrary: cb)
  case Nil
  then show ?case by simp
next
  case (Cons r rs)
  obtain t v where g: "g r = (t, v)" by fastforce
  have "f r = Inr (t, v)" using Cons.prems g by simp
  then show ?case
    using Cons.IH[of "combo_add_item cb t v"] Cons.prems g by (simp add: combo_add_item_def)
qed

lemma first_index_Some:
  "\<exists>x \<in> set xs. P x \<Longrightarrow> \<exists>i. first_index P xs = Some i \<and> i < length xs \<and> P (xs ! i)"
proof (induction xs)
  case (Cons a xs)
  show ?case
  proof (cases "P a")
    case False
    then obtain i where "first_index P xs = Some i" "i < length xs" "P (xs ! i)" using Cons by auto
    then show ?thesis using False by (intro exI[of _ "Suc i"]) simp
  qed simp
qed simp

lemma combo_select_data_in:
  assumes "v \<in> snd ` set (cb_items cb)"
  shows "combo_data (combo_select_data cb v) = v"
proof -
  obtain i where i: "first_index (\<lambda>it. snd it = v) (cb_items cb) = Some i" "i < length (cb_items cb)"
      "snd (cb_items cb ! i) = v"
    using first_index_Some[of "cb_items cb" "\<lambda>it. snd it = v"] assms by auto
  then show ?thesis
    by (simp add: combo_select_data_def combo_find_data_def combo_data_def combo_current_def)
qed

lemma combo_set_text_in:
  assumes "t \<in> fst ` set (cb_items cb)"
  shows "combo_text (combo_set_text cb t) = t"
proof -
  obtain i where i: "first_index (\<lambda>it. fst it = t) (cb_items cb) = Some i" "i < length (cb_items cb)"
      "fst (cb_items cb ! i) = t"
    using first_index_Some[of "cb_items cb" "\<lambda>it. fst it = t"] assms by auto
  then show ?thesis
    by (simp add: combo_set_text_def combo_text_def combo_current_def)
qed

lemma class_load_dropdowns_db:
  "\<exists>ss ls. class_load_dropdowns (Some d) class_dialog_setup =
     (None, class_dialog_setup\<lparr>cd_subject := \<lparr>cb_items = ss, cb_index = (if ss = [] then -1 else 0)\<rparr>,
                               cd_lecturer := \<lparr>cb_items = (''None'', PNone) # ls, cb_index = 0\<rparr>\<rparr>) \<and>
     snd ` set ss = PStr ` sub_code ` set (db_subjects d) \<and> snd ` set ls = PInt ` lec_id ` set (db_lecturers d)"
proof -
  let ?us = "sort_key (\<lambda>r. order_key (dict_get r ''SubjectCode'')) (map subject_row (db_subjects d))"
  let ?ls = "sort_key (\<lambda>r. order_key (dict_get r ''LecturerID'')) (map lecturer_row (db_lecturers d))"
  let ?gu = "\<lambda>r. (py_str_val (dict_get r ''SubjectCode'') @ '' - '' @ py_str_val (dict_get r ''SubjectName''), dict_get r ''SubjectCode'')"
  let ?gl = "\<lambda>r. (py_str_val (dict_get r ''LecturerFirstName'') @ '' '' @ py_str_val (dict_get r ''LecturerLastName''),
                 dict_get r ''LecturerID'')"
  have su: "subject_item r = Inr (?gu r)" if "r \<in> set ?us" for r
    using that by (auto simp: subject_item_def subject_row_def dict_getitem_def dict_get_def)
  have sl: "lecturer_item r = Inr (?gl r)" if "r \<in> set ?ls" for r
    using that by (auto simp: lecturer_item_def lecturer_row_def dict_getitem_def dict_get_def)
  have "snd ` set (map ?gu ?us) = PStr ` sub_code ` set (db_subjects d)"
    by (force simp: image_image subject_row_def dict_get_def)
  moreover have "snd ` set (map ?gl ?ls) = PInt ` lec_id ` set (db_lecturers d)"
    by (force simp: image_image lecturer_row_def dict_get_def)
  moreover have "?us = [] \<longleftrightarrow> map ?gu ?us = []" by simp
  ultimately show ?thesis
    using combo_add_rows_total[of ?us subject_item ?gu combo_empty, OF su]
          combo_add_rows_total[of ?ls lecturer_item ?gl "combo_add_item combo_empty ''None'' PNone", OF sl]
    by (simp add: class_load_dropdowns_def subject_list_def lecturer_list_def execute_query_def table_rows_simps
        class_dialog_setup_def combo_empty_def combo_add_item_def)
qed

lemma class_load_data_stored:
  assumes "class_get_by_id st cid = Some (class_row c @ ext)"
    and sub: "PStr (cls_subject c) \<in> snd ` set (cb_items (cd_subject g))"
    and lec: "combo_data (cd_lecturer g) = PNone" "\<And>l. cls_lecturer c = Some l \<Longrightarrow> l \<noteq> 0 \<and> PInt l \<in> snd ` set (cb_items (cd_lecturer g))"
    and sem: "cls_semester c \<in> fst ` set (cb_items (cd_semester g))"
    and yr: "2000 \<le> cls_year c" "cls_year c \<le> 2035" and cap: "10 \<le> cls_capacity c" "cls_capacity c \<le> 200"
  shows "fst (class_load_data st cid g) = None \<and>
         class_dialog_form (snd (class_load_data st cid g)) =
           \<lparr>cf_subject = PStr (cls_subject c), cf_lecturer = opt_int (cls_lecturer c),
            cf_name = (case cls_name c of None \<Rightarrow> [] | Some n \<Rightarrow> n), cf_semester = cls_semester c,
            cf_year = cls_year c, cf_capacity = cls_capacity c\<rparr>"
proof -
  have lecd: "(truthy (opt_int (cls_lecturer c)) \<longrightarrow>
                 combo_data (combo_select_data (cd_lecturer g) (opt_int (cls_lecturer c))) = opt_int (cls_lecturer c)) \<and>
              (\<not> truthy (opt_int (cls_lecturer c)) \<longrightarrow> combo_data (cd_lecturer g) = opt_int (cls_lecturer c))"
  proof (cases "cls_lecturer c")
    case None
    then show ?thesis using lec(1) by (simp add: opt_int_def)
  next
    case (Some l)
    then show ?thesis using lec(2)[OF Some] by (simp add: opt_int_def combo_select_data_in)
  qed
  show ?thesis
    using assms(1) combo_select_data_in[OF sub] combo_set_text_in[OF sem] lecd yr cap
    by (simp add: class_load_data_def dseq_def class_row_def dict_getitem_def dict_get_default_def qt_set_text_def
        qt_spin_int_def class_dialog_form_def opt_str_def pbind_def split: option.splits)
qed

lemma class_dialog_save_edit:
  assumes "cf_subject f = PStr u" "cf_lecturer f = opt_int lec"
  shows "class_dialog_save True i (Some d) f =
   (let d' = d\<lparr>db_classes := map (cls_set i u lec (Some (cf_name f)) (cf_semester f) (cf_year f) (cf_capacity f)) (db_classes d)\<rparr>
    in if db_wf d' then (Information ''Class updated successfully!'', True, Some d')
       else (Critical (''Failed to save: '' @ exc_str (integrity_error d')), False, Some d))"
proof -
  have upd: "class_update (Some d) (PInt i)
      [(''subject_code'', cf_subject f), (''lecturer_id'', cf_lecturer f), (''class_name'', PStr (cf_name f)),
       (''semester'', PStr (cf_semester f)), (''year'', PInt (cf_year f)), (''max_capacity'', PInt (cf_capacity f))] =
      pbind (apply_write (Update ''classes'' [(''SubjectCode'', PStr u), (''LecturerID'', opt_int lec),
        (''ClassName'', opt_str (Some (cf_name f))), (''Semester'', PStr (cf_semester f)), (''Year'', PInt (cf_year f)),
        (''MaxCapacity'', PInt (cf_capacity f))] [(''ClassID'', PInt i)]) d) (\<lambda>((n, _), d'). Inr (n, d'))"
    using assms by (simp add: class_update_def dict_getitem_def dict_get_def dict_get_default_def execute_update_def
        opt_str_def pbind_def del: apply_write.simps)
  show ?thesis
    unfolding class_dialog_save_def Let_def if_True upd apply_write_update_class
    by (simp add: checked_def dlg_commit_def split: pyexc.splits)
qed

text \<open>Claim C18 (class_dialog_edit_unchanged): opening the edit ClassDialog of a stored class (whose
  subject code is stored exactly, whose semester is one of the combo's items and whose year and capacity
  lie in the spin boxes' ranges) shows no message, and saving it unchanged reports success and changes
  nothing but a NULL class name, which becomes the empty string.\<close>

theorem class_dialog_edit_unchanged:
  assumes "db_wf d" "c \<in> set (db_classes d)" "cls_id c \<noteq> 0" "cls_subject c \<in> sub_code ` set (db_subjects d)"
    "cls_semester c \<in> set [''S1'', ''S2'', ''S3'', ''SUMMER'']" "2000 \<le> cls_year c" "cls_year c \<le> 2035"
    "10 \<le> cls_capacity c" "cls_capacity c \<le> 200" "cls_lecturer c \<noteq> Some 0"
  shows "fst (class_dialog_open (Some d) True (cls_id c)) = [] \<and>
         class_dialog_save True (cls_id c) (Some d) (class_dialog_form (snd (class_dialog_open (Some d) True (cls_id c)))) =
           (Information ''Class updated successfully!'', True,
            Some (d\<lparr>db_classes := map (\<lambda>x. if cls_id x = cls_id c
                                            then x\<lparr>cls_name := Some (case cls_name c of None \<Rightarrow> [] | Some n \<Rightarrow> n)\<rparr> else x)
                                      (db_classes d)\<rparr>))"
proof -
  have dist: "distinct (map cls_id (db_classes d))" using assms(1) by (simp add: db_wf_defs)
  obtain u where u: "u \<in> set (db_subjects d)" "sub_code u = cls_subject c" using assms(4) by auto
  then have "\<exists>u \<in> set (db_subjects d). sql_str_eq (cls_subject c) (sub_code u)"
    by (intro bexI[of _ u]) (simp_all add: sql_str_eq_def)
  from class_get_by_id_stored[OF dist assms(2) this]
  obtain ext where row: "class_get_by_id (Some d) (cls_id c) = Some (class_row c @ ext)" ..
  obtain ss ls where dd: "class_load_dropdowns (Some d) class_dialog_setup =
     (None, class_dialog_setup\<lparr>cd_subject := \<lparr>cb_items = ss, cb_index = (if ss = [] then -1 else 0)\<rparr>,
                               cd_lecturer := \<lparr>cb_items = (''None'', PNone) # ls, cb_index = 0\<rparr>\<rparr>)"
    and ss: "snd ` set ss = PStr ` sub_code ` set (db_subjects d)" and ls: "snd ` set ls = PInt ` lec_id ` set (db_lecturers d)"
    using class_load_dropdowns_db[of d] by (elim exE conjE) simp
  define g0 where "g0 = class_dialog_setup\<lparr>cd_subject := \<lparr>cb_items = ss, cb_index = (if ss = [] then -1 else 0)\<rparr>,
                               cd_lecturer := \<lparr>cb_items = (''None'', PNone) # ls, cb_index = 0\<rparr>\<rparr>"
  have dd0: "class_load_dropdowns (Some d) class_dialog_setup = (None, g0)" using dd by (simp add: g0_def)
  have fks: "\<forall>x \<in> set (db_classes d). case cls_lecturer x of None \<Rightarrow> True | Some l \<Rightarrow> l \<in> lec_id ` set (db_lecturers d)"
    using assms(1) by (simp add: db_wf_def fks_ok_def)
  have fk: "l \<in> lec_id ` set (db_lecturers d)" if "cls_lecturer c = Some l" for l
    using bspec[OF fks assms(2)] that by simp
  have ld: "fst (class_load_data (Some d) (cls_id c) g0) = None \<and>
         class_dialog_form (snd (class_load_data (Some d) (cls_id c) g0)) =
           \<lparr>cf_subject = PStr (cls_subject c), cf_lecturer = opt_int (cls_lecturer c),
            cf_name = (case cls_name c of None \<Rightarrow> [] | Some n \<Rightarrow> n), cf_semester = cls_semester c,
            cf_year = cls_year c, cf_capacity = cls_capacity c\<rparr>"
  proof (rule class_load_data_stored[OF row])
    show "PStr (cls_subject c) \<in> snd ` set (cb_items (cd_subject g0))"
      using imageI[OF assms(4), of PStr] by (simp add: ss g0_def)
    show "combo_data (cd_lecturer g0) = PNone" by (simp add: combo_data_def combo_current_def g0_def)
    show "l \<noteq> 0 \<and> PInt l \<in> snd ` set (cb_items (cd_lecturer g0))" if "cls_lecturer c = Some l" for l
      using that assms(10) fk[OF that] by (auto simp: ls g0_def)
    show "cls_semester c \<in> fst ` set (cb_items (cd_semester g0))"
      using assms(5) by (simp add: g0_def class_dialog_setup_def combo_of_texts_def image_image)
  qed (use assms(6-9) in simp_all)
  have same: "map (cls_set (cls_id c) (cls_subject c) (cls_lecturer c) (Some (case cls_name c of None \<Rightarrow> [] | Some n \<Rightarrow> n))
                 (cls_semester c) (cls_year c) (cls_capacity c)) (db_classes d) =
              map (\<lambda>x. if cls_id x = cls_id c then x\<lparr>cls_name := Some (case cls_name c of None \<Rightarrow> [] | Some n \<Rightarrow> n)\<rparr> else x)
                  (db_classes d)"
  proof (rule map_cong[OF refl])
    fix x assume "x \<in> set (db_classes d)"
    then have "cls_id x = cls_id c \<Longrightarrow> x = c" using assms(2) dist by (auto simp: distinct_map dest: inj_onD)
    then show "cls_set (cls_id c) (cls_subject c) (cls_lecturer c) (Some (case cls_name c of None \<Rightarrow> [] | Some n \<Rightarrow> n))
                 (cls_semester c) (cls_year c) (cls_capacity c) x =
               (if cls_id x = cls_id c then x\<lparr>cls_name := Some (case cls_name c of None \<Rightarrow> [] | Some n \<Rightarrow> n)\<rparr> else x)"
      by (auto simp: cls_set_def)
  qed
  have wf': "db_wf (d\<lparr>db_classes := map (\<lambda>x. if cls_id x = cls_id c
                 then x\<lparr>cls_name := Some (case cls_name c of None \<Rightarrow> [] | Some n \<Rightarrow> n)\<rparr> else x) (db_classes d)\<rparr>)"
    using assms(1) by (subst db_wf_map_classes) simp_all
  obtain m2 g2 where lg: "class_load_data (Some d) (cls_id c) g0 = (m2, g2)" by fastforce
  have op: "class_dialog_open (Some d) True (cls_id c) = ([], g2)"
    using ld assms(3) by (simp add: class_dialog_open_def dd0 lg opt_list_def)
  show ?thesis
    using ld wf' by (simp add: op lg class_dialog_save_edit[where u="cls_subject c" and lec="cls_lecturer c"] same)
qed

lemma combo_add_rows_ok:
  "\<forall>r \<in> set rs. \<exists>x. f r = Inr x \<Longrightarrow> fst (combo_add_rows f rs cb) = None"
  by (induction rs arbitrary: cb) (auto split: sum.splits)

lemma enr_load_dropdowns_db:
  "fst (enr_load_dropdowns (Some d) g) = None \<and> ed_grade (snd (enr_load_dropdowns (Some d) g)) = ed_grade g \<and>
   ed_letter (snd (enr_load_dropdowns (Some d) g)) = ed_letter g \<and> ed_note (snd (enr_load_dropdowns (Some d) g)) = ed_note g"
proof -
  let ?ss = "take 500 (sort_key (\<lambda>r. order_key (dict_get r ''StudentID'')) (map student_row (db_students d)))"
  obtain cs where cs: "class_list (Some d) None None = Some cs" and csr: "\<forall>r \<in> set cs. \<exists>c ext. r = class_row c @ ext"
    by (auto simp: class_list_def execute_query_def)
  have su: "\<forall>r \<in> set ?ss. \<exists>x. student_item r = Inr x"
    by (auto simp: student_item_def student_row_def dict_getitem_def dest!: in_set_takeD)
  have cl: "\<forall>r \<in> set cs. \<exists>x. class_item r = Inr x"
    using csr by (auto simp: class_item_def class_row_def dict_getitem_def)
  obtain cb where cb: "combo_add_rows student_item ?ss (ed_student g) = (None, cb)"
    using combo_add_rows_ok[OF su] by (metis prod.collapse)
  obtain cb' where cb': "combo_add_rows class_item cs (ed_class g) = (None, cb')"
    using combo_add_rows_ok[OF cl] by (metis prod.collapse)
  show ?thesis
    by (simp add: enr_load_dropdowns_def student_list_def query_all_def table_rows_simps student_cols_def cb cs cb')
qed

lemma first_index_None: "\<not> (\<exists>x \<in> set xs. P x) \<Longrightarrow> first_index P xs = None"
  by (induction xs) auto

lemma enrollment_letters_set_text:
  "combo_text (combo_set_text (combo_of_texts ['''', ''A'', ''B'', ''C'', ''D'', ''F'']) l) =
   (if l \<in> set [''A'', ''B'', ''C'', ''D'', ''F''] then l else [])"
proof (cases "l \<in> set ['''', ''A'', ''B'', ''C'', ''D'', ''F'']")
  case True
  then have "l \<in> fst ` set (cb_items (combo_of_texts ['''', ''A'', ''B'', ''C'', ''D'', ''F'']))"
    by (simp add: combo_of_texts_def image_image)
  from combo_set_text_in[OF this] True show ?thesis by auto
next
  case False
  then have "first_index (\<lambda>it. fst it = l) (cb_items (combo_of_texts ['''', ''A'', ''B'', ''C'', ''D'', ''F''])) = None"
    by (intro first_index_None) (auto simp: combo_of_texts_def)
  then show ?thesis using False
    by (simp add: combo_set_text_def combo_text_def combo_current_def combo_of_texts_def)
qed

lemma qt_round2_range:
  assumes "0 \<le> r" "r \<le> 10"
  shows "0 \<le> qt_round2 r \<and> qt_round2 r \<le> 10"
proof -
  have "round (0::rat) \<le> round (r * 100)" "round (r * 100) \<le> round (1000::rat)"
    by (rule round_mono, use assms in simp)+
  then show ?thesis by (simp add: qt_round2_def)
qed

lemma qt_dspin_grade:
  "grade_ok (Some r) \<Longrightarrow> qt_dspin 0 10 (PFloat (Fin r)) = Inr (qt_round2 r)"
  using qt_round2_range[of r] by (simp add: qt_dspin_def grade_ok_def)

lemma enr_next_rows:
  assumes "\<forall>x \<in> set L. \<exists>ext. F x = enrollment_row (fst x) @ ext"
    "\<exists>x \<in> set L. enr_class (fst x) = cid" "\<forall>x \<in> set L. enr_class (fst x) = cid \<longrightarrow> fst x = e"
  shows "\<exists>ext. enr_next cid (map F L) = Inr (Some (enrollment_row e @ ext))"
  using assms
proof (induction L)
  case (Cons x L)
  obtain ext where fx: "F x = enrollment_row (fst x) @ ext" using Cons.prems(1) by auto
  have ci: "dict_getitem (F x) ''ClassID'' = Inr (PInt (enr_class (fst x)))"
    by (simp add: fx dict_getitem_def enrollment_row_def)
  show ?case
  proof (cases "enr_class (fst x) = cid")
    case True
    then show ?thesis using Cons.prems(3) ci fx by auto
  next
    case False
    then show ?thesis using Cons ci by auto
  qed
qed simp

lemma enrollment_get_by_student_stored:
  assumes "db_wf d" "e \<in> set (db_enrollments d)"
  shows "\<exists>es ext. enrollment_get_by_student (Some d) (enr_student e) = Some es \<and>
                 enr_next (enr_class e) es = Inr (Some (enrollment_row e @ ext))"
proof -
  let ?L = "sort_key (class_key \<circ> fst \<circ> snd)
         [(e', c, u). e' \<leftarrow> db_enrollments d, c \<leftarrow> db_classes d, enr_class e' = cls_id c,
                     u \<leftarrow> db_subjects d, sql_str_eq (cls_subject c) (sub_code u), enr_student e' = enr_student e]"
  obtain c where c: "c \<in> set (db_classes d)" "cls_id c = enr_class e"
    using assms by (force simp: db_wf_defs)
  obtain u where u: "u \<in> set (db_subjects d)" "sql_str_eq (cls_subject c) (sub_code u)"
    using assms(1) c(1) by (auto simp: db_wf_defs)
  have ex: "\<exists>x \<in> set ?L. enr_class (fst x) = enr_class e"
    using assms(2) c u by (intro bexI[of _ "(e, c, u)"]) auto
  have inj: "inj_on enr_key (set (db_enrollments d))" using assms(1) by (simp add: db_wf_defs distinct_map)
  have un: "\<forall>x \<in> set ?L. enr_class (fst x) = enr_class e \<longrightarrow> fst x = e"
    using assms(2) by (auto simp: enr_key_def intro!: inj_onD[OF inj])
  show ?thesis
    using enr_next_rows[OF _ ex un] by (simp add: enrollment_get_by_student_def execute_query_def split_def)
qed

lemma dseq_simps [simp]:
  "dseq f (None, d) = (case f d of Inl e \<Rightarrow> (Some e, d) | Inr d' \<Rightarrow> (None, d'))"
  "dseq f (Some e, d) = (Some e, d)"
  by (simp_all add: dseq_def)

lemma enr_load_data_stored:
  assumes "enrollment_get_by_student st sid = Some es" "enr_next cid es = Inr (Some (enrollment_row e @ ext))"
    and go: "grade_ok (enr_grade e)"
    and g: "ed_grade g = 0" "ed_letter g = combo_of_texts ['''', ''A'', ''B'', ''C'', ''D'', ''F'']" "ed_note g = []"
  shows "fst (enr_load_data st sid cid g) = None \<and>
         ed_grade (snd (enr_load_data st sid cid g)) = (case enr_grade e of None \<Rightarrow> 0 | Some r \<Rightarrow> qt_round2 r) \<and>
         combo_text (ed_letter (snd (enr_load_data st sid cid g))) =
           (case enr_letter e of None \<Rightarrow> [] | Some l \<Rightarrow> if l \<in> set [''A'', ''B'', ''C'', ''D'', ''F''] then l else []) \<and>
         ed_note (snd (enr_load_data st sid cid g)) = (case enr_note e of None \<Rightarrow> [] | Some n \<Rightarrow> n)"
proof -
  have z: "qt_round2 0 = 0" by (simp add: qt_round2_def)
  have e0: "combo_text (combo_of_texts ['''', ''A'', ''B'', ''C'', ''D'', ''F'']) = []"
    by (simp add: combo_text_def combo_current_def combo_of_texts_def)
  show ?thesis
    using go
    by (cases "enr_grade e"; cases "enr_letter e"; cases "enr_note e")
       (simp_all add: enr_load_data_def assms(1,2) g Let_def enrollment_row_def dict_getitem_def
        dict_get_default_def opt_num_def opt_str_def qt_set_text_def qt_dspin_grade
        enrollment_letters_set_text z e0)
qed

text \<open>Claim C20 (enrollment_dialog_edit_unchanged): opening the edit EnrollmentDialog of a stored
  enrollment shows no message, and saving it unchanged reports success and rewrites only that
  enrollment: its grade rounded to two decimals, NULL when that is 0; its letter kept only when it is
  one of A, B, C, D, F (any other letter is erased); its note stripped, NULL when empty.\<close>

theorem enrollment_dialog_edit_unchanged:
  assumes "db_wf d" "e \<in> set (db_enrollments d)" "enr_student e \<noteq> 0" "enr_class e \<noteq> 0"
  shows "fst (enrollment_dialog_open (Some d) True (enr_student e) (enr_class e)) = [] \<and>
    enrollment_dialog_save True (enr_student e) (enr_class e) (Some d)
      (enrollment_dialog_form (snd (enrollment_dialog_open (Some d) True (enr_student e) (enr_class e)))) =
    (Information ''Enrollment updated successfully!'', True,
     Some (d\<lparr>db_enrollments := map (enr_set (enr_key e)
        (case enr_grade e of None \<Rightarrow> None | Some r \<Rightarrow> if 0 < qt_round2 r then Some (qt_round2 r) else None)
        (case enr_letter e of None \<Rightarrow> None | Some l \<Rightarrow> if l \<in> set [''A'', ''B'', ''C'', ''D'', ''F''] then Some l else None)
        (case enr_note e of None \<Rightarrow> None | Some n \<Rightarrow> if py_strip n = [] then None else Some (py_strip n)))
      (db_enrollments d)\<rparr>))"
proof -
  have go: "grade_ok (enr_grade e)" using assms(1,2) by (simp add: db_wf_defs)
  obtain es ext where es: "enrollment_get_by_student (Some d) (enr_student e) = Some es"
      "enr_next (enr_class e) es = Inr (Some (enrollment_row e @ ext))"
    using enrollment_get_by_student_stored[OF assms(1,2)] by blast
  obtain m1 g1 where dd: "enr_load_dropdowns (Some d) enrollment_dialog_setup = (m1, g1)" by fastforce
  have g1: "m1 = None" "ed_grade g1 = 0" "ed_letter g1 = combo_of_texts ['''', ''A'', ''B'', ''C'', ''D'', ''F'']" "ed_note g1 = []"
    using enr_load_dropdowns_db[of d enrollment_dialog_setup] unfolding dd by (simp_all add: enrollment_dialog_setup_def)
  note ld = enr_load_data_stored[OF es go g1(2-4)]
  obtain m2 g2 where lg: "enr_load_data (Some d) (enr_student e) (enr_class e) g1 = (m2, g2)" by fastforce
  have op: "enrollment_dialog_open (Some d) True (enr_student e) (enr_class e) = ([], g2)"
    using ld assms(3,4) by (simp add: enrollment_dialog_open_def dd lg g1(1) opt_list_def)
  let ?f = "enrollment_dialog_form g2"
  have fg: "ef_grade ?f = (case enr_grade e of None \<Rightarrow> 0 | Some r \<Rightarrow> qt_round2 r)"
    using ld by (simp add: enrollment_dialog_form_def lg)
  have gr: "0 \<le> ef_grade ?f \<and> ef_grade ?f \<le> 10"
    using go qt_round2_range by (auto simp: fg grade_ok_def split: option.splits)
  have sv: "enrollment_dialog_save True (enr_student e) (enr_class e) (Some d) ?f =
    (Information ''Enrollment updated successfully!'', True,
     Some (d\<lparr>db_enrollments := map (enr_set (enr_student e, enr_class e) (if 0 < ef_grade ?f then Some (ef_grade ?f) else None)
                                      (if ef_letter ?f = [] then None else Some (ef_letter ?f))
                                      (let n = py_strip (ef_note ?f) in if n = [] then None else Some n))
                                 (db_enrollments d)\<rparr>))"
  proof -
    have "grade_ok (if 0 < ef_grade ?f then Some (ef_grade ?f) else None)" using gr by (simp add: grade_ok_def)
    note wf = db_wf_enr_set[OF assms(1) this]
    show ?thesis
      unfolding enrollment_dialog_save_def Let_def if_True enrollment_update_def enrollment_dialog_data_get
      by (simp add: execute_update_def apply_write_update_enrollment checked_def wf[unfolded Let_def]
                    dlg_commit_def del: apply_write.simps)
  qed
  have a: "(if 0 < ef_grade ?f then Some (ef_grade ?f) else None) =
           (case enr_grade e of None \<Rightarrow> None | Some r \<Rightarrow> if 0 < qt_round2 r then Some (qt_round2 r) else None)"
    by (simp add: fg split: option.split)
  have b: "(if ef_letter ?f = [] then None else Some (ef_letter ?f)) =
           (case enr_letter e of None \<Rightarrow> None | Some l \<Rightarrow> if l \<in> set [''A'', ''B'', ''C'', ''D'', ''F''] then Some l else None)"
    using ld by (auto simp: enrollment_dialog_form_def lg split: option.split)
  have c: "(let n = py_strip (ef_note ?f) in if n = [] then None else Some n) =
           (case enr_note e of None \<Rightarrow> None | Some n \<Rightarrow> if py_strip n = [] then None else Some (py_strip n))"
    using ld by (simp add: enrollment_dialog_form_def lg py_strip_def split: option.split)
  show ?thesis
    using sv unfolding a b c by (simp add: op enr_key_def)
qed

end
