(* ===== verification/Examples.thy ===== *)
theory Examples
  imports Pages ServiceApp AltFrontends Export DialogLoad
begin

text \<open>
  Concrete databases and inputs, and for every property with hypotheses a closed instance
  of it: the property applied to the concrete input, each hypothesis discharged by
  evaluation. They show that the hypotheses can hold together.
\<close>

section \<open>Sample data\<close>

definition ex_student :: student where
  "ex_student = \<lparr>stu_id = 1, stu_first = ''An'', stu_last = ''Le'', stu_dob = ''2004-02-29'',
     stu_gender = ''F'', stu_address = None, stu_phone = None, stu_email = ''an@x.com'',
     stu_year = 2024, stu_major = None\<rparr>"

definition ex_db1 :: db where
  "ex_db1 = empty_db\<lparr>db_students := [ex_student]\<rparr>"

definition ex_subject :: subject where
  "ex_subject = \<lparr>sub_code = ''CS101'', sub_name = ''Intro to CS'', sub_credits = 3\<rparr>"

definition ex_db_subject :: db where
  "ex_db_subject = empty_db\<lparr>db_subjects := [ex_subject]\<rparr>"

definition ex_db_lecturer :: db where
  "ex_db_lecturer = empty_db\<lparr>db_lecturers :=
     [\<lparr>lec_id = 7, lec_first = ''Minh'', lec_last = ''Tran'', lec_email = Some ''mt@uni.edu'',
       lec_office = None\<rparr>]\<rparr>"

text \<open>A database for the reporting queries: student 1 has no enrollment, student 2 has a
  graded enrollment in a class with a lecturer and an ungraded one in a class without.\<close>

definition ex_q_students :: "student list" where
  "ex_q_students =
     [\<lparr>stu_id = 1, stu_first = ''An'', stu_last = ''Le'', stu_dob = ''2004-02-29'', stu_gender = ''F'',
       stu_address = None, stu_phone = None, stu_email = ''an@x.com'', stu_year = 2024, stu_major = None\<rparr>,
      \<lparr>stu_id = 2, stu_first = ''Binh'', stu_last = ''Vo'', stu_dob = ''2003-05-01'', stu_gender = ''M'',
       stu_address = None, stu_phone = None, stu_email = ''binh@x.com'', stu_year = 2023,
       stu_major = Some ''CS''\<rparr>]"

definition ex_qdb :: db where
  "ex_qdb =
     \<lparr>db_students = ex_q_students,
      db_subjects = [\<lparr>sub_code = ''CS101'', sub_name = ''Intro'', sub_credits = 3\<rparr>,
                     \<lparr>sub_code = ''MA201'', sub_name = ''Algebra'', sub_credits = 4\<rparr>],
      db_lecturers = [\<lparr>lec_id = 7, lec_first = ''Minh'', lec_last = ''Tran'', lec_email = None,
                       lec_office = Some ''B2''\<rparr>],
      db_classes = [\<lparr>cls_id = 10, cls_subject = ''cs101'', cls_lecturer = Some 7, cls_name = None,
                     cls_semester = ''HK1'', cls_year = 2024, cls_capacity = 40\<rparr>,
                    \<lparr>cls_id = 11, cls_subject = ''MA201'', cls_lecturer = None, cls_name = None,
                     cls_semester = ''HK2'', cls_year = 2023, cls_capacity = 40\<rparr>],
      db_enrollments = [\<lparr>enr_student = 2, enr_class = 10, enr_grade = Some (17/2), enr_letter = Some ''A'',
                         enr_note = None\<rparr>,
                        \<lparr>enr_student = 2, enr_class = 11, enr_grade = None, enr_letter = None,
                         enr_note = None\<rparr>],
      db_auto = (\<lambda>t. if t = ''students'' then 5 else 12)\<rparr>"

text \<open>The example of the specification for query 4: student 1 has 9, 9, 9; student 2 has
  4, 4; student 3 has 6, 6, 6; the global average is 6.625.\<close>

definition ex_abc_student :: "int \<Rightarrow> student" where
  "ex_abc_student i =
     \<lparr>stu_id = i, stu_first = ''S'', stu_last = ''T'', stu_dob = ''2000-01-01'', stu_gender = ''M'',
      stu_address = None, stu_phone = None, stu_email = ''s'' @ [char_of (nat (48 + i))] @ ''@x.com'',
      stu_year = 2020, stu_major = None\<rparr>"

definition ex_grade :: "int \<Rightarrow> int \<Rightarrow> rat \<Rightarrow> enrollment" where
  "ex_grade s c g = \<lparr>enr_student = s, enr_class = c, enr_grade = Some g, enr_letter = None, enr_note = None\<rparr>"

definition ex_class :: "int \<Rightarrow> cls" where
  "ex_class i = \<lparr>cls_id = i, cls_subject = ''CS101'', cls_lecturer = None, cls_name = None,
     cls_semester = ''HK1'', cls_year = 2024, cls_capacity = 40\<rparr>"

definition ex_abc :: db where
  "ex_abc = \<lparr>db_students = map ex_abc_student [1, 2, 3], db_subjects = [ex_subject],
     db_lecturers = [], db_classes = map ex_class [1, 2, 3],
     db_enrollments = [ex_grade 1 1 9, ex_grade 1 2 9, ex_grade 1 3 9, ex_grade 2 1 4, ex_grade 2 2 4,
                       ex_grade 3 1 6, ex_grade 3 2 6, ex_grade 3 3 6], db_auto = (\<lambda>_. 4)\<rparr>"

text \<open>A borderline case of query 4: student 1 has 6.20, 6.20, 6.21 (average 6.2033...),
  student 2 has 6.00, 6.41; the global average 6.204 rounds to 6.20.\<close>

definition ex_border :: db where
  "ex_border = \<lparr>db_students = map ex_abc_student [1, 2], db_subjects = [ex_subject],
     db_lecturers = [], db_classes = map ex_class [1, 2, 3],
     db_enrollments = [ex_grade 1 1 (31/5), ex_grade 1 2 (31/5), ex_grade 1 3 (621/100),
                       ex_grade 2 1 6, ex_grade 2 2 (641/100)], db_auto = (\<lambda>_. 4)\<rparr>"

text \<open>The query database with only its ungraded enrollment.\<close>

definition ex_ungraded :: db where
  "ex_ungraded = ex_qdb\<lparr>db_enrollments := [last (db_enrollments ex_qdb)]\<rparr>"


text \<open>StudentDialog forms: a valid one for a student born in 2020 (the dialog has no age
  check), and one whose email differs from a stored one only in case.\<close>

definition ex_sd_form :: sd_form where
  "ex_sd_form = \<lparr>sd_student_id = [], sd_full_name = '' Tran  Thi Mai '', sd_address = [],
     sd_phone = ''+84 912-345'', sd_email = ''mai@x.com'', sd_dob = (2020, 1, 1), sd_gender = ''Female'',
     sd_major = ''CS''\<rparr>"

definition ex_sd_dup :: sd_form where
  "ex_sd_dup = ex_sd_form\<lparr>sd_email := ''AN@x.com''\<rparr>"

text \<open>An EnrollmentDialog left at grade 0 (shown as "Not graded").\<close>

definition ex_ef_zero :: enrollment_form where
  "ex_ef_zero = \<lparr>ef_student = PInt 2, ef_class = PInt 10, ef_grade = 0, ef_letter = [], ef_note = ''  ''\<rparr>"


text \<open>An EnrollmentsPage whose selected row names the key (2, 9), which no enrollment of the
  query database has.\<close>

definition ex_stale_page :: page where
  "ex_stale_page = \<lparr>pg_rows = [[''2'', ''Binh Vo'', ''9'', ''Intro'']], pg_sel = Some 0, pg_status = []\<rparr>"

text \<open>Query pages: an empty result table, a Query1Page whose combo already lists the subjects and
  shows the rows of one of them, and an empty dashboard.\<close>

definition ex_qpage :: qpage where
  "ex_qpage = \<lparr>qp_headers = [], qp_cells = [], qp_status = []\<rparr>"

definition ex_q1_page :: q1_page where
  "ex_q1_page = \<lparr>q1_combo = [(''All Subjects'', PNone), (''CS101 - Intro'', PStr ''CS101''),
                                (''PH100 - Physics'', PStr ''PH100'')],
     q1_index = 1,
     q1_table = \<lparr>qp_headers = [''StudentID''], qp_cells = [[''2'']], qp_status = ''Found 1 records''\<rparr>\<rparr>"

definition ex_dash :: dash_page where
  "ex_dash = \<lparr>dp_kpi = [], dp_chart = [], dp_top = []\<rparr>"

text \<open>Frontend.py: the query database as the window shows it, with the first row selected; and
  the same students with a phone and a major, so that an edit can be saved.\<close>

definition ex_fe :: fe_window where
  "ex_fe = \<lparr>fe_connected = True, fe_snap = Some ex_qdb, fe_rows = fe_table ex_qdb [], fe_sel = Some 0\<rparr>"

definition ex_fe_db :: db where
  "ex_fe_db = ex_qdb\<lparr>db_students := map (\<lambda>s. s\<lparr>stu_phone := Some ''0900000000'', stu_major := Some ''CS''\<rparr>)
                                       ex_q_students\<rparr>"

definition ex_fe2 :: fe_window where
  "ex_fe2 = \<lparr>fe_connected = True, fe_snap = Some ex_fe_db, fe_rows = fe_table ex_fe_db [], fe_sel = Some 0\<rparr>"

text \<open>Two lecturers without email, the first with an office.\<close>

definition ex_lec_a :: lecturer where
  "ex_lec_a = \<lparr>lec_id = 1, lec_first = ''An'', lec_last = ''Le'', lec_email = None, lec_office = Some ''B201''\<rparr>"

definition ex_lec_b :: lecturer where
  "ex_lec_b = \<lparr>lec_id = 2, lec_first = ''Binh'', lec_last = ''Vo'', lec_email = None, lec_office = None\<rparr>"

definition ex_db_lecs :: db where
  "ex_db_lecs = empty_db\<lparr>db_lecturers := [ex_lec_a, ex_lec_b]\<rparr>"

definition ex_db_lecs1 :: db where
  "ex_db_lecs1 = empty_db\<lparr>db_lecturers := [ex_lec_a\<lparr>lec_email := Some []\<rparr>, ex_lec_b]\<rparr>"

definition ex_lf :: lecturer_form where
  "ex_lf = \<lparr>lf_first = [], lf_last = [], lf_email = [], lf_office = []\<rparr>"

text \<open>A table widget with a header item missing in the second column, one cell holding a
  comma and one missing item.\<close>

definition ex_qt :: qtable where
  "ex_qt = \<lparr>qt_headers = [Some ''Name'', None], qt_items = [[Some ''Le, An'', None]]\<rparr>"

text \<open>One class of subject CS101 in semester S1, without lecturer or name.\<close>

definition ex_class_s1 :: cls where
  "ex_class_s1 = (ex_class 1)\<lparr>cls_semester := ''S1''\<rparr>"

definition ex_db_class :: db where
  "ex_db_class = empty_db\<lparr>db_subjects := [ex_subject], db_classes := [ex_class_s1]\<rparr>"

definition ex_db_class1 :: db where
  "ex_db_class1 = empty_db\<lparr>db_subjects := [ex_subject], db_classes := [ex_class_s1\<lparr>cls_name := Some []\<rparr>]\<rparr>"

text \<open>Student 1 enrolled in class 1 of \<open>ex_db_class\<close> with grade 7.25, letter A+ and a
  padded note; after an unchanged edit the letter is gone and the note stripped.\<close>

definition ex_enr :: enrollment where
  "ex_enr = \<lparr>enr_student = 1, enr_class = 1, enr_grade = Some (29/4), enr_letter = Some ''A+'',
     enr_note = Some '' late ''\<rparr>"

definition ex_db_enr :: db where
  "ex_db_enr = ex_db_class\<lparr>db_students := [ex_student], db_enrollments := [ex_enr]\<rparr>"

definition ex_db_enr1 :: db where
  "ex_db_enr1 = ex_db_class\<lparr>db_students := [ex_student],
     db_enrollments := [ex_enr\<lparr>enr_letter := None, enr_note := Some ''late''\<rparr>]\<rparr>"

section \<open>Witnesses of the validator properties\<close>

theorem validate_email_duplicate_witness:
  "ex_student \<in> set (db_students ex_db1) \<and> sql_str_eq (stu_email ex_student) ''AN@X.COM'' \<and>
   email_match ''AN@X.COM'' \<and>
   validate_email (Some ex_db1) (PStr ''AN@X.COM'') ''students'' PNone =
     Inl (ValidationError ''Email already exists in the system.'')"
proof -
  have h1: "ex_student \<in> set (db_students ex_db1)" by (simp add: ex_db1_def empty_db_def)
  have h2: "sql_str_eq (stu_email ex_student) ''AN@X.COM''" by code_simp
  have h3: "email_match ''AN@X.COM''" by code_simp
  have h4: "PNone = PNone \<or> (\<exists>j. PNone = PInt j \<and> j \<noteq> stu_id ex_student)" by simp
  show ?thesis using validate_email_duplicate[OF h1 h2 h3 h4] h1 h2 h3 by simp
qed

theorem validate_email_keeps_own_witness:
  "ex_student \<in> set (db_students ex_db1) \<and> email_match (stu_email ex_student) \<and>
   validate_email (Some ex_db1) (PStr ''an@x.com'') ''students'' (PInt 1) = Inr ''an@x.com''"
proof -
  have h1: "db_wf ex_db1" by code_simp
  have h2: "ex_student \<in> set (db_students ex_db1)" by (simp add: ex_db1_def empty_db_def)
  have h3: "email_match (stu_email ex_student)" by code_simp
  show ?thesis using validate_email_keeps_own[OF h1 h2 h3] h2 h3 by (simp add: ex_student_def)
qed

theorem validate_email_storage_down_witness:
  "email_match ''an@x.com'' \<and> validate_email None (PStr ''an@x.com'') ''students'' PNone = Inr ''an@x.com''"
proof -
  have h: "email_match ''an@x.com''" by code_simp
  show ?thesis using validate_email_storage_down[OF h] h by simp
qed

theorem validate_email_lecturers_unchecked_witness:
  "email_match ''mt@uni.edu'' \<and>
   validate_email (Some ex_db_lecturer) (PStr ''mt@uni.edu'') ''lecturers'' PNone = Inr ''mt@uni.edu''"
proof -
  have h: "email_match ''mt@uni.edu''" by code_simp
  show ?thesis using validate_email_lecturers_unchecked[OF h] h by simp
qed

theorem validate_subject_code_fresh_witness:
  "subject_code_match (py_upper (py_strip '' cs101 '')) \<and>
   validate_subject_code (Some empty_db) (PStr '' cs101 '') True = Inr ''CS101''"
proof -
  have h1: "subject_code_match (py_upper (py_strip '' cs101 ''))" by code_simp
  have h2: "\<forall>u \<in> set (db_subjects empty_db). \<not> sql_str_eq (sub_code u) (py_upper (py_strip '' cs101 ''))"
    by (simp add: empty_db_def)
  have e: "py_upper (py_strip '' cs101 '') = ''CS101''" by code_simp
  show ?thesis using validate_subject_code_fresh[OF h1 h2] h1 e by simp
qed

theorem validate_subject_code_duplicate_witness:
  "subject_code_match (py_upper (py_strip ''cs101'')) \<and> ex_subject \<in> set (db_subjects ex_db_subject) \<and>
   sql_str_eq (sub_code ex_subject) (py_upper (py_strip ''cs101'')) \<and>
   validate_subject_code (Some ex_db_subject) (PStr ''cs101'') True =
     Inl (ValidationError ''SubjectCode already exists in the system.'')"
proof -
  have h1: "subject_code_match (py_upper (py_strip ''cs101''))" by code_simp
  have h2: "ex_subject \<in> set (db_subjects ex_db_subject)" by (simp add: ex_db_subject_def empty_db_def)
  have h3: "sql_str_eq (sub_code ex_subject) (py_upper (py_strip ''cs101''))" by code_simp
  show ?thesis by (intro conjI h1 h2 h3 validate_subject_code_duplicate[OF h1 h2 h3])
qed

theorem validate_grade_result_witness:
  "validate_grade 0 10 (PStr ''7.555'') = Inr (Some (Fin (189/25))) \<and>
   (Fin (189/25) = NaN \<or> (\<exists>r. Fin (189/25) = Fin r \<and> 0 \<le> r \<and> r \<le> 10 \<and> (\<exists>k. r = of_int k / 100)))"
proof -
  have h: "validate_grade 0 10 (PStr ''7.555'') = Inr (Some (Fin (189/25)))" by code_simp
  show ?thesis using validate_grade_result[OF h] h by blast
qed


section \<open>Witnesses of the query properties\<close>

theorem query_all_students_rows_witness:
  "\<exists>rows. query_all_students_with_grades (Some ex_qdb) = Inr rows \<and>
     length (filter (\<lambda>r. sg_sid r = 1) rows) = 1 \<and> length (filter (\<lambda>r. sg_sid r = 2) rows) = 2"
proof -
  have wf: "db_wf ex_qdb" by code_simp
  have m1: "hd ex_q_students \<in> set (db_students ex_qdb)" and m2: "ex_q_students ! 1 \<in> set (db_students ex_qdb)"
    by (simp_all add: ex_qdb_def ex_q_students_def)
  have r: "query_all_students_with_grades (Some ex_qdb) = Inr (sort_key q2_key (q2_rows ex_qdb))"
    by (simp add: query_all_students_with_grades_def logged_query_def execute_query_def)
  have k1: "length (filter (\<lambda>e. enr_student e = stu_id (hd ex_q_students)) (db_enrollments ex_qdb)) = 0"
    and k2: "length (filter (\<lambda>e. enr_student e = stu_id (ex_q_students ! 1)) (db_enrollments ex_qdb)) = 2"
    and i: "stu_id (hd ex_q_students) = 1" "stu_id (ex_q_students ! 1) = 2"
    by (simp_all add: ex_qdb_def ex_q_students_def)
  show ?thesis
    using query_all_students_rows[OF wf m1 r] query_all_students_rows[OF wf m2 r] r k1 k2 i by auto
qed

theorem query_student_grades_rows_witness:
  "\<exists>rows. query_student_grades_by_subject (Some ex_qdb) (Some ''CS101'') = Inr rows \<and>
     mset (map q1_proj rows) = {#(2, 10, Some (17/2), Some ''A'')#}"
proof -
  have wf: "db_wf ex_qdb" by code_simp
  have r: "query_student_grades_by_subject (Some ex_qdb) (Some ''CS101'') =
      Inr (sort_key q1_key (q1_join ex_qdb (Some ''CS101'')))"
    by (simp add: query_student_grades_by_subject_def logged_query_def execute_query_def)
  have s: "map enr_proj (filter (\<lambda>e. \<exists>c \<in> set (db_classes ex_qdb).
       cls_id c = enr_class e \<and> code_filter (Some ''CS101'') (cls_subject c)) (db_enrollments ex_qdb)) =
     [(2, 10, Some (17/2), Some ''A'')]"
    by code_simp
  show ?thesis using query_student_grades_rows[OF wf r] r s by auto
qed

theorem query_complete_enrollment_refines_witness:
  "\<exists>rows. query_complete_enrollment_info (Some ex_qdb) None None (Some 7) None None = Inr rows \<and>
     mset (map q3_proj rows) = {#(2, 10, Some (17/2), Some ''A'', Some 7)#}"
proof -
  have wf: "db_wf ex_qdb" by code_simp
  have r: "query_complete_enrollment_info (Some ex_qdb) None None (Some 7) None None =
      Inr (sort_key q3_key (concat (map (q3_block ex_qdb None None (Some 7) None None) (db_enrollments ex_qdb))))"
    by (simp add: query_complete_enrollment_info_def logged_query_def execute_query_def)
  have s: "q3_spec ex_qdb None None (Some 7) None None = [(2, 10, Some (17/2), Some ''A'', Some 7)]"
    by code_simp
  show ?thesis using query_complete_enrollment_refines[OF wf r] r s by auto
qed

theorem query_students_above_average_rows_witness:
  "\<exists>rows. query_students_above_average (Some ex_abc) 3 = Inr rows \<and> 1 \<in> aa_sid ` set rows"
proof -
  have wf: "db_wf ex_abc" by code_simp
  have m: "ex_abc_student 1 \<in> set (db_students ex_abc)" by (simp add: ex_abc_def)
  have r: "query_students_above_average (Some ex_abc) 3 = Inr (sort_key q4_key (q4_rows ex_abc 3))"
    by (simp add: query_students_above_average_def logged_query_def execute_query_def)
  have g: "student_grades ex_abc (ex_abc_student 1) = [9, 9, 9]" "global_avg ex_abc = Some (663/100)"
    by code_simp+
  have a: "avg [9, 9, 9] = 9" by (simp add: avg_def)
  have i: "stu_id (ex_abc_student 1) = 1" by (simp add: ex_abc_student_def)
  have c: "\<exists>g. global_avg ex_abc = Some g \<and> g < avg (student_grades ex_abc (ex_abc_student 1))"
    using g a by (intro exI[of _ "663/100"]) simp
  have "stu_id (ex_abc_student 1) \<in> aa_sid ` set (sort_key q4_key (q4_rows ex_abc 3))"
    using query_students_above_average_rows[OF wf m r] c g(1) by simp
  then show ?thesis using r i by auto
qed

theorem query_students_above_average_no_grades_witness:
  "grades_of (db_enrollments ex_ungraded) = [] \<and> query_students_above_average (Some ex_ungraded) 1 = Inr []"
proof -
  have h: "grades_of (db_enrollments ex_ungraded) = []"
    by (simp add: ex_ungraded_def ex_qdb_def grades_of_def opt_list_def)
  show ?thesis using query_students_above_average_no_grades[OF h] h by simp
qed

theorem dashboard_kpis_no_grades_witness:
  "grades_of (db_enrollments ex_db1) = [] \<and>
   (\<exists>k. get_dashboard_kpis (Some ex_db1) = Some k \<and> avg_grade k = None \<and> pass_rate k = None)"
proof -
  have h: "grades_of (db_enrollments ex_db1) = []" by (simp add: ex_db1_def empty_db_def grades_of_def)
  show ?thesis using dashboard_kpis_no_grades[OF h] h by auto
qed

theorem dashboard_kpis_bounds_witness:
  "get_dashboard_kpis (Some ex_abc) = Some (dashboard ex_abc) \<and> avg_grade (dashboard ex_abc) \<noteq> None \<and>
   (case pass_rate (dashboard ex_abc) of None \<Rightarrow> True | Some p \<Rightarrow> 0 \<le> p \<and> p \<le> 100)"
proof -
  have wf: "db_wf ex_abc" by code_simp
  have r: "get_dashboard_kpis (Some ex_abc) = Some (dashboard ex_abc)"
    by (simp add: get_dashboard_kpis_def execute_query_one_def)
  have a: "avg_grade (dashboard ex_abc) = Some (663/100)" by code_simp
  show ?thesis using dashboard_kpis_bounds[OF wf r] r a by simp
qed

theorem query_top_students_rows_witness:
  "\<exists>rows. query_top_students (Some ex_abc) 2 1 = Some rows \<and> length rows \<le> 2 \<and>
     sorted (map (\<lambda>r. Desc (ts_avg r)) rows)"
proof -
  have wf: "db_wf ex_abc" by code_simp
  have r: "query_top_students (Some ex_abc) 2 1 = Some (take 2 (sort_key (\<lambda>r. Desc (ts_avg r)) (top_rows ex_abc 1)))"
    by (simp add: query_top_students_def)
  show ?thesis using query_top_students_rows[OF wf r] r by auto
qed

section \<open>Query 4 on concrete data\<close>

text \<open>on the specification's example (grades 9, 9, 9; 4, 4; 6, 6, 6 and min_classes 3), query 4 returns only the first student, with average 9, global average 6.63 and 3 classes.\<close>

theorem query_students_above_average_spec_example:
  "map_sum id (map (\<lambda>r. (aa_sid r, aa_avg r, aa_global r, aa_total r)))
     (query_students_above_average (Some ex_abc) 3) = Inr [(1, 9, Some (663/100), 3)]"
  by code_simp

text \<open>Query 4 admits a student whose raw average (6.2033) is below the true global average (6.204), because the global average is rounded to 6.20 before the comparison; the row shows StudentAvg = GlobalAvg = 6.20 and DifferenceFromAvg = 0.\<close>

theorem query_students_above_average_borderline:
  "avg (student_grades ex_border (ex_abc_student 1)) = 1861/300 \<and>
   avg (grades_of (db_enrollments ex_border)) = 1551/250 \<and> (1861/300 :: rat) < 1551/250 \<and>
   map_sum id (map (\<lambda>r. (aa_sid r, aa_avg r, aa_global r, aa_diff r)))
     (query_students_above_average (Some ex_border) 3) = Inr [(1, 31/5, Some (31/5), Some 0)]"
  by code_simp

section \<open>Witnesses of the write and repository properties\<close>

theorem student_delete_cascade_witness:
  "\<exists>d'. student_delete (Some ex_qdb) (PInt 2) = Inr (1, d') \<and>
        db_students d' = [hd ex_q_students] \<and> db_enrollments d' = []"
proof -
  have wf: "db_wf ex_qdb" by code_simp
  have m: "ex_q_students ! 1 \<in> set (db_students ex_qdb)" by (simp add: ex_qdb_def ex_q_students_def)
  show ?thesis
    using student_delete_cascade[OF wf m] by (simp add: ex_qdb_def ex_q_students_def)
qed

theorem student_search_infix_witness:
  "student_search (Some ex_qdb) ''BIN'' None = Some [student_row (ex_q_students ! 1)]"
proof -
  have h: "no_wildcard (coll ''BIN'')" by code_simp
  have e: "sort_key (\<lambda>r. order_key (dict_get r ''StudentID''))
       (map student_row (filter (\<lambda>s. sublist (coll ''BIN'') (coll (stu_first s)) \<or> sublist (coll ''BIN'') (coll (stu_last s)) \<or>
                                      sublist (coll ''BIN'') (coll (stu_email s))) (db_students ex_qdb))) =
     [student_row (ex_q_students ! 1)]"
    by code_simp
  show ?thesis using student_search_infix[OF h, of ex_qdb] e by simp
qed

theorem student_list_page_witness:
  "\<exists>rs. student_list (Some ex_qdb) 5 1 ''LastName'' = Some rs \<and> length rs = 1"
proof -
  obtain rs where eq: "student_list (Some ex_qdb) 5 1 ''LastName'' = Some rs"
    by (simp add: student_list_def query_all_def student_cols_def)
  show ?thesis using student_list_page[OF eq] eq by (simp add: ex_qdb_def ex_q_students_def)
qed

theorem subject_delete_restrict_witness:
  "hd (db_classes ex_qdb) \<in> set (db_classes ex_qdb) \<and> sql_str_eq (cls_subject (hd (db_classes ex_qdb))) ''CS101'' \<and>
   subject_delete (Some ex_qdb) (PStr ''CS101'') = Inl (IntegrityError ''a foreign key constraint fails'')"
proof -
  have wf: "db_wf ex_qdb" by code_simp
  have m: "hd (db_classes ex_qdb) \<in> set (db_classes ex_qdb)" by (simp add: ex_qdb_def)
  have e: "sql_str_eq (cls_subject (hd (db_classes ex_qdb))) ''CS101''" by code_simp
  show ?thesis using subject_delete_restrict[OF wf m e] m e by simp
qed


section \<open>Witnesses of the dialog properties\<close>

theorem sd_add_student_ok_witness:
  "sd_add_student True ex_qdb ex_sd_form =
     Inr (Information (''Student '' @ [CHR 0x27] @ ''Tran  Thi Mai'' @ [CHR 0x27] @ '' added successfully!''), True,
          ex_qdb\<lparr>db_students := db_students ex_qdb @ [sd_record sd_gender_map_add 5 ex_sd_form],
                 db_auto := (db_auto ex_qdb)(''students'' := 6)\<rparr>) \<and>
   stu_first (sd_record sd_gender_map_add 5 ex_sd_form) = ''Tran'' \<and>
   stu_last (sd_record sd_gender_map_add 5 ex_sd_form) = ''Thi Mai'' \<and>
   stu_year (sd_record sd_gender_map_add 5 ex_sd_form) = 2038"
proof -
  have wf: "db_wf ex_qdb" by code_simp
  have au: "auto_ok ex_qdb" by (simp add: auto_ok_def ex_qdb_def ex_q_students_def)
  have "case sd_add_fields ex_sd_form of Inr _ \<Rightarrow> True | Inl _ \<Rightarrow> False" by code_simp
  then obtain kvs where f: "sd_add_fields ex_sd_form = Inr kvs" by (auto split: sum.splits)
  have fresh: "\<forall>s \<in> set (db_students ex_qdb). \<not> sql_str_eq (stu_email s) (py_strip (sd_email ex_sd_form))"
    by code_simp
  have n: "db_auto ex_qdb ''students'' = 5"
    by (simp add: ex_qdb_def)
  have s: "py_strip (sd_full_name ex_sd_form) = ''Tran  Thi Mai''" by code_simp
  have r: "stu_first (sd_record sd_gender_map_add 5 ex_sd_form) = ''Tran'' \<and>
      stu_last (sd_record sd_gender_map_add 5 ex_sd_form) = ''Thi Mai'' \<and>
      stu_year (sd_record sd_gender_map_add 5 ex_sd_form) = 2038" by code_simp
  show ?thesis using sd_add_student_ok[OF wf au f fresh] n s r by simp
qed

theorem sd_add_student_duplicate_witness:
  "hd (db_students ex_qdb) \<in> set (db_students ex_qdb) \<and>
   sql_str_eq (stu_email (hd (db_students ex_qdb))) (py_strip (sd_email ex_sd_dup)) \<and>
   sd_add_student True ex_qdb ex_sd_dup = Inr (Warning ''Email already exists in the database!'', False, ex_qdb)"
proof -
  have "case sd_add_fields ex_sd_dup of Inr _ \<Rightarrow> True | Inl _ \<Rightarrow> False" by code_simp
  then obtain kvs where f: "sd_add_fields ex_sd_dup = Inr kvs" by (auto split: sum.splits)
  have m: "hd (db_students ex_qdb) \<in> set (db_students ex_qdb)" by (simp add: ex_qdb_def ex_q_students_def)
  have e: "sql_str_eq (stu_email (hd (db_students ex_qdb))) (py_strip (sd_email ex_sd_dup))" by code_simp
  show ?thesis using sd_add_student_duplicate[OF f m e] m e by simp
qed

theorem enrollment_dialog_edit_witness:
  "enrollment_dialog_save True 2 10 (Some ex_qdb) ex_ef_zero =
     (Information ''Enrollment updated successfully!'', True,
      Some (ex_qdb\<lparr>db_enrollments := map (enr_set (2, 10) None None None) (db_enrollments ex_qdb)\<rparr>)) \<and>
   map enr_grade (map (enr_set (2, 10) None None None) (db_enrollments ex_qdb)) = [None, None]"
proof -
  have wf: "db_wf ex_qdb" by code_simp
  have g: "0 \<le> ef_grade ex_ef_zero" "ef_grade ex_ef_zero \<le> 10" by (simp_all add: ex_ef_zero_def)
  have n: "py_strip (ef_note ex_ef_zero) = []" by code_simp
  have m: "map enr_grade (map (enr_set (2, 10) None None None) (db_enrollments ex_qdb)) = [None, None]"
    by (simp add: ex_qdb_def enr_set_def enr_key_def)
  show ?thesis using enrollment_dialog_edit[OF wf g, of 2 10] n m by (simp add: ex_ef_zero_def)
qed

theorem subject_dialog_edit_unchanged_witness:
  "subject_dialog_save True ''CS101'' (Some ex_qdb)
     (snd (subject_dialog_load (Some ex_qdb) ''CS101'' \<lparr>sf_code = [], sf_name = [], sf_credits = 3\<rparr>)) =
   (Information ''Subject updated successfully!'', True, Some ex_qdb)"
proof -
  have wf: "db_wf ex_qdb" by code_simp
  have m: "hd (db_subjects ex_qdb) \<in> set (db_subjects ex_qdb)" by (simp add: ex_qdb_def)
  have c: "1 \<le> sub_credits (hd (db_subjects ex_qdb))" "sub_credits (hd (db_subjects ex_qdb)) \<le> 10"
    by (simp_all add: ex_qdb_def)
  have k: "sub_code (hd (db_subjects ex_qdb)) = ''CS101''" by (simp add: ex_qdb_def)
  show ?thesis using subject_dialog_edit_unchanged[OF wf m c, of "\<lparr>sf_code = [], sf_name = [], sf_credits = 3\<rparr>"] k
    by simp
qed


section \<open>Witnesses of the page and application properties\<close>

theorem gui_reach_no_new_rows_witness:
  "gui_reach True ex_qdb ((snd (main_window True ex_qdb))\<lparr>gs_up := False\<rparr>) \<and>
   length (db_subjects (gs_db ((snd (main_window True ex_qdb))\<lparr>gs_up := False\<rparr>))) \<le> 2"
proof -
  let ?s = "(snd (main_window True ex_qdb))\<lparr>gs_up := False\<rparr>"
  have r: "gui_reach True ex_qdb ?s"
    using gui_reach.step[OF gui_reach.start, of True ex_qdb "Server False" "[]" ?s] by (simp add: gui_step_def)
  show ?thesis using gui_reach_no_new_rows[OF r] r by (simp add: ex_qdb_def)
qed

theorem students_delete_selected_witness:
  "snd (snd (students_on_delete True ex_qdb ((snd (students_reload (Some ex_qdb) empty_page))\<lparr>pg_sel := Some 1\<rparr>) True)) =
   ex_qdb\<lparr>db_students := [hd ex_q_students], db_enrollments := []\<rparr>"
proof -
  have wf: "db_wf ex_qdb" by code_simp
  have rows: "pg_rows (snd (students_reload (Some ex_qdb) empty_page)) = [[''1'', ''An'', ''Le''], [''2'', ''Binh'', ''Vo'']]"
    by code_simp
  have k: "1 < length (pg_rows (snd (students_reload (Some ex_qdb) empty_page)))" by (simp add: rows)
  obtain s where s: "s \<in> set (db_students ex_qdb)"
    and c: "pg_rows (snd (students_reload (Some ex_qdb) empty_page)) ! 1 ! 0 = py_str_int (stu_id s)"
    and r: "snd (snd (students_on_delete True ex_qdb ((snd (students_reload (Some ex_qdb) empty_page))\<lparr>pg_sel := Some 1\<rparr>) True)) =
              ex_qdb\<lparr>db_students := filter (\<lambda>x. stu_id x \<noteq> stu_id s) (db_students ex_qdb),
                     db_enrollments := filter (\<lambda>e. enr_student e \<noteq> stu_id s) (db_enrollments ex_qdb)\<rparr>"
    using students_delete_selected[OF wf k] by blast
  have two: "py_str_int 2 = ''2''" by code_simp
  have "py_str_int (stu_id s) = py_str_int 2" using c by (simp add: rows two)
  then have "stu_id s = 2" using py_int_str_int[of "stu_id s"] py_int_str_int[of 2] by simp
  then show ?thesis using r by (simp add: ex_qdb_def ex_q_students_def)
qed

theorem enrollments_delete_no_row_witness:
  "enrollments_on_delete True ex_qdb ex_stale_page True =
   (Information ''Enrollment deleted successfully!'' # fst (enrollments_load (Some ex_qdb) ex_stale_page),
    snd (enrollments_load (Some ex_qdb) ex_stale_page), ex_qdb)"
proof -
  have wf: "db_wf ex_qdb" by code_simp
  have a: "selected ex_stale_page 0 = Some (py_str_int 2)" "selected ex_stale_page 2 = Some (py_str_int 9)"
    by code_simp+
  have b: "(2, 9) \<notin> enr_key ` set (db_enrollments ex_qdb)" by (simp add: ex_qdb_def enr_key_def)
  show ?thesis using enrollments_delete_no_row[OF wf a b] .
qed


section \<open>Witnesses of the second application's properties\<close>

theorem enroll_refines_witness:
  "enrollment_service_enroll (Some ex_abc) (PInt 2) (PInt 3) (opt_num (Some 7)) (opt_str None) (opt_str None) =
     enroll_spec ex_abc 2 3 (Some 7) None None \<and>
   enroll_spec ex_abc 2 3 (Some 7) None None =
     Inr (True, ex_abc\<lparr>db_enrollments := db_enrollments ex_abc @ [ex_grade 2 3 7]\<rparr>)"
proof -
  have wf: "db_wf ex_abc" by code_simp
  have s: "enroll_spec ex_abc 2 3 (Some 7) None None =
      Inr (True, ex_abc\<lparr>db_enrollments := db_enrollments ex_abc @ [ex_grade 2 3 7]\<rparr>)"
    by (simp add: enroll_spec_def ex_abc_def ex_grade_def ex_class_def ex_abc_student_def grade_ok_def enr_key_def)
  show ?thesis using enroll_refines[OF wf] s by simp
qed

theorem demo_enrolls_witness:
  "1 \<in> cls_id ` set (db_classes ex_abc) \<and> coll (stu_email (hd (db_students ex_abc))) \<noteq> coll ''demo@x.com'' \<and>
   (\<exists>d'. demo_run (Some ex_abc) ''demo@x.com'' = Inr d' \<and>
     last (db_enrollments d') = \<lparr>enr_student = 4, enr_class = 1, enr_grade = Some (17/2), enr_letter = Some ''B'',
                                 enr_note = Some ''Good''\<rparr>)"
proof -
  have wf: "db_wf ex_abc" by code_simp
  have c: "1 \<in> cls_id ` set (db_classes ex_abc)" by (simp add: ex_abc_def ex_class_def)
  have e: "\<forall>s \<in> set (db_students ex_abc). coll (stu_email s) \<noteq> coll ''demo@x.com''" by code_simp
  have h: "coll (stu_email (hd (db_students ex_abc))) \<noteq> coll ''demo@x.com''" by code_simp
  have au: "auto_ok ex_abc" by (simp add: auto_ok_def ex_abc_def ex_abc_student_def ex_class_def)
  have m: "db_auto ex_abc ''students'' = 4" by (simp add: ex_abc_def)
  show ?thesis using demo_enrolls[OF wf au c e] c h by (simp add: m Let_def)
qed

theorem class_create_default_capacity_witness:
  "ex_subject \<in> set (db_subjects ex_abc) \<and> sql_str_eq ''cs101'' (sub_code ex_subject) \<and>
   class_model_create (Some ex_abc) [(''subject_code'', PStr ''cs101''), (''semester'', PStr ''HK2''), (''year'', PInt 2025)] =
   Inr (4, ex_abc\<lparr>db_classes := db_classes ex_abc @
     [\<lparr>cls_id = 4, cls_subject = ''cs101'', cls_lecturer = None, cls_name = None, cls_semester = ''HK2'',
       cls_year = 2025, cls_capacity = 60\<rparr>], db_auto := (db_auto ex_abc)(''classes'' := 5)\<rparr>)"
proof -
  have wf: "db_wf ex_abc" by code_simp
  have u: "ex_subject \<in> set (db_subjects ex_abc)" by (simp add: ex_abc_def)
  have q: "sql_str_eq ''cs101'' (sub_code ex_subject)" by code_simp
  have au: "auto_ok ex_abc" by (simp add: auto_ok_def ex_abc_def ex_abc_student_def ex_class_def)
  have m: "db_auto ex_abc ''classes'' = 4" by (simp add: ex_abc_def)
  have x: "\<exists>x \<in> set (db_subjects ex_abc). sql_str_eq ''cs101'' (sub_code x)" using u q by blast
  show ?thesis using class_create_default_capacity[OF wf au x] u q by (simp add: m Let_def)
qed

section \<open>Witnesses of the query page properties\<close>

theorem query2_zero_blank_witness:
  "hd ex_q_students \<in> set (db_students ex_qdb) \<and>
   (\<exists>p'. query2_load (Some ex_qdb) ex_qpage = (None, p') \<and>
         [''1'', ''An'', ''Le'', ''an@x.com'', [], [], [], [], [], [], [], []] \<in> set (qp_cells p'))"
proof -
  have wf: "db_wf ex_qdb" by code_simp
  have m: "hd ex_q_students \<in> set (db_students ex_qdb)" by (simp add: ex_qdb_def ex_q_students_def)
  have n: "\<forall>e \<in> set (db_enrollments ex_qdb). enr_student e \<noteq> stu_id (hd ex_q_students)" by code_simp
  have r: "map (cell_text \<circ> snd) (sg_row_dict (mk_sg_row 0 (hd ex_q_students, None, None))) =
      [''1'', ''An'', ''Le'', ''an@x.com'', [], [], [], [], [], [], [], []]" by code_simp
  show ?thesis using query2_zero_blank[OF wf m n, of ex_qpage] m by (simp only: r) blast
qed

theorem query1_stale_rows_witness:
  "length (q1_combo ex_q1_page) \<noteq> 1 \<and> snd (q1_combo ex_q1_page ! 2) = PStr ''PH100'' \<and>
   q1_join ex_qdb (Some ''PH100'') = [] \<and>
   qp_cells (q1_table (snd (query1_select (Some ex_qdb) 2 ex_q1_page))) = [[''2'']]"
proof -
  have a: "length (q1_combo ex_q1_page) \<noteq> 1" "snd (q1_combo ex_q1_page ! 2) = PStr ''PH100''"
    by (simp_all add: ex_q1_page_def)
  have b: "q1_join ex_qdb (Some ''PH100'') = []" by code_simp
  show ?thesis using query1_stale_rows[OF a b] a b by (simp add: ex_q1_page_def)
qed

theorem dashboard_no_grades_text_witness:
  "grades_of (db_enrollments ex_db1) = [] \<and>
   dp_kpi (dashboard_load (Some ex_db1) ex_dash) = [''1'', ''0'', ''0'', ''None'', ''None%'']"
proof -
  have g: "grades_of (db_enrollments ex_db1) = []" by (simp add: ex_db1_def empty_db_def grades_of_def)
  have n: "py_str_int (int (length (db_students ex_db1))) = ''1''"
          "py_str_int (int (length (db_subjects ex_db1))) = ''0''"
          "py_str_int (int (length (db_classes ex_db1))) = ''0''" by code_simp+
  show ?thesis using dashboard_no_grades_text[OF g, of ex_dash] g by (simp only: n)
qed

theorem dashboard_top_ranks_witness:
  "length (dp_top (dashboard_load (Some ex_abc) ex_dash)) = 3 \<and>
   hd (dp_top (dashboard_load (Some ex_abc) ex_dash) ! 2) = ''3''"
proof -
  have l: "length (dp_top (dashboard_load (Some ex_abc) ex_dash)) = 3" by code_simp
  have t: "py_str_int (int 2 + 1) = ''3''" by code_simp
  show ?thesis using dashboard_top_ranks[of ex_abc ex_dash] l t by simp
qed

section \<open>Witnesses of the alternative front ends' properties\<close>

theorem frontend_edit_null_address_witness:
  "fe_sel ex_fe2 = Some 0 \<and> stu_address (hd (db_students ex_fe_db)) = None \<and>
   (\<exists>ms w' d'. fe_edit_student True ex_fe_db ex_sd_form [id] ex_fe2 = Inr (ms, w', d') \<and>
      stu_address (hd (db_students d')) = Some ''None'')"
proof -
  have a: "fe_sel ex_fe2 = Some 0" by (simp add: ex_fe2_def)
  have b: "fe_rows ex_fe2 ! 0 = map (\<lambda>c. py_str_val (dict_get (student_row (hd (db_students ex_fe_db))) c)) fe_columns"
    by code_simp
  have c: "stu_address (hd (db_students ex_fe_db)) = None" by (simp add: ex_fe_db_def ex_q_students_def)
  have e: "\<forall>e \<in> set [id]. \<forall>g. sd_address (e g) = sd_address (g::sd_form)" by simp
  have run: "case fe_edit_student True ex_fe_db ex_sd_form [id] ex_fe2 of
      Inr (ms, w', d') \<Rightarrow> db_students d' \<noteq> [] \<and> hd (db_students d') \<notin> set (db_students ex_fe_db)
    | Inl _ \<Rightarrow> False"
    by code_simp
  then obtain ms w' d' where r: "fe_edit_student True ex_fe_db ex_sd_form [id] ex_fe2 = Inr (ms, w', d')" and
    n: "db_students d' \<noteq> []" "hd (db_students d') \<notin> set (db_students ex_fe_db)"
    by (auto split: sum.splits)
  have "\<forall>x \<in> set (db_students d'). x \<notin> set (db_students ex_fe_db) \<longrightarrow> stu_address x = Some ''None''"
    by (rule frontend_edit_null_address[OF a b c e r])
  then have "stu_address (hd (db_students d')) = Some ''None''" using n by simp
  then show ?thesis using a c r by blast
qed

text \<open>Editing student 1 unchanged is accepted, and the dialog rewrites the row (Address becomes
  the text None, EnrollmentYear the birth year plus 18); the window still shows its snapshot.\<close>

theorem frontend_edit_stale_witness:
  "\<exists>ms w' d'. fe_edit_student True ex_fe_db ex_sd_form [id] ex_fe2 = Inr (ms, w', d') \<and>
     fe_rows w' = fe_table ex_fe_db [] \<and>
     stu_address (hd (db_students d')) = Some ''None'' \<and> stu_year (hd (db_students d')) = 2022"
proof -
  have c: "case fe_edit_student True ex_fe_db ex_sd_form [id] ex_fe2 of
      Inr (ms, w', d') \<Rightarrow> stu_address (hd (db_students d')) = Some ''None'' \<and> stu_year (hd (db_students d')) = 2022
    | Inl _ \<Rightarrow> False"
    by code_simp
  then obtain ms w' d' where r: "fe_edit_student True ex_fe_db ex_sd_form [id] ex_fe2 = Inr (ms, w', d')" and
    d': "stu_address (hd (db_students d')) = Some ''None'' \<and> stu_year (hd (db_students d')) = 2022"
    by (auto split: sum.splits)
  have a: "fe_connected ex_fe2" "fe_snap ex_fe2 = Some ex_fe_db" by (simp_all add: ex_fe2_def)
  have "fe_rows w' = fe_rows ex_fe2 \<or> fe_rows w' = fe_table ex_fe_db []"
    by (rule frontend_edit_stale[OF a r])
  then have "fe_rows w' = fe_table ex_fe_db []" by (auto simp: ex_fe2_def)
  then show ?thesis using r d' by blast
qed

text \<open>Editing lecturer 1 and then lecturer 2 of \<open>ex_db_lecs\<close> without changing anything.\<close>

theorem lecturer_edit_null_email_witness:
  "lecturer_dialog_save True 1 (Some ex_db_lecs) (snd (lecturer_dialog_load (Some ex_db_lecs) 1 ex_lf)) =
     (Information ''Lecturer updated successfully!'', True, Some ex_db_lecs1) \<and>
   lecturer_dialog_save True 2 (Some ex_db_lecs1) (snd (lecturer_dialog_load (Some ex_db_lecs1) 2 ex_lf)) =
     (Critical ''Failed to save: Duplicate entry'', False, Some ex_db_lecs1)"
proof -
  have d1: "ex_db_lecs\<lparr>db_lecturers := map (lec_set 1 ''An'' ''Le'' (Some []) (Some ''B201'')) (db_lecturers ex_db_lecs)\<rparr> =
      ex_db_lecs1"
    by (simp add: ex_db_lecs_def ex_db_lecs1_def ex_lec_a_def ex_lec_b_def lec_set_def)
  have wf: "db_wf ex_db_lecs"
    by (simp add: ex_db_lecs_def ex_lec_a_def ex_lec_b_def empty_db_def db_wf_defs)
  show ?thesis
    using lecturer_edit_null_email[where la=ex_lec_a and lb=ex_lec_b and d=ex_db_lecs and fa=ex_lf and fb=ex_lf] wf d1
    by (simp add: ex_db_lecs_def ex_lec_a_def ex_lec_b_def)
qed

text \<open>Exporting \<open>ex_qt\<close> to \<open>out.csv\<close> and reading the file back.\<close>

theorem mw_on_export_roundtrip_witness:
  "csv_read (snd (the (snd (mw_on_export ex_qt ''out.csv'')))) = [[''Name'', ''Column1''], [''Le, An'', []]]"
proof -
  have h: "qt_header_texts ex_qt = [''Name'', ''Column1'']" by code_simp
  have r: "qt_row_data ex_qt = [[''Le, An'', []]]" by code_simp
  have "\<exists>txt. mw_on_export ex_qt ''out.csv'' =
           ([Information (''Exported '' @ nat_str (length (qt_items ex_qt)) @ '' rows to:'' @ [CHR 0x0A] @ ''out.csv'')],
            Some (''out.csv'', txt)) \<and>
         csv_read txt = qt_header_texts ex_qt # qt_row_data ex_qt"
    by (rule mw_on_export_roundtrip) (simp_all add: ex_qt_def)
  then show ?thesis by (auto simp: h r)
qed

text \<open>Opening and saving the edit ClassDialog of class 1 of \<open>ex_db_class\<close>.\<close>

theorem class_dialog_edit_unchanged_witness:
  "fst (class_dialog_open (Some ex_db_class) True 1) = [] \<and>
   class_dialog_save True 1 (Some ex_db_class) (class_dialog_form (snd (class_dialog_open (Some ex_db_class) True 1))) =
     (Information ''Class updated successfully!'', True, Some ex_db_class1)"
proof -
  have wf: "db_wf ex_db_class"
    by (simp add: ex_db_class_def ex_class_s1_def ex_class_def ex_subject_def empty_db_def db_wf_defs sql_str_eq_def)
  have d1: "ex_db_class\<lparr>db_classes := map (\<lambda>x. if cls_id x = cls_id ex_class_s1
              then x\<lparr>cls_name := Some (case cls_name ex_class_s1 of None \<Rightarrow> [] | Some n \<Rightarrow> n)\<rparr> else x)
              (db_classes ex_db_class)\<rparr> = ex_db_class1"
    by (simp add: ex_db_class_def ex_db_class1_def ex_class_s1_def ex_class_def)
  show ?thesis
    using class_dialog_edit_unchanged[of ex_db_class ex_class_s1] wf d1
    by (simp add: ex_db_class_def ex_class_s1_def ex_class_def ex_subject_def)
qed

text \<open>Opening and saving the edit EnrollmentDialog of student 1 in class 1 of \<open>ex_db_enr\<close>.\<close>

theorem enrollment_dialog_edit_unchanged_witness:
  "fst (enrollment_dialog_open (Some ex_db_enr) True 1 1) = [] \<and>
   enrollment_dialog_save True 1 1 (Some ex_db_enr)
     (enrollment_dialog_form (snd (enrollment_dialog_open (Some ex_db_enr) True 1 1))) =
     (Information ''Enrollment updated successfully!'', True, Some ex_db_enr1)"
proof -
  have wf: "db_wf ex_db_enr"
    by (simp add: ex_db_enr_def ex_enr_def ex_student_def ex_db_class_def ex_class_s1_def ex_class_def ex_subject_def
        empty_db_def db_wf_defs sql_str_eq_def enr_key_def grade_ok_def)
  have r: "qt_round2 (29/4) = 29/4" by (simp add: qt_round2_def)
  have s: "py_strip '' late '' = ''late''" by (simp add: py_strip_def is_space_def)
  have d1: "ex_db_enr\<lparr>db_enrollments := map (enr_set (1, 1) (Some (29/4)) None (Some ''late'')) (db_enrollments ex_db_enr)\<rparr> =
      ex_db_enr1"
    by (simp add: ex_db_enr_def ex_db_enr1_def ex_enr_def enr_set_def enr_key_def)
  show ?thesis
    using enrollment_dialog_edit_unchanged[of ex_db_enr ex_enr] wf d1
    by (simp add: ex_db_enr_def ex_enr_def enr_key_def r s)
qed

text \<open>A two-row query result whose second row lacks the column \<open>B\<close> and whose first
  value holds a comma, exported and read back.\<close>

theorem export_query_to_csv_roundtrip_witness:
  "\<exists>txt. export_query_to_csv [[(''A'', PInt 1), (''B'', PStr ''x,y'')], [(''A'', PInt 2)]] ''q.csv'' =
           (True, Some (''q.csv'', txt)) \<and> csv_read txt = [[''A'', ''B''], [''1'', ''x,y''], [''2'', []]]"
proof -
  have ok: "\<forall>r \<in> set [[(''A'', PInt 1), (''B'', PStr ''x,y'')], [(''A'', PInt 2)]].
      dict_row_ok (map fst (hd [[(''A'', PInt 1), (''B'', PStr ''x,y'')], [(''A'', PInt 2)]])) r"
    by (simp add: dict_row_ok_def)
  have f: "map (dict_row_fields [''A'', ''B'']) [[(''A'', PInt 1), (''B'', PStr ''x,y'')], [(''A'', PInt 2)]] =
      [[''1'', ''x,y''], [''2'', []]]"
    by code_simp
  show ?thesis
    using export_query_to_csv_roundtrip[OF _ ok] f by simp
qed

end
