(* ===== verification/Spec2Isabelle.thy ===== *)
theory Spec2Isabelle
  imports Examples
begin

text \<open>
  \<^bold>\<open>A verification development of the Student Information Manager.\<close>

  \<^bold>\<open>The program.\<close> A PyQt6 desktop application over a MySQL database of students,
  subjects, lecturers, classes (sections) and enrollments, in \<open>src/final\<close>:
  \<^item> \<open>validators.py\<close> (class \<open>Validators\<close>): field and record validation, with two
    uniqueness checks that read the database;
  \<^item> \<open>db_connection.py\<close>: \<open>execute_query\<close> (swallows every MySQL error and returns
    \<open>None\<close>), \<open>execute_update\<close> and \<open>get_cursor\<close> (commit, or roll back and re-raise);
  \<^item> \<open>models.py\<close>: one repository class per table (create, read, update, delete, list,
    search), calling the validators and the connection;
  \<^item> \<open>query_models.py\<close> (class \<open>QueryModels\<close>): the reporting queries and dashboard figures;
  \<^item> \<open>studentdialog_logic.py\<close> (\<open>StudentDialog\<close>): a student form that validates by
    itself and writes with its own connection;
  \<^item> \<open>dialogs_complete.py\<close>: the subject, lecturer, class and enrollment dialogs, which
    call \<open>models.py\<close>;
  \<^item> \<open>main_win.py\<close> and \<open>main.py\<close>: the main window, its five management pages (table,
    selection, Add/Edit/Delete), the query pages and the dashboard.
  \<^item> \<open>Frontend.py\<close>, \<open>dialog.py\<close>, \<open>tinker.py\<close>, \<open>database.py\<close>: alternative
    front ends with their own connections (\<open>Frontend.py\<close> opens \<open>StudentDialog\<close>).
  \<^item> \<open>student-info-manager/app\<close>, a second application over the same schema: a connection
    function, one model class per table with its own connection per call (\<open>autocommit\<close>,
    errors propagate), \<open>EnrollmentService.enroll\<close>, and the script \<open>demo.py\<close>; beside them a Qt
    main window (class \<open>MainWindow\<close> of the file \<open>t?t.py\<close>, whose second letter is an accented
    letter) with five tabs, a queries tab and a dashboard over \<open>db_connection.py\<close>.
  A user event on a page opens a dialog or calls a model; the model validates, writes
  through the connection, and MySQL enforces the schema's constraints.

  \<^bold>\<open>Theories\<close>, each importing the previous ones it uses:
  \<^item> \<open>Prelude\<close>: Python values (\<open>pyval\<close>, \<open>pyfloat\<close> with \<open>nan\<close> and infinities),
    exceptions (\<open>pyexc\<close>, with MySQL's \<open>IntegrityError\<close>) and results
    \<open>'a res = pyexc + 'a\<close> with \<open>pbind\<close> (a raise is \<open>Inl\<close>, the first wins), dicts as
    association lists (\<open>dict_get\<close>, \<open>dict_getitem\<close> with its \<open>KeyError\<close>), \<open>map_res\<close>
    for a fallible loop, the string built-ins on ASCII, \<open>int()\<close>/\<open>float()\<close>/\<open>str()\<close>
    (\<open>py_int\<close>, \<open>py_float\<close>, \<open>py_str_int\<close>), Python's and MySQL's rounding.
  \<^item> \<open>Schema\<close>: a record per table row and the database record \<open>db\<close> (the tables and
    each table's \<open>AUTO_INCREMENT\<close> counter \<open>db_auto\<close>, with \<open>auto_ok\<close>: the counter lies
    above the table's ids); the constraints
    \<open>db_wf = keys_ok \<and> fks_ok \<and> checks_ok\<close> (keys, unique student and lecturer email
    under the collation, foreign keys, grade range); the collation \<open>coll\<close> and \<open>DESC\<close>.
  \<^item> \<open>Storage\<close>: \<open>execute_query\<close> and the dynamic \<open>SELECT\<close> of the uniqueness checks over
    rows as dicts (\<open>table_rows\<close>); storage is a \<open>db option\<close>, \<open>None\<close> when MySQL is down.
  \<^item> \<open>Validators\<close>: every method of \<open>Validators\<close> in the code's order of checks; the
    regular expressions as recognisers, \<open>strptime\<close> as CPython evaluates it.
  \<^item> \<open>Queries\<close>, \<open>Reports\<close>: queries 1--4, top students, grade distributions and dashboard
    figures as functions of the database, with abstract specifications (multiset of joined
    rows and sort key) and refinement lemmas.
  \<^item> \<open>Writes\<close>: \<open>execute_update\<close> and the cursor insert over MySQL's semantics of
    \<open>INSERT\<close>/\<open>UPDATE\<close>/\<open>DELETE\<close> (\<open>apply_write\<close>): parameters converted to column types,
    \<open>AUTO_INCREMENT\<close> (\<open>insert_row\<close> takes the counter's value, \<open>auto_bump\<close> raises the
    counter past it; no statement lowers it), \<open>ON DELETE CASCADE\<close> from students and classes, \<open>SET NULL\<close> from
    lecturers, \<open>RESTRICT\<close> from subjects, and every constraint checked before commit.
  \<^item> \<open>Models\<close>: every method of the five repository classes of \<open>models.py\<close>, with the
    dict keys the code reads, \<open>LIKE\<close> matching, \<open>ORDER BY\<close>, \<open>LIMIT\<close>/\<open>OFFSET\<close>.
  \<^item> \<open>Dialogs\<close>: \<open>StudentDialog.save_student\<close>/\<open>add_student\<close>/\<open>update_student\<close> and the
    save and load handlers of \<open>dialogs_complete.py\<close> (\<open>subject_dialog_load\<close>,
    \<open>lecturer_dialog_load\<close> with \<open>QLineEdit.setText\<close> as \<open>qt_set_text\<close>); a handler returns the message box,
    whether the dialog is accepted, and the database.
  \<^item> \<open>DialogLoad\<close>: the construction of \<open>ClassDialog\<close>: a \<open>QComboBox\<close> as items and current
    index (\<open>combo\<close>, \<open>combo_add_item\<close>, \<open>combo_select_data\<close>, \<open>combo_set_text\<close>), spin boxes
    that clamp (\<open>qt_spin_int\<close>), \<open>class_dialog_setup\<close>, \<open>class_load_dropdowns\<close>,
    \<open>class_load_data\<close> (the statements of one \<open>try\<close> sequenced by \<open>dseq\<close>), \<open>class_dialog_open\<close>
    for \<open>__init__\<close> and \<open>class_dialog_form\<close> for what \<open>save_class\<close> reads.
    Likewise \<open>EnrollmentDialog\<close>: \<open>enrollment_dialog_setup\<close>, \<open>enr_load_dropdowns\<close>,
    \<open>enr_load_data\<close> (with \<open>enr_next\<close> for the \<open>next(...)\<close> over the student's enrollments and
    \<open>qt_dspin\<close>/\<open>qt_round2\<close> for the two-decimal \<open>QDoubleSpinBox\<close>), \<open>enrollment_dialog_open\<close>
    and \<open>enrollment_dialog_form\<close>.
  \<^item> \<open>Pages\<close>: the five management pages of \<open>main_win.py\<close> (cell texts of the columns the
    slots read back, selection, status) and their slots; \<open>MainWindow\<close>'s start
    (\<open>main_window\<close>), the user's events (\<open>gui_event\<close>, \<open>gui_step\<close>; a search is an
    event only when the field's text changes, as \<open>textChanged\<close> fires), runs (\<open>gui_run\<close>)
    and the reachable states (\<open>gui_reach\<close>, an inductive relation).
  \<^item> \<open>QueryPages\<close>: \<open>load_data\<close> of the query pages (\<open>query1_load\<close> with its subject
    combo, \<open>query2_load\<close>, \<open>query3_load\<close>, \<open>query4_load\<close>) and of the dashboard
    (\<open>dashboard_load\<close>: KPI texts, chart data, top-students rows): the query's rows as the
    cursor's dicts, the cell text \<open>str(value) if value else ''\<close>, the status label and the
    error box.
  \<^item> \<open>AltFrontends\<close>: \<open>Frontend.py\<close>'s student window (\<open>fe_window\<close>: its
    connection, the snapshot of its open \<open>REPEATABLE READ\<close> transaction, the rows and the
    selection; \<open>fe_load\<close>, \<open>fe_delete_student\<close>, \<open>fe_add_student\<close>, \<open>fe_edit_student\<close>;
    \<open>dialog.exec()\<close> is \<open>sd_dialog_exec\<close>: the user's edits, each followed by Confirm,
    until \<open>save_student\<close> accepts or the user cancels, a refusal keeping the dialog open), the handlers of \<open>dialog.py\<close> (\<open>dlg_save_subject\<close>, ...),
    \<open>tinker.py\<close> (\<open>tk_add_student\<close>, \<open>tk_refresh_tree\<close>), \<open>database.py\<close> and the mock
    page of \<open>test.py\<close>.
  \<^item> \<open>ServiceApp\<close>: the second application: \<open>get_connection\<close> (a \<open>RuntimeError\<close>
    without storage), the methods of its five model classes (\<open>student_model_create\<close>, ...,
    \<open>enrollment_model_exists\<close>) over \<open>apply_write\<close> and \<open>select_where\<close>,
    \<open>enrollment_service_enroll\<close> with its checks in the code's order, its specification
    \<open>enroll_spec\<close>, and \<open>demo_run\<close> for \<open>demo.py\<close>.
  \<^item> \<open>SecondWindow\<close>: the second application's \<open>MainWindow\<close>, which the program can never
    build (the module imports a missing \<open>student_crud\<close> and its constructor calls a
    \<open>db.connect()\<close> that \<open>DatabaseConnection\<close> lacks), as methods of a built
    window (\<open>tw_window\<close>: five tables of cell texts and the dashboard): the load methods
    (\<open>tw_load_students\<close>, ..., cells by \<open>cell_of\<close>: \<open>QTableWidgetItem(str(v))\<close> or
    \<open>QTableWidgetItem(v)\<close>), the delete slots (\<open>tw_delete_student\<close>, ..., with the call
    \<open>execute_query(..., fetch=False)\<close> bound by \<open>py_call_kwargs\<close>), \<open>tw_load_dashboard\<close>,
    \<open>tw_load_all_data\<close>, and \<open>run_query\<close> with query 2 of the queries tab.
  \<^item> \<open>Export\<close>: CSV export: \<open>csv.writer\<close>'s default dialect (\<open>csv_field\<close>,
    \<open>csv_record\<close>, \<open>csv_text\<close>), a table widget (\<open>qtable\<close>), the export slots
    \<open>mw_on_export\<close>, \<open>fe_export_students_csv\<close>, \<open>tw_export_table_to_csv\<close>,
    \<open>export_query_to_csv\<close> and the query pages' \<open>query1_export\<close>, ..., \<open>query4_export\<close>, and
    \<open>csv_read\<close>, a reader for the files written, for the round trip.
  \<^item> \<open>Examples\<close>: sample databases, forms and pages, and a closed instance (witness) of
    every property with hypotheses.

  \<^bold>\<open>What the lemmas show.\<close>
  \<^item> Validators: the uniqueness checks reject duplicates under the collation and keep a
    record's own email; a down storage and the lecturers table silently skip the check; a
    validated grade is a hundredth in \<open>[0, 10]\<close> or \<open>nan\<close>. (The email recogniser
    \<open>email_core\<close> is shown equal to the language of its pattern, a check of the model.)
  \<^item> Queries and reports: each query refines its specification; per-student aggregates,
    the rounded global-average comparison, bucket counts, and the error results; every row of
    the subject performance counts each grade once as a pass or a fail.
  \<^item> Models: no create method of \<open>models.py\<close> can insert (\<open>KeyError\<close>/\<open>AttributeError\<close>);
    \<open>StudentModel.delete\<close> removes exactly the student and, through the cascade, its
    enrollments (\<open>student_delete_cascade\<close>); a referenced subject cannot be deleted; search
    is a case-insensitive infix match for plain keywords and matches everything for \<open>%\<close>.
  \<^item> Dialogs: \<open>StudentDialog\<close> inserts exactly the described student with the table's
    \<open>AUTO_INCREMENT\<close> value as its id (year of birth + 18, no age check) or reports a taken
    email; editing an enrollment stores grade 0 as \<open>NULL\<close>; loading and saving a lecturer
    without email stores the empty string, and for a second such lecturer fails on the
    \<open>UNIQUE\<close> email (\<open>lecturer_edit_null_email\<close>); opening and saving a class unchanged
    changes only a \<open>NULL\<close> class name (\<open>class_dialog_edit_unchanged\<close>); opening and saving
    an enrollment unchanged rounds its grade to two decimals (0 becomes \<open>NULL\<close>), strips its
    note and erases a letter other than A, B, C, D, F (\<open>enrollment_dialog_edit_unchanged\<close>).
  \<^item> Query pages: a student without enrollments shows a blank TotalEnrollments; a filter with
    no result leaves the previous rows on screen; without grades the dashboard shows
    \<open>None\<close> and \<open>None%\<close>; the top-students table ranks at most ten rows.
  \<^item> Alternative front ends: \<open>Frontend.py\<close>'s table after an edit shows its snapshot,
    never the committed change; in its edit dialog a \<open>NULL\<close> address appears as the text
    None, which every save stores unless the user retypes it (\<open>frontend_edit_null_address\<close>),
    and a \<open>NULL\<close> phone is refused until the user retypes it.
  \<^item> Second application: \<open>enroll\<close> refines \<open>enroll_spec\<close> on well-formed tables (its
    checks are exactly the schema's constraints, so the database never rejects its insert, and
    no capacity is checked); \<open>demo.py\<close> enrolls the new student (the counter's id) in class 1;
    \<open>ClassModel.create\<close> defaults the capacity to 60. Of its main window, which is never
    built, the lemmas only describe the methods (loading never raises, a confirmed delete
    raises \<open>TypeError\<close> on the \<open>fetch\<close> keyword, query 2 shows \<open>None\<close>); no property is
    stated about it.
  \<^item> Export: a file written by an export slot reads back as the header texts followed by the
    cell texts (\<open>mw_on_export_roundtrip\<close>), and a query result exported by
    \<open>export_query_to_csv\<close> reads back as its keys and values
    (\<open>export_query_to_csv_roundtrip\<close>), whatever commas, quotes or line breaks they hold.
  \<^item> Pages: by rule induction over \<open>gui_reach\<close>, no reachable state has more subjects,
    lecturers, classes or enrollments than at the start (\<open>gui_reach_no_new_rows\<close>);
    deleting the selected student removes the student the row shows; deleting a stale
    enrollment row reports success and changes nothing.

  \<^bold>\<open>Modelling choices.\<close> Numbers are exact decimals (\<open>rat\<close>), so binary floating
  point is not modelled; the spin box's rounding to two decimals is rounding half up of the
  exact value. Strings are byte strings (a non-ASCII letter is its UTF-8 bytes); the string
  built-ins act on ASCII, and the class \<open>\w\<close> of \<open>validate_email\<close>'s pattern takes every
  non-ASCII byte as a word character (Python's \<open>\w\<close> matches every Unicode letter and digit;
  non-ASCII punctuation, which it does not match, is not told apart). The
  current year is a parameter. MySQL is modelled by its observable semantics, the
  schema's constraints from the spec and the code's messages (the schema file is not in
  the repository). \<open>AUTO_INCREMENT\<close> is a per-table counter in the database state, taken
  by an insert and never lowered by a delete; a failed insert, which also consumes a value on
  the server, leaves the model's state unchanged, so the properties that name the counter
  are stated for any counter above the stored ids (\<open>auto_ok\<close>). The GUI is modelled at
  the level of slots: a widget is its value, a dialog of the main window is one submission
  of a form (a refused one changes nothing, so a retry is the next event), \<open>Frontend.py\<close>'s
  edit and add dialogs run the user's edits until one is accepted, and a message box is a
  value in the result. PyQt6 is taken to accept \<open>None\<close> for an \<open>Optional[str]\<close> argument
  (an empty text) and a number for \<open>QDoubleSpinBox.setValue\<close>. No loop is
  unbounded (every loop of the program runs over a finite list or range), so no fuel is
  needed; \<open>py_split\<close>, \<open>like_match\<close> and the reader \<open>csv_fields\<close>/\<open>csv_read\<close> terminate
  by the length of their arguments (measure proofs).

  \<^bold>\<open>Assumed.\<close> \<open>studentdialog_logic.py\<close> imports its widgets from \<open>StudentDialogUI\<close> and
  \<open>Frontend.py\<close> from \<open>design\<close>; neither module is in the repository, and the model assumes
  both exist with the widgets the code names.

  \<^bold>\<open>Not modelled.\<close> Widget layout and styling, the drawing of the charts (only their
  data), the file dialogs and the opening of files (an export writes the name it is given), the side bar of \<open>test.py\<close> (its students page is a mock
  that stores nothing, modelled as such), the second copy of \<open>database.py\<close>'s code (lines 70--144 repeat lines 1--68), of the second
  application's Qt main window its add and edit slots (their dialog classes are not in the
  repository: the module imports a missing \<open>student_crud\<close>, and its constructor calls a
  \<open>db.connect()\<close> that \<open>DatabaseConnection\<close> lacks) and queries 1, 3 and 4 of its queries tab;
  the module paths of the second application (\<open>student_model.py\<close>
  imports \<open>db.connection\<close>, modelled as the intended \<open>app.db.connection\<close>); the
  connection pool and the opening and closing of connections (only their availability and
  error behaviour).
\<close>

end
